(* ===== verification/Prelude.thy ===== *)
theory Prelude
  imports Main "HOL-Library.Word" "HOL-Library.List_Lexorder" "HOL-Library.Char_ord"
begin

text \<open>
  Shared vocabulary of the development: the handle types of \<open>libCERTI/Handle.hh\<close>, the
  exceptions of \<open>libCERTI/Exception.hh\<close>, the effect of a C++ member function as an
  \<open>action\<close> on an explicit state, and \<open>std::map\<close> as a key-ordered association list.

  An action keeps the state it had reached when an exception leaves it, because a C++ member
  function that throws does not undo the assignments it has made. The exception
  \<open>UndefinedBehaviour\<close> is no exception of the code: it marks a branch where the C++ program
  dereferences a null or past-the-end pointer, and no \<open>catch\<close> of the code catches it; neither is
  \<open>OutOfFuel\<close>, with which a loop of the model stops that may run for ever in the code.
  The texts of the exceptions are left out.
\<close>

named_theorems act_simps "evaluation of actions on a state"
named_theorems keeps_intros "actions that keep a state predicate"
named_theorems om_simps "lookup, keys and order of key-ordered association lists"

section \<open>Handles and exceptions\<close>

type_synonym handle = "32 word"
type_synonym federate_handle = handle
type_synonym federation_handle = handle
type_synonym object_class_handle = handle
type_synonym object_handle = handle
type_synonym attribute_handle = handle
type_synonym region_handle = handle
type_synonym space_handle = handle
type_synonym dimension_handle = handle

datatype (plugins only: code) exn =
    ArrayIndexOutOfBounds
  | AttributeAcquisitionWasNotRequested
  | AttributeAlreadyBeingAcquired
  | AttributeAlreadyBeingDivested
  | AttributeAlreadyOwned
  | AttributeDivestitureWasNotRequested
  | AttributeNotDefined
  | AttributeNotOwned
  | AttributeNotPublished
  | DeletePrivilegeNotHeld
  | DimensionNotDefined
  | FederateAlreadyExecutionMember
  | FederateNotExecutionMember
  | FederateNotPublishing
  | FederateOwnsAttributes
  | FederatesCurrentlyJoined
  | FederateWasNotAskedToReleaseAttribute
  | FederationAlreadyPaused
  | FederationExecutionAlreadyExists
  | FederationExecutionDoesNotExist
  | FederationTimeAlreadyPassed
  | InteractionClassNotDefined
  | InteractionParameterNotDefined
  | InvalidExtents
  | InvalidLookahead
  | InvalidOrderingHandle
  | InvalidTransportationHandle
  | NameNotFound
  | NetworkError
  | ObjectAlreadyRegistered
  | ObjectClassNotDefined
  | ObjectClassNotPublished
  | ObjectNotKnown
  | RegionNotKnown
  | RestoreInProgress
  | RTIinternalError
  | SaveInProgress
  | SecurityError
  | SpaceNotDefined
  | TimeAdvanceAlreadyInProgress
  | AsynchronousDeliveryAlreadyDisabled
  | AsynchronousDeliveryAlreadyEnabled
  | CouldNotOpenFED
  | ErrorReadingFED
  | IllegalName
  | InvalidFederationTime
  | NetworkSignal
  | RestoreNotRequested
  | SaveNotInitiated
  | UnimplementedService
  | UnknownLabel
  | MessageBufferError \<comment> \<open>of \<open>libhla\<close>, not a \<open>certi::Exception\<close>\<close>
  | StdLengthError
  | StdOutOfRange \<comment> \<open>\<open>std::out_of_range\<close>, not a \<open>certi::Exception\<close>\<close>
  | UndefinedBehaviour
  | OutOfFuel \<comment> \<open>a loop of the model has run out of its bound\<close>

text \<open>The exceptions that \<open>catch (Exception& e)\<close> catches.\<close>

definition is_certi_exception :: "exn \<Rightarrow> bool" where
  "is_certi_exception e \<longleftrightarrow> e \<noteq> MessageBufferError \<and> e \<noteq> StdLengthError \<and> e \<noteq> StdOutOfRange \<and> e \<noteq> UndefinedBehaviour \<and> e \<noteq> OutOfFuel"

section \<open>Actions: state passing with exceptions\<close>

type_synonym ('s, 'a) action = "'s \<Rightarrow> (exn + 'a) \<times> 's"

definition ret :: "'a \<Rightarrow> ('s, 'a) action" where
  "ret a = (\<lambda>s. (Inr a, s))"

definition throw :: "exn \<Rightarrow> ('s, 'a) action" where
  "throw e = (\<lambda>s. (Inl e, s))"

definition bind :: "('s, 'a) action \<Rightarrow> ('a \<Rightarrow> ('s, 'b) action) \<Rightarrow> ('s, 'b) action" where
  "bind m k = (\<lambda>s. case m s of (Inl e, t) \<Rightarrow> (Inl e, t) | (Inr a, t) \<Rightarrow> k a t)"

text \<open>\<open>seq m n\<close> is the statement sequence \<open>m; n\<close>.\<close>

definition seq :: "('s, 'a) action \<Rightarrow> ('s, 'b) action \<Rightarrow> ('s, 'b) action" where
  "seq m n = bind m (\<lambda>_. n)"

definition gets :: "('s \<Rightarrow> 'a) \<Rightarrow> ('s, 'a) action" where
  "gets f = (\<lambda>s. (Inr (f s), s))"

definition modify :: "('s \<Rightarrow> 's) \<Rightarrow> ('s, unit) action" where
  "modify f = (\<lambda>s. (Inr (), f s))"

text \<open>\<open>throw_if b e\<close> is \<open>if (b) throw e;\<close>.\<close>

definition throw_if :: "bool \<Rightarrow> exn \<Rightarrow> ('s, unit) action" where
  "throw_if b e = (if b then throw e else ret ())"

definition lift_sum :: "exn + 'a \<Rightarrow> ('s, 'a) action" where
  "lift_sum r = (\<lambda>s. (r, s))"

definition catch :: "('s, 'a) action \<Rightarrow> (exn \<Rightarrow> bool) \<Rightarrow> (exn \<Rightarrow> ('s, 'a) action) \<Rightarrow> ('s, 'a) action"
where
  "catch m p h = (\<lambda>s. case m s of (Inl e, t) \<Rightarrow> (if p e then h e t else (Inl e, t)) | (Inr a, t) \<Rightarrow> (Inr a, t))"

text \<open>An exception that leaves a \<open>noexcept\<close> function terminates the program.\<close>

definition noexcept :: "('s, 'a) action \<Rightarrow> ('s, 'a) action" where
  "noexcept m = catch m (\<lambda>e. e \<noteq> OutOfFuel) (\<lambda>_. throw UndefinedBehaviour)"

primrec for_each :: "('x \<Rightarrow> ('s, unit) action) \<Rightarrow> 'x list \<Rightarrow> ('s, unit) action" where
  "for_each f [] = ret ()"
| "for_each f (x # xs) = seq (f x) (for_each f xs)"

text \<open>A loop that gathers the results of its body.\<close>

fun collect :: "('x \<Rightarrow> ('s, 'a) action) \<Rightarrow> 'x list \<Rightarrow> ('s, 'a list) action" where
  "collect f [] = ret []"
| "collect f (x # xs) = bind (f x) (\<lambda>a. bind (collect f xs) (\<lambda>as. ret (a # as)))"

text \<open>A call to a member function of a field: run \<open>m\<close> on the field and store it back.\<close>

definition on_field :: "('s \<Rightarrow> 't) \<Rightarrow> ('t \<Rightarrow> 's \<Rightarrow> 's) \<Rightarrow> ('t, 'a) action \<Rightarrow> ('s, 'a) action" where
  "on_field g p m = (\<lambda>s. case m (g s) of (r, t) \<Rightarrow> (r, p t s))"

lemma ret_run [act_simps]: "ret a s = (Inr a, s)"
  by (simp add: ret_def)

lemma throw_run [act_simps]: "throw e s = (Inl e, s)"
  by (simp add: throw_def)

lemma gets_run [act_simps]: "gets f s = (Inr (f s), s)"
  by (simp add: gets_def)

lemma modify_run [act_simps]: "modify f s = (Inr (), f s)"
  by (simp add: modify_def)

lemma throw_if_run [act_simps]: "throw_if b e s = (if b then (Inl e, s) else (Inr (), s))"
  by (simp add: throw_if_def throw_def ret_def)

lemma lift_sum_run [act_simps]: "lift_sum r s = (r, s)"
  by (simp add: lift_sum_def)

lemma bind_run [act_simps]:
  "bind m k s = (case m s of (Inl e, t) \<Rightarrow> (Inl e, t) | (Inr a, t) \<Rightarrow> k a t)"
  by (simp add: bind_def)

lemma seq_run [act_simps]:
  "seq m n s = (case m s of (Inl e, t) \<Rightarrow> (Inl e, t) | (Inr a, t) \<Rightarrow> n t)"
  by (simp add: seq_def bind_def)

lemma catch_run [act_simps]:
  "catch m p h s = (case m s of (Inl e, t) \<Rightarrow> (if p e then h e t else (Inl e, t)) | (Inr a, t) \<Rightarrow> (Inr a, t))"
  by (simp add: catch_def)

lemma on_field_run [act_simps]: "on_field g p m s = (case m (g s) of (r, t) \<Rightarrow> (r, p t s))"
  by (simp add: on_field_def)

text \<open>A run that has returned can be split at every sequence point.\<close>

lemma bind_InrD: "bind m k s = (Inr b, u) \<Longrightarrow> \<exists>a t. m s = (Inr a, t) \<and> k a t = (Inr b, u)"
  by (auto simp: bind_def split: prod.splits sum.splits)

lemma seq_InrD: "seq m n s = (Inr b, u) \<Longrightarrow> \<exists>a t. m s = (Inr a, t) \<and> n t = (Inr b, u)"
  unfolding seq_def by (rule bind_InrD)

lemma throw_if_InrD: "throw_if b e s = (Inr a, t) \<Longrightarrow> \<not> b \<and> t = s"
  by (auto simp: throw_if_run split: if_splits)

subsection \<open>State predicates that an action keeps, on every path\<close>

definition keeps :: "('s \<Rightarrow> bool) \<Rightarrow> ('s, 'a) action \<Rightarrow> bool" where
  "keeps I m \<longleftrightarrow> (\<forall>s. I s \<longrightarrow> I (snd (m s)))"

lemma keepsI: "(\<And>s. I s \<Longrightarrow> I (snd (m s))) \<Longrightarrow> keeps I m"
  by (simp add: keeps_def)

lemma keepsD: "keeps I m \<Longrightarrow> I s \<Longrightarrow> m s = (r, t) \<Longrightarrow> I t"
  by (force simp: keeps_def)

lemma keeps_snd: "keeps I m \<Longrightarrow> I s \<Longrightarrow> I (snd (m s))"
  by (simp add: keeps_def)

lemma keeps_ret [keeps_intros]: "keeps I (ret a)"
  by (simp add: keeps_def ret_def)

lemma keeps_throw [keeps_intros]: "keeps I (throw e)"
  by (simp add: keeps_def throw_def)

lemma keeps_gets [keeps_intros]: "keeps I (gets f)"
  by (simp add: keeps_def gets_def)

lemma keeps_lift_sum [keeps_intros]: "keeps I (lift_sum r)"
  by (simp add: keeps_def lift_sum_def)

lemma keeps_throw_if [keeps_intros]: "keeps I (throw_if b e)"
  by (simp add: keeps_def throw_if_run)

lemma keeps_modify: "(\<And>s. I s \<Longrightarrow> I (f s)) \<Longrightarrow> keeps I (modify f)"
  by (simp add: keeps_def modify_def)

lemma keeps_bind [keeps_intros]: "keeps I m \<Longrightarrow> (\<And>a. keeps I (k a)) \<Longrightarrow> keeps I (bind m k)"
  by (fastforce simp: keeps_def bind_def split: prod.splits sum.splits)

lemma keeps_seq [keeps_intros]: "keeps I m \<Longrightarrow> keeps I n \<Longrightarrow> keeps I (seq m n)"
  unfolding seq_def by (rule keeps_bind)

lemma keeps_catch [keeps_intros]: "keeps I m \<Longrightarrow> (\<And>e. keeps I (h e)) \<Longrightarrow> keeps I (catch m p h)"
  by (fastforce simp: keeps_def catch_def split: prod.splits sum.splits)

lemma keeps_if [keeps_intros]: "keeps I m \<Longrightarrow> keeps I n \<Longrightarrow> keeps I (if b then m else n)"
  by simp

lemma keeps_option [keeps_intros]:
  "keeps I m \<Longrightarrow> (\<And>a. keeps I (k a)) \<Longrightarrow> keeps I (case x of None \<Rightarrow> m | Some a \<Rightarrow> k a)"
  by (cases x) auto

lemma keeps_prod [keeps_intros]: "(\<And>a b. keeps I (f a b)) \<Longrightarrow> keeps I (case p of (a, b) \<Rightarrow> f a b)"
  by (cases p) simp

lemma keeps_list [keeps_intros]:
  "keeps I m \<Longrightarrow> (\<And>a as. keeps I (k a as)) \<Longrightarrow> keeps I (case x of [] \<Rightarrow> m | a # as \<Rightarrow> k a as)"
  by (cases x) auto

lemma keeps_on_field: "(\<And>s t. I s \<Longrightarrow> I (p t s)) \<Longrightarrow> keeps I (on_field g p m)"
  by (auto simp: keeps_def on_field_def split: prod.splits)

lemma keeps_for_each [keeps_intros]: "(\<And>x. keeps I (f x)) \<Longrightarrow> keeps I (for_each f xs)"
  by (induction xs) (auto intro: keeps_intros)

lemma keeps_collect [keeps_intros]: "(\<And>x. keeps I (f x)) \<Longrightarrow> keeps I (collect f xs)"
  by (induction xs) (auto intro: keeps_intros)

lemma keeps_noexcept [keeps_intros]: "keeps I m \<Longrightarrow> keeps I (noexcept m)"
  by (simp add: noexcept_def keeps_catch keeps_throw)

section \<open>Key-ordered association lists: \<open>std::map\<close>\<close>

text \<open>
  A \<open>std::map\<close> is the list of its entries in the order its iterators visit them. The
  \<open>std::unordered_map\<close>s of the code are modelled by the same lists: the order in which they
  are visited is not fixed by the language, and the model takes the order of the keys.
\<close>

fun om_put :: "'k::linorder \<Rightarrow> 'v \<Rightarrow> ('k \<times> 'v) list \<Rightarrow> ('k \<times> 'v) list" where
  "om_put k v [] = [(k, v)]"
| "om_put k v (e # m) =
     (if fst e < k then e # om_put k v m
      else if fst e = k then (k, v) # m
      else (k, v) # e # m)"

definition om_erase :: "'k \<Rightarrow> ('k \<times> 'v) list \<Rightarrow> ('k \<times> 'v) list" where
  "om_erase k m = filter (\<lambda>e. fst e \<noteq> k) m"

definition om_map :: "('k \<Rightarrow> 'v \<Rightarrow> 'w) \<Rightarrow> ('k \<times> 'v) list \<Rightarrow> ('k \<times> 'w) list" where
  "om_map f m = map (\<lambda>e. (fst e, f (fst e) (snd e))) m"

definition om_ok :: "('k::linorder \<times> 'v) list \<Rightarrow> bool" where
  "om_ok m \<longleftrightarrow> sorted_wrt (<) (map fst m)"

lemma om_ok_Nil [simp, intro]: "om_ok []"
  by (simp add: om_ok_def)

lemma om_ok_Cons: "om_ok (e # m) \<longleftrightarrow> (\<forall>k \<in> fst ` set m. fst e < k) \<and> om_ok m"
  by (auto simp: om_ok_def)

lemma keys_om_put [om_simps]: "fst ` set (om_put k v m) = insert k (fst ` set m)"
  by (induction m) auto

lemma om_put_ok [intro, om_simps]: "om_ok m \<Longrightarrow> om_ok (om_put k v m)"
  by (induction m) (auto simp: om_ok_Cons keys_om_put)

lemma map_of_om_put [om_simps]: "map_of (om_put k v m) x = (if x = k then Some v else map_of m x)"
  by (induction m) auto

lemma set_om_put_subset: "set (om_put k v m) \<subseteq> insert (k, v) (set m)"
  by (induction m) auto

lemma om_erase_ok [intro, om_simps]: "om_ok m \<Longrightarrow> om_ok (om_erase k m)"
  by (induction m) (auto simp: om_ok_Cons om_erase_def)

lemma map_of_om_erase [om_simps]: "map_of (om_erase k m) x = (if x = k then None else map_of m x)"
  by (induction m) (auto simp: om_erase_def)

lemma keys_om_erase [om_simps]: "fst ` set (om_erase k m) = fst ` set m - {k}"
  by (auto simp: om_erase_def)

lemma om_map_ok [intro, om_simps]: "om_ok (om_map f m) = om_ok m"
  by (simp add: om_ok_def om_map_def comp_def)

lemma map_of_om_map [om_simps]: "map_of (om_map f m) k = map_option (f k) (map_of m k)"
  by (induction m) (auto simp: om_map_def)

lemma keys_om_map [om_simps]: "fst ` set (om_map f m) = fst ` set m"
  by (force simp: om_map_def)

lemma om_ok_distinct: "om_ok m \<Longrightarrow> distinct (map fst m)"
  unfolding om_ok_def by (simp add: strict_sorted_iff)

lemma om_ok_map_of: "om_ok m \<Longrightarrow> map_of m k = Some v \<longleftrightarrow> (k, v) \<in> set m"
  by (rule map_of_eq_Some_iff) (rule om_ok_distinct)

lemma map_of_None_keys: "map_of m k = None \<longleftrightarrow> k \<notin> fst ` set m"
  by (rule map_of_eq_None_iff)

lemma om_map_id: "(\<And>k v. (k, v) \<in> set m \<Longrightarrow> f k v = v) \<Longrightarrow> om_map f m = m"
  by (induction m) (auto simp: om_map_def)

lemma om_map_comp: "om_map f (om_map g m) = om_map (\<lambda>k v. f k (g k v)) m"
  by (simp add: om_map_def comp_def)

lemma om_map_cong: "(\<And>k v. (k, v) \<in> set m \<Longrightarrow> f k v = g k v) \<Longrightarrow> om_map f m = om_map g m"
  by (induction m) (auto simp: om_map_def)

lemma keys_list_om_map [om_simps]: "map fst (om_map f m) = map fst m"
  by (simp add: om_map_def comp_def)

text \<open>Overwriting the value of a key that is present.\<close>

lemma om_put_present:
  "om_ok m \<Longrightarrow> k \<in> fst ` set m \<Longrightarrow> om_put k v m = om_map (\<lambda>k' v'. if k' = k then v else v') m"
proof (induction m)
  case Nil
  then show ?case by simp
next
  case (Cons e m)
  show ?case
  proof (cases "fst e = k")
    case True
    have "om_map (\<lambda>k' v'. if k' = k then v else v') m = m"
      by (rule om_map_id) (use Cons.prems True in \<open>auto simp: om_ok_Cons\<close>)
    then show ?thesis using True by (simp add: om_map_def)
  next
    case False
    then have "k \<in> fst ` set m" using Cons.prems by auto
    moreover have "fst e < k" using Cons.prems calculation by (auto simp: om_ok_Cons)
    ultimately show ?thesis using Cons False by (simp add: om_map_def om_ok_Cons)
  qed
qed

lemma om_erase_put_fresh: "k \<notin> fst ` set m \<Longrightarrow> om_erase k (om_put k v m) = m"
proof (induction m)
  case Nil
  then show ?case by (simp add: om_erase_def)
next
  case (Cons e m)
  then have "om_erase k m = m" by (auto simp: om_erase_def filter_id_conv)
  with Cons show ?case by (auto simp: om_erase_def)
qed

lemma om_put_same: "om_ok m \<Longrightarrow> map_of m k = Some v \<Longrightarrow> om_put k v m = m"
proof (induction m)
  case Nil
  then show ?case by simp
next
  case (Cons e m)
  show ?case
  proof (cases "fst e = k")
    case True
    then show ?thesis using Cons.prems by (cases e) simp
  next
    case False
    then have "map_of m k = Some v" using Cons.prems by simp
    moreover have "fst e < k" using map_of_SomeD [OF calculation] Cons.prems(1) by (force simp: om_ok_Cons)
    ultimately show ?thesis using Cons by (simp add: om_ok_Cons)
  qed
qed

lemma om_erase_put: "om_erase k (om_put k v m) = om_erase k m"
  by (induction m) (auto simp: om_erase_def)

lemma om_put_put: "om_put k v (om_put k w m) = om_put k v m"
  by (induction m) auto

lemma om_put_keys: "map_of m k \<noteq> None \<Longrightarrow> om_ok m \<Longrightarrow> map fst (om_put k v m) = map fst m"
  using om_put_present [of m k v] by (simp add: map_of_None_keys om_simps)

section \<open>Results of functions that change no state\<close>

definition some_or :: "exn \<Rightarrow> 'a option \<Rightarrow> exn + 'a" where
  "some_or e x = (case x of Some a \<Rightarrow> Inr a | None \<Rightarrow> Inl e)"

definition ebind :: "exn + 'a \<Rightarrow> ('a \<Rightarrow> exn + 'b) \<Rightarrow> exn + 'b" where
  "ebind r k = (case r of Inl e \<Rightarrow> Inl e | Inr a \<Rightarrow> k a)"

text \<open>A loop whose body checks or computes on a value that is passed along.\<close>

primrec efold :: "('x \<Rightarrow> 'a \<Rightarrow> exn + 'a) \<Rightarrow> 'x list \<Rightarrow> 'a \<Rightarrow> exn + 'a" where
  "efold f [] a = Inr a"
| "efold f (x # xs) a = ebind (f x a) (efold f xs)"

lemma some_or_simps [simp]: "some_or e (Some a) = Inr a" "some_or e None = Inl e"
  by (simp_all add: some_or_def)

lemma some_or_Inr: "some_or e x = Inr a \<longleftrightarrow> x = Some a"
  by (cases x) simp_all

lemma ebind_simps [simp]: "ebind (Inl e) k = Inl e" "ebind (Inr a) k = k a"
  by (simp_all add: ebind_def)

lemma ebind_Inr: "ebind r k = Inr b \<longleftrightarrow> (\<exists>a. r = Inr a \<and> k a = Inr b)"
  by (cases r) simp_all

text \<open>\<open>std::set\<close> of handles: the ordered list of its elements.\<close>

definition oset_ok :: "'a::linorder list \<Rightarrow> bool" where
  "oset_ok xs \<longleftrightarrow> sorted_wrt (<) xs"

definition oset_insert :: "'a::linorder \<Rightarrow> 'a list \<Rightarrow> 'a list" where
  "oset_insert x xs = insort_insert x xs"

definition oset_erase :: "'a \<Rightarrow> 'a list \<Rightarrow> 'a list" where
  "oset_erase x xs = filter (\<lambda>y. y \<noteq> x) xs"

lemma set_oset_insert [simp]: "set (oset_insert x xs) = insert x (set xs)"
  by (simp add: oset_insert_def set_insort_insert)

lemma set_oset_erase [simp]: "set (oset_erase x xs) = set xs - {x}"
  by (auto simp: oset_erase_def)

lemma oset_ok_insert: "oset_ok xs \<Longrightarrow> oset_ok (oset_insert x xs)"
  by (simp add: oset_ok_def oset_insert_def strict_sorted_iff sorted_insort_insert distinct_insort_insert)

lemma oset_ok_erase: "oset_ok xs \<Longrightarrow> oset_ok (oset_erase x xs)"
  by (simp add: oset_ok_def oset_erase_def sorted_wrt_filter)

text \<open>The handles of a loop \<open>for (h = 1; h <= n; ++h)\<close>; for the greatest handle it would not end.\<close>

definition handles_upto :: "handle \<Rightarrow> handle list" where
  "handles_upto n = map of_nat [1..<Suc (unat n)]"

lemma set_handles_upto: "set (handles_upto n) = {h. h \<noteq> 0 \<and> h \<le> n}"
proof -
  have "h \<in> of_nat ` {1..<Suc (unat n)} \<longleftrightarrow> h \<noteq> 0 \<and> h \<le> n" for h :: handle
  proof
    assume "h \<noteq> 0 \<and> h \<le> n"
    then have "unat h \<in> {1..<Suc (unat n)}" by (simp add: word_le_nat_alt unat_gt_0 Suc_leI)
    moreover have "h = of_nat (unat h)" by simp
    ultimately show "h \<in> of_nat ` {1..<Suc (unat n)}" by (rule rev_image_eqI)
  next
    assume "h \<in> of_nat ` {1..<Suc (unat n)}"
    then obtain i where i: "h = of_nat i" "1 \<le> i" "i \<le> unat n" by auto
    have "unat n < 2 ^ 32" by (rule order_less_le_trans [OF unsigned_less]) simp
    then have "i < 2 ^ 32" using i(3) by simp
    then have "unat h = i" using i(1) by (simp add: unsigned_of_nat take_bit_nat_eq_self)
    then show "h \<noteq> 0 \<and> h \<le> n" using i by (auto simp: word_le_nat_alt)
  qed
  then show ?thesis by (auto simp: handles_upto_def simp del: upt_Suc)
qed

end
