(* ===== verification/MessageBuffer.thy ===== *)
theory MessageBuffer
  imports Prelude
begin

unbundle bit_operations_syntax

text \<open>
  \<open>libHLA/MessageBuffer.cc\<close>, \<open>libHLA/MessageBuffer.hh\<close> and the byte swaps of \<open>libHLA/libhla.hh\<close>: a buffer into which
  values are written in the byte order of the writing host, behind a header of five bytes that says this order and the size.

  \<open>big\<close> is \<open>HOST_IS_BIG_ENDIAN\<close>. All the offsets are \<open>uint32_t\<close>. The functions on arrays are called for single values, but for
  the bytes; the offsets that they return are not used. A \<open>double\<close> is its eight bytes.
\<close>

section \<open>Integers in memory\<close>

text \<open>The bytes of an unsigned integer, the least significant first.\<close>

primrec le_bytes :: "nat \<Rightarrow> 'a::len word \<Rightarrow> 8 word list" where
  "le_bytes 0 w = []"
| "le_bytes (Suc n) w = ucast w # le_bytes n (drop_bit 8 w)"

primrec le_word :: "8 word list \<Rightarrow> 'a::len word" where
  "le_word [] = 0"
| "le_word (b # bs) = ucast b OR push_bit 8 (le_word bs)"

definition memory :: "bool \<Rightarrow> nat \<Rightarrow> 'a::len word \<Rightarrow> 8 word list" where
  "memory big n w = (if big then rev (le_bytes n w) else le_bytes n w)"

definition value_of :: "bool \<Rightarrow> 8 word list \<Rightarrow> 'a::len word" where
  "value_of big bs = le_word (if big then rev bs else bs)"

definition swap16 :: "16 word \<Rightarrow> 16 word" where
  "swap16 v = push_bit 8 (v AND 0xFF) OR drop_bit 8 (v AND 0xFF00)"

definition swap32 :: "32 word \<Rightarrow> 32 word" where
  "swap32 v = push_bit 24 (v AND 0xFF) OR push_bit 8 (v AND 0xFF00) OR drop_bit 8 (v AND 0xFF0000) OR drop_bit 24 (v AND 0xFF000000)"

section \<open>The buffer\<close>

text \<open>
  \<open>mb_buffer\<close> has as many bytes as \<open>bufferMaxSize\<close> says, and \<open>mb_mine\<close> is \<open>bufferHasMyEndianness\<close>. What the bytes of memory
  that is allocated hold is \<open>mb_fresh\<close>.
\<close>

record message_buffer =
  mb_buffer :: "8 word list"
  mb_mine :: bool
  mb_write :: "32 word"
  mb_read :: "32 word"
  mb_fresh :: "nat \<Rightarrow> 8 word"

type_synonym 'a mb_action = "(message_buffer, 'a) action"

definition reservedBytes :: "32 word" where "reservedBytes = 5"

definition DEFAULT_MESSAGE_BUFFER_SIZE :: "32 word" where "DEFAULT_MESSAGE_BUFFER_SIZE = 255"

definition maxSize :: "message_buffer \<Rightarrow> 32 word" where
  "maxSize b = of_nat (length (mb_buffer b))"

definition message_buffer_new :: "(nat \<Rightarrow> 8 word) \<Rightarrow> message_buffer" where
  "message_buffer_new fresh =
     \<lparr>mb_buffer = replicate (unat DEFAULT_MESSAGE_BUFFER_SIZE) 0, mb_mine = True, mb_write = reservedBytes,
      mb_read = reservedBytes, mb_fresh = fresh\<rparr>"

definition reallocate :: "32 word \<Rightarrow> unit mb_action" where
  "reallocate n = modify (\<lambda>b. if n > maxSize b
     then b\<lparr>mb_buffer := take (unat (mb_write b)) (mb_buffer b) @ map (mb_fresh b) [unat (mb_write b) ..< unat n]\<rparr>
     else b)"

definition assumeSize :: "32 word \<Rightarrow> unit mb_action" where
  "assumeSize n = modify (\<lambda>b. b\<lparr>mb_write := (if n \<le> maxSize b then n else maxSize b)\<rparr>)"

text \<open>The reallocation on demand before \<open>k\<close> bytes are written.\<close>

definition provision :: "32 word \<Rightarrow> unit mb_action" where
  "provision k = bind (gets id) (\<lambda>b.
     if k \<ge> maxSize b - mb_write b
     then reallocate (maxSize b + (k - (maxSize b - mb_write b)) + DEFAULT_MESSAGE_BUFFER_SIZE) else ret ())"

text \<open>\<open>memcpy\<close> to the write offset and from the read offset.\<close>

definition copy_in :: "8 word list \<Rightarrow> unit mb_action" where
  "copy_in bs = bind (gets id) (\<lambda>b. let w = unat (mb_write b) in
     if w + length bs > length (mb_buffer b) then throw UndefinedBehaviour
     else modify (\<lambda>b. b\<lparr>mb_buffer := take w (mb_buffer b) @ bs @ drop (w + length bs) (mb_buffer b),
                        mb_write := mb_write b + of_nat (length bs)\<rparr>))"

definition copy_out :: "32 word \<Rightarrow> 8 word list mb_action" where
  "copy_out k = bind (gets id) (\<lambda>b. let r = unat (mb_read b) in
     if r + unat k > length (mb_buffer b) then throw UndefinedBehaviour
     else seq (modify (\<lambda>b. b\<lparr>mb_read := mb_read b + k\<rparr>)) (ret (take (unat k) (drop r (mb_buffer b)))))"

text \<open>The check before \<open>k\<close> bytes are read.\<close>

definition readable :: "32 word \<Rightarrow> unit mb_action" where
  "readable k = bind (gets id) (\<lambda>b. throw_if (k + mb_read b > mb_write b) MessageBufferError)"

section \<open>Writing\<close>

definition write_uint8s :: "8 word list \<Rightarrow> unit mb_action" where
  "write_uint8s bs = seq (provision (of_nat (length bs))) (copy_in bs)"

definition write_uint8 :: "8 word \<Rightarrow> unit mb_action" where
  "write_uint8 w = write_uint8s [w]"

definition write_uint16 :: "bool \<Rightarrow> 16 word \<Rightarrow> unit mb_action" where
  "write_uint16 big w = seq (provision 2) (bind (gets mb_mine) (\<lambda>mine. copy_in (memory big 2 (if mine then w else swap16 w))))"

definition write_uint32 :: "bool \<Rightarrow> 32 word \<Rightarrow> unit mb_action" where
  "write_uint32 big w = seq (provision 4) (bind (gets mb_mine) (\<lambda>mine. copy_in (memory big 4 (if mine then w else swap32 w))))"

text \<open>The elements of \<open>ui32\<close> in the union with a \<open>uint64_t\<close>.\<close>

definition ui32 :: "bool \<Rightarrow> nat \<Rightarrow> 64 word \<Rightarrow> 32 word" where
  "ui32 big i w = value_of big (take 4 (drop (4 * i) (memory big 8 w)))"

definition write_uint64 :: "bool \<Rightarrow> 64 word \<Rightarrow> unit mb_action" where
  "write_uint64 big w = seq (provision 8) (bind (gets mb_mine) (\<lambda>mine.
     if mine then copy_in (memory big 8 w)
     else seq (copy_in (memory big 4 (swap32 (ui32 big 1 w)))) (copy_in (memory big 4 (swap32 (ui32 big 0 w))))))"

definition write_bool :: "bool \<Rightarrow> unit mb_action" where
  "write_bool t = (if t then write_uint8 1 else write_uint8 0)"

text \<open>The length of the string is passed as an \<open>int32_t\<close> and as a \<open>uint32_t\<close>.\<close>

definition write_string :: "bool \<Rightarrow> string \<Rightarrow> unit mb_action" where
  "write_string big s =
     seq (write_uint32 big (of_nat (length s)))
         (write_uint8s (take (unat (of_nat (length s) :: 32 word)) (map of_char s)))"

section \<open>Reading\<close>

definition read_uint8s :: "32 word \<Rightarrow> 8 word list mb_action" where
  "read_uint8s n = seq (readable n) (copy_out n)"

definition read_uint8 :: "8 word mb_action" where
  "read_uint8 = bind (read_uint8s 1) (\<lambda>bs. ret (hd bs))"

definition read_uint16 :: "bool \<Rightarrow> 16 word mb_action" where
  "read_uint16 big = seq (readable 2) (bind (gets mb_mine) (\<lambda>mine. bind (copy_out 2) (\<lambda>bs.
     ret (if mine then value_of big bs else swap16 (value_of big bs)))))"

definition read_uint32 :: "bool \<Rightarrow> 32 word mb_action" where
  "read_uint32 big = seq (readable 4) (bind (gets mb_mine) (\<lambda>mine. bind (copy_out 4) (\<lambda>bs.
     ret (if mine then value_of big bs else swap32 (value_of big bs)))))"

definition read_uint64 :: "bool \<Rightarrow> 64 word mb_action" where
  "read_uint64 big = seq (readable 8) (bind (gets mb_mine) (\<lambda>mine.
     if mine then bind (copy_out 8) (\<lambda>bs. ret (value_of big bs))
     else bind (copy_out 4) (\<lambda>x. bind (copy_out 4) (\<lambda>y.
       ret (value_of big (memory big 4 (swap32 (value_of big y)) @ memory big 4 (swap32 (value_of big x))))))))"

definition read_bool :: "bool mb_action" where
  "read_bool = bind read_uint8 (\<lambda>b. ret (1 = b))"

text \<open>
  The check adds the length, an \<open>int32_t\<close>, to a \<open>uint32_t\<close>; \<open>assign\<close> takes it as a \<open>size_t\<close>, so that a negative one is longer
  than any string.
\<close>

definition read_string :: "bool \<Rightarrow> string mb_action" where
  "read_string big = bind (read_uint32 big) (\<lambda>len.
     seq (readable len) (seq (throw_if (sint len < 0) StdLengthError) (bind (copy_out len) (\<lambda>bs. ret (map (\<lambda>b. char_of (unat b)) bs)))))"

section \<open>The header\<close>

definition set_order :: "bool \<Rightarrow> unit mb_action" where
  "set_order b0 = modify (\<lambda>b. b\<lparr>mb_buffer := (mb_buffer b)[0 := (if b0 then 1 else 0)]\<rparr>)"

definition setSizeInReservedBytes :: "bool \<Rightarrow> 32 word \<Rightarrow> unit mb_action" where
  "setSizeInReservedBytes big n = bind (gets mb_write) (\<lambda>old.
     seq (modify (\<lambda>b. b\<lparr>mb_write := 1\<rparr>)) (seq (write_uint32 big n) (modify (\<lambda>b. b\<lparr>mb_write := old\<rparr>))))"

definition updateReservedBytes :: "bool \<Rightarrow> unit mb_action" where
  "updateReservedBytes big = bind (gets mb_mine) (\<lambda>mine.
     seq (set_order (big \<and> mine \<or> \<not> big \<and> \<not> mine)) (bind (gets mb_write) (setSizeInReservedBytes big)))"

definition reset :: "bool \<Rightarrow> unit mb_action" where
  "reset big = seq (modify (\<lambda>b. b\<lparr>mb_mine := True, mb_write := reservedBytes, mb_read := reservedBytes\<rparr>)) (updateReservedBytes big)"

definition assumeBufferIsBigEndian :: "bool \<Rightarrow> unit mb_action" where
  "assumeBufferIsBigEndian big = seq (modify (\<lambda>b. b\<lparr>mb_mine := big\<rparr>)) (set_order True)"

definition assumeBufferIsLittleEndian :: "bool \<Rightarrow> unit mb_action" where
  "assumeBufferIsLittleEndian big = seq (modify (\<lambda>b. b\<lparr>mb_mine := \<not> big\<rparr>)) (set_order False)"

definition assumeSizeFromReservedBytes :: "bool \<Rightarrow> unit mb_action" where
  "assumeSizeFromReservedBytes big =
     seq (bind (gets (\<lambda>b. mb_buffer b ! 0)) (\<lambda>b0. if b0 = 1 then assumeBufferIsBigEndian big else assumeBufferIsLittleEndian big))
     (seq (modify (\<lambda>b. b\<lparr>mb_read := 1\<rparr>))
     (bind (read_uint32 big) (\<lambda>n. seq (reallocate n) (assumeSize n))))"

end
