(* ===== verification/FieldFormats.thy ===== *)
theory FieldFormats
  imports MessageBuffer
begin

text \<open>
  The fields of the messages of \<open>libCERTI/NM_Classes.cc\<close> and \<open>libCERTI/M_Classes.cc\<close> as bytes.

  The functions \<open>serialize\<close> and \<open>deserialize\<close> of a message class write and read its fields in the same order, so a class is the
  list of the formats of its fields, and the two functions go through this list. A field of a class is a value of
  \<open>field_value\<close>. Memory is taken to be sufficient for the vectors that are read.
\<close>

text \<open>
  The formats of the fields: numbers, enumerations and handles with 8, 16, 32 or 64 bits, where a \<open>double\<close> is written as 64 bits, \<open>bool\<close>,
  \<open>string\<close>, the bytes of a value behind their number, a structure behind a \<open>bool\<close> that says whether it is there, and a vector of
  structures behind its size.
\<close>

datatype field_format =
    FU8 | FU16 | FU32 | FU64 | FBool | FString | FBytes | FOptional "field_format list" | FVector "field_format list"

datatype field_value =
    VU8 "8 word" | VU16 "16 word" | VU32 "32 word" | VU64 "64 word" | VBool bool | VString string | VBytes "8 word list"
  | VOptional "field_value list option" | VVector "field_value list list"

text \<open>The value of a field has the type of the field: the branches that throw cannot be reached.\<close>

fun write_field :: "bool \<Rightarrow> field_format \<Rightarrow> field_value \<Rightarrow> unit mb_action"
  and write_fields :: "bool \<Rightarrow> field_format list \<Rightarrow> field_value list \<Rightarrow> unit mb_action" where
  "write_field big FU8 v = (case v of VU8 w \<Rightarrow> write_uint8 w | _ \<Rightarrow> throw UndefinedBehaviour)"
| "write_field big FU16 v = (case v of VU16 w \<Rightarrow> write_uint16 big w | _ \<Rightarrow> throw UndefinedBehaviour)"
| "write_field big FU32 v = (case v of VU32 w \<Rightarrow> write_uint32 big w | _ \<Rightarrow> throw UndefinedBehaviour)"
| "write_field big FU64 v = (case v of VU64 w \<Rightarrow> write_uint64 big w | _ \<Rightarrow> throw UndefinedBehaviour)"
| "write_field big FBool v = (case v of VBool t \<Rightarrow> write_bool t | _ \<Rightarrow> throw UndefinedBehaviour)"
| "write_field big FString v = (case v of VString s \<Rightarrow> write_string big s | _ \<Rightarrow> throw UndefinedBehaviour)"
| "write_field big FBytes v = (case v of
     VBytes bs \<Rightarrow> seq (write_uint32 big (of_nat (length bs))) (write_uint8s (take (unat (of_nat (length bs) :: 32 word)) bs))
   | _ \<Rightarrow> throw UndefinedBehaviour)"
| "write_field big (FOptional fs) v = (case v of
     VOptional x \<Rightarrow> seq (write_bool (x \<noteq> None)) (case x of Some vs \<Rightarrow> write_fields big fs vs | None \<Rightarrow> ret ())
   | _ \<Rightarrow> throw UndefinedBehaviour)"
| "write_field big (FVector fs) v = (case v of
     VVector vss \<Rightarrow> seq (write_uint32 big (of_nat (length vss)))
       (for_each (write_fields big fs) (take (unat (of_nat (length vss) :: 32 word)) vss))
   | _ \<Rightarrow> throw UndefinedBehaviour)"
| "write_fields big [] vs = ret ()"
| "write_fields big (f # fs) vs = (case vs of
     v # vs' \<Rightarrow> seq (write_field big f v) (write_fields big fs vs')
   | [] \<Rightarrow> throw UndefinedBehaviour)"

primrec repeat_action :: "nat \<Rightarrow> 'a mb_action \<Rightarrow> 'a list mb_action" where
  "repeat_action 0 m = ret []"
| "repeat_action (Suc n) m = bind m (\<lambda>a. bind (repeat_action n m) (\<lambda>as. ret (a # as)))"

fun read_field :: "bool \<Rightarrow> field_format \<Rightarrow> field_value mb_action"
  and read_fields :: "bool \<Rightarrow> field_format list \<Rightarrow> field_value list mb_action" where
  "read_field big FU8 = bind read_uint8 (\<lambda>w. ret (VU8 w))"
| "read_field big FU16 = bind (read_uint16 big) (\<lambda>w. ret (VU16 w))"
| "read_field big FU32 = bind (read_uint32 big) (\<lambda>w. ret (VU32 w))"
| "read_field big FU64 = bind (read_uint64 big) (\<lambda>w. ret (VU64 w))"
| "read_field big FBool = bind read_bool (\<lambda>t. ret (VBool t))"
| "read_field big FString = bind (read_string big) (\<lambda>s. ret (VString s))"
| "read_field big FBytes = bind (read_uint32 big) (\<lambda>n. bind (read_uint8s n) (\<lambda>bs. ret (VBytes bs)))"
| "read_field big (FOptional fs) = bind read_bool (\<lambda>t.
     if t then bind (read_fields big fs) (\<lambda>vs. ret (VOptional (Some vs))) else ret (VOptional None))"
| "read_field big (FVector fs) = bind (read_uint32 big) (\<lambda>n.
     bind (repeat_action (unat n) (read_fields big fs)) (\<lambda>vss. ret (VVector vss)))"
| "read_fields big [] = ret []"
| "read_fields big (f # fs) = bind (read_field big f) (\<lambda>v. bind (read_fields big fs) (\<lambda>vs. ret (v # vs)))"

abbreviation "FHandles \<equiv> FVector [FU32]"

end
