(* ===== verification/Wire.thy ===== *)
theory Wire
  imports FieldFormats
begin

text \<open>
  What the messages to the RTIG and the messages of the federate share: \<open>libCERTI/BasicMessage.cc\<close>, and the way in which a message is
  sent and received on a connection, which \<open>NetworkMessage_RW.cc\<close> with \<open>NM_Factory\<close> and \<open>Message_RW.cc\<close> with \<open>M_Factory\<close> do alike.
\<close>

section \<open>The common part of messages\<close>

text \<open>
  \<open>BasicMessage\<close>. The date is the bits of a \<open>double\<close>. A message that is not dated, labelled or tagged has no date, label or tag.
\<close>

record basic_message =
  bm_date :: "64 word option"
  bm_label :: "string option"
  bm_tag :: "string option"
  bm_extents :: "(32 word \<times> 32 word) list list"
  bm_regions :: "32 word list"

text \<open>An optional part of a message.\<close>

definition write_option :: "('x \<Rightarrow> unit mb_action) \<Rightarrow> 'x option \<Rightarrow> unit mb_action" where
  "write_option m x = seq (write_bool (x \<noteq> None)) (case x of Some a \<Rightarrow> m a | None \<Rightarrow> ret ())"

definition read_option :: "'x mb_action \<Rightarrow> 'x option mb_action" where
  "read_option m = bind read_bool (\<lambda>t. if t then bind m (\<lambda>a. ret (Some a)) else ret None)"

definition BasicMessage_serialize :: "bool \<Rightarrow> 'm basic_message_scheme \<Rightarrow> unit mb_action" where
  "BasicMessage_serialize big w =
     seq (write_option (write_uint64 big) (bm_date w))
     (seq (write_option (write_string big) (bm_label w)) (write_option (write_string big) (bm_tag w)))"

definition BasicMessage_deserialize :: "bool \<Rightarrow> 'm basic_message_scheme \<Rightarrow> 'm basic_message_scheme mb_action" where
  "BasicMessage_deserialize big w =
     bind (read_option (read_uint64 big)) (\<lambda>d.
     bind (read_option (read_string big)) (\<lambda>l.
     bind (read_option (read_string big)) (\<lambda>t. ret (w\<lparr>bm_date := d, bm_label := l, bm_tag := t\<rparr>))))"

section \<open>Connections\<close>

text \<open>
  \<open>send\<close> of a message whose \<open>serialize\<close> is \<open>m\<close>, which gives the bytes to the socket, or to all the sockets that are not null.
\<close>

definition send_bytes :: "bool \<Rightarrow> unit mb_action \<Rightarrow> 8 word list mb_action" where
  "send_bytes big m =
     seq (reset big)
     (seq m
     (seq (updateReservedBytes big)
     (gets (\<lambda>b. take (unat (mb_write b)) (mb_buffer b)))))"

text \<open>The receiving end: the static buffer, and the bytes that the connection will bring before it is closed.\<close>

record connection =
  cn_buffer :: message_buffer
  cn_incoming :: "8 word list"

type_synonym 'a cn_action = "(connection, 'a) action"

definition on_buffer :: "'a mb_action \<Rightarrow> 'a cn_action" where
  "on_buffer = on_field cn_buffer (\<lambda>b s. s\<lparr>cn_buffer := b\<rparr>)"

text \<open>\<open>socket->receive\<close> of \<open>n\<close> bytes into the buffer at an offset.\<close>

definition socket_receive :: "32 word \<Rightarrow> 32 word \<Rightarrow> unit cn_action" where
  "socket_receive off n = bind (gets id) (\<lambda>s. let i = unat off; k = unat n in
     if length (cn_incoming s) < k then throw NetworkError
     else if i + k > length (mb_buffer (cn_buffer s)) then throw UndefinedBehaviour
     else modify (\<lambda>s. s\<lparr>cn_incoming := drop k (cn_incoming s),
       cn_buffer := (cn_buffer s)\<lparr>mb_buffer := take i (mb_buffer (cn_buffer s)) @ take k (cn_incoming s) @ drop (i + k) (mb_buffer (cn_buffer s))\<rparr>\<rparr>))"

text \<open>\<open>receive\<close> of a message whose \<open>deserialize\<close> is \<open>m\<close>.\<close>

definition receive_with :: "bool \<Rightarrow> 'm mb_action \<Rightarrow> 'm cn_action" where
  "receive_with big m =
     seq (on_buffer (reset big))
     (seq (socket_receive 0 reservedBytes)
     (seq (on_buffer (assumeSizeFromReservedBytes big))
     (bind (gets (\<lambda>s. mb_write (cn_buffer s))) (\<lambda>n.
     seq (socket_receive reservedBytes (n - reservedBytes)) (on_buffer m)))))"

text \<open>
  \<open>receive\<close> of a factory: a message of the base class is received, by \<open>generic\<close>, the class for its type is created, and the same bytes are read again
  into the message of this class, by \<open>special\<close>. The exceptions that the factory does not name in its specification end the program, as those
  that leave a \<open>noexcept\<close> function do.
\<close>

definition factory_receive ::
  "bool \<Rightarrow> 'm cn_action \<Rightarrow> ('m \<Rightarrow> 32 word) \<Rightarrow> (32 word \<Rightarrow> exn + field_format list) \<Rightarrow> (field_format list \<Rightarrow> 32 word \<Rightarrow> 'm mb_action) \<Rightarrow> 'm cn_action" where
  "factory_receive big generic kind create special =
     catch
       (bind generic (\<lambda>w.
        bind (lift_sum (create (kind w))) (\<lambda>fs.
        seq (on_buffer (assumeSizeFromReservedBytes big)) (on_buffer (special fs (kind w))))))
       (\<lambda>e. e \<noteq> NetworkError \<and> e \<noteq> NetworkSignal)
       (\<lambda>e. throw UndefinedBehaviour)"

text \<open>The place of an element of an enumeration.\<close>

fun place :: "'x \<Rightarrow> 'x list \<Rightarrow> nat" where
  "place x [] = 0"
| "place x (y # ys) = (if x = y then 0 else Suc (place x ys))"

end
