(* ===== verification/BufferLemmas.thy ===== *)
theory BufferLemmas
  imports MessageBuffer
begin

unbundle bit_operations_syntax

text \<open>
  What is written into a message buffer, and that it is read back on any host.
\<close>

section \<open>Integers in memory\<close>

lemma length_le_bytes [simp]: "length (le_bytes n w) = n"
  by (induction n arbitrary: w) auto

lemma le_word_bytes: "le_word (le_bytes n w) = take_bit (8 * n) (w :: 'a::len word)"
proof (induction n arbitrary: w)
  case 0
  then show ?case by simp
next
  case (Suc n)
  show ?case
    by (rule bit_word_eqI)
      (auto simp: Suc.IH bit_simps not_less le_less_trans algebra_simps)
qed

lemma length_memory [simp]: "length (memory big n w) = n"
  by (simp add: memory_def)

lemma value_of_memory: "LENGTH('a::len) \<le> 8 * n \<Longrightarrow> value_of big (memory big n (w :: 'a word)) = w"
  by (simp add: value_of_def memory_def le_word_bytes take_bit_word_eq_self)

lemma memory_other: "memory (\<not> big) n w = rev (memory big n w)"
  by (simp add: memory_def)

lemma mask_bytes: "0xFF = (mask 8 :: 'a::len word)"
  by (simp add: mask_eq_exp_minus_1)

lemma le_bytes_swap16: "le_bytes 2 (swap16 v) = rev (le_bytes 2 v)"
proof -
  have m: "(0xFF00 :: 16 word) = push_bit 8 (mask 8)" by (simp add: mask_eq_exp_minus_1 push_bit_eq_mult)
  show ?thesis
    unfolding swap16_def m mask_bytes numeral_2_eq_2
    by (simp, intro conjI; rule bit_word_eqI; simp add: bit_simps; auto)
qed

lemma le_bytes_swap32: "le_bytes 4 (swap32 v) = rev (le_bytes 4 v)"
proof -
  have m: "(0xFF00 :: 32 word) = push_bit 8 (mask 8)" "(0xFF0000 :: 32 word) = push_bit 16 (mask 8)"
    "(0xFF000000 :: 32 word) = push_bit 24 (mask 8)" by (simp_all add: mask_eq_exp_minus_1 push_bit_eq_mult)
  have four: "4 = Suc (Suc (Suc (Suc 0)))" by simp
  show ?thesis
    unfolding swap32_def m mask_bytes four
    by (simp, intro conjI; rule bit_word_eqI; simp add: bit_simps; auto)
qed

lemma memory_swap16: "memory big 2 (swap16 v) = rev (memory big 2 v)"
  by (simp add: memory_def le_bytes_swap16)

lemma memory_swap32: "memory big 4 (swap32 v) = rev (memory big 4 v)"
  by (simp add: memory_def le_bytes_swap32)

lemma nth_le_bytes: "i < n \<Longrightarrow> le_bytes n w ! i = ucast (drop_bit (8 * i) w)"
proof (induction n arbitrary: w i)
  case 0
  then show ?case by simp
next
  case (Suc n)
  then show ?case by (cases i) (simp_all add: algebra_simps)
qed

lemma bit_le_word:
  "bit (le_word bs :: 'a::len word) j \<longleftrightarrow> j < LENGTH('a) \<and> j < 8 * length bs \<and> bit (bs ! (j div 8)) (j mod 8)"
proof (induction bs arbitrary: j)
  case Nil
  then show ?case by simp
next
  case (Cons b bs)
  show ?case
  proof (cases "j < 8")
    case True
    then show ?thesis by (auto simp: bit_simps)
  next
    case False
    then have "(j - 8) mod 8 = j mod 8" "j div 8 = Suc ((j - 8) div 8)" by (simp_all add: le_mod_geq le_div_geq)
    then show ?thesis using False Cons.IH [of "j - 8"] by (auto simp: bit_simps dest: bit_imp_le_length)
  qed
qed

lemma le_bytes_word: "8 * length bs \<le> LENGTH('a::len) \<Longrightarrow> le_bytes (length bs) (le_word bs :: 'a word) = bs"
proof (rule nth_equalityI)
  fix i
  assume "8 * length bs \<le> LENGTH('a)" "i < length (le_bytes (length bs) (le_word bs :: 'a word))"
  then show "le_bytes (length bs) (le_word bs :: 'a word) ! i = bs ! i"
    by (auto simp: nth_le_bytes bit_le_word bit_simps intro!: bit_word_eqI)
qed simp

lemma memory_value_of: "length bs = n \<Longrightarrow> 8 * n \<le> LENGTH('a::len) \<Longrightarrow> memory big n (value_of big bs :: 'a word) = bs"
  using le_bytes_word [where 'a = 'a, of bs] le_bytes_word [where 'a = 'a, of "rev bs"] by (auto simp: memory_def value_of_def)

text \<open>The two swapped halves of a \<open>uint64_t\<close> are its bytes in the other order.\<close>

lemma memory_halves:
  "memory big 4 (swap32 (ui32 big 1 w)) @ memory big 4 (swap32 (ui32 big 0 w)) = rev (memory big 8 w)"
proof -
  have "memory big 4 (swap32 (ui32 big i w)) = rev (take 4 (drop (4 * i) (memory big 8 w)))" if "i \<le> 1" for i
    using that by (simp add: memory_swap32 ui32_def memory_value_of)
  then show ?thesis using append_take_drop_id [of 4 "memory big 8 w"] by (simp add: rev_append [symmetric] del: rev_append)
qed

section \<open>What is written\<close>

text \<open>A buffer in good order, and the bytes that have been written into it and that are still to be read.\<close>

definition sound :: "message_buffer \<Rightarrow> bool" where
  "sound b \<longleftrightarrow> unat (mb_write b) \<le> length (mb_buffer b) \<and> unat (mb_read b) \<le> unat (mb_write b)
     \<and> length (mb_buffer b) < 2 ^ 32"

definition written :: "message_buffer \<Rightarrow> 8 word list" where
  "written b = take (unat (mb_write b)) (mb_buffer b)"

definition unread :: "message_buffer \<Rightarrow> 8 word list" where
  "unread b = drop (unat (mb_read b)) (written b)"

text \<open>
  \<open>emits m bs\<close>: the action appends the bytes to the buffer of a host that writes in its own order, if there is room for them and
  for the reserve that a reallocation adds.
\<close>

definition emits :: "unit mb_action \<Rightarrow> 8 word list \<Rightarrow> bool" where
  "emits m bs \<longleftrightarrow> (\<forall>b. sound b \<longrightarrow> mb_mine b \<longrightarrow> unat (mb_write b) + length bs + 255 < 2 ^ 32 \<longrightarrow>
     (\<exists>b'. m b = (Inr (), b') \<and> sound b' \<and> mb_mine b' \<and> mb_read b' = mb_read b \<and> mb_fresh b' = mb_fresh b
       \<and> unat (mb_write b') = unat (mb_write b) + length bs \<and> written b' = written b @ bs \<and> length (mb_buffer b) \<le> length (mb_buffer b')))"

lemma emits_ret: "emits (ret ()) []"
  by (simp add: emits_def ret_def)

lemma emits_seq: "emits m bs \<Longrightarrow> emits n cs \<Longrightarrow> emits (seq m n) (bs @ cs)"
  unfolding emits_def
proof (intro allI impI)
  fix b
  assume m: "\<forall>b. sound b \<longrightarrow> mb_mine b \<longrightarrow> unat (mb_write b) + length bs + 255 < 2 ^ 32 \<longrightarrow>
     (\<exists>b'. m b = (Inr (), b') \<and> sound b' \<and> mb_mine b' \<and> mb_read b' = mb_read b \<and> mb_fresh b' = mb_fresh b
       \<and> unat (mb_write b') = unat (mb_write b) + length bs \<and> written b' = written b @ bs \<and> length (mb_buffer b) \<le> length (mb_buffer b'))"
    and n: "\<forall>b. sound b \<longrightarrow> mb_mine b \<longrightarrow> unat (mb_write b) + length cs + 255 < 2 ^ 32 \<longrightarrow>
     (\<exists>b'. n b = (Inr (), b') \<and> sound b' \<and> mb_mine b' \<and> mb_read b' = mb_read b \<and> mb_fresh b' = mb_fresh b
       \<and> unat (mb_write b') = unat (mb_write b) + length cs \<and> written b' = written b @ cs \<and> length (mb_buffer b) \<le> length (mb_buffer b'))"
    and b: "sound b" "mb_mine b" "unat (mb_write b) + length (bs @ cs) + 255 < 2 ^ 32"
  obtain b1 where b1: "m b = (Inr (), b1)" "sound b1" "mb_mine b1" "mb_read b1 = mb_read b" "mb_fresh b1 = mb_fresh b"
      "unat (mb_write b1) = unat (mb_write b) + length bs" "written b1 = written b @ bs" "length (mb_buffer b) \<le> length (mb_buffer b1)"
    using m b by force
  obtain b2 where "n b1 = (Inr (), b2)" "sound b2" "mb_mine b2" "mb_read b2 = mb_read b1" "mb_fresh b2 = mb_fresh b1"
      "unat (mb_write b2) = unat (mb_write b1) + length cs" "written b2 = written b1 @ cs" "length (mb_buffer b1) \<le> length (mb_buffer b2)"
    using n b1 b by force
  then show "\<exists>b'. seq m n b = (Inr (), b') \<and> sound b' \<and> mb_mine b' \<and> mb_read b' = mb_read b \<and> mb_fresh b' = mb_fresh b
       \<and> unat (mb_write b') = unat (mb_write b) + length (bs @ cs) \<and> written b' = written b @ (bs @ cs) \<and> length (mb_buffer b) \<le> length (mb_buffer b')"
    using b1 by (intro exI [of _ b2]) (simp add: seq_def bind_def)
qed

lemma unat_of_small: "n < 2 ^ 32 \<Longrightarrow> unat (of_nat n :: 32 word) = n"
  by (simp add: unat_of_nat)

lemma unat_add_small: "unat (a :: 32 word) + n < 2 ^ 32 \<Longrightarrow> unat (a + of_nat n) = unat a + n"
  using unat_of_small [of "unat a + n"] by simp

lemma provision_run:
  assumes b: "sound b" and room: "unat (mb_write b) + k + 255 < 2 ^ 32"
  shows "\<exists>buf. provision (of_nat k) b = (Inr (), b\<lparr>mb_buffer := buf\<rparr>) \<and> unat (mb_write b) + k \<le> length buf \<and> length buf < 2 ^ 32
    \<and> take (unat (mb_write b)) buf = written b \<and> length (mb_buffer b) \<le> length buf"
proof -
  define w where "w = unat (mb_write b)"
  define l where "l = length (mb_buffer b)"
  have wl: "w \<le> l" "l < 2 ^ 32" "w + k + 255 < 2 ^ 32" using b room by (simp_all add: sound_def w_def l_def)
  have max: "maxSize b = of_nat l" by (simp add: maxSize_def l_def)
  have at_w: "mb_write b = of_nat w" by (simp add: w_def)
  have "maxSize b - mb_write b = of_nat (l - w)" using wl by (simp add: max at_w of_nat_diff)
  then have left: "unat (maxSize b - mb_write b) = l - w" using wl by (simp add: unat_of_small del: of_nat_diff)
  have k: "unat (of_nat k :: 32 word) = k" using wl by (simp add: unat_of_small)
  show ?thesis
  proof (cases "l - w \<le> k")
    case True
    have ge: "of_nat k \<ge> maxSize b - mb_write b"
      using True by (simp add: word_le_nat_alt left k)
    have new: "maxSize b + (of_nat k - (maxSize b - mb_write b)) + DEFAULT_MESSAGE_BUFFER_SIZE = of_nat (w + k + 255)"
      unfolding max at_w by (simp add: DEFAULT_MESSAGE_BUFFER_SIZE_def)
    have gt: "of_nat (w + k + 255) > maxSize b"
      using True wl unfolding max by (simp add: word_less_nat_alt unat_of_small del: of_nat_add)
    let ?buf = "take w (mb_buffer b) @ map (mb_fresh b) [w ..< w + k + 255]"
    have "provision (of_nat k) b = reallocate (of_nat (w + k + 255)) b"
      using ge unfolding provision_def bind_def gets_run id_apply prod.case sum.case new by simp
    also have "\<dots> = (Inr (), b\<lparr>mb_buffer := ?buf\<rparr>)"
      using gt wl by (simp add: act_simps reallocate_def unat_of_small w_def [symmetric] del: of_nat_add)
    finally have "provision (of_nat k) b = (Inr (), b\<lparr>mb_buffer := ?buf\<rparr>)" .
    then show ?thesis using wl True by (intro exI [of _ ?buf]) (simp add: written_def w_def [symmetric] l_def [symmetric])
  next
    case False
    have "\<not> of_nat k \<ge> maxSize b - mb_write b"
      using False by (simp add: word_le_nat_alt left k)
    then have "provision (of_nat k) b = (Inr (), b)" by (simp add: provision_def act_simps bind_def)
    then show ?thesis using False wl by (intro exI [of _ "mb_buffer b"]) (auto simp: written_def w_def l_def)
  qed
qed

lemma copy_in_run:
  assumes "unat (mb_write b) + length bs \<le> length (mb_buffer b)" "length (mb_buffer b) < 2 ^ 32" "unat (mb_read b) \<le> unat (mb_write b)"
  shows "\<exists>b'. copy_in bs b = (Inr (), b') \<and> sound b' \<and> mb_mine b' = mb_mine b \<and> mb_read b' = mb_read b \<and> mb_fresh b' = mb_fresh b
    \<and> unat (mb_write b') = unat (mb_write b) + length bs \<and> written b' = written b @ bs \<and> length (mb_buffer b') = length (mb_buffer b)"
proof -
  have w: "unat (mb_write b + of_nat (length bs)) = unat (mb_write b) + length bs"
    by (rule unat_add_small) (use assms in simp)
  have "bs = []" if "length (mb_buffer b) \<le> unat (mb_write b)" using assms(1) that by (cases bs) auto
  then show ?thesis using assms by (auto simp: copy_in_def bind_def act_simps Let_def sound_def written_def w min_def)
qed

lemma emits_provided:
  assumes "\<And>b. mb_mine b \<Longrightarrow> m b = copy_in bs b" "k = of_nat (length bs)"
  shows "emits (seq (provision k) m) bs"
  unfolding emits_def
proof (intro allI impI)
  fix b
  assume b: "sound b" "mb_mine b" "unat (mb_write b) + length bs + 255 < 2 ^ 32"
  obtain buf where p: "provision k b = (Inr (), b\<lparr>mb_buffer := buf\<rparr>)" "unat (mb_write b) + length bs \<le> length buf"
      "length buf < 2 ^ 32" "take (unat (mb_write b)) buf = written b" "length (mb_buffer b) \<le> length buf"
    using provision_run [OF b(1,3)] assms(2) by blast
  have "unat (mb_read b) \<le> unat (mb_write b)" using b(1) by (simp add: sound_def)
  then obtain b' where "copy_in bs (b\<lparr>mb_buffer := buf\<rparr>) = (Inr (), b')" "sound b'" "mb_mine b' = mb_mine b" "mb_read b' = mb_read b"
      "mb_fresh b' = mb_fresh b" "unat (mb_write b') = unat (mb_write b) + length bs" "written b' = written (b\<lparr>mb_buffer := buf\<rparr>) @ bs" "length (mb_buffer b') = length buf"
    using copy_in_run [of "b\<lparr>mb_buffer := buf\<rparr>" bs] p by auto
  moreover have "written (b\<lparr>mb_buffer := buf\<rparr>) = written b" using p(4) by (simp add: written_def)
  moreover have "seq (provision k) m b = copy_in bs (b\<lparr>mb_buffer := buf\<rparr>)" using p(1) assms(1) b(2) by (simp add: seq_def bind_def)
  ultimately show "\<exists>b'. seq (provision k) m b = (Inr (), b') \<and> sound b' \<and> mb_mine b' \<and> mb_read b' = mb_read b \<and> mb_fresh b' = mb_fresh b
       \<and> unat (mb_write b') = unat (mb_write b) + length bs \<and> written b' = written b @ bs \<and> length (mb_buffer b) \<le> length (mb_buffer b')"
    using b(2) p(5) by auto
qed

lemma emits_uint8s: "emits (write_uint8s bs) bs"
  unfolding write_uint8s_def by (rule emits_provided) simp_all

lemma emits_uint8: "emits (write_uint8 w) [w]"
  unfolding write_uint8_def by (rule emits_uint8s)

lemma emits_uint32: "emits (write_uint32 big w) (memory big 4 w)"
  unfolding write_uint32_def by (rule emits_provided) (simp_all add: act_simps bind_def)

lemma emits_uint16: "emits (write_uint16 big w) (memory big 2 w)"
  unfolding write_uint16_def by (rule emits_provided) (simp_all add: act_simps bind_def)

lemma emits_uint64: "emits (write_uint64 big w) (memory big 8 w)"
  unfolding write_uint64_def by (rule emits_provided) (simp_all add: act_simps bind_def)

definition bool_byte :: "bool \<Rightarrow> 8 word" where
  "bool_byte t = (if t then 1 else 0)"

lemma emits_bool: "emits (write_bool t) [bool_byte t]"
  by (simp add: write_bool_def bool_byte_def emits_uint8)

definition string_bytes :: "bool \<Rightarrow> string \<Rightarrow> 8 word list" where
  "string_bytes big s = memory big 4 (of_nat (length s) :: 32 word) @ map of_char s"

lemma emits_string: "length s < 2 ^ 32 \<Longrightarrow> emits (write_string big s) (string_bytes big s)"
  unfolding write_string_def string_bytes_def
  by (rule emits_seq [OF emits_uint32]) (simp add: unat_of_small emits_uint8s)

section \<open>What is read\<close>

text \<open>
  \<open>consumes same m bs a\<close>: of a buffer in the order of the host, or in the other one, whose next bytes are these, the action takes
  the bytes and returns the value.
\<close>

definition consumes :: "bool \<Rightarrow> 'a mb_action \<Rightarrow> 8 word list \<Rightarrow> 'a \<Rightarrow> bool" where
  "consumes same m bs a \<longleftrightarrow> (\<forall>b rest. sound b \<longrightarrow> mb_mine b = same \<longrightarrow> unread b = bs @ rest \<longrightarrow>
     (\<exists>b'. m b = (Inr a, b') \<and> sound b' \<and> mb_mine b' = same \<and> unread b' = rest \<and> mb_write b' = mb_write b \<and> mb_buffer b' = mb_buffer b \<and> mb_fresh b' = mb_fresh b))"

lemma consumes_ret: "consumes same (ret a) [] a"
  by (simp add: consumes_def ret_def)

lemma consumes_bind: "consumes same m bs a \<Longrightarrow> consumes same (k a) cs c \<Longrightarrow> consumes same (bind m k) (bs @ cs) c"
  unfolding consumes_def
proof (intro allI impI)
  fix b rest
  assume m: "\<forall>b rest. sound b \<longrightarrow> mb_mine b = same \<longrightarrow> unread b = bs @ rest \<longrightarrow>
     (\<exists>b'. m b = (Inr a, b') \<and> sound b' \<and> mb_mine b' = same \<and> unread b' = rest \<and> mb_write b' = mb_write b \<and> mb_buffer b' = mb_buffer b \<and> mb_fresh b' = mb_fresh b)"
    and n: "\<forall>b rest. sound b \<longrightarrow> mb_mine b = same \<longrightarrow> unread b = cs @ rest \<longrightarrow>
     (\<exists>b'. k a b = (Inr c, b') \<and> sound b' \<and> mb_mine b' = same \<and> unread b' = rest \<and> mb_write b' = mb_write b \<and> mb_buffer b' = mb_buffer b \<and> mb_fresh b' = mb_fresh b)"
    and b: "sound b" "mb_mine b = same" "unread b = (bs @ cs) @ rest"
  obtain b1 where b1: "m b = (Inr a, b1)" "sound b1" "mb_mine b1 = same" "unread b1 = cs @ rest" "mb_write b1 = mb_write b" "mb_buffer b1 = mb_buffer b" "mb_fresh b1 = mb_fresh b"
    using m [rule_format, OF b(1,2), of "cs @ rest"] b(3) by auto
  obtain b2 where "k a b1 = (Inr c, b2)" "sound b2" "mb_mine b2 = same" "unread b2 = rest" "mb_write b2 = mb_write b1" "mb_buffer b2 = mb_buffer b1" "mb_fresh b2 = mb_fresh b1"
    using n [rule_format, OF b1(2,3,4)] by auto
  then show "\<exists>b'. bind m k b = (Inr c, b') \<and> sound b' \<and> mb_mine b' = same \<and> unread b' = rest \<and> mb_write b' = mb_write b \<and> mb_buffer b' = mb_buffer b \<and> mb_fresh b' = mb_fresh b"
    using b1 by (simp add: bind_def)
qed

lemma consumes_seq: "consumes same m bs a \<Longrightarrow> consumes same n cs c \<Longrightarrow> consumes same (seq m n) (bs @ cs) c"
  unfolding seq_def by (rule consumes_bind)

lemma consumes_map: "consumes same m bs a \<Longrightarrow> consumes same (bind m (\<lambda>x. ret (f x))) bs (f a)"
  using consumes_bind [OF _ consumes_ret, of same m bs a f] by (simp add: o_def)

text \<open>The check and the copy of the next bytes.\<close>

lemma next_bytes:
  assumes "sound b" "unread b = bs @ rest" "unat k = length bs"
  shows "readable k b = (Inr (), b)" "copy_out k b = (Inr bs, b\<lparr>mb_read := mb_read b + k\<rparr>)"
    "sound (b\<lparr>mb_read := mb_read b + k\<rparr>)" "unread (b\<lparr>mb_read := mb_read b + k\<rparr>) = rest"
proof -
  have len: "length (unread b) = unat (mb_write b) - unat (mb_read b)" using assms(1) by (auto simp: unread_def written_def sound_def min_def)
  then have fits: "unat (mb_read b) + length bs \<le> unat (mb_write b)" using assms(1,2) by (auto simp: sound_def)
  have small: "unat (mb_write b) < 2 ^ 32" using assms(1) by (simp add: sound_def)
  have k: "k = of_nat (length bs)" by (simp add: assms(3) [symmetric])
  have sum: "unat (mb_read b + k) = unat (mb_read b) + length bs"
    unfolding k by (rule unat_add_small) (use fits small in simp)
  show "readable k b = (Inr (), b)"
    using fits sum by (simp add: readable_def act_simps bind_def word_less_nat_alt add.commute)
  have "take (length bs) (drop (unat (mb_read b)) (mb_buffer b)) = take (length bs) (unread b)"
    using fits by (simp add: unread_def written_def drop_take min_def)
  then have bytes: "take (length bs) (drop (unat (mb_read b)) (mb_buffer b)) = bs" using assms(2) by simp
  have "unat (mb_read b) + length bs \<le> length (mb_buffer b)" using fits assms(1) by (simp add: sound_def)
  then show "copy_out k b = (Inr bs, b\<lparr>mb_read := mb_read b + k\<rparr>)"
    using bytes assms(3) by (simp add: copy_out_def act_simps bind_def Let_def)
  show "sound (b\<lparr>mb_read := mb_read b + k\<rparr>)" using assms(1) fits sum by (simp add: sound_def)
  have "unread (b\<lparr>mb_read := mb_read b + k\<rparr>) = drop (length bs) (unread b)" using sum by (simp add: unread_def written_def add.commute)
  then show "unread (b\<lparr>mb_read := mb_read b + k\<rparr>) = rest" using assms(2) by simp
qed

lemma consumes_checked:
  assumes "unat k = length bs" "\<And>b. mb_mine b = same \<Longrightarrow> m b = bind (copy_out k) (\<lambda>x. ret (f x)) b"
  shows "consumes same (seq (readable k) m) bs (f bs)"
  unfolding consumes_def
proof (intro allI impI)
  fix b rest
  assume b: "sound b" "mb_mine b = same" "unread b = bs @ rest"
  note run = next_bytes [OF b(1,3) assms(1)]
  have "seq (readable k) m b = (Inr (f bs), b\<lparr>mb_read := mb_read b + k\<rparr>)"
    using run(1,2) assms(2) [OF b(2)] by (simp add: seq_def bind_def ret_def)
  then show "\<exists>b'. seq (readable k) m b = (Inr (f bs), b') \<and> sound b' \<and> mb_mine b' = same \<and> unread b' = rest
      \<and> mb_write b' = mb_write b \<and> mb_buffer b' = mb_buffer b \<and> mb_fresh b' = mb_fresh b"
    using run(3,4) b(2) by simp
qed

lemma consumes_uint8s: "length bs < 2 ^ 32 \<Longrightarrow> consumes same (read_uint8s (of_nat (length bs))) bs bs"
proof -
  assume "length bs < 2 ^ 32"
  then have "consumes same (seq (readable (of_nat (length bs))) (bind (copy_out (of_nat (length bs))) (\<lambda>x. ret (id x)))) bs (id bs)"
    by (intro consumes_checked) (simp_all add: unat_of_small)
  moreover have "bind (copy_out k) (\<lambda>x. ret (id x)) = copy_out k" for k
    by (rule ext) (auto simp: bind_def ret_def split: prod.split sum.split)
  ultimately show ?thesis by (simp add: read_uint8s_def)
qed

lemma consumes_uint8: "consumes same read_uint8 [w] w"
  using consumes_map [OF consumes_uint8s [of "[w]" same], of hd] by (simp add: read_uint8_def)

lemma consumes_bool: "consumes same read_bool [bool_byte t] t"
  using consumes_map [OF consumes_uint8 [of same "bool_byte t"], of "\<lambda>b. 1 = b"] by (simp add: read_bool_def bool_byte_def split: if_splits)

lemma swap16_swap16: "swap16 (swap16 w) = w"
  using value_of_memory [of 2 False "swap16 (swap16 w)"] value_of_memory [of 2 False w] by (simp add: memory_swap16)

lemma swap32_swap32: "swap32 (swap32 w) = w"
  using value_of_memory [of 4 False "swap32 (swap32 w)"] value_of_memory [of 4 False w] by (simp add: memory_swap32)

lemma value_of_rev16: "value_of big (rev (memory big 2 w)) = swap16 w"
  using value_of_memory [of 2 big "swap16 w"] by (simp add: memory_swap16)

lemma value_of_rev32: "value_of big (rev (memory big 4 w)) = swap32 w"
  using value_of_memory [of 4 big "swap32 w"] by (simp add: memory_swap32)

lemma memory_sender: "memory sender n w = (if sender = big then memory big n w else rev (memory big n w))"
  by (auto simp: memory_def)

lemma consumes_uint16: "consumes (sender = big) (read_uint16 big) (memory sender 2 w) w"
proof -
  have "consumes (sender = big) (read_uint16 big) (memory sender 2 w)
      ((\<lambda>bs. if sender = big then value_of big bs else swap16 (value_of big bs)) (memory sender 2 w))"
    unfolding read_uint16_def by (rule consumes_checked) (auto simp: bind_def gets_def ret_def split: prod.split sum.split)
  moreover have "(if sender = big then value_of big (memory sender 2 w) else swap16 (value_of big (memory sender 2 w))) = w"
    by (cases "sender = big") (simp_all add: value_of_memory memory_other value_of_rev16 swap16_swap16)
  ultimately show ?thesis by simp
qed

lemma consumes_uint32: "consumes (sender = big) (read_uint32 big) (memory sender 4 w) w"
proof -
  have "consumes (sender = big) (read_uint32 big) (memory sender 4 w)
      ((\<lambda>bs. if sender = big then value_of big bs else swap32 (value_of big bs)) (memory sender 4 w))"
    unfolding read_uint32_def by (rule consumes_checked) (auto simp: bind_def gets_def ret_def split: prod.split sum.split)
  moreover have "(if sender = big then value_of big (memory sender 4 w) else swap32 (value_of big (memory sender 4 w))) = w"
    by (cases "sender = big") (simp_all add: value_of_memory memory_other value_of_rev32 swap32_swap32)
  ultimately show ?thesis by simp
qed

text \<open>The two halves of a \<open>uint64_t\<close> in the other order.\<close>

lemma read_halves:
  assumes "length bs = 8"
  shows "memory big 4 (swap32 (value_of big (drop 4 bs))) @ memory big 4 (swap32 (value_of big (take 4 bs))) = rev bs"
proof -
  have "memory big 4 (swap32 (value_of big (drop 4 bs))) = rev (drop 4 bs)" "memory big 4 (swap32 (value_of big (take 4 bs))) = rev (take 4 bs)"
    using assms by (simp_all add: memory_swap32 memory_value_of)
  then show ?thesis by (simp add: rev_append [symmetric] del: rev_append)
qed

lemma copy_out_twice:
  assumes "sound b" "unread b = bs @ rest" "length bs = 8"
  shows "bind (copy_out 4) (\<lambda>x. bind (copy_out 4) (k x)) b = k (take 4 bs) (drop 4 bs) (b\<lparr>mb_read := mb_read b + 8\<rparr>)"
proof -
  have 1: "unread b = take 4 bs @ (drop 4 bs @ rest)" using assms(2) by simp
  let ?b = "b\<lparr>mb_read := mb_read b + 4\<rparr>"
  have a: "copy_out 4 b = (Inr (take 4 bs), ?b)" "sound ?b" "unread ?b = drop 4 bs @ rest"
    using next_bytes [OF assms(1) 1, of 4] assms(3) by simp_all
  have "copy_out 4 ?b = (Inr (drop 4 bs), ?b\<lparr>mb_read := mb_read ?b + 4\<rparr>)"
    using next_bytes(2) [OF a(2,3), of 4] assms(3) by simp
  then show ?thesis using a(1) by (simp add: bind_def add.assoc)
qed

lemma consumes_uint64: "consumes (sender = big) (read_uint64 big) (memory sender 8 w) w"
proof (cases "sender = big")
  case True
  have "consumes True (read_uint64 big) (memory big 8 w) (value_of big (memory big 8 w))"
    unfolding read_uint64_def by (rule consumes_checked) (simp_all add: act_simps bind_def)
  then show ?thesis using True by (simp add: value_of_memory)
next
  case False
  have other: "rev (memory sender 8 w) = memory big 8 w" using False by (auto simp: memory_def)
  show ?thesis
    unfolding consumes_def
  proof (intro allI impI)
    fix b rest
    assume b: "sound b" "mb_mine b = (sender = big)" "unread b = memory sender 8 w @ rest"
    have eight: "unat (8 :: 32 word) = length (memory sender 8 w)" by simp
    note run = next_bytes [OF b(1,3) eight]
    have "read_uint64 big b = (Inr w, b\<lparr>mb_read := mb_read b + 8\<rparr>)"
      using run(1) b(2) False
        copy_out_twice [OF b(1,3), of "\<lambda>x y. ret (value_of big (memory big 4 (swap32 (value_of big y)) @ memory big 4 (swap32 (value_of big x))) :: 64 word)"]
        read_halves [of "memory sender 8 w" big]
      by (simp add: read_uint64_def seq_def bind_def [of "readable 8"] bind_def [of "gets mb_mine"] gets_run ret_run memory_other value_of_memory)
    then show "\<exists>b'. read_uint64 big b = (Inr w, b') \<and> sound b' \<and> mb_mine b' = (sender = big) \<and> unread b' = rest
        \<and> mb_write b' = mb_write b \<and> mb_buffer b' = mb_buffer b \<and> mb_fresh b' = mb_fresh b"
      using run(3,4) b(2) by simp
  qed
qed

lemma char_of_byte: "char_of (unat (of_char c :: 8 word)) = c"
proof -
  have "unat (of_char c :: 8 word) = of_char c"
  proof -
    have "(of_char c :: 8 word) = of_nat (of_char c)" by (simp add: of_char_def)
    then show ?thesis by (simp add: unat_of_nat take_bit_nat_def)
  qed
  then show ?thesis by simp
qed

lemma consumes_string:
  assumes "length s < 2 ^ 31"
  shows "consumes (sender = big) (read_string big) (string_bytes sender s) s"
proof -
  let ?len = "of_nat (length s) :: 32 word"
  have len: "unat ?len = length (map of_char s :: 8 word list)" using assms by (simp add: unat_of_small)
  have "\<not> sint ?len < 0"
    using signed_take_bit_int_eq_self [of 31 "int (length s)"] assms by (simp add: signed_of_nat)
  then have rest: "seq (throw_if (sint ?len < 0) StdLengthError) (bind (copy_out ?len) (\<lambda>bs. ret (map (\<lambda>b. char_of (unat b)) bs))) b
      = bind (copy_out ?len) (\<lambda>bs. ret (map (\<lambda>b. char_of (unat b)) bs)) b" for b
    by (simp add: seq_def bind_def [of "throw_if _ _"] throw_if_run)
  have "consumes (sender = big) (seq (readable ?len) (seq (throw_if (sint ?len < 0) StdLengthError)
      (bind (copy_out ?len) (\<lambda>bs. ret (map (\<lambda>b. char_of (unat b)) bs))))) (map of_char s) (map (\<lambda>b. char_of (unat b)) (map of_char s :: 8 word list))"
    using consumes_checked [OF len, where m = "seq (throw_if (sint ?len < 0) StdLengthError) (bind (copy_out ?len) (\<lambda>bs. ret (map (\<lambda>b. char_of (unat b)) bs)))"
        and f = "map (\<lambda>b. char_of (unat b))"] rest by blast
  moreover have "map (\<lambda>b. char_of (unat b)) (map of_char s :: 8 word list) = s" by (simp add: comp_def char_of_byte)
  ultimately have "consumes (sender = big) (seq (readable ?len) (seq (throw_if (sint ?len < 0) StdLengthError)
      (bind (copy_out ?len) (\<lambda>bs. ret (map (\<lambda>b. char_of (unat b)) bs))))) (map of_char s) s" by (simp only:)
  then show ?thesis unfolding read_string_def string_bytes_def by (rule consumes_bind [OF consumes_uint32])
qed

end
