(* ===== verification/WireRoundtrip.thy ===== *)
theory WireRoundtrip
  imports Wire BufferLemmas
begin

text \<open>
  What the fields and the common part of a message look like on a connection, and that they are read back on any host.
\<close>

section \<open>Fields\<close>

text \<open>A value of the type of its field whose sizes can be counted.\<close>

fun fits :: "field_format \<Rightarrow> field_value \<Rightarrow> bool" and fits_all :: "field_format list \<Rightarrow> field_value list \<Rightarrow> bool" where
  "fits FU8 v = (case v of VU8 w \<Rightarrow> True | _ \<Rightarrow> False)"
| "fits FU16 v = (case v of VU16 w \<Rightarrow> True | _ \<Rightarrow> False)"
| "fits FU32 v = (case v of VU32 w \<Rightarrow> True | _ \<Rightarrow> False)"
| "fits FU64 v = (case v of VU64 w \<Rightarrow> True | _ \<Rightarrow> False)"
| "fits FBool v = (case v of VBool t \<Rightarrow> True | _ \<Rightarrow> False)"
| "fits FString v = (case v of VString s \<Rightarrow> length s < 2 ^ 31 | _ \<Rightarrow> False)"
| "fits FBytes v = (case v of VBytes bs \<Rightarrow> length bs < 2 ^ 32 | _ \<Rightarrow> False)"
| "fits (FOptional fs) v = (case v of VOptional x \<Rightarrow> (case x of Some vs \<Rightarrow> fits_all fs vs | None \<Rightarrow> True) | _ \<Rightarrow> False)"
| "fits (FVector fs) v = (case v of VVector vss \<Rightarrow> length vss < 2 ^ 32 \<and> list_all (fits_all fs) vss | _ \<Rightarrow> False)"
| "fits_all [] vs = (vs = [])"
| "fits_all (f # fs) vs = (case vs of v # vs' \<Rightarrow> fits f v \<and> fits_all fs vs' | [] \<Rightarrow> False)"

fun field_bytes :: "bool \<Rightarrow> field_format \<Rightarrow> field_value \<Rightarrow> 8 word list"
  and fields_bytes :: "bool \<Rightarrow> field_format list \<Rightarrow> field_value list \<Rightarrow> 8 word list" where
  "field_bytes big FU8 v = (case v of VU8 w \<Rightarrow> [w] | _ \<Rightarrow> [])"
| "field_bytes big FU16 v = (case v of VU16 w \<Rightarrow> memory big 2 w | _ \<Rightarrow> [])"
| "field_bytes big FU32 v = (case v of VU32 w \<Rightarrow> memory big 4 w | _ \<Rightarrow> [])"
| "field_bytes big FU64 v = (case v of VU64 w \<Rightarrow> memory big 8 w | _ \<Rightarrow> [])"
| "field_bytes big FBool v = (case v of VBool t \<Rightarrow> [bool_byte t] | _ \<Rightarrow> [])"
| "field_bytes big FString v = (case v of VString s \<Rightarrow> string_bytes big s | _ \<Rightarrow> [])"
| "field_bytes big FBytes v = (case v of VBytes bs \<Rightarrow> memory big 4 (of_nat (length bs) :: 32 word) @ bs | _ \<Rightarrow> [])"
| "field_bytes big (FOptional fs) v = (case v of
     VOptional x \<Rightarrow> bool_byte (x \<noteq> None) # (case x of Some vs \<Rightarrow> fields_bytes big fs vs | None \<Rightarrow> []) | _ \<Rightarrow> [])"
| "field_bytes big (FVector fs) v = (case v of
     VVector vss \<Rightarrow> memory big 4 (of_nat (length vss) :: 32 word) @ concat (map (fields_bytes big fs) vss) | _ \<Rightarrow> [])"
| "fields_bytes big [] vs = []"
| "fields_bytes big (f # fs) vs = (case vs of v # vs' \<Rightarrow> field_bytes big f v @ fields_bytes big fs vs' | [] \<Rightarrow> [])"

lemma emits_for_each: "(\<And>x. x \<in> set xs \<Longrightarrow> emits (f x) (g x)) \<Longrightarrow> emits (for_each f xs) (concat (map g xs))"
  by (induction xs) (simp_all add: emits_ret emits_seq)

lemma emits_option:
  "(\<And>a. x = Some a \<Longrightarrow> emits (m a) (g a)) \<Longrightarrow> emits (write_option m x) (bool_byte (x \<noteq> None) # (case x of Some a \<Rightarrow> g a | None \<Rightarrow> []))"
  using emits_seq [OF emits_bool] emits_ret unfolding write_option_def by (cases x) fastforce+

lemma emits_fields:
  shows "fits f v \<Longrightarrow> emits (write_field big f v) (field_bytes big f v)"
    and "fits_all fs vs \<Longrightarrow> emits (write_fields big fs vs) (fields_bytes big fs vs)"
proof (induction f v and fs vs rule: fits_fits_all.induct)
  case (7 v)
  then show ?case by (auto simp: unat_of_small intro: emits_seq [OF emits_uint32 emits_uint8s] split: field_value.splits)
next
  case (8 fs v)
  then obtain x where v: "v = VOptional x" by (auto split: field_value.splits)
  have "emits (write_option (write_fields big fs) x) (bool_byte (x \<noteq> None) # (case x of Some vs \<Rightarrow> fields_bytes big fs vs | None \<Rightarrow> []))"
    by (rule emits_option) (use 8 v in simp)
  then show ?case by (simp add: v write_option_def)
next
  case (9 fs v)
  then obtain vss where v: "v = VVector vss" "length vss < 2 ^ 32" "list_all (fits_all fs) vss" by (auto split: field_value.splits)
  have "emits (write_fields big fs vs) (fields_bytes big fs vs)" if "vs \<in> set vss" for vs
    using 9 v that by (auto simp: list_all_iff)
  then have "emits (for_each (write_fields big fs) vss) (concat (map (fields_bytes big fs) vss))" by (rule emits_for_each)
  then show ?case using v by (simp add: unat_of_small emits_seq [OF emits_uint32])
next
  case (11 f fs vs)
  then show ?case by (auto intro: emits_seq split: list.splits)
qed (auto simp: emits_uint8 emits_uint16 emits_uint32 emits_bool emits_uint64 emits_string emits_ret split: field_value.splits)

lemma consumes_repeat:
  "(\<And>x. x \<in> set xs \<Longrightarrow> consumes same m (g x) x) \<Longrightarrow> consumes same (repeat_action (length xs) m) (concat (map g xs)) xs"
proof (induction xs)
  case Nil
  then show ?case by (simp add: consumes_ret)
next
  case (Cons x xs)
  have "consumes same (bind (repeat_action (length xs) m) (\<lambda>as. ret (x # as))) (concat (map g xs)) (x # xs)"
    by (rule consumes_map) (use Cons in simp)
  then have "consumes same (bind m (\<lambda>a. bind (repeat_action (length xs) m) (\<lambda>as. ret (a # as)))) (g x @ concat (map g xs)) (x # xs)"
    by (rule consumes_bind [OF Cons.prems [of x], rotated]) simp
  then show ?case by simp
qed

lemma consumes_option:
  assumes "\<And>a. x = Some a \<Longrightarrow> consumes same m (g a) a"
  shows "consumes same (read_option m) (bool_byte (x \<noteq> None) # (case x of Some a \<Rightarrow> g a | None \<Rightarrow> [])) x"
proof -
  have "consumes same (if x \<noteq> None then bind m (\<lambda>a. ret (Some a)) else ret None) (case x of Some a \<Rightarrow> g a | None \<Rightarrow> []) x"
    using assms by (cases x) (auto intro: consumes_map consumes_ret)
  then have "consumes same (read_option m) ([bool_byte (x \<noteq> None)] @ (case x of Some a \<Rightarrow> g a | None \<Rightarrow> [])) x"
    unfolding read_option_def by (rule consumes_bind [OF consumes_bool])
  then show ?thesis by simp
qed

lemma consumes_fields:
  shows "fits f v \<Longrightarrow> consumes (sender = big) (read_field big f) (field_bytes sender f v) v"
    and "fits_all fs vs \<Longrightarrow> consumes (sender = big) (read_fields big fs) (fields_bytes sender fs vs) vs"
proof (induction f v and fs vs rule: fits_fits_all.induct)
  case (7 v)
  then obtain bs where v: "v = VBytes bs" "length bs < 2 ^ 32" by (auto split: field_value.splits)
  have "consumes (sender = big) (bind (read_uint8s (of_nat (length bs))) (\<lambda>bs. ret (VBytes bs))) bs (VBytes bs)"
    by (rule consumes_map [OF consumes_uint8s [OF v(2)]])
  then show ?case
    unfolding v(1) read_field.simps field_bytes.simps field_value.case by (rule consumes_bind [OF consumes_uint32])
next
  case (8 fs v)
  then obtain x where v: "v = VOptional x" by (auto split: field_value.splits)
  have "consumes (sender = big) (read_option (read_fields big fs)) (bool_byte (x \<noteq> None) # (case x of Some vs \<Rightarrow> fields_bytes sender fs vs | None \<Rightarrow> [])) x"
    by (rule consumes_option) (use 8 v in simp)
  then have "consumes (sender = big) (bind (read_option (read_fields big fs)) (\<lambda>x. ret (VOptional x)))
      (bool_byte (x \<noteq> None) # (case x of Some vs \<Rightarrow> fields_bytes sender fs vs | None \<Rightarrow> [])) (VOptional x)" by (rule consumes_map)
  moreover have "bind (read_option (read_fields big fs)) (\<lambda>x. ret (VOptional x)) = read_field big (FOptional fs)"
    by (rule ext) (auto simp: read_option_def bind_def ret_def split: prod.split sum.split)
  ultimately show ?case by (simp add: v)
next
  case (9 fs v)
  then obtain vss where v: "v = VVector vss" "length vss < 2 ^ 32" "list_all (fits_all fs) vss" by (auto split: field_value.splits)
  have "consumes (sender = big) (read_fields big fs) (fields_bytes sender fs vs) vs" if "vs \<in> set vss" for vs
    using 9 v that by (auto simp: list_all_iff)
  then have "consumes (sender = big) (repeat_action (length vss) (read_fields big fs)) (concat (map (fields_bytes sender fs) vss)) vss"
    by (rule consumes_repeat)
  then have "consumes (sender = big) (bind (repeat_action (length vss) (read_fields big fs)) (\<lambda>vss. ret (VVector vss)))
      (concat (map (fields_bytes sender fs) vss)) (VVector vss)" by (rule consumes_map)
  then have "consumes (sender = big) (bind (repeat_action (unat (of_nat (length vss) :: 32 word)) (read_fields big fs)) (\<lambda>vss. ret (VVector vss)))
      (concat (map (fields_bytes sender fs) vss)) (VVector vss)" by (simp only: unat_of_small [OF v(2)])
  then show ?case
    unfolding v(1) read_field.simps field_bytes.simps field_value.case by (rule consumes_bind [OF consumes_uint32])
next
  case (11 f fs vs)
  then obtain w ws where vs: "vs = w # ws" "fits f w" "fits_all fs ws" by (auto split: list.splits)
  have "consumes (sender = big) (bind (read_fields big fs) (\<lambda>as. ret (w # as))) (fields_bytes sender fs ws) (w # ws)"
    by (rule consumes_map) (use 11 vs in simp)
  then show ?case
    unfolding vs(1) read_fields.simps fields_bytes.simps list.case by (rule consumes_bind [OF 11(1) [OF vs(1,2)]])
qed (auto simp: consumes_ret intro: consumes_map [OF consumes_uint8] consumes_map [OF consumes_uint16] consumes_map [OF consumes_uint32] consumes_map [OF consumes_bool]
      consumes_map [OF consumes_uint64] consumes_map [OF consumes_string] split: field_value.splits)

lemma length_bytes:
  shows "length (field_bytes big f v) = length (field_bytes True f v)"
    and "length (fields_bytes big fs vs) = length (fields_bytes True fs vs)"
proof (induction f v and fs vs rule: fits_fits_all.induct)
  case (9 fs v)
  then show ?case by (auto simp: length_concat comp_def intro!: arg_cong [of _ _ sum_list] split: field_value.splits)
next
  case (8 fs v)
  then show ?case by (auto split: field_value.splits option.splits)
qed (auto simp: string_bytes_def split: field_value.splits option.splits list.splits)

section \<open>The common part of messages\<close>

definition option_bytes :: "('x \<Rightarrow> 8 word list) \<Rightarrow> 'x option \<Rightarrow> 8 word list" where
  "option_bytes g x = bool_byte (x \<noteq> None) # (case x of Some a \<Rightarrow> g a | None \<Rightarrow> [])"

definition basic_bytes :: "bool \<Rightarrow> 'm basic_message_scheme \<Rightarrow> 8 word list" where
  "basic_bytes big w = option_bytes (memory big 8) (bm_date w) @ option_bytes (string_bytes big) (bm_label w) @ option_bytes (string_bytes big) (bm_tag w)"

text \<open>The texts of a message can be counted.\<close>

definition short_texts :: "'m basic_message_scheme \<Rightarrow> bool" where
  "short_texts w \<longleftrightarrow> (\<forall>s \<in> set_option (bm_label w) \<union> set_option (bm_tag w). length s < 2 ^ 31)"

lemma length_basic_bytes: "length (basic_bytes big w) = length (basic_bytes True w)"
  by (auto simp: basic_bytes_def option_bytes_def string_bytes_def split: option.splits)

lemma emits_basic: "short_texts w \<Longrightarrow> emits (BasicMessage_serialize big w) (basic_bytes big w)"
  unfolding BasicMessage_serialize_def basic_bytes_def option_bytes_def
  by (intro emits_seq emits_option emits_uint64 emits_string) (auto simp: short_texts_def)

lemma consumes_basic:
  assumes "short_texts w"
  shows "consumes (sender = big) (BasicMessage_deserialize big v) (basic_bytes sender w)
    (v\<lparr>bm_date := bm_date w, bm_label := bm_label w, bm_tag := bm_tag w\<rparr>)"
proof -
  have strs: "consumes (sender = big) (read_option (read_string big)) (option_bytes (string_bytes sender) x) x" if "x \<in> {bm_label w, bm_tag w}" for x
    unfolding option_bytes_def by (rule consumes_option, rule consumes_string) (use assms that in \<open>auto simp: short_texts_def\<close>)
  have date: "consumes (sender = big) (read_option (read_uint64 big)) (option_bytes (memory sender 8) (bm_date w)) (bm_date w)"
    unfolding option_bytes_def by (rule consumes_option) (rule consumes_uint64)
  show ?thesis
    unfolding BasicMessage_deserialize_def basic_bytes_def
    by (rule consumes_bind [OF date], rule consumes_bind [OF strs], simp, rule consumes_map [OF strs], simp)
qed

text \<open>The exception and, behind it, its text or the common part.\<close>

lemma exception_code: "ucast (ucast (e :: 8 word) :: 32 word) = e"
  by (rule bit_word_eqI) (auto simp: bit_simps)

definition outcome_bytes :: "bool \<Rightarrow> 8 word \<Rightarrow> string \<Rightarrow> 'm basic_message_scheme \<Rightarrow> 8 word list" where
  "outcome_bytes big e reason w = memory big 4 (ucast e :: 32 word) @ (if e \<noteq> 0 then string_bytes big reason else basic_bytes big w)"

lemma length_outcome_bytes: "length (outcome_bytes big e reason w) = length (outcome_bytes True e reason w)"
  using length_basic_bytes [of big w] by (simp add: outcome_bytes_def string_bytes_def)

lemma emits_outcome:
  "short_texts w \<Longrightarrow> length reason < 2 ^ 31 \<Longrightarrow>
    emits (seq (write_uint32 big (ucast e)) (if e \<noteq> 0 then write_string big reason else BasicMessage_serialize big w)) (outcome_bytes big e reason w)"
  unfolding outcome_bytes_def by (rule emits_seq [OF emits_uint32]) (simp add: emits_basic emits_string)

lemma consumes_outcome:
  assumes "short_texts w" "length reason < 2 ^ 31"
  shows "consumes (sender = big)
    (bind (read_uint32 big) (\<lambda>k. if (ucast k :: 8 word) \<noteq> 0 then bind (read_string big) (\<lambda>r. ret (f (ucast k) r)) else BasicMessage_deserialize big (g (ucast k))))
    (outcome_bytes sender e reason w)
    (if e \<noteq> 0 then f e reason else (g e)\<lparr>bm_date := bm_date w, bm_label := bm_label w, bm_tag := bm_tag w\<rparr>)"
  unfolding outcome_bytes_def
  by (rule consumes_bind [OF consumes_uint32])
    (use assms(1) consumes_map [OF consumes_string [OF assms(2)], where f = "f e"] in \<open>simp add: exception_code consumes_basic\<close>)

end
