(* ===== verification/WireLinks.thy ===== *)
theory WireLinks
  imports WireRoundtrip
begin

text \<open>
  Packets: what is sent and received on a connection, and the contract of the two kinds of messages.
\<close>

section \<open>The header of a message\<close>

definition order_byte :: "bool \<Rightarrow> 8 word" where
  "order_byte big = (if big then 1 else 0)"

definition header :: "bool \<Rightarrow> 32 word \<Rightarrow> 8 word list" where
  "header big n = order_byte big # memory big 4 n"

definition packet :: "bool \<Rightarrow> 8 word list \<Rightarrow> 8 word list" where
  "packet big bs = header big (of_nat (5 + length bs)) @ bs"

text \<open>A buffer with at least the bytes of a new one.\<close>

definition standing :: "message_buffer \<Rightarrow> bool" where
  "standing b \<longleftrightarrow> 255 \<le> length (mb_buffer b) \<and> length (mb_buffer b) < 2 ^ 32"

lemma standing_new: "standing (message_buffer_new f)"
  by (simp add: standing_def message_buffer_new_def DEFAULT_MESSAGE_BUFFER_SIZE_def)

lemma length_header [simp]: "length (header big n) = 5"
  by (simp add: header_def)

lemma unat_maxSize: "standing b \<Longrightarrow> unat (maxSize b) = length (mb_buffer b)"
  by (simp add: standing_def maxSize_def unat_of_small)

lemma setSize_run:
  assumes "standing b" "mb_mine b"
  shows "setSizeInReservedBytes big n b = (Inr (), b\<lparr>mb_buffer := take 1 (mb_buffer b) @ memory big 4 n @ drop 5 (mb_buffer b)\<rparr>)"
proof -
  have "unat (maxSize b - 1) = length (mb_buffer b) - 1"
    using assms(1) unat_maxSize [OF assms(1)] by (subst unat_sub) (auto simp: standing_def word_le_nat_alt)
  then have "\<not> maxSize b - 1 \<le> 4" using assms(1) by (auto simp: standing_def word_le_nat_alt)
  then show ?thesis
    using assms by (simp add: setSizeInReservedBytes_def write_uint32_def provision_def copy_in_def act_simps bind_def seq_def maxSize_def standing_def Let_def)
qed

lemma updateReservedBytes_run:
  assumes "standing b" "mb_mine b"
  shows "updateReservedBytes big b = (Inr (), b\<lparr>mb_buffer := header big (mb_write b) @ drop 5 (mb_buffer b)\<rparr>)"
proof -
  let ?b = "b\<lparr>mb_buffer := (mb_buffer b)[0 := order_byte big]\<rparr>"
  obtain x xs where buf: "mb_buffer b = x # xs" using assms(1) by (cases "mb_buffer b") (auto simp: standing_def)
  have "standing ?b" "mb_mine ?b" using assms by (simp_all add: standing_def)
  from setSize_run [OF this, of big "mb_write b"] show ?thesis
    using assms(2) by (simp add: updateReservedBytes_def set_order_def order_byte_def header_def act_simps bind_def seq_def buf)
qed

lemma reset_run:
  assumes "standing b"
  shows "reset big b = (Inr (), b\<lparr>mb_mine := True, mb_write := 5, mb_read := 5, mb_buffer := header big 5 @ drop 5 (mb_buffer b)\<rparr>)"
proof -
  let ?b = "b\<lparr>mb_mine := True, mb_write := 5, mb_read := 5\<rparr>"
  have "standing ?b" "mb_mine ?b" using assms by (simp_all add: standing_def)
  from updateReservedBytes_run [OF this, of big] show ?thesis
    by (simp add: reset_def reservedBytes_def act_simps bind_def seq_def)
qed

lemma send_run:
  assumes "standing b" and emits: "emits m bs" and room: "5 + length bs + 255 < 2 ^ 32"
  shows "\<exists>b'. send_bytes big m b = (Inr (packet big bs), b') \<and> standing b'"
proof -
  let ?b = "b\<lparr>mb_mine := True, mb_write := 5, mb_read := 5, mb_buffer := header big 5 @ drop 5 (mb_buffer b)\<rparr>"
  have "sound ?b" "mb_mine ?b" "unat (mb_write ?b) + length bs + 255 < 2 ^ 32"
    using assms(1) room by (simp_all add: sound_def standing_def)
  then obtain c where c: "m ?b = (Inr (), c)" "sound c" "mb_mine c" "unat (mb_write c) = unat (mb_write ?b) + length bs"
      "written c = written ?b @ bs" "length (mb_buffer ?b) \<le> length (mb_buffer c)"
    using emits unfolding emits_def by blast
  have size: "mb_write c = of_nat (5 + length bs)" using c(4) room unat_of_small [of "5 + length bs"] by (simp add: word_unat_eq_iff)
  have st: "standing c" using c(2,6) assms(1) by (simp add: standing_def sound_def)
  from updateReservedBytes_run [OF this c(3), of big] have u: "updateReservedBytes big c = (Inr (), c\<lparr>mb_buffer := header big (mb_write c) @ drop 5 (mb_buffer c)\<rparr>)" .
  have "take (unat (mb_write c)) (header big (mb_write c) @ drop 5 (mb_buffer c)) = header big (mb_write c) @ drop 5 (written c)"
    using c(4) by (simp add: written_def drop_take)
  also have "drop 5 (written c) = bs" using c(5) by (simp add: written_def)
  finally have "take (unat (mb_write c)) (header big (mb_write c) @ drop 5 (mb_buffer c)) = packet big bs" by (simp only: packet_def size)
  then show ?thesis
    using reset_run [OF assms(1), of big] c(1) u st by (simp add: send_bytes_def seq_def bind_def gets_run standing_def)
qed

section \<open>Receiving\<close>

lemma socket_receive_run:
  assumes "cn_incoming s = bs @ later" "unat n = length bs" "unat off + length bs \<le> length (mb_buffer (cn_buffer s))"
  shows "socket_receive off n s = (Inr (), s\<lparr>cn_incoming := later,
    cn_buffer := (cn_buffer s)\<lparr>mb_buffer := take (unat off) (mb_buffer (cn_buffer s)) @ bs @ drop (unat off + length bs) (mb_buffer (cn_buffer s))\<rparr>\<rparr>)"
  using assms by (simp add: socket_receive_def act_simps bind_def Let_def)

text \<open>The order and the size are read from the header, and the buffer is made large enough.\<close>

lemma assumeSize_run:
  assumes buf: "mb_buffer b = header sender n @ rest" and w: "5 \<le> unat (mb_write b)" "unat (mb_write b) \<le> length (mb_buffer b)"
    and len: "length (mb_buffer b) < 2 ^ 32"
  shows "\<exists>buf. assumeSizeFromReservedBytes big b = (Inr (), b\<lparr>mb_buffer := buf, mb_mine := (sender = big), mb_read := 5, mb_write := n\<rparr>)
    \<and> length buf = max (length (mb_buffer b)) (unat n) \<and> take (unat (mb_write b)) buf = take (unat (mb_write b)) (mb_buffer b)"
proof -
  let ?b = "b\<lparr>mb_mine := (sender = big), mb_read := 1\<rparr>"
  have order: "(if mb_buffer b ! 0 = 1 then assumeBufferIsBigEndian big else assumeBufferIsLittleEndian big) b = (Inr (), b\<lparr>mb_mine := (sender = big)\<rparr>)"
    using buf by (auto simp: assumeBufferIsBigEndian_def assumeBufferIsLittleEndian_def set_order_def order_byte_def header_def act_simps seq_def bind_def)
  have "sound ?b" using w len by (simp add: sound_def)
  moreover have "mb_mine ?b = (sender = big)" by simp
  moreover have "unread ?b = memory sender 4 n @ take (unat (mb_write b) - 5) rest"
    using buf w by (simp add: unread_def written_def header_def take_Cons' drop_Cons')
  ultimately obtain c where c: "read_uint32 big ?b = (Inr n, c)" "sound c" "unread c = take (unat (mb_write b) - 5) rest" "mb_write c = mb_write ?b"
      "mb_buffer c = mb_buffer ?b" "mb_fresh c = mb_fresh ?b" "mb_mine c = (sender = big)"
    using consumes_uint32 [of sender big n] unfolding consumes_def by blast
  have "length (unread c) = unat (mb_write c) - unat (mb_read c)" using c(2) by (auto simp: unread_def written_def sound_def min_def)
  moreover have "length rest = length (mb_buffer b) - 5" using buf by simp
  ultimately have "unat (mb_read c) = 5" using c(2,3,4) w by (auto simp: sound_def)
  then have "mb_read c = 5" by (simp add: word_unat_eq_iff)
  then have "c = b\<lparr>mb_mine := (sender = big), mb_read := 5\<rparr>" using c by simp
  then have run: "assumeSizeFromReservedBytes big b = seq (reallocate n) (assumeSize n) (b\<lparr>mb_mine := (sender = big), mb_read := 5\<rparr>)"
    using order c(1) by (simp add: assumeSizeFromReservedBytes_def seq_def bind_def gets_run modify_run)
  have max: "unat (maxSize b) = length (mb_buffer b)" using len by (simp add: maxSize_def unat_of_small)
  show ?thesis
  proof (cases "length (mb_buffer b) < unat n")
    case True
    let ?buf = "take (unat (mb_write b)) (mb_buffer b) @ map (mb_fresh b) [unat (mb_write b) ..< unat n]"
    have "assumeSizeFromReservedBytes big b = (Inr (), b\<lparr>mb_buffer := ?buf, mb_mine := (sender = big), mb_read := 5, mb_write := n\<rparr>)"
      using True w max unfolding run
      by (simp add: reallocate_def assumeSize_def maxSize_def seq_def bind_def modify_run word_less_nat_alt word_le_nat_alt unat_of_nat)
    then show ?thesis using True w by (intro exI [of _ ?buf]) auto
  next
    case False
    have "assumeSizeFromReservedBytes big b = (Inr (), b\<lparr>mb_mine := (sender = big), mb_read := 5, mb_write := n\<rparr>)"
      using False max unfolding run
      by (simp add: reallocate_def assumeSize_def maxSize_def seq_def bind_def modify_run word_less_nat_alt word_le_nat_alt)
    then show ?thesis using False by (intro exI [of _ "mb_buffer b"]) auto
  qed
qed

text \<open>A buffer that holds a packet, of which the five bytes of the header have been read.\<close>

definition holds :: "bool \<Rightarrow> 8 word list \<Rightarrow> message_buffer \<Rightarrow> bool" where
  "holds sender bs b \<longleftrightarrow> unat (mb_write b) = 5 + length bs \<and> take (5 + length bs) (mb_buffer b) = packet sender bs
     \<and> length (mb_buffer b) < 2 ^ 32"

lemma holds_length: "holds sender bs b \<Longrightarrow> 5 + length bs \<le> length (mb_buffer b)"
proof -
  assume "holds sender bs b"
  then have "length (take (5 + length bs) (mb_buffer b)) = length (packet sender bs)" by (simp add: holds_def)
  then show ?thesis by (simp add: packet_def)
qed

lemma holds_sound: "holds sender bs b \<Longrightarrow> mb_read b = 5 \<Longrightarrow> sound b \<and> unread b = bs"
  using holds_length [of sender bs b] by (simp add: holds_def sound_def unread_def written_def packet_def)

lemma again_run:
  assumes "holds sender bs b"
  shows "\<exists>b'. assumeSizeFromReservedBytes big b = (Inr (), b') \<and> holds sender bs b' \<and> mb_read b' = 5 \<and> mb_mine b' = (sender = big)
    \<and> length (mb_buffer b) \<le> length (mb_buffer b')"
proof -
  let ?n = "of_nat (5 + length bs) :: 32 word"
  have len: "5 + length bs \<le> length (mb_buffer b)" "length (mb_buffer b) < 2 ^ 32" "unat (mb_write b) = 5 + length bs"
    using assms holds_length by (auto simp: holds_def)
  then have n: "unat ?n = 5 + length bs" by (intro unat_of_small) simp
  have "mb_buffer b = take (5 + length bs) (mb_buffer b) @ drop (5 + length bs) (mb_buffer b)" by simp
  also have "\<dots> = header sender ?n @ (bs @ drop (5 + length bs) (mb_buffer b))" using assms by (simp add: holds_def packet_def)
  finally have "mb_buffer b = header sender ?n @ (bs @ drop (5 + length bs) (mb_buffer b))" .
  from assumeSize_run [OF this _ _ len(2), of big] obtain buf where
    buf: "assumeSizeFromReservedBytes big b = (Inr (), b\<lparr>mb_buffer := buf, mb_mine := (sender = big), mb_read := 5, mb_write := ?n\<rparr>)"
      "length buf = max (length (mb_buffer b)) (unat ?n)" "take (unat (mb_write b)) buf = take (unat (mb_write b)) (mb_buffer b)"
    using len by (metis le_add1)
  have "holds sender bs (b\<lparr>mb_buffer := buf, mb_mine := (sender = big), mb_read := 5, mb_write := ?n\<rparr>)"
    using assms buf(2,3) len n by (simp add: holds_def)
  then show ?thesis using buf(1,2) by simp
qed

lemma receive_run:
  assumes "standing (cn_buffer s)" "cn_incoming s = packet sender bs @ later" "5 + length bs < 2 ^ 32"
    and parts: "bs = xs @ ys" "consumes (sender = big) m xs v"
  shows "\<exists>s'. receive_with big m s = (Inr v, s') \<and> cn_incoming s' = later \<and> holds sender bs (cn_buffer s') \<and> 255 \<le> length (mb_buffer (cn_buffer s'))"
proof -
  let ?n = "of_nat (5 + length bs) :: 32 word"
  let ?b = "cn_buffer s"
  have L: "255 \<le> length (mb_buffer ?b)" "length (mb_buffer ?b) < 2 ^ 32" using assms(1) by (simp_all add: standing_def)
  have n: "unat ?n = 5 + length bs" using assms(3) by (rule unat_of_small)
  let ?b1 = "?b\<lparr>mb_mine := True, mb_write := 5, mb_read := 5, mb_buffer := header big 5 @ drop 5 (mb_buffer ?b)\<rparr>"
  let ?s1 = "s\<lparr>cn_buffer := ?b1\<rparr>"
  have r1: "on_buffer (reset big) s = (Inr (), ?s1)" using reset_run [OF assms(1)] by (simp add: on_buffer_def on_field_run)
  let ?b2 = "?b1\<lparr>mb_buffer := header sender ?n @ drop 5 (mb_buffer ?b)\<rparr>"
  let ?s2 = "?s1\<lparr>cn_incoming := bs @ later, cn_buffer := ?b2\<rparr>"
  have r2: "socket_receive 0 reservedBytes ?s1 = (Inr (), ?s2)"
    using socket_receive_run [of ?s1 "header sender ?n" "bs @ later" reservedBytes 0] assms(2) L by (simp add: packet_def reservedBytes_def)
  obtain buf where buf: "assumeSizeFromReservedBytes big ?b2 = (Inr (), ?b2\<lparr>mb_buffer := buf, mb_mine := (sender = big), mb_read := 5, mb_write := ?n\<rparr>)"
      "length buf = max (length (mb_buffer ?b2)) (unat ?n)" "take (unat (mb_write ?b2)) buf = take (unat (mb_write ?b2)) (mb_buffer ?b2)"
    using assumeSize_run [of ?b2 sender ?n "drop 5 (mb_buffer ?b)" big] L by auto
  have five: "take 5 buf = header sender ?n" using buf(3) by simp
  have long: "5 + length bs \<le> length buf" "length buf < 2 ^ 32" using buf(2) n L assms(3) by auto
  let ?b3 = "?b2\<lparr>mb_buffer := buf, mb_mine := (sender = big), mb_read := 5, mb_write := ?n\<rparr>"
  let ?s3 = "?s2\<lparr>cn_buffer := ?b3\<rparr>"
  have r3: "on_buffer (assumeSizeFromReservedBytes big) ?s2 = (Inr (), ?s3)" using buf(1) by (simp add: on_buffer_def on_field_run)
  let ?b4 = "?b3\<lparr>mb_buffer := header sender ?n @ bs @ drop (5 + length bs) buf\<rparr>"
  let ?s4 = "?s3\<lparr>cn_incoming := later, cn_buffer := ?b4\<rparr>"
  have "unat (?n - reservedBytes) = length bs"
    using unat_of_small [of "length bs"] assms(3) by (simp add: reservedBytes_def)
  then have r4: "socket_receive reservedBytes (?n - reservedBytes) ?s3 = (Inr (), ?s4)"
    using socket_receive_run [of ?s3 bs later "?n - reservedBytes" reservedBytes] long five by (simp add: reservedBytes_def)
  have hold: "holds sender bs ?b4" using n long by (simp add: holds_def packet_def)
  then have "sound ?b4" "unread ?b4 = xs @ ys" using holds_sound [of sender bs ?b4] parts(1) by simp_all
  moreover have "mb_mine ?b4 = (sender = big)" by simp
  ultimately obtain b5 where b5: "m ?b4 = (Inr v, b5)"
      "mb_write b5 = mb_write ?b4" "mb_buffer b5 = mb_buffer ?b4"
    using parts(2) unfolding consumes_def by blast
  have "holds sender bs b5" using hold b5(2,3) by (simp add: holds_def)
  moreover have "255 \<le> length (mb_buffer b5)" using b5(3) buf(2) L long by simp
  moreover have "receive_with big m s = (Inr v, ?s4\<lparr>cn_buffer := b5\<rparr>)"
    using r1 r2 r3 r4 b5(1) by (simp add: receive_with_def seq_def bind_def gets_run on_buffer_def on_field_run)
  ultimately show ?thesis by (intro exI [of _ "?s4\<lparr>cn_buffer := b5\<rparr>"]) simp
qed

section \<open>Links that carry messages\<close>

text \<open>
  The contract of a kind of messages: the serialisation writes the bytes of a message, the base class reads back what it needs of the first of
  them, and the class for the type of the message all of them.
\<close>

locale message_link =
  fixes create :: "32 word \<Rightarrow> exn + field_format list"
    and kind :: "'m \<Rightarrow> 32 word"
    and generic :: "bool \<Rightarrow> 'm mb_action"
    and ser :: "bool \<Rightarrow> field_format list \<Rightarrow> 'm \<Rightarrow> unit mb_action"
    and special :: "bool \<Rightarrow> field_format list \<Rightarrow> 32 word \<Rightarrow> 'm mb_action"
    and head_bytes :: "bool \<Rightarrow> 'm \<Rightarrow> 8 word list"
    and bytes :: "bool \<Rightarrow> field_format list \<Rightarrow> 'm \<Rightarrow> 8 word list"
    and ok :: "field_format list \<Rightarrow> 'm \<Rightarrow> bool"
    and head :: "'m \<Rightarrow> 'm"
    and received :: "'m \<Rightarrow> 'm"
  assumes created: "ok fs w \<Longrightarrow> create (kind w) = Inr fs"
    and emits_bytes: "ok fs w \<Longrightarrow> emits (ser big fs w) (bytes big fs w)"
    and same_length: "length (bytes big fs w) = length (bytes True fs w)"
    and starts: "\<exists>ys. bytes big fs w = head_bytes big w @ ys"
    and reads_head: "ok fs w \<Longrightarrow> consumes (sender = big) (generic big) (head_bytes sender w) (head w)"
    and kind_head: "kind (head w) = kind w"
    and reads_all: "ok fs w \<Longrightarrow> consumes (sender = big) (special big fs (kind w)) (bytes sender fs w) (received w)"
begin

lemma received_run:
  assumes "standing (cn_buffer s)" "ok fs w" "length (bytes True fs w) + 260 < 2 ^ 32" "cn_incoming s = packet sender (bytes sender fs w) @ later"
  shows "\<exists>s'. factory_receive big (receive_with big (generic big)) kind create (special big) s = (Inr (received w), s') \<and> cn_incoming s' = later \<and> standing (cn_buffer s')"
proof -
  let ?bs = "bytes sender fs w"
  have small: "5 + length ?bs < 2 ^ 32" using assms(3) same_length [of sender fs w] by simp
  obtain ys where "?bs = head_bytes sender w @ ys" using starts by blast
  then obtain s1 where s1: "receive_with big (generic big) s = (Inr (head w), s1)" "cn_incoming s1 = later" "holds sender ?bs (cn_buffer s1)"
      "255 \<le> length (mb_buffer (cn_buffer s1))"
    using receive_run [OF assms(1,4) small _ reads_head [OF assms(2)]] by blast
  obtain b2 where b2: "assumeSizeFromReservedBytes big (cn_buffer s1) = (Inr (), b2)" "holds sender ?bs b2" "mb_read b2 = 5" "mb_mine b2 = (sender = big)"
      "length (mb_buffer (cn_buffer s1)) \<le> length (mb_buffer b2)"
    using again_run [OF s1(3)] by blast
  have "sound b2" "unread b2 = ?bs @ []" using holds_sound [OF b2(2,3)] by simp_all
  then obtain b3 where b3: "special big fs (kind w) b2 = (Inr (received w), b3)" "mb_buffer b3 = mb_buffer b2"
    using reads_all [OF assms(2), of sender big] b2(4) unfolding consumes_def by blast
  have "standing b3" using b3(2) b2(2,5) s1(4) by (simp add: standing_def holds_def)
  then show ?thesis
    using s1(1,2) b2(1) b3(1) created [OF assms(2)] kind_head [of w]
    by (simp add: factory_receive_def catch_run bind_def seq_def lift_sum_run on_buffer_def on_field_run)
qed

lemma arrives:
  assumes "standing b" "standing (cn_buffer s)" "ok fs w" "length (bytes True fs w) + 260 < 2 ^ 32"
  obtains bs b' s' where "send_bytes sender (ser sender fs w) b = (Inr bs, b')" "standing b'"
    "factory_receive big (receive_with big (generic big)) kind create (special big) (s\<lparr>cn_incoming := bs @ later\<rparr>) = (Inr (received w), s')" "cn_incoming s' = later" "standing (cn_buffer s')"
proof -
  let ?bs = "bytes sender fs w"
  have "5 + length ?bs + 255 < 2 ^ 32" using assms(4) same_length [of sender fs w] by simp
  then obtain b' where "send_bytes sender (ser sender fs w) b = (Inr (packet sender ?bs), b')" "standing b'"
    using send_run [OF assms(1) emits_bytes [OF assms(3)]] by blast
  moreover obtain s' where "factory_receive big (receive_with big (generic big)) kind create (special big) (s\<lparr>cn_incoming := packet sender ?bs @ later\<rparr>) = (Inr (received w), s')" "cn_incoming s' = later" "standing (cn_buffer s')"
    using received_run [of "s\<lparr>cn_incoming := packet sender ?bs @ later\<rparr>" fs w sender later big] assms(2-4) by auto
  ultimately show thesis by (rule that)
qed

end

end
