(* ===== verification/FedTime.thy ===== *)
theory FedTime
  imports Prelude Complex_Main "HOL-Library.Log_Nat"
begin

text \<open>
  \<open>libCERTI/FedTimeD.hh\<close> and \<open>libCERTI/FedTime.cc\<close>: the time stamps of the federation.

  A \<open>FedTime\<close> wraps a \<open>double\<close>. A finite \<open>double\<close> is modelled by the rational number it stands
  for, and the result of an arithmetic operation is rounded to 53 significant bits, ties to
  even, as IEEE-754 binary64 does; the exponent range is not bounded, so overflow and
  subnormal numbers are not modelled, and neither are NaN and minus infinity. The comparison
  operators are Knuth's: two times closer than \<open>epsilon\<close> (scaled to the larger of them) are
  equal. They are not transitive; the locale \<open>time_order\<close> below states the laws that the
  clients (\<open>LBTS\<close>, the time-stamp-ordered queue) rely on.
\<close>

section \<open>Binary64 values\<close>

text \<open>The exponent that \<open>frexp\<close> stores: \<open>\<bar>x\<bar> = m * 2 powi e\<close> with \<open>1/2 \<le> m < 1\<close>, and \<open>0\<close> for zero.\<close>

definition frexp_exponent :: "rat \<Rightarrow> int" where
  "frexp_exponent x =
     (if x = 0 then 0
      else let (p, q) = quotient_of \<bar>x\<bar>; e = bitlen p - bitlen q
           in if \<bar>x\<bar> < 2 powi e then e else e + 1)"

definition round_half_even :: "rat \<Rightarrow> int" where
  "round_half_even y =
     (let f = \<lfloor>y\<rfloor>; r = y - of_int f
      in if r < 1 / 2 then f else if r > 1 / 2 then f + 1 else if even f then f else f + 1)"

text \<open>Rounding of an exact result to 53 significant bits.\<close>

definition dround :: "rat \<Rightarrow> rat" where
  "dround x =
     (if x = 0 then 0
      else let s = 53 - frexp_exponent x
           in sgn x * (of_int (round_half_even (\<bar>x\<bar> * 2 powi s)) / 2 powi s))"

lemma bitlen_powi:
  assumes "0 < p"
  shows "2 powi (bitlen p - 1) \<le> (of_int p :: rat)" and "(of_int p :: rat) < 2 powi (bitlen p)"
proof -
  have b: "1 \<le> bitlen p" using assms by (simp add: bitlen_alt_def)
  have "(2::int) ^ nat (bitlen p - 1) \<le> p" "p < 2 ^ nat (bitlen p)"
    using bitlen_bounds [OF assms] by auto
  then have "(of_int (2 ^ nat (bitlen p - 1)) :: rat) \<le> of_int p"
    and "(of_int p :: rat) < of_int (2 ^ nat (bitlen p))"
    by (simp_all only: of_int_le_iff of_int_less_iff)
  then show "2 powi (bitlen p - 1) \<le> (of_int p :: rat)" and "(of_int p :: rat) < 2 powi (bitlen p)"
    using b by (simp_all add: power_int_def)
qed

lemma powi_diff2: "(2::rat) powi (a - b) = 2 powi a / 2 powi b"
  by (simp add: power_int_diff)

lemma frexp_bounds:
  assumes "x \<noteq> 0"
  shows "2 powi (frexp_exponent x - 1) \<le> \<bar>x\<bar>" and "\<bar>x\<bar> < 2 powi (frexp_exponent x)"
proof -
  obtain p q where pq: "quotient_of \<bar>x\<bar> = (p, q)" by fastforce
  have q: "0 < q" using quotient_of_denom_pos [OF pq] .
  have x: "\<bar>x\<bar> = of_int p / of_int q" using quotient_of_div [OF pq] .
  have p: "0 < p" using x q assms by (metis zero_less_abs_iff zero_less_divide_iff of_int_0_less_iff not_less_iff_gr_or_eq)
  let ?e = "bitlen p - bitlen q"
  have up: "\<bar>x\<bar> < 2 powi (?e + 1)"
  proof -
    have "\<bar>x\<bar> \<le> of_int p / 2 powi (bitlen q - 1)"
      unfolding x using bitlen_powi(1) [OF q] p q by (intro divide_left_mono) auto
    also have "\<dots> < 2 powi (bitlen p) / 2 powi (bitlen q - 1)"
      using bitlen_powi(2) [OF p] by (intro divide_strict_right_mono) auto
    also have "\<dots> = 2 powi (?e + 1)"
      by (simp add: powi_diff2 [symmetric] algebra_simps)
    finally show ?thesis .
  qed
  have low: "2 powi (?e - 1) \<le> \<bar>x\<bar>"
  proof -
    have "(2::rat) powi (?e - 1) = 2 powi (bitlen p - 1) / 2 powi (bitlen q)"
      by (simp add: powi_diff2 [symmetric] algebra_simps)
    also have "\<dots> \<le> of_int p / 2 powi (bitlen q)"
      using bitlen_powi(1) [OF p] by (intro divide_right_mono) auto
    also have "\<dots> \<le> \<bar>x\<bar>"
      unfolding x using bitlen_powi(2) [OF q] p q by (intro divide_left_mono) auto
    finally show ?thesis .
  qed
  show "2 powi (frexp_exponent x - 1) \<le> \<bar>x\<bar>" "\<bar>x\<bar> < 2 powi (frexp_exponent x)"
    using up low assms by (auto simp: frexp_exponent_def pq Let_def)
qed

lemma frexp_exponent_abs [simp]: "frexp_exponent (- x) = frexp_exponent x"
  by (simp add: frexp_exponent_def)

lemma frexp_exponent_mono:
  assumes "x \<noteq> 0" and "\<bar>x\<bar> \<le> \<bar>y\<bar>"
  shows "frexp_exponent x \<le> frexp_exponent y"
proof -
  have y: "y \<noteq> 0" using assms by auto
  have "(2::rat) powi (frexp_exponent x - 1) < 2 powi (frexp_exponent y)"
    using frexp_bounds(1) [OF assms(1)] frexp_bounds(2) [OF y] assms(2) by linarith
  then have "\<not> frexp_exponent y \<le> frexp_exponent x - 1"
    using power_int_increasing [of "frexp_exponent y" "frexp_exponent x - 1" "2::rat"] by auto
  then show ?thesis by simp
qed

lemma round_half_even_mono:
  assumes "y \<le> z"
  shows "round_half_even y \<le> round_half_even z"
proof (cases "\<lfloor>y\<rfloor> = \<lfloor>z\<rfloor>")
  case True
  then show ?thesis using assms by (auto simp: round_half_even_def Let_def)
next
  case False
  then have "\<lfloor>y\<rfloor> + 1 \<le> \<lfloor>z\<rfloor>" using floor_mono [OF assms] by linarith
  moreover have "round_half_even y \<le> \<lfloor>y\<rfloor> + 1" and "\<lfloor>z\<rfloor> \<le> round_half_even z"
    by (auto simp: round_half_even_def Let_def)
  ultimately show ?thesis by linarith
qed

lemma round_half_even_int [simp]: "round_half_even (of_int n) = n"
  by (simp add: round_half_even_def)

lemma dround_0 [simp]: "dround 0 = 0"
  by (simp add: dround_def)

lemma dround_minus [simp]: "dround (- x) = - dround x"
  by (simp add: dround_def Let_def sgn_minus)

lemma dround_pos:
  assumes "0 < x"
  shows "dround x = of_int (round_half_even (x * 2 powi (53 - frexp_exponent x))) / 2 powi (53 - frexp_exponent x)"
  using assms by (simp add: dround_def Let_def)

lemma dround_pos_bounds:
  assumes "0 < x"
  shows "2 powi (frexp_exponent x - 1) \<le> dround x" and "dround x \<le> 2 powi (frexp_exponent x)"
proof -
  define s where "s = 53 - frexp_exponent x"
  have pos: "(0::rat) < 2 powi s" by simp
  have b: "2 powi (frexp_exponent x - 1) \<le> x" "x < 2 powi (frexp_exponent x)"
    using frexp_bounds [of x] assms by auto
  have "2 powi (frexp_exponent x - 1) * 2 powi s \<le> x * 2 powi s" "x * 2 powi s \<le> 2 powi (frexp_exponent x) * 2 powi s"
    using b by (intro mult_right_mono; simp)+
  moreover have "2 powi (frexp_exponent x - 1) * 2 powi s = (of_int (2 ^ 52) :: rat)"
    and "2 powi (frexp_exponent x) * 2 powi s = (of_int (2 ^ 53) :: rat)"
    by (simp_all add: s_def power_int_add [symmetric])
  ultimately have "2 ^ 52 \<le> round_half_even (x * 2 powi s)" "round_half_even (x * 2 powi s) \<le> 2 ^ 53"
    using round_half_even_mono [of "of_int (2 ^ 52)" "x * 2 powi s"]
      round_half_even_mono [of "x * 2 powi s" "of_int (2 ^ 53)"] by (simp_all only: round_half_even_int)
  then have "of_int (2 ^ 52) / 2 powi s \<le> dround x" "dround x \<le> of_int (2 ^ 53) / 2 powi s"
    unfolding dround_pos [OF assms] s_def [symmetric] using pos
    by (intro divide_right_mono; simp only: of_int_le_iff; simp)+
  moreover have "of_int (2 ^ 52) / 2 powi s = (2 powi (frexp_exponent x - 1) :: rat)"
    and "of_int (2 ^ 53) / 2 powi s = (2 powi (frexp_exponent x) :: rat)"
    by (simp_all add: s_def powi_diff2)
  ultimately show "2 powi (frexp_exponent x - 1) \<le> dround x" "dround x \<le> 2 powi (frexp_exponent x)"
    by simp_all
qed

lemma dround_positive: "0 < x \<Longrightarrow> 0 < dround x"
  using dround_pos_bounds(1) [of x] by (meson less_le_trans zero_less_numeral zero_less_power_int)

lemma dround_mono_pos:
  assumes "0 < x" and "x \<le> y"
  shows "dround x \<le> dround y"
proof (cases "frexp_exponent x = frexp_exponent y")
  case True
  have "0 < y" using assms by simp
  show ?thesis
    unfolding dround_pos [OF assms(1)] dround_pos [OF \<open>0 < y\<close>] True
    using assms by (intro divide_right_mono) (auto intro: round_half_even_mono mult_right_mono)
next
  case False
  then have "frexp_exponent x \<le> frexp_exponent y - 1"
    using frexp_exponent_mono [of x y] assms by auto
  then have "(2::rat) powi (frexp_exponent x) \<le> 2 powi (frexp_exponent y - 1)"
    by (intro power_int_increasing) auto
  then show ?thesis
    using dround_pos_bounds [of x] dround_pos_bounds [of y] assms by linarith
qed

lemma dround_mono:
  assumes "x \<le> y"
  shows "dround x \<le> dround y"
proof -
  consider "0 < x" | "x \<le> 0" "0 \<le> y" | "y < 0" by linarith
  then show ?thesis
  proof cases
    case 1
    then show ?thesis using assms by (rule dround_mono_pos)
  next
    case 2
    then have "dround x \<le> 0"
      using dround_positive [of "- x"] by (cases "x = 0") auto
    moreover have "0 \<le> dround y"
      using 2 dround_positive [of y] by (cases "y = 0") auto
    ultimately show ?thesis by simp
  next
    case 3
    then show ?thesis using dround_mono_pos [of "- y" "- x"] assms by simp
  qed
qed

lemma dround_nonneg: "0 \<le> x \<Longrightarrow> 0 \<le> dround x"
  using dround_mono [of 0 x] by simp

section \<open>Comparison of doubles\<close>

text \<open>\<open>std::numeric_limits<double>::epsilon()\<close>.\<close>

definition epsilon :: rat where
  "epsilon = 1 / 2 ^ 52"

definition ldexp :: "rat \<Rightarrow> int \<Rightarrow> rat" where
  "ldexp x e = x * 2 powi e"

definition fcmp :: "rat \<Rightarrow> rat \<Rightarrow> rat \<Rightarrow> int" where
  "fcmp x1 x2 eps =
     (let exponent = frexp_exponent (if \<bar>x1\<bar> > \<bar>x2\<bar> then x1 else x2);
          delta = ldexp eps exponent;
          difference = dround (x1 - x2)
      in if difference > delta then 1
         else if difference < - delta then - 1
         else 0)"

lemma epsilon_pos [simp]: "0 < epsilon"
  by (simp add: epsilon_def)

lemma ldexp_epsilon_pos: "0 < ldexp epsilon e"
  by (simp add: ldexp_def)

lemma threshold_swap:
  "0 < (d::rat) \<Longrightarrow> (if - x > d then 1 else if - x < - d then - 1 else (0::int))
     = - (if x > d then 1 else if x < - d then - 1 else 0)"
  by auto

lemma frexp_exponent_eqI: "\<bar>x\<bar> = \<bar>y\<bar> \<Longrightarrow> frexp_exponent x = frexp_exponent y"
  by (auto simp: abs_eq_iff)

lemma fcmp_swap: "fcmp x2 x1 epsilon = - fcmp x1 x2 epsilon"
proof -
  have e: "frexp_exponent (if \<bar>x1\<bar> > \<bar>x2\<bar> then x1 else x2) = frexp_exponent (if \<bar>x2\<bar> > \<bar>x1\<bar> then x2 else x1)"
    by (cases "\<bar>x1\<bar> = \<bar>x2\<bar>") (auto intro: frexp_exponent_eqI)
  have "dround (x2 - x1) = - dround (x1 - x2)"
    using dround_minus [of "x1 - x2"] by simp
  then show ?thesis
    unfolding fcmp_def Let_def e by (simp only: threshold_swap [OF ldexp_epsilon_pos])
qed

lemma fcmp_refl [simp]: "fcmp x x epsilon = 0"
  using fcmp_swap [of x x] by simp

lemma fcmp_neg_iff:
  "fcmp x1 x2 epsilon < 0 \<longleftrightarrow>
     dround (x1 - x2) < - ldexp epsilon (frexp_exponent (if \<bar>x1\<bar> > \<bar>x2\<bar> then x1 else x2))"
proof -
  define d where "d = ldexp epsilon (frexp_exponent (if \<bar>x1\<bar> > \<bar>x2\<bar> then x1 else x2))"
  have "0 < d" by (simp add: d_def ldexp_epsilon_pos)
  then show ?thesis unfolding fcmp_def Let_def d_def [symmetric] by auto
qed

lemma fcmp_neg_imp_less: "fcmp x1 x2 epsilon < 0 \<Longrightarrow> x1 < x2"
proof (rule ccontr)
  assume f: "fcmp x1 x2 epsilon < 0" and "\<not> x1 < x2"
  then have "0 \<le> dround (x1 - x2)" by (intro dround_nonneg) simp
  with f show False
    unfolding fcmp_neg_iff
    using ldexp_epsilon_pos [of "frexp_exponent (if \<bar>x1\<bar> > \<bar>x2\<bar> then x1 else x2)"] by linarith
qed

text \<open>For non-negative times, a smaller first argument stays less.\<close>

lemma fcmp_neg_mono:
  assumes "0 \<le> x" and "x \<le> y" and "fcmp y z epsilon < 0"
  shows "fcmp x z epsilon < 0"
proof -
  have "y < z" using fcmp_neg_imp_less [OF assms(3)] .
  then have e: "\<not> \<bar>y\<bar> > \<bar>z\<bar>" "\<not> \<bar>x\<bar> > \<bar>z\<bar>" using assms by auto
  have "dround (x - z) \<le> dround (y - z)" using assms by (intro dround_mono) simp
  then show ?thesis using assms(3) e unfolding fcmp_neg_iff by (simp only: if_False)
qed

section \<open>FedTime\<close>

datatype fed_time = Fin rat | PInf

text \<open>The exact order of the stored values (the order of \<open>std::less<double>\<close>).\<close>

instantiation fed_time :: linorder
begin

fun less_eq_fed_time :: "fed_time \<Rightarrow> fed_time \<Rightarrow> bool" where
  "less_eq_fed_time _ PInf = True"
| "less_eq_fed_time PInf (Fin _) = False"
| "less_eq_fed_time (Fin a) (Fin b) = (a \<le> b)"

definition less_fed_time :: "fed_time \<Rightarrow> fed_time \<Rightarrow> bool" where
  "less_fed_time a b \<longleftrightarrow> a \<le> b \<and> \<not> b \<le> a"

instance
proof
  fix x y z :: fed_time
  show "x \<le> x" by (cases x) auto
  show "x \<le> y \<Longrightarrow> y \<le> z \<Longrightarrow> x \<le> z" by (cases x; cases y; cases z) auto
  show "x \<le> y \<Longrightarrow> y \<le> x \<Longrightarrow> x = y" by (cases x; cases y) auto
  show "x \<le> y \<or> y \<le> x" by (cases x; cases y) auto
qed (rule less_fed_time_def)

end

lemma less_fed_time_simps [simp]:
  "Fin a < Fin b \<longleftrightarrow> a < b" "Fin a < PInf" "\<not> PInf < t"
  by (cases t; auto simp: less_fed_time_def)+

text \<open>\<open>FedTime::setZero\<close> and \<open>FedTime::isZero\<close>.\<close>

definition ft_zero :: fed_time where
  "ft_zero = Fin 0"

definition ft_isZero :: "fed_time \<Rightarrow> bool" where
  "ft_isZero t \<longleftrightarrow> t = Fin 0"

definition ft_isPositiveInfinity :: "fed_time \<Rightarrow> bool" where
  "ft_isPositiveInfinity t \<longleftrightarrow> t = PInf"

fun ft_le :: "fed_time \<Rightarrow> fed_time \<Rightarrow> bool" where
  "ft_le _ PInf = True"
| "ft_le PInf _ = False"
| "ft_le (Fin a) (Fin b) = (fcmp a b epsilon \<le> 0)"

fun ft_lt :: "fed_time \<Rightarrow> fed_time \<Rightarrow> bool" where
  "ft_lt PInf _ = False"
| "ft_lt (Fin _) PInf = True"
| "ft_lt (Fin a) (Fin b) = (fcmp a b epsilon < 0)"

fun ft_ge :: "fed_time \<Rightarrow> fed_time \<Rightarrow> bool" where
  "ft_ge PInf _ = True"
| "ft_ge (Fin _) PInf = False"
| "ft_ge (Fin a) (Fin b) = (fcmp a b epsilon \<ge> 0)"

fun ft_gt :: "fed_time \<Rightarrow> fed_time \<Rightarrow> bool" where
  "ft_gt _ PInf = False"
| "ft_gt PInf (Fin _) = True"
| "ft_gt (Fin a) (Fin b) = (fcmp a b epsilon > 0)"

fun ft_eq :: "fed_time \<Rightarrow> fed_time \<Rightarrow> bool" where
  "ft_eq PInf PInf = True"
| "ft_eq PInf (Fin _) = False"
| "ft_eq (Fin _) PInf = False"
| "ft_eq (Fin a) (Fin b) = (fcmp a b epsilon = 0)"

text \<open>\<open>FedTime::operator== (const double&)\<close>.\<close>

fun ft_eq_double :: "fed_time \<Rightarrow> rat \<Rightarrow> bool" where
  "ft_eq_double PInf _ = False"
| "ft_eq_double (Fin a) d = (fcmp a d epsilon = 0)"

text \<open>\<open>operator+\<close> and \<open>operator+=\<close>.\<close>

fun ft_add :: "fed_time \<Rightarrow> fed_time \<Rightarrow> fed_time" where
  "ft_add (Fin a) (Fin b) = Fin (dround (a + b))"
| "ft_add PInf _ = PInf"
| "ft_add (Fin _) PInf = PInf"

lemma fcmp_swap_cmp:
  "fcmp a b epsilon \<le> 0 \<longleftrightarrow> \<not> fcmp b a epsilon < 0" "fcmp a b epsilon > 0 \<longleftrightarrow> fcmp b a epsilon < 0"
  using fcmp_swap [of b a] by auto

lemma ft_le_iff: "ft_le a b \<longleftrightarrow> \<not> ft_lt b a"
  by (cases a; cases b; simp add: fcmp_swap_cmp)

lemma ft_gt_iff: "ft_gt a b \<longleftrightarrow> ft_lt b a"
  by (cases a; cases b; simp add: fcmp_swap_cmp)

lemma ft_ge_iff: "ft_ge a b \<longleftrightarrow> \<not> ft_lt a b"
  by (cases a; cases b) auto

lemma ft_lt_irrefl: "\<not> ft_lt a a"
  by (cases a) auto

lemma ft_lt_imp_less: "ft_lt a b \<Longrightarrow> a < b"
  by (cases a; cases b; simp add: fcmp_neg_imp_less)

lemma ft_lt_mono: "Fin 0 \<le> a \<Longrightarrow> a \<le> b \<Longrightarrow> ft_lt b c \<Longrightarrow> ft_lt a c"
  by (cases a; cases b; cases c; simp add: fcmp_neg_mono)

lemma ft_le_refl: "ft_le a a"
  by (simp add: ft_le_iff ft_lt_irrefl)

lemma ft_add_mono: "a \<le> b \<Longrightarrow> ft_add a c \<le> ft_add b c"
  by (cases a; cases b; cases c) (auto intro: dround_mono)

lemma fcmp_zero_pos: "0 < x \<Longrightarrow> fcmp x 0 epsilon = 1"
proof -
  assume "0 < x"
  then have "2 powi (frexp_exponent x - 1) \<le> dround x" by (rule dround_pos_bounds)
  moreover have "ldexp epsilon (frexp_exponent x) < 2 powi (frexp_exponent x - 1)"
    by (simp add: ldexp_def epsilon_def power_int_diff)
  ultimately show ?thesis using \<open>0 < x\<close> by (simp add: fcmp_def Let_def)
qed

lemma fcmp_zero_neg: "x < 0 \<Longrightarrow> fcmp x 0 epsilon = - 1"
proof -
  assume x: "x < 0"
  then have "fcmp (- x) 0 epsilon = 1" by (simp add: fcmp_zero_pos)
  with x show ?thesis
    using ldexp_epsilon_pos [of "frexp_exponent x"]
    by (auto simp: fcmp_def Let_def split: if_splits)
qed

lemma ft_eq_double_zero: "ft_eq_double (Fin a) 0 \<longleftrightarrow> a = 0"
proof (cases a "0::rat" rule: linorder_cases)
  case less
  then show ?thesis by (simp add: fcmp_zero_neg)
next
  case greater
  then show ?thesis by (simp add: fcmp_zero_pos)
qed simp

section \<open>The laws of the comparison operators\<close>

text \<open>
  What a client may assume of the tolerant \<open>operator<\<close>: it is irreflexive, it implies the exact
  order, and lowering its left argument keeps it true for non-negative times. Raising its
  right argument does not: the tolerance grows with it.
\<close>

locale time_order =
  fixes lt :: "'t::linorder \<Rightarrow> 't \<Rightarrow> bool" and zero :: 't
  assumes lt_irrefl: "\<not> lt a a"
    and lt_imp_less: "lt a b \<Longrightarrow> a < b"
    and lt_mono: "zero \<le> a \<Longrightarrow> a \<le> b \<Longrightarrow> lt b c \<Longrightarrow> lt a c"
begin

lemma lt_trans: "zero \<le> a \<Longrightarrow> lt a b \<Longrightarrow> lt b c \<Longrightarrow> lt a c"
  by (meson lt_imp_less lt_mono less_imp_le)

lemma lt_asym: "lt a b \<Longrightarrow> \<not> lt b a"
  by (meson lt_imp_less less_asym)

lemma not_lt_mono: "zero \<le> a \<Longrightarrow> a \<le> b \<Longrightarrow> \<not> lt a c \<Longrightarrow> \<not> lt b c"
  using lt_mono by blast

end

interpretation ft: time_order ft_lt "Fin 0"
  by unfold_locales (auto simp: ft_lt_irrefl ft_lt_imp_less intro: ft_lt_mono)

end
