(* ===== verification/Messages.thy ===== *)
theory Messages
  imports FedTime
begin

text \<open>
  \<open>libCERTI/NetworkMessage.hh\<close>, \<open>libCERTI/BasicMessage.hh\<close>, \<open>libCERTI/NM_Classes.hh\<close> and
  \<open>libCERTI/MessageEvent.hh\<close>: the network messages the components exchange.

  A message is a record of the fields of \<open>BasicMessage\<close> and \<open>NetworkMessage\<close>, with the fields a
  subclass adds as a value of \<open>msg_body\<close>. The message names and the exception reasons are texts
  for people and are left out. A socket is its descriptor; \<open>Socket*\<close> is \<open>socket option\<close>.
\<close>

text \<open>
  The members of \<open>NetworkMessage::Type\<close> that the modelled components build or inspect, in two parts:
  the types of the requests of a federate that the RTIG answers with a message of the same type, or
  handles without building one, are in \<open>service\<close>.
\<close>

datatype (plugins only: code) service =
    UPDATE_ATTRIBUTE_VALUES | SEND_INTERACTION | DESTROY_FEDERATION_EXECUTION
  | REGISTER_FEDERATION_SYNCHRONIZATION_POINT | SYNCHRONIZATION_POINT_ACHIEVED
  | REQUEST_FEDERATION_SAVE | FEDERATE_SAVE_BEGUN | FEDERATE_SAVE_COMPLETE | FEDERATE_SAVE_NOT_COMPLETE
  | REQUEST_FEDERATION_RESTORE | FEDERATE_RESTORE_COMPLETE | FEDERATE_RESTORE_NOT_COMPLETE
  | REQUEST_OBJECT_ATTRIBUTE_VALUE_UPDATE | REQUEST_CLASS_ATTRIBUTE_VALUE_UPDATE
  | PUBLISH_OBJECT_CLASS | UNPUBLISH_OBJECT_CLASS | PUBLISH_INTERACTION_CLASS | UNPUBLISH_INTERACTION_CLASS
  | SUBSCRIBE_OBJECT_CLASS | UNSUBSCRIBE_OBJECT_CLASS | SUBSCRIBE_INTERACTION_CLASS | UNSUBSCRIBE_INTERACTION_CLASS
  | SET_CLASS_RELEVANCE_ADVISORY_SWITCH | SET_INTERACTION_RELEVANCE_ADVISORY_SWITCH
  | SET_ATTRIBUTE_RELEVANCE_ADVISORY_SWITCH | SET_ATTRIBUTE_SCOPE_ADVISORY_SWITCH
  | RESERVE_OBJECT_INSTANCE_NAME | REGISTER_OBJECT | DELETE_OBJECT
  | IS_ATTRIBUTE_OWNED_BY_FEDERATE | QUERY_ATTRIBUTE_OWNERSHIP
  | NEGOTIATED_ATTRIBUTE_OWNERSHIP_DIVESTITURE | CANCEL_NEGOTIATED_ATTRIBUTE_OWNERSHIP_DIVESTITURE
  | ATTRIBUTE_OWNERSHIP_ACQUISITION_IF_AVAILABLE | ATTRIBUTE_OWNERSHIP_ACQUISITION
  | ATTRIBUTE_OWNERSHIP_RELEASE_RESPONSE | CANCEL_ATTRIBUTE_OWNERSHIP_ACQUISITION
  | DDM_CREATE_REGION | DDM_MODIFY_REGION | DDM_DELETE_REGION | DDM_REGISTER_OBJECT
  | DDM_ASSOCIATE_REGION | DDM_UNASSOCIATE_REGION
  | DDM_SUBSCRIBE_ATTRIBUTES | DDM_UNSUBSCRIBE_ATTRIBUTES
  | DDM_SUBSCRIBE_INTERACTION | DDM_UNSUBSCRIBE_INTERACTION
  | ENABLE_ASYNCHRONOUS_DELIVERY | DISABLE_ASYNCHRONOUS_DELIVERY | CLOSE_CONNEXION

datatype (plugins only: code) nm_type =
    Service service
  | MESSAGE_NULL | MESSAGE_NULL_PRIME | CREATE_FEDERATION_EXECUTION | JOIN_FEDERATION_EXECUTION
  | ADDITIONAL_FOM_MODULE | RESIGN_FEDERATION_EXECUTION
  | SET_TIME_REGULATING | SET_TIME_CONSTRAINED | TIME_REGULATION_ENABLED | TIME_CONSTRAINED_ENABLED
  | CONFIRM_SYNCHRONIZATION_POINT_REGISTRATION | ANNOUNCE_SYNCHRONIZATION_POINT | FEDERATION_SYNCHRONIZED
  | INITIATE_FEDERATE_SAVE | FEDERATION_SAVED | FEDERATION_NOT_SAVED
  | REQUEST_FEDERATION_RESTORE_SUCCEEDED | REQUEST_FEDERATION_RESTORE_FAILED | FEDERATION_RESTORE_BEGUN
  | INITIATE_FEDERATE_RESTORE | FEDERATION_RESTORED | FEDERATION_NOT_RESTORED
  | DISCOVER_OBJECT | REFLECT_ATTRIBUTE_VALUES | RECEIVE_INTERACTION | REMOVE_OBJECT
  | PROVIDE_ATTRIBUTE_VALUE_UPDATE
  | ATTRIBUTE_IS_NOT_OWNED | INFORM_ATTRIBUTE_OWNERSHIP
  | ATTRIBUTE_OWNERSHIP_ACQUISITION_NOTIFICATION | ATTRIBUTE_OWNERSHIP_DIVESTITURE_NOTIFICATION
  | REQUEST_ATTRIBUTE_OWNERSHIP_ASSUMPTION | ATTRIBUTE_OWNERSHIP_UNAVAILABLE
  | UNCONDITIONAL_ATTRIBUTE_OWNERSHIP_DIVESTITURE | REQUEST_ATTRIBUTE_OWNERSHIP_RELEASE
  | CONFIRM_ATTRIBUTE_OWNERSHIP_ACQUISITION_CANCELLATION
  | START_REGISTRATION_FOR_OBJECT_CLASS
  | RESERVE_OBJECT_INSTANCE_NAME_SUCCEEDED | RESERVE_OBJECT_INSTANCE_NAME_FAILED
  | TIME_STATE_UPDATE | MOM_STATUS
  | TIME_ADVANCE_REQUEST | TIME_ADVANCE_REQUEST_AVAILABLE | NEXT_MESSAGE_REQUEST | NEXT_MESSAGE_REQUEST_AVAILABLE
  | CHANGE_ATTRIBUTE_TRANSPORT_TYPE | CHANGE_ATTRIBUTE_ORDER_TYPE
  | CHANGE_INTERACTION_TRANSPORT_TYPE | CHANGE_INTERACTION_ORDER_TYPE

type_synonym attribute_value = "8 word list"

datatype rti_version = HLA_1_3 | IEEE_1516_2000 | IEEE_1516_2010

text \<open>
  The federation object model as it travels to the RTIAs: \<open>NM_FOM_Routing_Space\<close>, whose dimensions are pairs of
  handle and name, \<open>NM_FOM_Attribute\<close>, \<open>NM_FOM_Object_Class\<close> and \<open>NM_FOM_Interaction_Class\<close>, whose
  parameters are pairs of handle and name.
\<close>

record fom_space =
  fs_handle :: space_handle
  fs_name :: string
  fs_dimensions :: "(handle \<times> string) list"

record fom_attribute =
  fa_handle :: attribute_handle
  fa_name :: string
  fa_space :: space_handle
  fa_order :: "32 word"
  fa_transport :: "32 word"

record fom_class =
  fc_handle :: object_class_handle
  fc_super :: object_class_handle
  fc_name :: string
  fc_attributes :: "fom_attribute list"

record fom_interaction =
  fi_handle :: handle
  fi_super :: handle
  fi_name :: string
  fi_space :: space_handle
  fi_order :: "32 word"
  fi_transport :: "32 word"
  fi_parameters :: "(handle \<times> string) list"

record fom =
  fom_spaces :: "fom_space list"
  fom_classes :: "fom_class list"
  fom_interactions :: "fom_interaction list"

text \<open>The fields that the message classes add, for the classes that the development builds or reads.\<close>

datatype msg_body =
    NoBody
  | Regulator bool
  | Constrained bool
  | ObjectClassOf object_class_handle
  | ObjectOf object_handle
  | ObjectAndClass object_handle object_class_handle
  | AttributeOf object_handle attribute_handle
  | AttributesOf object_handle "attribute_handle list"
  | ValuesOf object_handle "attribute_handle list" "attribute_value list"
  | ObjectNameOf string
  | InteractionOf handle
  | InteractionRegionOf handle handle
  | ParametersOf handle "handle list" "attribute_value list" handle
  | ClassAttributesOf object_class_handle "attribute_handle list" handle
  | RegistrationOf object_class_handle object_handle string
  | ObjectRegionOf object_handle "attribute_handle list" handle
  | RegionOf handle
  | ExtentsOf handle "(32 word \<times> 32 word) list list"
  | SpaceOf handle nat
  | Switch bool
  | FederatesOf bool "federate_handle list"
  | Success bool
  | FederationNameOf string
  | CreationOf string "string list" string rti_version
  | JoinRequest string string string "string list" rti_version "32 word" "32 word"
  | TimeState fed_time bool fed_time fed_time
  | JoinReply string nat "32 word" "32 word" fom
  | FomModule fom
  | RegionRegistrationOf object_class_handle "attribute_handle list" handle "handle list"
  | ChangeOf handle "handle list" "32 word"
  | MomStatus bool "32 word"

record network_message =
  nm_kind :: nm_type
  nm_exception :: "exn option"
  nm_federation :: handle
  nm_federate :: federate_handle
  nm_isDated :: bool
  nm_date :: fed_time
  nm_isLabelled :: bool
  nm_label :: string
  nm_isTagged :: bool
  nm_tag :: string
  nm_body :: msg_body

text \<open>The constructors \<open>NetworkMessage()\<close> and \<open>BasicMessage()\<close>, with the type a subclass sets.\<close>

definition new_message :: "nm_type \<Rightarrow> msg_body \<Rightarrow> network_message" where
  "new_message k b =
     \<lparr>nm_kind = k, nm_exception = None, nm_federation = 0, nm_federate = 0, nm_isDated = False, nm_date = Fin 0,
      nm_isLabelled = False, nm_label = [], nm_isTagged = False, nm_tag = [], nm_body = b\<rparr>"

definition setFederation :: "handle \<Rightarrow> network_message \<Rightarrow> network_message" where
  "setFederation h m = m\<lparr>nm_federation := h\<rparr>"

definition setFederate :: "federate_handle \<Rightarrow> network_message \<Rightarrow> network_message" where
  "setFederate h m = m\<lparr>nm_federate := h\<rparr>"

definition setException :: "exn \<Rightarrow> network_message \<Rightarrow> network_message" where
  "setException e m = m\<lparr>nm_exception := Some e\<rparr>"

definition setDate :: "fed_time \<Rightarrow> network_message \<Rightarrow> network_message" where
  "setDate t m = m\<lparr>nm_isDated := True, nm_date := t\<rparr>"

definition setLabel :: "string \<Rightarrow> network_message \<Rightarrow> network_message" where
  "setLabel l m = m\<lparr>nm_isLabelled := True, nm_label := l\<rparr>"

definition setTag :: "string \<Rightarrow> network_message \<Rightarrow> network_message" where
  "setTag l m = m\<lparr>nm_isTagged := True, nm_tag := l\<rparr>"

lemmas message_defs = new_message_def setFederation_def setFederate_def setException_def setDate_def setLabel_def setTag_def

section \<open>MessageEvent\<close>

type_synonym socket = nat

text \<open>
  A message to be sent on some sockets. \<open>std::unique_ptr\<close> is an \<open>option\<close>: the move constructor
  swaps the pointer, so an event that has been moved from keeps its sockets and has no message.
\<close>

record message_event =
  ev_sockets :: "socket option list"
  ev_message :: "network_message option"

type_synonym responses = "message_event list"

definition event :: "socket option list \<Rightarrow> network_message \<Rightarrow> message_event" where
  "event ss m = \<lparr>ev_sockets = ss, ev_message = Some m\<rparr>"

text \<open>
  What \<open>responses.insert(end(responses), make_move_iterator(begin(r)), make_move_iterator(end(r)))\<close>
  leaves in \<open>r\<close>.
\<close>

definition moved_from :: "responses \<Rightarrow> responses" where
  "moved_from rs = map (\<lambda>e. e\<lparr>ev_message := None\<rparr>) rs"

text \<open>\<open>NetworkMessage::send\<close> passes over null sockets.\<close>

definition transmit :: "socket option list \<Rightarrow> network_message \<Rightarrow> (socket \<times> network_message) list" where
  "transmit ss m = map (\<lambda>l. (l, m)) (List.map_filter id ss)"

text \<open>Sending an event calls a member function of its message: every message must be there.\<close>

definition sendable :: "responses \<Rightarrow> bool" where
  "sendable rs \<longleftrightarrow> (\<forall>e \<in> set rs. ev_message e \<noteq> None)"

lemma sendable_simps [simp]:
  "sendable []" "sendable (e # rs) \<longleftrightarrow> ev_message e \<noteq> None \<and> sendable rs"
  "sendable (rs @ rs') \<longleftrightarrow> sendable rs \<and> sendable rs'"
  by (auto simp: sendable_def)

end
