(* ===== verification/NetworkFormats.thy ===== *)
theory NetworkFormats
  imports FieldFormats Messages
begin

text \<open>
  \<open>libCERTI/NM_Classes.cc\<close>: the classes of the network messages as the lists of the formats of their fields.
\<close>

section \<open>The object model\<close>

definition NM_FOM_Dimension :: "field_format list" where
  "NM_FOM_Dimension = [FU32, FString]"

definition NM_FOM_Routing_Space :: "field_format list" where
  "NM_FOM_Routing_Space = [FU32, FString, FVector NM_FOM_Dimension]"

definition NM_FOM_Attribute :: "field_format list" where
  "NM_FOM_Attribute = [FU32, FString, FU32, FU8, FU8]"

definition NM_FOM_Object_Class :: "field_format list" where
  "NM_FOM_Object_Class = [FU32, FU32, FString, FVector NM_FOM_Attribute]"

definition NM_FOM_Parameter :: "field_format list" where
  "NM_FOM_Parameter = [FU32, FString]"

definition NM_FOM_Interaction_Class :: "field_format list" where
  "NM_FOM_Interaction_Class = [FU32, FString, FU32, FU32, FU8, FU8, FVector NM_FOM_Parameter]"

section \<open>The message classes\<close>

definition NM_Create_Federation_Execution :: "field_format list" where
  "NM_Create_Federation_Execution = [FString, FU8, FVector [FString], FOptional [FString]]"

definition NM_Destroy_Federation_Execution :: "field_format list" where
  "NM_Destroy_Federation_Execution = [FString]"

definition NM_Join_Federation_Execution :: "field_format list" where
  "NM_Join_Federation_Execution =
     [FU32, FU32, FU32, FU32, FString, FOptional [FString], FU8, FString, FVector [FString], FVector NM_FOM_Routing_Space,
      FVector NM_FOM_Object_Class, FVector NM_FOM_Interaction_Class]"

definition NM_Additional_Fom_Module :: "field_format list" where
  "NM_Additional_Fom_Module = [FVector NM_FOM_Routing_Space, FVector NM_FOM_Object_Class, FVector NM_FOM_Interaction_Class]"

definition NM_Set_Time_Regulating :: "field_format list" where
  "NM_Set_Time_Regulating = [FBool]"

definition NM_Set_Time_Constrained :: "field_format list" where
  "NM_Set_Time_Constrained = [FBool]"

definition NM_Set_Class_Relevance_Advisory_Switch :: "field_format list" where
  "NM_Set_Class_Relevance_Advisory_Switch = [FBool]"

definition NM_Set_Interaction_Relevance_Advisory_Switch :: "field_format list" where
  "NM_Set_Interaction_Relevance_Advisory_Switch = [FBool]"

definition NM_Set_Attribute_Relevance_Advisory_Switch :: "field_format list" where
  "NM_Set_Attribute_Relevance_Advisory_Switch = [FBool]"

definition NM_Set_Attribute_Scope_Advisory_Switch :: "field_format list" where
  "NM_Set_Attribute_Scope_Advisory_Switch = [FBool]"

definition NM_Register_Federation_Synchronization_Point :: "field_format list" where
  "NM_Register_Federation_Synchronization_Point = [FBool, FHandles]"

definition NM_Confirm_Synchronization_Point_Registration :: "field_format list" where
  "NM_Confirm_Synchronization_Point_Registration = [FBool, FOptional [FString]]"

definition NM_Publish_Object_Class :: "field_format list" where
  "NM_Publish_Object_Class = [FU32, FHandles]"

definition NM_Publish_Interaction_Class :: "field_format list" where
  "NM_Publish_Interaction_Class = [FU32]"

definition NM_Subscribe_Object_Class :: "field_format list" where
  "NM_Subscribe_Object_Class = [FU32, FHandles]"

definition NM_Register_Object :: "field_format list" where
  "NM_Register_Object = [FU32, FOptional [FString], FU32]"

definition NM_Discover_Object :: "field_format list" where
  "NM_Discover_Object = [FU32, FU32]"

text \<open>The retraction handle of an event is not serialised, only whether it is there.\<close>

definition NM_Update_Attribute_Values :: "field_format list" where
  "NM_Update_Attribute_Values = [FU32, FHandles, FVector [FBytes], FBool]"

definition NM_Reflect_Attribute_Values :: "field_format list" where
  "NM_Reflect_Attribute_Values = [FU32, FHandles, FVector [FBytes], FBool]"

definition NM_Send_Interaction :: "field_format list" where
  "NM_Send_Interaction = [FU32, FHandles, FVector [FBytes], FU32]"

definition NM_Receive_Interaction :: "field_format list" where
  "NM_Receive_Interaction = [FU32, FHandles, FVector [FBytes], FBool]"

definition NM_Delete_Object :: "field_format list" where
  "NM_Delete_Object = [FU32, FBool]"

definition NM_Remove_Object :: "field_format list" where
  "NM_Remove_Object = [FU32, FU32, FBool]"

definition NM_Change_Attribute_Transport_Type :: "field_format list" where
  "NM_Change_Attribute_Transport_Type = [FU32, FHandles, FU8]"

definition NM_Change_Attribute_Order_Type :: "field_format list" where
  "NM_Change_Attribute_Order_Type = [FU32, FHandles, FU8]"

definition NM_Change_Interaction_Transport_Type :: "field_format list" where
  "NM_Change_Interaction_Transport_Type = [FU32, FU8]"

definition NM_Change_Interaction_Order_Type :: "field_format list" where
  "NM_Change_Interaction_Order_Type = [FU32, FU8]"

definition NM_Request_Class_Attribute_Value_Update :: "field_format list" where
  "NM_Request_Class_Attribute_Value_Update = [FU32, FHandles]"

definition NM_Request_Object_Attribute_Value_Update :: "field_format list" where
  "NM_Request_Object_Attribute_Value_Update = [FU32, FHandles]"

definition NM_Is_Attribute_Owned_By_Federate :: "field_format list" where
  "NM_Is_Attribute_Owned_By_Federate = [FU32, FU32]"

definition NM_Query_Attribute_Ownership :: "field_format list" where
  "NM_Query_Attribute_Ownership = [FU32, FU32]"

definition NM_Attribute_Is_Not_Owned :: "field_format list" where
  "NM_Attribute_Is_Not_Owned = [FU32, FU32]"

definition NM_Inform_Attribute_Ownership :: "field_format list" where
  "NM_Inform_Attribute_Ownership = [FU32, FU32]"

definition NM_Attribute_Ownership_Base :: "field_format list" where
  "NM_Attribute_Ownership_Base = [FU32, FHandles]"

definition NM_DDM_Create_Region :: "field_format list" where
  "NM_DDM_Create_Region = [FHandles, FBool, FU32, FU32, FU32]"

definition NM_DDM_Modify_Region :: "field_format list" where
  "NM_DDM_Modify_Region = [FHandles, FBool, FU32]"

definition NM_DDM_Delete_Region :: "field_format list" where
  "NM_DDM_Delete_Region = [FU32]"

definition NM_DDM_Associate_Region :: "field_format list" where
  "NM_DDM_Associate_Region = [FHandles, FBool, FU32, FU32]"

definition NM_DDM_Unassociate_Region :: "field_format list" where
  "NM_DDM_Unassociate_Region = [FHandles, FU32, FU32, FBool]"

definition NM_DDM_Register_Object :: "field_format list" where
  "NM_DDM_Register_Object = [FU32, FHandles, FU32, FOptional [FString], FU32, FBool]"

definition NM_DDM_Subscribe_Attributes :: "field_format list" where
  "NM_DDM_Subscribe_Attributes = [FU32, FU32, FHandles, FBool]"

definition NM_DDM_Unsubscribe_Attributes :: "field_format list" where
  "NM_DDM_Unsubscribe_Attributes = [FU32, FU32, FHandles, FBool]"

definition NM_DDM_Subscribe_Interaction :: "field_format list" where
  "NM_DDM_Subscribe_Interaction = [FU32, FU32, FBool]"

definition NM_Start_Registration_For_Object_Class :: "field_format list" where
  "NM_Start_Registration_For_Object_Class = [FU32]"

definition NM_Stop_Registration_For_Object_Class :: "field_format list" where
  "NM_Stop_Registration_For_Object_Class = [FU32]"

definition NM_Reserve_Object_Instance_Name :: "field_format list" where
  "NM_Reserve_Object_Instance_Name = [FString]"

definition NM_Mom_Status :: "field_format list" where
  "NM_Mom_Status = [FBool, FU32]"

definition NM_Time_State_Update :: "field_format list" where
  "NM_Time_State_Update = [FU64, FBool, FU64, FU64]"

end
