(* ===== verification/NetworkWire.thy ===== *)
theory NetworkWire
  imports NetworkFormats Wire
begin

text \<open>
  \<open>libCERTI/NetworkMessage_RW.cc\<close> and \<open>NM_Factory\<close> of \<open>libCERTI/NM_Classes.cc\<close>: a network message as it is sent and received on a
  connection.
\<close>

section \<open>Types of messages\<close>

text \<open>The members of \<open>NetworkMessage::Type\<close>; \<open>Of\<close> are those that \<open>nm_type\<close> has. A member is sent as its place in this list.\<close>

datatype wire_type =
    NOT_USED | Of nm_type | TURN_INTERACTIONS_ON | TURN_INTERACTIONS_OFF | ATTRIBUTE_OWNERSHIP_BASE
  | STOP_REGISTRATION_FOR_OBJECT_CLASS | LAST

definition wire_types :: "wire_type list" where
  "wire_types =
   [NOT_USED, Of (Service CLOSE_CONNEXION), Of MESSAGE_NULL, Of CREATE_FEDERATION_EXECUTION,
    Of (Service DESTROY_FEDERATION_EXECUTION), Of JOIN_FEDERATION_EXECUTION, Of ADDITIONAL_FOM_MODULE,
    Of RESIGN_FEDERATION_EXECUTION, Of SET_TIME_REGULATING, Of SET_TIME_CONSTRAINED, Of TIME_REGULATION_ENABLED,
    Of TIME_CONSTRAINED_ENABLED, Of (Service REGISTER_FEDERATION_SYNCHRONIZATION_POINT),
    Of CONFIRM_SYNCHRONIZATION_POINT_REGISTRATION, Of ANNOUNCE_SYNCHRONIZATION_POINT,
    Of (Service SYNCHRONIZATION_POINT_ACHIEVED), Of FEDERATION_SYNCHRONIZED, Of (Service REQUEST_FEDERATION_SAVE),
    Of (Service FEDERATE_SAVE_BEGUN), Of (Service FEDERATE_SAVE_COMPLETE), Of (Service FEDERATE_SAVE_NOT_COMPLETE),
    Of INITIATE_FEDERATE_SAVE, Of FEDERATION_SAVED, Of FEDERATION_NOT_SAVED, Of (Service REQUEST_FEDERATION_RESTORE),
    Of (Service FEDERATE_RESTORE_COMPLETE), Of (Service FEDERATE_RESTORE_NOT_COMPLETE),
    Of REQUEST_FEDERATION_RESTORE_SUCCEEDED, Of REQUEST_FEDERATION_RESTORE_FAILED, Of FEDERATION_RESTORE_BEGUN,
    Of INITIATE_FEDERATE_RESTORE, Of FEDERATION_RESTORED, Of FEDERATION_NOT_RESTORED, Of (Service PUBLISH_OBJECT_CLASS),
    Of (Service UNPUBLISH_OBJECT_CLASS), Of (Service PUBLISH_INTERACTION_CLASS), Of (Service UNPUBLISH_INTERACTION_CLASS),
    Of (Service SUBSCRIBE_OBJECT_CLASS), Of (Service UNSUBSCRIBE_OBJECT_CLASS), Of (Service SUBSCRIBE_INTERACTION_CLASS),
    Of (Service UNSUBSCRIBE_INTERACTION_CLASS), TURN_INTERACTIONS_ON, TURN_INTERACTIONS_OFF, Of (Service REGISTER_OBJECT),
    Of DISCOVER_OBJECT, Of (Service UPDATE_ATTRIBUTE_VALUES), Of REFLECT_ATTRIBUTE_VALUES, Of (Service SEND_INTERACTION),
    Of RECEIVE_INTERACTION, Of (Service DELETE_OBJECT), Of REMOVE_OBJECT, Of CHANGE_ATTRIBUTE_TRANSPORT_TYPE,
    Of CHANGE_ATTRIBUTE_ORDER_TYPE, Of CHANGE_INTERACTION_TRANSPORT_TYPE, Of CHANGE_INTERACTION_ORDER_TYPE,
    Of (Service REQUEST_CLASS_ATTRIBUTE_VALUE_UPDATE), Of (Service REQUEST_OBJECT_ATTRIBUTE_VALUE_UPDATE),
    Of (Service IS_ATTRIBUTE_OWNED_BY_FEDERATE), Of (Service QUERY_ATTRIBUTE_OWNERSHIP), Of ATTRIBUTE_IS_NOT_OWNED,
    Of INFORM_ATTRIBUTE_OWNERSHIP, ATTRIBUTE_OWNERSHIP_BASE, Of (Service NEGOTIATED_ATTRIBUTE_OWNERSHIP_DIVESTITURE),
    Of ATTRIBUTE_OWNERSHIP_ACQUISITION_NOTIFICATION, Of ATTRIBUTE_OWNERSHIP_DIVESTITURE_NOTIFICATION,
    Of REQUEST_ATTRIBUTE_OWNERSHIP_ASSUMPTION, Of ATTRIBUTE_OWNERSHIP_UNAVAILABLE,
    Of (Service ATTRIBUTE_OWNERSHIP_ACQUISITION_IF_AVAILABLE), Of UNCONDITIONAL_ATTRIBUTE_OWNERSHIP_DIVESTITURE,
    Of (Service ATTRIBUTE_OWNERSHIP_ACQUISITION), Of REQUEST_ATTRIBUTE_OWNERSHIP_RELEASE,
    Of (Service CANCEL_NEGOTIATED_ATTRIBUTE_OWNERSHIP_DIVESTITURE), Of (Service ATTRIBUTE_OWNERSHIP_RELEASE_RESPONSE),
    Of (Service CANCEL_ATTRIBUTE_OWNERSHIP_ACQUISITION), Of CONFIRM_ATTRIBUTE_OWNERSHIP_ACQUISITION_CANCELLATION,
    Of (Service DDM_CREATE_REGION), Of (Service DDM_MODIFY_REGION), Of (Service DDM_DELETE_REGION),
    Of (Service DDM_ASSOCIATE_REGION), Of (Service DDM_REGISTER_OBJECT), Of (Service DDM_UNASSOCIATE_REGION),
    Of (Service DDM_SUBSCRIBE_ATTRIBUTES), Of (Service DDM_UNSUBSCRIBE_ATTRIBUTES), Of (Service DDM_SUBSCRIBE_INTERACTION),
    Of (Service DDM_UNSUBSCRIBE_INTERACTION), Of PROVIDE_ATTRIBUTE_VALUE_UPDATE,
    Of (Service SET_CLASS_RELEVANCE_ADVISORY_SWITCH), Of (Service SET_INTERACTION_RELEVANCE_ADVISORY_SWITCH),
    Of (Service SET_ATTRIBUTE_RELEVANCE_ADVISORY_SWITCH), Of (Service SET_ATTRIBUTE_SCOPE_ADVISORY_SWITCH),
    Of START_REGISTRATION_FOR_OBJECT_CLASS, STOP_REGISTRATION_FOR_OBJECT_CLASS, Of (Service RESERVE_OBJECT_INSTANCE_NAME),
    Of RESERVE_OBJECT_INSTANCE_NAME_SUCCEEDED, Of RESERVE_OBJECT_INSTANCE_NAME_FAILED, Of MESSAGE_NULL_PRIME,
    Of (Service ENABLE_ASYNCHRONOUS_DELIVERY), Of (Service DISABLE_ASYNCHRONOUS_DELIVERY), Of TIME_ADVANCE_REQUEST,
    Of TIME_ADVANCE_REQUEST_AVAILABLE, Of NEXT_MESSAGE_REQUEST, Of NEXT_MESSAGE_REQUEST_AVAILABLE, Of TIME_STATE_UPDATE,
    Of MOM_STATUS, LAST]"

text \<open>The number of a type, and the type of a number that is one.\<close>

definition type_code :: "wire_type \<Rightarrow> 32 word" where
  "type_code k = of_nat (place k wire_types)"

definition type_of :: "32 word \<Rightarrow> wire_type option" where
  "type_of n = (if unat n < length wire_types then Some (wire_types ! unat n) else None)"

text \<open>The class that \<open>NM_Factory::create\<close> makes for a type, as the fields that it adds, those of its superclasses included.\<close>

fun service_class :: "service \<Rightarrow> field_format list" where
  "service_class UPDATE_ATTRIBUTE_VALUES = NM_Update_Attribute_Values"
| "service_class SEND_INTERACTION = NM_Send_Interaction"
| "service_class DESTROY_FEDERATION_EXECUTION = NM_Destroy_Federation_Execution"
| "service_class REGISTER_FEDERATION_SYNCHRONIZATION_POINT = NM_Register_Federation_Synchronization_Point"
| "service_class REQUEST_OBJECT_ATTRIBUTE_VALUE_UPDATE = NM_Request_Object_Attribute_Value_Update"
| "service_class REQUEST_CLASS_ATTRIBUTE_VALUE_UPDATE = NM_Request_Class_Attribute_Value_Update"
| "service_class PUBLISH_OBJECT_CLASS = NM_Publish_Object_Class"
| "service_class UNPUBLISH_OBJECT_CLASS = NM_Publish_Object_Class"
| "service_class PUBLISH_INTERACTION_CLASS = NM_Publish_Interaction_Class"
| "service_class UNPUBLISH_INTERACTION_CLASS = NM_Publish_Interaction_Class"
| "service_class SUBSCRIBE_OBJECT_CLASS = NM_Subscribe_Object_Class"
| "service_class UNSUBSCRIBE_OBJECT_CLASS = NM_Subscribe_Object_Class"
| "service_class SUBSCRIBE_INTERACTION_CLASS = NM_Publish_Interaction_Class"
| "service_class UNSUBSCRIBE_INTERACTION_CLASS = NM_Publish_Interaction_Class"
| "service_class SET_CLASS_RELEVANCE_ADVISORY_SWITCH = NM_Set_Class_Relevance_Advisory_Switch"
| "service_class SET_INTERACTION_RELEVANCE_ADVISORY_SWITCH = NM_Set_Interaction_Relevance_Advisory_Switch"
| "service_class SET_ATTRIBUTE_RELEVANCE_ADVISORY_SWITCH = NM_Set_Attribute_Relevance_Advisory_Switch"
| "service_class SET_ATTRIBUTE_SCOPE_ADVISORY_SWITCH = NM_Set_Attribute_Scope_Advisory_Switch"
| "service_class RESERVE_OBJECT_INSTANCE_NAME = NM_Reserve_Object_Instance_Name"
| "service_class REGISTER_OBJECT = NM_Register_Object"
| "service_class DELETE_OBJECT = NM_Delete_Object"
| "service_class IS_ATTRIBUTE_OWNED_BY_FEDERATE = NM_Is_Attribute_Owned_By_Federate"
| "service_class QUERY_ATTRIBUTE_OWNERSHIP = NM_Query_Attribute_Ownership"
| "service_class NEGOTIATED_ATTRIBUTE_OWNERSHIP_DIVESTITURE = NM_Attribute_Ownership_Base"
| "service_class CANCEL_NEGOTIATED_ATTRIBUTE_OWNERSHIP_DIVESTITURE = NM_Attribute_Ownership_Base"
| "service_class ATTRIBUTE_OWNERSHIP_ACQUISITION_IF_AVAILABLE = NM_Attribute_Ownership_Base"
| "service_class ATTRIBUTE_OWNERSHIP_ACQUISITION = NM_Attribute_Ownership_Base"
| "service_class ATTRIBUTE_OWNERSHIP_RELEASE_RESPONSE = NM_Attribute_Ownership_Base"
| "service_class CANCEL_ATTRIBUTE_OWNERSHIP_ACQUISITION = NM_Attribute_Ownership_Base"
| "service_class DDM_CREATE_REGION = NM_DDM_Create_Region"
| "service_class DDM_MODIFY_REGION = NM_DDM_Modify_Region"
| "service_class DDM_DELETE_REGION = NM_DDM_Delete_Region"
| "service_class DDM_REGISTER_OBJECT = NM_DDM_Register_Object"
| "service_class DDM_ASSOCIATE_REGION = NM_DDM_Associate_Region"
| "service_class DDM_UNASSOCIATE_REGION = NM_DDM_Unassociate_Region"
| "service_class DDM_SUBSCRIBE_ATTRIBUTES = NM_DDM_Subscribe_Attributes"
| "service_class DDM_UNSUBSCRIBE_ATTRIBUTES = NM_DDM_Unsubscribe_Attributes"
| "service_class DDM_SUBSCRIBE_INTERACTION = NM_DDM_Subscribe_Interaction"
| "service_class DDM_UNSUBSCRIBE_INTERACTION = NM_DDM_Subscribe_Interaction"
| "service_class _ = []"

fun message_class :: "nm_type \<Rightarrow> field_format list" where
  "message_class (Service s) = service_class s"
| "message_class CREATE_FEDERATION_EXECUTION = NM_Create_Federation_Execution"
| "message_class JOIN_FEDERATION_EXECUTION = NM_Join_Federation_Execution"
| "message_class ADDITIONAL_FOM_MODULE = NM_Additional_Fom_Module"
| "message_class SET_TIME_REGULATING = NM_Set_Time_Regulating"
| "message_class SET_TIME_CONSTRAINED = NM_Set_Time_Constrained"
| "message_class CONFIRM_SYNCHRONIZATION_POINT_REGISTRATION = NM_Confirm_Synchronization_Point_Registration"
| "message_class DISCOVER_OBJECT = NM_Discover_Object"
| "message_class REFLECT_ATTRIBUTE_VALUES = NM_Reflect_Attribute_Values"
| "message_class RECEIVE_INTERACTION = NM_Receive_Interaction"
| "message_class REMOVE_OBJECT = NM_Remove_Object"
| "message_class PROVIDE_ATTRIBUTE_VALUE_UPDATE = NM_Request_Object_Attribute_Value_Update"
| "message_class ATTRIBUTE_IS_NOT_OWNED = NM_Attribute_Is_Not_Owned"
| "message_class INFORM_ATTRIBUTE_OWNERSHIP = NM_Inform_Attribute_Ownership"
| "message_class ATTRIBUTE_OWNERSHIP_ACQUISITION_NOTIFICATION = NM_Attribute_Ownership_Base"
| "message_class ATTRIBUTE_OWNERSHIP_DIVESTITURE_NOTIFICATION = NM_Attribute_Ownership_Base"
| "message_class REQUEST_ATTRIBUTE_OWNERSHIP_ASSUMPTION = NM_Attribute_Ownership_Base"
| "message_class ATTRIBUTE_OWNERSHIP_UNAVAILABLE = NM_Attribute_Ownership_Base"
| "message_class UNCONDITIONAL_ATTRIBUTE_OWNERSHIP_DIVESTITURE = NM_Attribute_Ownership_Base"
| "message_class REQUEST_ATTRIBUTE_OWNERSHIP_RELEASE = NM_Attribute_Ownership_Base"
| "message_class CONFIRM_ATTRIBUTE_OWNERSHIP_ACQUISITION_CANCELLATION = NM_Attribute_Ownership_Base"
| "message_class START_REGISTRATION_FOR_OBJECT_CLASS = NM_Start_Registration_For_Object_Class"
| "message_class RESERVE_OBJECT_INSTANCE_NAME_SUCCEEDED = NM_Reserve_Object_Instance_Name"
| "message_class RESERVE_OBJECT_INSTANCE_NAME_FAILED = NM_Reserve_Object_Instance_Name"
| "message_class TIME_STATE_UPDATE = NM_Time_State_Update"
| "message_class MOM_STATUS = NM_Mom_Status"
| "message_class CHANGE_ATTRIBUTE_TRANSPORT_TYPE = NM_Change_Attribute_Transport_Type"
| "message_class CHANGE_ATTRIBUTE_ORDER_TYPE = NM_Change_Attribute_Order_Type"
| "message_class CHANGE_INTERACTION_TRANSPORT_TYPE = NM_Change_Interaction_Transport_Type"
| "message_class CHANGE_INTERACTION_ORDER_TYPE = NM_Change_Interaction_Order_Type"
| "message_class _ = []"

text \<open>A number that is not a type leaves the pointer to the message null.\<close>

definition NM_Factory_create :: "32 word \<Rightarrow> exn + field_format list" where
  "NM_Factory_create n = (case type_of n of
     None \<Rightarrow> Inl UndefinedBehaviour
   | Some NOT_USED \<Rightarrow> Inl NetworkError
   | Some LAST \<Rightarrow> Inl NetworkError
   | Some TURN_INTERACTIONS_ON \<Rightarrow> Inr NM_Publish_Interaction_Class
   | Some TURN_INTERACTIONS_OFF \<Rightarrow> Inr NM_Publish_Interaction_Class
   | Some ATTRIBUTE_OWNERSHIP_BASE \<Rightarrow> Inr NM_Attribute_Ownership_Base
   | Some STOP_REGISTRATION_FOR_OBJECT_CLASS \<Rightarrow> Inr NM_Stop_Registration_For_Object_Class
   | Some (Of k) \<Rightarrow> Inr (message_class k))"

section \<open>Messages\<close>

text \<open>0 is \<open>NO_EXCEPTION\<close>.\<close>

record wire_message = basic_message +
  wm_type :: "32 word"
  wm_federate :: "32 word"
  wm_federation :: "32 word"
  wm_exception :: "8 word"
  wm_reason :: string
  wm_fields :: "field_value list"

definition wire_message_new :: "32 word \<Rightarrow> wire_message" where
  "wire_message_new n =
     \<lparr>bm_date = None, bm_label = None, bm_tag = None, bm_extents = [], bm_regions = [], wm_type = n, wm_federate = 0, wm_federation = 0,
      wm_exception = 0, wm_reason = ''Not Assigned'', wm_fields = []\<rparr>"

definition NetworkMessage_serialize :: "bool \<Rightarrow> wire_message \<Rightarrow> unit mb_action" where
  "NetworkMessage_serialize big w =
     seq (throw_if (wm_type w = type_code NOT_USED \<or> wm_type w = type_code LAST) RTIinternalError)
     (seq (write_uint32 big (wm_type w))
     (seq (write_uint32 big (wm_federate w))
     (seq (write_uint32 big (wm_federation w))
     (seq (write_uint32 big (ucast (wm_exception w)))
     (if wm_exception w \<noteq> 0 then write_string big (wm_reason w) else BasicMessage_serialize big w)))))"

text \<open>Reads into the message \<open>w\<close>.\<close>

definition NetworkMessage_deserialize :: "bool \<Rightarrow> wire_message \<Rightarrow> wire_message mb_action" where
  "NetworkMessage_deserialize big w =
     bind (read_uint32 big) (\<lambda>k.
     bind (read_uint32 big) (\<lambda>f.
     bind (read_uint32 big) (\<lambda>g.
     bind (read_uint32 big) (\<lambda>e.
     let w' = w\<lparr>wm_type := k, wm_federate := f, wm_federation := g, wm_exception := ucast e\<rparr> in
     if wm_exception w' \<noteq> 0 then bind (read_string big) (\<lambda>r. ret (w'\<lparr>wm_reason := r\<rparr>))
     else BasicMessage_deserialize big w'))))"

text \<open>\<open>serialize\<close> and \<open>deserialize\<close> of the class with the given fields.\<close>

definition serialize :: "bool \<Rightarrow> field_format list \<Rightarrow> wire_message \<Rightarrow> unit mb_action" where
  "serialize big fs w = seq (NetworkMessage_serialize big w) (write_fields big fs (wm_fields w))"

definition deserialize :: "bool \<Rightarrow> field_format list \<Rightarrow> wire_message \<Rightarrow> wire_message mb_action" where
  "deserialize big fs w =
     bind (NetworkMessage_deserialize big w) (\<lambda>w'. bind (read_fields big fs) (\<lambda>vs. ret (w'\<lparr>wm_fields := vs\<rparr>)))"

section \<open>Connections\<close>

definition send :: "bool \<Rightarrow> field_format list \<Rightarrow> wire_message \<Rightarrow> 8 word list mb_action" where
  "send big fs w = send_bytes big (serialize big fs w)"

definition receive :: "bool \<Rightarrow> wire_message cn_action" where
  "receive big = receive_with big (NetworkMessage_deserialize big (wire_message_new (type_code NOT_USED)))"

definition NM_Factory_receive :: "bool \<Rightarrow> wire_message cn_action" where
  "NM_Factory_receive big =
     factory_receive big (receive big) wm_type NM_Factory_create (\<lambda>fs k. deserialize big fs (wire_message_new k))"

end
