(* ===== verification/WireProperties.thy ===== *)
theory WireProperties
  imports WireLinks NetworkWire
begin

text \<open>
  Network messages between hosts: what is received is what was sent, but for what is never serialised; and what becomes of malformed bytes.
\<close>

section \<open>Messages between hosts\<close>

definition network_bytes :: "bool \<Rightarrow> wire_message \<Rightarrow> 8 word list" where
  "network_bytes big w =
     memory big 4 (wm_type w) @ memory big 4 (wm_federate w) @ memory big 4 (wm_federation w) @ outcome_bytes big (wm_exception w) (wm_reason w) w"

definition message_bytes :: "bool \<Rightarrow> field_format list \<Rightarrow> wire_message \<Rightarrow> 8 word list" where
  "message_bytes big fs w = network_bytes big w @ fields_bytes big fs (wm_fields w)"

lemma length_message_bytes: "length (message_bytes big fs w) = length (message_bytes True fs w)"
  using length_bytes(2) [of big fs "wm_fields w"] length_outcome_bytes [of big "wm_exception w" "wm_reason w" w]
  by (auto simp: message_bytes_def network_bytes_def)

text \<open>
  What arrives: the extents and the regions do not, and besides an exception only its text, or else no text and the date, the label and
  the tag.
\<close>

definition as_received :: "wire_message \<Rightarrow> wire_message" where
  "as_received w =
     (if wm_exception w = 0 then w\<lparr>wm_reason := ''Not Assigned''\<rparr> else w\<lparr>bm_date := None, bm_label := None, bm_tag := None\<rparr>)
     \<lparr>bm_extents := [], bm_regions := []\<rparr>"

text \<open>A message of a class: the type is that of the class, the fields have their types, and the texts can be counted.\<close>

definition well_typed :: "field_format list \<Rightarrow> wire_message \<Rightarrow> bool" where
  "well_typed fs w \<longleftrightarrow> NM_Factory_create (wm_type w) = Inr fs \<and> short_texts w \<and> length (wm_reason w) < 2 ^ 31 \<and> fits_all fs (wm_fields w)"

lemma message_types: "NM_Factory_create k = Inr fs \<Longrightarrow> k \<noteq> type_code NOT_USED \<and> k \<noteq> type_code LAST"
proof -
  have "NM_Factory_create (type_code NOT_USED) = Inl NetworkError" "NM_Factory_create (type_code LAST) = Inl NetworkError" by code_simp+
  then show "NM_Factory_create k = Inr fs \<Longrightarrow> k \<noteq> type_code NOT_USED \<and> k \<noteq> type_code LAST" by auto
qed

lemma emits_serialize:
  assumes "well_typed fs w"
  shows "emits (serialize big fs w) (message_bytes big fs w)"
proof -
  have w: "short_texts w" "length (wm_reason w) < 2 ^ 31" "fits_all fs (wm_fields w)" "wm_type w \<noteq> type_code NOT_USED" "wm_type w \<noteq> type_code LAST"
    using assms message_types by (auto simp: well_typed_def)
  have check: "seq (throw_if (wm_type w = type_code NOT_USED \<or> wm_type w = type_code LAST) RTIinternalError) m = m" for m :: "unit mb_action"
    using w(4,5) by (intro ext) (simp add: seq_def bind_def throw_if_run)
  have "emits (NetworkMessage_serialize big w) (network_bytes big w)"
    unfolding NetworkMessage_serialize_def check network_bytes_def by (intro emits_seq emits_uint32 emits_outcome w)
  then show ?thesis
    unfolding serialize_def message_bytes_def by (intro emits_seq emits_fields(2) w(3))
qed

lemma consumes_network:
  assumes "short_texts w" "length (wm_reason w) < 2 ^ 31"
  shows "consumes (sender = big) (NetworkMessage_deserialize big (wire_message_new k)) (network_bytes sender w) ((as_received w)\<lparr>wm_fields := []\<rparr>)"
proof -
  let ?w = "\<lambda>e. (wire_message_new k)\<lparr>wm_type := wm_type w, wm_federate := wm_federate w, wm_federation := wm_federation w, wm_exception := e\<rparr>"
  have "(if wm_exception w \<noteq> 0 then (?w (wm_exception w))\<lparr>wm_reason := wm_reason w\<rparr>
      else (?w (wm_exception w))\<lparr>bm_date := bm_date w, bm_label := bm_label w, bm_tag := bm_tag w\<rparr>) = (as_received w)\<lparr>wm_fields := []\<rparr>"
    by (simp add: as_received_def wire_message_new_def)
  with consumes_outcome [OF assms, of sender big "\<lambda>e r. (?w e)\<lparr>wm_reason := r\<rparr>" ?w "wm_exception w"]
  have body: "consumes (sender = big) (bind (read_uint32 big) (\<lambda>k. if (ucast k :: 8 word) \<noteq> 0 then bind (read_string big) (\<lambda>r. ret ((?w (ucast k))\<lparr>wm_reason := r\<rparr>))
        else BasicMessage_deserialize big (?w (ucast k))))
      (outcome_bytes sender (wm_exception w) (wm_reason w) w) ((as_received w)\<lparr>wm_fields := []\<rparr>)"
    by (simp only:)
  show ?thesis
    unfolding NetworkMessage_deserialize_def network_bytes_def Let_def
    by (rule consumes_bind [OF consumes_uint32], rule consumes_bind [OF consumes_uint32], rule consumes_bind [OF consumes_uint32]) (use body in simp)
qed

lemma consumes_message:
  assumes "short_texts w" "length (wm_reason w) < 2 ^ 31" "fits_all fs (wm_fields w)"
  shows "consumes (sender = big) (deserialize big fs (wire_message_new k)) (message_bytes sender fs w) (as_received w)"
proof -
  have "consumes (sender = big) (bind (read_fields big fs) (\<lambda>vs. ret ((as_received w)\<lparr>wm_fields := []\<rparr>\<lparr>wm_fields := vs\<rparr>)))
      (fields_bytes sender fs (wm_fields w)) ((as_received w)\<lparr>wm_fields := []\<rparr>\<lparr>wm_fields := wm_fields w\<rparr>)"
    by (rule consumes_map [OF consumes_fields(2) [OF assms(3)]])
  moreover have "(as_received w)\<lparr>wm_fields := []\<rparr>\<lparr>wm_fields := wm_fields w\<rparr> = as_received w" by (simp add: as_received_def)
  ultimately show ?thesis
    unfolding deserialize_def message_bytes_def by (intro consumes_bind [OF consumes_network [OF assms(1,2)]]) simp
qed

interpretation network: message_link NM_Factory_create wm_type
  "\<lambda>big. NetworkMessage_deserialize big (wire_message_new (type_code NOT_USED))" serialize
  "\<lambda>big fs k. deserialize big fs (wire_message_new k)" network_bytes message_bytes well_typed "\<lambda>w. (as_received w)\<lparr>wm_fields := []\<rparr>" as_received
proof unfold_locales
  show "emits (serialize big fs w) (message_bytes big fs w)" if "well_typed fs w" for big fs w using that by (rule emits_serialize)
  show "\<exists>ys. message_bytes big fs w = network_bytes big w @ ys" for big fs w by (auto simp: message_bytes_def)
  show "length (message_bytes big fs w) = length (message_bytes True fs w)" for big fs w by (rule length_message_bytes)
  show "consumes (sender = big) (NetworkMessage_deserialize big (wire_message_new (type_code NOT_USED))) (network_bytes sender w) ((as_received w)\<lparr>wm_fields := []\<rparr>)" if "well_typed fs w" for fs w sender big
    using that by (simp add: well_typed_def consumes_network)
  show "consumes (sender = big) (deserialize big fs (wire_message_new (wm_type w))) (message_bytes sender fs w) (as_received w)" if "well_typed fs w" for fs w sender big
    using that by (simp add: well_typed_def consumes_message)
qed (simp_all add: well_typed_def as_received_def)

text \<open>A message that is not too long, the header and the reserve of the buffer included.\<close>

definition transportable :: "field_format list \<Rightarrow> wire_message \<Rightarrow> bool" where
  "transportable fs w \<longleftrightarrow> well_typed fs w \<and> length (message_bytes True fs w) + 260 < 2 ^ 32"

lemma message_arrives:
  assumes "standing b" "standing (cn_buffer s)" "transportable fs w"
  obtains bytes b' s' where "send sender fs w b = (Inr bytes, b')" "standing b'"
    "NM_Factory_receive big (s\<lparr>cn_incoming := bytes @ later\<rparr>) = (Inr (as_received w), s')" "cn_incoming s' = later" "standing (cn_buffer s')"
  using network.arrives [OF assms(1,2), of fs w sender big later] assms(3) unfolding transportable_def send_def NM_Factory_receive_def receive_def by blast


text \<open>A region is modified: the sender is big endian, the receiver little endian.\<close>

definition demo_modification :: wire_message where
  "demo_modification = (wire_message_new (type_code (Of (Service DDM_MODIFY_REGION))))
     \<lparr>wm_federate := 3, wm_federation := 1, bm_extents := [[(1, 5)]], wm_fields := [VVector [], VBool False, VU32 7]\<rparr>"

lemma demo_modification_transportable: "transportable NM_DDM_Modify_Region demo_modification"
proof -
  have "NM_Factory_create (type_code (Of (Service DDM_MODIFY_REGION))) = Inr NM_DDM_Modify_Region" by code_simp
  then show ?thesis
    by (simp add: transportable_def well_typed_def demo_modification_def wire_message_new_def short_texts_def NM_DDM_Modify_Region_def message_bytes_def network_bytes_def
        outcome_bytes_def basic_bytes_def option_bytes_def)
qed


section \<open>Sizes that wrap around\<close>

lemma read_behind:
  assumes "sound b" "sound b'" "unread b = xs @ rest" "unread b' = rest" "mb_write b' = mb_write b"
  shows "unat (mb_read b') = unat (mb_read b) + length xs"
proof -
  have "length (unread b) = unat (mb_write b) - unat (mb_read b)" "length (unread b') = unat (mb_write b') - unat (mb_read b')"
    using assms(1,2) by (auto simp: unread_def written_def sound_def min_def)
  then show ?thesis using assms by (auto simp: sound_def)
qed

text \<open>
  C25. The size of a value is added to the read offset with 32 bits before it is compared with the bytes that have been received. A
  value whose size does not make this sum wrap around is read if its bytes are there and refused if they are not; one whose size does is
  copied from behind the end of the buffer.
\<close>

theorem value_size_wraps:
  assumes b: "sound b" "mb_mine b = (sender = big)" "unread b = memory sender 4 (n :: 32 word) @ rest"
  shows "fst (read_field big FBytes b) =
    (if unat (mb_read b) + 4 + unat n \<ge> 2 ^ 32 then Inl UndefinedBehaviour
     else if unat n \<le> length rest then Inr (VBytes (take (unat n) rest))
     else Inl MessageBufferError)"
proof -
  obtain c where c: "read_uint32 big b = (Inr n, c)" "sound c" "unread c = rest" "mb_write c = mb_write b" "mb_buffer c = mb_buffer b"
    using consumes_uint32 [of sender big n] b unfolding consumes_def by blast
  have r: "unat (mb_read c) = unat (mb_read b) + 4" using read_behind [OF b(1) c(2) b(3) c(3,4)] by simp
  have rest: "length rest = unat (mb_write c) - unat (mb_read c)" using c(2,3) by (auto simp: unread_def written_def sound_def min_def)
  have run: "fst (read_field big FBytes b) = fst (bind (read_uint8s n) (\<lambda>bs. ret (VBytes bs)) c)" using c(1) by (simp add: bind_def)
  have sound: "unat (mb_read c) \<le> unat (mb_write c)" "unat (mb_write c) \<le> length (mb_buffer c)" "length (mb_buffer c) < 2 ^ 32"
    using c(2) by (simp_all add: sound_def)
  show ?thesis
  proof (cases "unat (mb_read c) + unat n < 2 ^ 32")
    case True
    then have sum: "unat (n + mb_read c) = unat n + unat (mb_read c)"
      using unat_of_small [of "unat n + unat (mb_read c)"] by simp
    show ?thesis
    proof (cases "unat n \<le> length rest")
      case fits: True
      have "unread c = take (unat n) rest @ drop (unat n) rest" using c(3) by simp
      from next_bytes(1,2) [OF c(2) this, of n] fits
      have "fst (bind (read_uint8s n) (\<lambda>bs. ret (VBytes bs)) c) = Inr (VBytes (take (unat n) rest))"
        by (simp add: read_uint8s_def seq_def bind_def ret_def)
      then show ?thesis using run r True fits by simp
    next
      case False
      then have "n + mb_read c > mb_write c" using sum rest sound by (simp add: word_less_nat_alt)
      then show ?thesis using run r True False by (simp add: read_uint8s_def readable_def seq_def bind_def act_simps)
    qed
  next
    case False
    have "unat n < 2 ^ 32" using unsigned_less [where 'a = nat, of n] by simp
    note nlt = this
    have "unat (n + mb_read c) = unat n + unat (mb_read c) - 2 ^ 32"
      using False nlt sound by (simp add: unat_word_ariths(1) le_mod_geq)
    then have "\<not> n + mb_read c > mb_write c" using False sound nlt by (simp add: word_less_nat_alt)
    then have "fst (bind (read_uint8s n) (\<lambda>bs. ret (VBytes bs)) c) = Inl UndefinedBehaviour"
      using False sound by (simp add: read_uint8s_def readable_def copy_out_def seq_def bind_def act_simps Let_def)
    then show ?thesis using run r False by simp
  qed
qed

text \<open>A value of four gigabytes of which one byte has been received.\<close>

definition demo_oversized :: message_buffer where
  "demo_oversized = \<lparr>mb_buffer = replicate 5 0 @ [0xFF, 0xFF, 0xFF, 0xFF, 7], mb_mine = True, mb_write = 10, mb_read = 5, mb_fresh = (\<lambda>_. 0)\<rparr>"

theorem value_size_wraps_witness:
  "fst (read_field False FBytes demo_oversized) = Inl UndefinedBehaviour"
proof -
  have bytes: "memory False 4 (0xFFFFFFFF :: 32 word) = [0xFF, 0xFF, 0xFF, 0xFF]" by code_simp
  have b: "sound demo_oversized" by (simp add: sound_def demo_oversized_def)
  have mine: "mb_mine demo_oversized = (False = False)" by (simp add: demo_oversized_def)
  have u: "unread demo_oversized = memory False 4 (0xFFFFFFFF :: 32 word) @ [7]" unfolding bytes by code_simp
  have n: "unat (mb_read demo_oversized) + 4 + unat (0xFFFFFFFF :: 32 word) \<ge> 2 ^ 32" by (simp add: demo_oversized_def)
  show ?thesis unfolding value_size_wraps [OF b mine u] using n by simp
qed

end
