(* ===== verification/Sockets.thy ===== *)
theory Sockets
  imports Messages
begin

text \<open>
  \<open>libCERTI/SocketServer.cc\<close>, \<open>libCERTI/SecurityServer.cc\<close> and \<open>libCERTI/FederateLevelList.cc\<close>:
  the connections of the RTIG, the federates they belong to, and the security levels.

  A \<open>Socket\<close> is its descriptor: the TCP descriptors of the open connections differ. The reliable
  link of a tuple is \<open>None\<close> when it has been closed and deleted; \<open>st_peer\<close> is the principal name of a
  \<open>SecureTCPSocket\<close>, \<open>None\<close> for an ordinary socket. The best-effort link is the value that its
  \<open>returnSocket\<close> gives: 0 when it is new, the descriptor of the server's UDP socket once attached.
\<close>

record socket_tuple =
  st_federation :: federation_handle
  st_federate :: federate_handle
  st_reliable :: "socket option"
  st_bestEffort :: "socket option"
  st_peer :: "string option"

record socket_server =
  ss_tuples :: "socket_tuple list"
  ss_udp :: socket

definition socket_server_new :: "socket \<Rightarrow> socket_server" where
  "socket_server_new udp = \<lparr>ss_tuples = [], ss_udp = udp\<rparr>"

text \<open>\<open>FederationHandle::isValid\<close>.\<close>

definition valid_handle :: "handle \<Rightarrow> bool" where
  "valid_handle h \<longleftrightarrow> h \<noteq> 0"

text \<open>\<open>open\<close> pushes a tuple for the accepted connection to the front.\<close>

definition ss_open :: "socket \<Rightarrow> string option \<Rightarrow> (socket_server, unit) action" where
  "ss_open fd peer = modify (\<lambda>s. s\<lparr>ss_tuples :=
     \<lparr>st_federation = 0, st_federate = 0, st_reliable = Some fd, st_bestEffort = Some 0, st_peer = peer\<rparr> # ss_tuples s\<rparr>)"

definition refers :: "federation_handle \<Rightarrow> federate_handle \<Rightarrow> socket_tuple \<Rightarrow> bool" where
  "refers fn fe t \<longleftrightarrow> st_federation t = fn \<and> st_federate t = fe"

definition getWithReferences :: "federation_handle \<Rightarrow> federate_handle \<Rightarrow> socket_server \<Rightarrow> exn + socket_tuple" where
  "getWithReferences fn fe s =
     (case find (refers fn fe) (ss_tuples s) of Some t \<Rightarrow> Inr t | None \<Rightarrow> Inl FederateNotExecutionMember)"

text \<open>\<open>getSocketLink\<close> for the transport type \<open>RELIABLE\<close>, the only one in use; a killed federate has
  the link \<open>NULL\<close>.\<close>

definition getSocketLink :: "federation_handle \<Rightarrow> federate_handle \<Rightarrow> socket_server \<Rightarrow> exn + socket option" where
  "getSocketLink fn fe s =
     (case getWithReferences fn fe s of Inl e \<Rightarrow> Inl e | Inr t \<Rightarrow> Inr (st_reliable t))"

definition getFederateFromSocket :: "federation_handle \<Rightarrow> socket \<Rightarrow> socket_server \<Rightarrow> exn + federate_handle" where
  "getFederateFromSocket fn fd s =
     (case find (\<lambda>t. st_federation t = fn \<and> st_reliable t = Some fd) (ss_tuples s) of
        Some t \<Rightarrow> Inr (st_federate t) | None \<Rightarrow> Inl RTIinternalError)"

definition has_socket :: "socket \<Rightarrow> socket_tuple \<Rightarrow> bool" where
  "has_socket fd t \<longleftrightarrow> st_reliable t = Some fd \<or> st_bestEffort t = Some fd"

definition getWithSocket :: "socket \<Rightarrow> socket_server \<Rightarrow> exn + socket_tuple" where
  "getWithSocket fd s =
     (case find (has_socket fd) (ss_tuples s) of Some t \<Rightarrow> Inr t | None \<Rightarrow> Inl RTIinternalError)"

text \<open>An assignment through the pointer that \<open>getWithSocket\<close> returns: it changes the first tuple.\<close>

fun update_first :: "('a \<Rightarrow> bool) \<Rightarrow> ('a \<Rightarrow> 'a) \<Rightarrow> 'a list \<Rightarrow> 'a list" where
  "update_first p f [] = []"
| "update_first p f (x # xs) = (if p x then f x # xs else x # update_first p f xs)"

definition ss_setReferences :: "socket \<Rightarrow> federation_handle \<Rightarrow> federate_handle \<Rightarrow> (socket_server, unit) action" where
  "ss_setReferences fd fn fe =
     bind (gets (getWithSocket fd)) (\<lambda>r.
     bind (lift_sum r) (\<lambda>t.
       if valid_handle (st_federation t) \<or> st_federate t \<noteq> 0 then throw RTIinternalError
       else modify (\<lambda>s. s\<lparr>ss_tuples := update_first (has_socket fd)
              (\<lambda>t. t\<lparr>st_federation := fn, st_federate := fe, st_bestEffort := Some (ss_udp s)\<rparr>) (ss_tuples s)\<rparr>)))"

text \<open>
  The removal loop of \<open>close\<close>: after an erasure the iterator is at the following element and is
  incremented once more, so this element is skipped, and an erased last element makes the loop
  increment the end iterator.
\<close>

fun erase_socket :: "socket \<Rightarrow> socket_tuple list \<Rightarrow> (exn + socket_tuple list)" where
  "erase_socket fd [] = Inr []"
| "erase_socket fd (t # ts) =
     (if st_reliable t = Some fd then
        (case ts of [] \<Rightarrow> Inl UndefinedBehaviour
         | u # us \<Rightarrow> (case erase_socket fd us of Inl e \<Rightarrow> Inl e | Inr vs \<Rightarrow> Inr (u # vs)))
      else (case erase_socket fd ts of Inl e \<Rightarrow> Inl e | Inr vs \<Rightarrow> Inr (t # vs)))"

text \<open>\<open>close\<close> returns the federation and the federate of the closed connection.\<close>

definition ss_close :: "socket \<Rightarrow> (socket_server, federation_handle \<times> federate_handle) action" where
  "ss_close fd =
     bind (gets (getWithSocket fd)) (\<lambda>r.
     bind (lift_sum r) (\<lambda>t.
       if \<not> valid_handle (st_federation t) \<and> st_federate t \<noteq> 0 then
         bind (gets (\<lambda>s. erase_socket fd (ss_tuples s))) (\<lambda>e.
         bind (lift_sum e) (\<lambda>ts.
         seq (modify (\<lambda>s. s\<lparr>ss_tuples := ts\<rparr>)) (ret (st_federation t, st_federate t))))
       else if st_reliable t = None \<or> st_bestEffort t = None then throw UndefinedBehaviour
       else
         seq (modify (\<lambda>s. s\<lparr>ss_tuples := update_first (has_socket fd)
                (\<lambda>t. t\<lparr>st_reliable := None, st_bestEffort := None\<rparr>) (ss_tuples s)\<rparr>))
             (ret (st_federation t, st_federate t))))"

text \<open>
  \<open>checkMessage\<close>: the origin that a message claims must be the connection it came from. The
  link of a killed federate is dereferenced although it is \<open>NULL\<close>.
\<close>

definition checkMessage :: "socket \<Rightarrow> network_message \<Rightarrow> socket_server \<Rightarrow> exn + unit" where
  "checkMessage fd m s =
     (if nm_federation m = 0 \<and> nm_federate m = 0 then Inr ()
      else case getSocketLink (nm_federation m) (nm_federate m) s of
          Inl _ \<Rightarrow> Inl SecurityError
        | Inr None \<Rightarrow> Inl UndefinedBehaviour
        | Inr (Some link) \<Rightarrow> if link \<noteq> fd then Inl SecurityError else Inr ())"

section \<open>Security levels\<close>

type_synonym level_id = "16 word"

definition PublicLevelID :: level_id where
  "PublicLevelID = 0"

definition PublicLevelName :: string where
  "PublicLevelName = ''Public''"

text \<open>
  The state of a \<open>SecurityServer\<close>: the security levels, the last level identifier, the levels of
  the federates, the handle of the MOM federate. The constructor initialises neither the last
  identifier nor the handle, so their initial values are parameters. The reference to the
  \<open>SocketServer\<close> of the RTIG is not part of it; the operations take the server as an argument.
\<close>

record security_server =
  sec_federation :: federation_handle
  sec_levels :: "(string \<times> level_id) list"
  sec_last :: level_id
  sec_federates :: "(string \<times> level_id) list"
  sec_mom :: federate_handle

definition security_server_new :: "federation_handle \<Rightarrow> level_id \<Rightarrow> federate_handle \<Rightarrow> exn + security_server" where
  "security_server_new fn l0 mom =
     (if \<not> valid_handle fn then Inl RTIinternalError
      else Inr \<lparr>sec_federation = fn, sec_levels = [], sec_last = l0, sec_federates = [], sec_mom = mom\<rparr>)"

definition sec_getSocketLink :: "security_server \<Rightarrow> socket_server \<Rightarrow> federate_handle \<Rightarrow> exn + socket option" where
  "sec_getSocketLink sv ss fe =
     (if fe = sec_mom sv then Inr None else getSocketLink (sec_federation sv) fe ss)"

definition dominates :: "level_id \<Rightarrow> level_id \<Rightarrow> bool" where
  "dominates a b \<longleftrightarrow> a = b \<or> b = PublicLevelID"

definition addFederate :: "string \<Rightarrow> level_id \<Rightarrow> (string \<times> level_id) list \<Rightarrow> (string \<times> level_id) list" where
  "addFederate n l m = om_put n l m"

definition getLevel :: "(string \<times> level_id) list \<Rightarrow> string \<Rightarrow> level_id" where
  "getLevel m n = (case map_of m n of Some l \<Rightarrow> l | None \<Rightarrow> PublicLevelID)"

definition sec_registerFederate :: "string \<Rightarrow> level_id \<Rightarrow> (security_server, unit) action" where
  "sec_registerFederate n l = modify (\<lambda>s. s\<lparr>sec_federates := addFederate n l (sec_federates s)\<rparr>)"

definition registerMomFederateHandle :: "federate_handle \<Rightarrow> (security_server, unit) action" where
  "registerMomFederateHandle h = modify (\<lambda>s. s\<lparr>sec_mom := h\<rparr>)"

definition peer_of :: "security_server \<Rightarrow> socket_server \<Rightarrow> federate_handle \<Rightarrow> string option" where
  "peer_of sv ss fe =
     (case getWithReferences (sec_federation sv) fe ss of Inr t \<Rightarrow> st_peer t | Inl _ \<Rightarrow> None)"

definition canFederateAccessData :: "security_server \<Rightarrow> socket_server \<Rightarrow> federate_handle \<Rightarrow> level_id \<Rightarrow> exn + bool" where
  "canFederateAccessData sv ss fe level =
     (if fe = sec_mom sv then Inr True
      else case sec_getSocketLink sv ss fe of
          Inl RTIinternalError \<Rightarrow> Inr (dominates PublicLevelID level)
        | Inl e \<Rightarrow> Inl e
        | Inr None \<Rightarrow> Inr (dominates PublicLevelID level)
        | Inr (Some _) \<Rightarrow>
            (case peer_of sv ss fe of
               None \<Rightarrow> Inr (dominates PublicLevelID level)
             | Some n \<Rightarrow> Inr (dominates (getLevel (sec_federates sv) n) level)))"

definition getLevelIDWithName :: "string \<Rightarrow> (security_server, level_id) action" where
  "getLevelIDWithName n =
     seq (modify (\<lambda>s. if sec_levels s = []
                      then s\<lparr>sec_levels := [(PublicLevelName, PublicLevelID)], sec_last := PublicLevelID\<rparr> else s))
     (seq (throw_if (n = []) RTIinternalError)
     (bind (gets (\<lambda>s. map_of (sec_levels s) n)) (\<lambda>found. case found of
         Some l \<Rightarrow> ret l
       | None \<Rightarrow>
           seq (modify (\<lambda>s. s\<lparr>sec_last := sec_last s + 1\<rparr>))
           (bind (gets sec_last) (\<lambda>l.
            seq (modify (\<lambda>s. s\<lparr>sec_levels := sec_levels s @ [(n, l)]\<rparr>)) (ret l))))))"

section \<open>Lemmas on the connections\<close>

lemma find_update_first:
  "(\<And>x. p x \<Longrightarrow> q (f x)) \<Longrightarrow> (\<And>x. q x \<Longrightarrow> False) \<Longrightarrow> find p xs = Some y \<Longrightarrow> find q (update_first p f xs) = Some (f y)"
  by (induction xs) (auto split: if_splits)

lemma length_update_first [simp]: "length (update_first p f xs) = length xs"
  by (induction xs) auto

lemma find_update_first_other:
  "(\<And>x. p x \<Longrightarrow> q (f x) = q x) \<Longrightarrow> find p xs = Some y \<Longrightarrow> \<not> q y \<Longrightarrow> find q (update_first p f xs) = find q xs"
  by (induction xs) (auto split: if_splits)

text \<open>A tuple has a federation if and only if it has a federate: \<open>setReferences\<close> sets both.\<close>

definition references_ok :: "socket_server \<Rightarrow> bool" where
  "references_ok s \<longleftrightarrow> (\<forall>t \<in> set (ss_tuples s). valid_handle (st_federation t) \<longleftrightarrow> st_federate t \<noteq> 0)"

lemma set_update_first_subset: "set (update_first p f xs) \<subseteq> set xs \<union> f ` {x \<in> set xs. p x}"
  by (induction xs) auto

lemma ss_open_ok: "references_ok s \<Longrightarrow> references_ok (snd (ss_open fd peer s))"
  by (auto simp: references_ok_def ss_open_def act_simps valid_handle_def)

lemma ss_setReferences_ok:
  "references_ok s \<Longrightarrow> valid_handle fn \<Longrightarrow> fe \<noteq> 0 \<Longrightarrow> references_ok (snd (ss_setReferences fd fn fe s))"
  using set_update_first_subset [of "has_socket fd"
      "\<lambda>t. t\<lparr>st_federation := fn, st_federate := fe, st_bestEffort := Some (ss_udp s)\<rparr>" "ss_tuples s"]
  by (auto simp: ss_setReferences_def act_simps references_ok_def valid_handle_def split: sum.split)

lemma getWithSocket_mem: "getWithSocket fd s = Inr t \<Longrightarrow> t \<in> set (ss_tuples s) \<and> has_socket fd t"
  by (auto simp: getWithSocket_def find_Some_iff split: option.splits)

lemma ss_close_run:
  assumes "references_ok s"
  shows "ss_close fd s =
    (case getWithSocket fd s of
       Inl e \<Rightarrow> (Inl e, s)
     | Inr t \<Rightarrow>
         if st_reliable t = None \<or> st_bestEffort t = None then (Inl UndefinedBehaviour, s)
         else (Inr (st_federation t, st_federate t),
               s\<lparr>ss_tuples := update_first (has_socket fd)
                    (\<lambda>t. t\<lparr>st_reliable := None, st_bestEffort := None\<rparr>) (ss_tuples s)\<rparr>))"
  using assms getWithSocket_mem [of fd s]
  by (cases "getWithSocket fd s") (auto simp: ss_close_def act_simps references_ok_def)

lemma ss_close_ok: "references_ok s \<Longrightarrow> references_ok (snd (ss_close fd s))"
  using set_update_first_subset [of "has_socket fd"
      "\<lambda>t. t\<lparr>st_reliable := None, st_bestEffort := None\<rparr>" "ss_tuples s"]
  by (auto simp: ss_close_run references_ok_def split: sum.split)

section \<open>Properties\<close>

definition demo_server :: socket_server where
  "demo_server = \<lparr>ss_tuples =
     [\<lparr>st_federation = 0, st_federate = 0, st_reliable = Some 7, st_bestEffort = Some 0, st_peer = None\<rparr>,
      \<lparr>st_federation = 1, st_federate = 1, st_reliable = Some 6, st_bestEffort = Some 3, st_peer = None\<rparr>], ss_udp = 3\<rparr>"

lemma setReferences_links:
  assumes "getSocketLink fn fe s = Inl x" "valid_handle fn" "ss_setReferences fd fn fe s = (Inr (), s')"
  shows "\<exists>t. getWithSocket fd s = Inr t \<and> getSocketLink fn fe s' = Inr (st_reliable t)
    \<and> (\<forall>fn' fe'. valid_handle fn' \<longrightarrow> (fn', fe') \<noteq> (fn, fe) \<longrightarrow> getSocketLink fn' fe' s' = getSocketLink fn' fe' s)"
proof -
  let ?f = "\<lambda>t. t\<lparr>st_federation := fn, st_federate := fe, st_bestEffort := Some (ss_udp s)\<rparr>"
  obtain t where t: "find (has_socket fd) (ss_tuples s) = Some t" "st_federation t = 0" "st_federate t = 0"
    and s': "s' = s\<lparr>ss_tuples := update_first (has_socket fd) ?f (ss_tuples s)\<rparr>"
    using assms(3) by (auto simp: ss_setReferences_def act_simps getWithSocket_def valid_handle_def
        split: option.splits if_splits)
  have none: "\<not> refers fn fe u" if "u \<in> set (ss_tuples s)" for u
    using assms(1) that by (auto simp: getSocketLink_def getWithReferences_def find_None_iff split: option.splits)
  have 1: "find (refers fn fe) (update_first (has_socket fd) ?f xs) = Some (?f t)"
    if "find (has_socket fd) xs = Some t" "\<forall>u \<in> set xs. \<not> refers fn fe u" for xs
    using that by (induction xs) (auto simp: refers_def split: if_splits)
  have 2: "find (refers fn' fe') (update_first (has_socket fd) ?f xs) = find (refers fn' fe') xs"
    if "find (has_socket fd) xs = Some t" "valid_handle fn'" "(fn', fe') \<noteq> (fn, fe)" for xs fn' fe'
    using that t(2) by (induction xs) (auto simp: refers_def valid_handle_def split: if_splits)
  show ?thesis
    using t 1 [OF t(1)] 2 [OF t(1)] none unfolding s'
    by (auto simp: getSocketLink_def getWithReferences_def getWithSocket_def)
qed

text \<open>
  After \<open>setReferences\<close> has attached a connection to a federate that had none, \<open>getSocketLink\<close>
  of this federate is the link of the connection, and the links of all other federates are
  unchanged.
\<close>

theorem setReferences_link:
  assumes "getSocketLink fn fe s = Inl x" "valid_handle fn" "ss_setReferences fd fn fe s = (Inr (), s')"
  shows "\<exists>t. getWithSocket fd s = Inr t \<and> getSocketLink fn fe s' = Inr (st_reliable t)
    \<and> (\<forall>fn' fe'. valid_handle fn' \<longrightarrow> (fn', fe') \<noteq> (fn, fe) \<longrightarrow> getSocketLink fn' fe' s' = getSocketLink fn' fe' s)"
  using assms by (rule setReferences_links)

theorem setReferences_link_witness:
  "getSocketLink 1 2 (snd (ss_setReferences 7 1 2 demo_server)) = Inr (Some 7)"
proof -
  have "getSocketLink 1 2 demo_server = Inl FederateNotExecutionMember" "valid_handle 1"
    "ss_setReferences 7 1 2 demo_server = (Inr (), snd (ss_setReferences 7 1 2 demo_server))"
    "getWithSocket 7 demo_server = Inr (hd (ss_tuples demo_server))" "st_reliable (hd (ss_tuples demo_server)) = Some 7"
    by (simp_all add: demo_server_def getSocketLink_def getWithReferences_def refers_def valid_handle_def
        ss_setReferences_def act_simps getWithSocket_def has_socket_def)
  then show ?thesis using setReferences_link [of 1 2 demo_server FederateNotExecutionMember 7] by auto
qed

text \<open>
  Origin authentication: \<open>checkMessage\<close> accepts a message from a connection exactly when the
  message claims no origin, or the open link of the claimed federate is this very connection.
\<close>

theorem checkMessage_accepts:
  "checkMessage fd m s = Inr () \<longleftrightarrow>
     (nm_federation m = 0 \<and> nm_federate m = 0) \<or> getSocketLink (nm_federation m) (nm_federate m) s = Inr (Some fd)"
  by (auto simp: checkMessage_def split: sum.split option.split)

text \<open>
  Closing the connection of a joined federate keeps its tuple, with null links; from then on
  any connection can make the RTIG dereference a null pointer, by a message that names the dead
  federate as its origin.
\<close>

theorem closed_link_dereferenced:
  assumes "references_ok s" "ss_close fd s = (Inr (fn, fe), s')" "valid_handle fn"
    and "getWithReferences fn fe s = getWithSocket fd s" "nm_federation m = fn" "nm_federate m = fe"
  shows "length (ss_tuples s') = length (ss_tuples s) \<and> checkMessage any m s' = Inl UndefinedBehaviour"
proof -
  let ?f = "\<lambda>t. t\<lparr>st_reliable := None, st_bestEffort := None\<rparr>"
  obtain t where t: "find (has_socket fd) (ss_tuples s) = Some t" "find (refers fn fe) (ss_tuples s) = Some t"
    and s': "s' = s\<lparr>ss_tuples := update_first (has_socket fd) ?f (ss_tuples s)\<rparr>"
    using assms(2,4) by (auto simp: ss_close_run [OF assms(1)] getWithSocket_def getWithReferences_def
        split: option.splits if_splits)
  have rt: "refers fn fe t" "has_socket fd t" using t by (auto simp: find_Some_iff)
  have "find (refers fn fe) (update_first (has_socket fd) ?f xs) = Some (?f t)"
    if "find (has_socket fd) xs = Some t" "find (refers fn fe) xs = Some t" for xs
    using that rt by (induction xs) (auto simp: refers_def split: if_splits)
  from this [OF t] show ?thesis
    using assms(3,5,6) unfolding s' valid_handle_def
    by (simp add: checkMessage_def getSocketLink_def getWithReferences_def)
qed

theorem closed_link_dereferenced_witness:
  "checkMessage 7 (setFederate 1 (setFederation 1 (new_message MESSAGE_NULL NoBody))) (snd (ss_close 6 demo_server))
     = Inl UndefinedBehaviour"
proof -
  have "references_ok demo_server" "ss_close 6 demo_server = (Inr (1, 1), snd (ss_close 6 demo_server))"
    "valid_handle 1" "getWithReferences 1 1 demo_server = getWithSocket 6 demo_server"
    by (simp_all add: demo_server_def getWithReferences_def refers_def valid_handle_def references_ok_def
        ss_close_def act_simps getWithSocket_def has_socket_def)
  then show ?thesis by (intro closed_link_dereferenced [THEN conjunct2]) (simp_all add: message_defs)
qed

end
