(* ===== verification/Ddm.thy ===== *)
theory Ddm
  imports Prelude
begin

text \<open>
  Data distribution management: \<open>libCERTI/Dimension.cc\<close>, \<open>Extent.cc\<close>, \<open>BaseRegion.cc\<close>,
  \<open>RTIRegion.cc\<close>, \<open>FedRegion.cc\<close> and \<open>RoutingSpace.cc\<close>. The lemmas show that extents and
  regions overlap exactly when they have a point in common.
\<close>

section \<open>Extents\<close>

type_synonym range = "32 word \<times> 32 word"
type_synonym extent = "range list"

text \<open>The static bounds of class \<open>Dimension\<close>, shared by all dimensions.\<close>

record axis =
  axisLowerBound :: "32 word"
  axisUpperBound :: "32 word"

definition axis_initial :: axis where
  "axis_initial = \<lparr>axisLowerBound = 0, axisUpperBound = - 1\<rparr>"

definition setLowerBound :: "32 word \<Rightarrow> axis \<Rightarrow> axis" where
  "setLowerBound b a = a\<lparr>axisLowerBound := b\<rparr>"

definition setUpperBound :: "32 word \<Rightarrow> axis \<Rightarrow> axis" where
  "setUpperBound b a = a\<lparr>axisUpperBound := b\<rparr>"

definition extent_new :: "axis \<Rightarrow> nat \<Rightarrow> extent" where
  "extent_new a n = replicate n (axisLowerBound a, axisUpperBound a)"

text \<open>The check that all four accessors make of their dimension handle.\<close>

definition dimension_index :: "extent \<Rightarrow> dimension_handle \<Rightarrow> exn + nat" where
  "dimension_index e h =
     (if h \<le> 0 \<or> unat h > length e then Inl ArrayIndexOutOfBounds else Inr (unat (h - 1)))"

definition getRangeLowerBound :: "extent \<Rightarrow> dimension_handle \<Rightarrow> exn + 32 word" where
  "getRangeLowerBound e h = (case dimension_index e h of Inl x \<Rightarrow> Inl x | Inr i \<Rightarrow> Inr (fst (e ! i)))"

definition getRangeUpperBound :: "extent \<Rightarrow> dimension_handle \<Rightarrow> exn + 32 word" where
  "getRangeUpperBound e h = (case dimension_index e h of Inl x \<Rightarrow> Inl x | Inr i \<Rightarrow> Inr (snd (e ! i)))"

definition setRangeLowerBound :: "dimension_handle \<Rightarrow> 32 word \<Rightarrow> extent \<Rightarrow> exn + extent" where
  "setRangeLowerBound h v e =
     (case dimension_index e h of Inl x \<Rightarrow> Inl x | Inr i \<Rightarrow> Inr (e[i := (v, snd (e ! i))]))"

definition setRangeUpperBound :: "dimension_handle \<Rightarrow> 32 word \<Rightarrow> extent \<Rightarrow> exn + extent" where
  "setRangeUpperBound h v e =
     (case dimension_index e h of Inl x \<Rightarrow> Inl x | Inr i \<Rightarrow> Inr (e[i := (fst (e ! i), v)]))"

text \<open>The loop of \<open>Extent::overlaps\<close> over the handles still to be compared.\<close>

fun overlaps_from :: "extent \<Rightarrow> extent \<Rightarrow> dimension_handle list \<Rightarrow> exn + bool" where
  "overlaps_from this e [] = Inr True"
| "overlaps_from this e (i # is) =
     (case (getRangeLowerBound e i, getRangeUpperBound this i) of
        (Inr elo, Inr thi) \<Rightarrow>
          if elo > thi then Inr False
          else (case (getRangeUpperBound e i, getRangeLowerBound this i) of
                  (Inr ehi, Inr tlo) \<Rightarrow> if ehi < tlo then Inr False else overlaps_from this e is
                | (Inl x, _) \<Rightarrow> Inl x
                | (_, Inl x) \<Rightarrow> Inl x)
      | (Inl x, _) \<Rightarrow> Inl x
      | (_, Inl x) \<Rightarrow> Inl x)"

definition extent_overlaps :: "extent \<Rightarrow> extent \<Rightarrow> exn + bool" where
  "extent_overlaps this e = overlaps_from this e (map of_nat [1..<Suc (length this)])"

section \<open>Routing spaces\<close>

record dimension =
  dim_handle :: dimension_handle
  dim_name :: string

record routing_space =
  rs_handle :: space_handle
  rs_name :: string
  rs_dimensions :: "dimension list"

text \<open>\<open>addDimension\<close> asserts that the handles are the positions from 1.\<close>

definition addDimension :: "dimension \<Rightarrow> routing_space \<Rightarrow> exn + routing_space" where
  "addDimension d r =
     (if unat (dim_handle d) = Suc (length (rs_dimensions r))
      then Inr (r\<lparr>rs_dimensions := rs_dimensions r @ [d]\<rparr>) else Inl UndefinedBehaviour)"

definition getDimensionHandle :: "string \<Rightarrow> routing_space \<Rightarrow> exn + dimension_handle" where
  "getDimensionHandle n r =
     (case find (\<lambda>d. dim_name d = n) (rs_dimensions r) of
        Some d \<Rightarrow> Inr (dim_handle d) | None \<Rightarrow> Inl NameNotFound)"

definition getDimensionName :: "dimension_handle \<Rightarrow> routing_space \<Rightarrow> exn + string" where
  "getDimensionName h r =
     (case find (\<lambda>d. dim_handle d = h) (rs_dimensions r) of
        Some d \<Rightarrow> Inr (dim_name d) | None \<Rightarrow> Inl DimensionNotDefined)"

fun init_ranges :: "axis \<Rightarrow> dimension list \<Rightarrow> extent \<Rightarrow> exn + extent" where
  "init_ranges a [] e = Inr e"
| "init_ranges a (d # ds) e =
     (case setRangeLowerBound (dim_handle d) (axisLowerBound a) e of
        Inl x \<Rightarrow> Inl x
      | Inr e1 \<Rightarrow> (case setRangeUpperBound (dim_handle d) (axisUpperBound a) e1 of
          Inl x \<Rightarrow> Inl x | Inr e2 \<Rightarrow> init_ranges a ds e2))"

definition createExtent :: "axis \<Rightarrow> routing_space \<Rightarrow> exn + extent" where
  "createExtent a r = init_ranges a (rs_dimensions r) (extent_new a (length (rs_dimensions r)))"

section \<open>Regions\<close>

record region =
  rg_handle :: region_handle
  rg_space :: space_handle
  rg_extents :: "extent list"

definition rti_region_new :: "axis \<Rightarrow> region_handle \<Rightarrow> routing_space \<Rightarrow> nat \<Rightarrow> exn + region" where
  "rti_region_new a h r n =
     (case createExtent a r of
        Inl x \<Rightarrow> Inl x
      | Inr e \<Rightarrow> Inr \<lparr>rg_handle = h, rg_space = rs_handle r, rg_extents = replicate n e\<rparr>)"

definition region_getRangeLowerBound :: "nat \<Rightarrow> dimension_handle \<Rightarrow> region \<Rightarrow> exn + 32 word" where
  "region_getRangeLowerBound i d r =
     (if i \<ge> length (rg_extents r) then Inl ArrayIndexOutOfBounds else getRangeLowerBound (rg_extents r ! i) d)"

definition region_getRangeUpperBound :: "nat \<Rightarrow> dimension_handle \<Rightarrow> region \<Rightarrow> exn + 32 word" where
  "region_getRangeUpperBound i d r =
     (if i \<ge> length (rg_extents r) then Inl ArrayIndexOutOfBounds else getRangeUpperBound (rg_extents r ! i) d)"

definition region_setRangeLowerBound :: "nat \<Rightarrow> dimension_handle \<Rightarrow> 32 word \<Rightarrow> region \<Rightarrow> exn + region" where
  "region_setRangeLowerBound i d v r =
     (if i \<ge> length (rg_extents r) then Inl ArrayIndexOutOfBounds
      else case setRangeLowerBound d v (rg_extents r ! i) of
          Inl x \<Rightarrow> Inl x | Inr e \<Rightarrow> Inr (r\<lparr>rg_extents := (rg_extents r)[i := e]\<rparr>))"

definition region_setRangeUpperBound :: "nat \<Rightarrow> dimension_handle \<Rightarrow> 32 word \<Rightarrow> region \<Rightarrow> exn + region" where
  "region_setRangeUpperBound i d v r =
     (if i \<ge> length (rg_extents r) then Inl ArrayIndexOutOfBounds
      else case setRangeUpperBound d v (rg_extents r ! i) of
          Inl x \<Rightarrow> Inl x | Inr e \<Rightarrow> Inr (r\<lparr>rg_extents := (rg_extents r)[i := e]\<rparr>))"

definition replaceExtents :: "extent list \<Rightarrow> region \<Rightarrow> exn + region" where
  "replaceExtents es r =
     (if length es \<noteq> length (rg_extents r) then Inl InvalidExtents else Inr (r\<lparr>rg_extents := es\<rparr>))"

text \<open>The nested loops of \<open>BaseRegion::overlaps\<close> over the pairs of extents.\<close>

fun any_overlap :: "(extent \<times> extent) list \<Rightarrow> exn + bool" where
  "any_overlap [] = Inr False"
| "any_overlap ((a, b) # ps) =
     (case extent_overlaps a b of Inl x \<Rightarrow> Inl x | Inr True \<Rightarrow> Inr True | Inr False \<Rightarrow> any_overlap ps)"

definition region_overlaps :: "region \<Rightarrow> region \<Rightarrow> exn + bool" where
  "region_overlaps r s =
     (if rg_space r \<noteq> rg_space s then Inr False
      else any_overlap (List.product (rg_extents r) (rg_extents s)))"

text \<open>\<open>FedRegion\<close>: the committed extents are set by the constructor only.\<close>

record fed_region = region +
  fr_coExtents :: "extent list"

definition fed_region_new :: "region_handle \<Rightarrow> space_handle \<Rightarrow> extent list \<Rightarrow> fed_region" where
  "fed_region_new h s es = \<lparr>rg_handle = h, rg_space = s, rg_extents = es, fr_coExtents = es\<rparr>"

definition getRangeLowerBoundNotificationLimit :: "nat \<Rightarrow> dimension_handle \<Rightarrow> fed_region \<Rightarrow> exn + 32 word" where
  "getRangeLowerBoundNotificationLimit i d r =
     (if i \<ge> length (fr_coExtents r) then Inl ArrayIndexOutOfBounds else getRangeLowerBound (fr_coExtents r ! i) d)"

definition getRangeUpperBoundNotificationLimit :: "nat \<Rightarrow> dimension_handle \<Rightarrow> fed_region \<Rightarrow> exn + 32 word" where
  "getRangeUpperBoundNotificationLimit i d r =
     (if i \<ge> length (fr_coExtents r) then Inl ArrayIndexOutOfBounds else getRangeUpperBound (fr_coExtents r ! i) d)"

definition fed_region_commit :: "fed_region \<Rightarrow> exn + fed_region" where
  "fed_region_commit r =
     (if length (fr_coExtents r) \<noteq> length (rg_extents r) then Inl InvalidExtents
      else Inr (r\<lparr>rg_extents := fr_coExtents r\<rparr>))"

section \<open>Overlap is intersection\<close>

text \<open>The points of an extent.\<close>

definition point_in :: "32 word list \<Rightarrow> extent \<Rightarrow> bool" where
  "point_in p e \<longleftrightarrow> length p = length e \<and> (\<forall>i < length e. fst (e ! i) \<le> p ! i \<and> p ! i \<le> snd (e ! i))"

definition extent_ok :: "extent \<Rightarrow> bool" where
  "extent_ok e \<longleftrightarrow> length e < 2 ^ 32 \<and> (\<forall>r \<in> set e. fst r \<le> snd r)"

lemma dimension_index_of_nat:
  assumes "i < length e" "length e < 2 ^ 32"
  shows "dimension_index e (of_nat (Suc i)) = Inr i"
proof -
  have u: "unat (of_nat (Suc i) :: dimension_handle) = Suc i"
    using assms by (simp add: unsigned_of_nat take_bit_nat_eq_self del: of_nat_Suc)
  have "(of_nat (Suc i) :: dimension_handle) \<noteq> 0" using u by auto
  moreover have "unat (of_nat i :: dimension_handle) = i"
    using assms by (simp add: unsigned_of_nat take_bit_nat_eq_self)
  ultimately show ?thesis using u assms by (simp add: dimension_index_def word_le_0_iff)
qed

lemma bounds_of_nat:
  assumes "i < length e" "length e < 2 ^ 32"
  shows "getRangeLowerBound e (of_nat (Suc i)) = Inr (fst (e ! i))"
    and "getRangeUpperBound e (of_nat (Suc i)) = Inr (snd (e ! i))"
  using dimension_index_of_nat [OF assms] by (simp_all add: getRangeLowerBound_def getRangeUpperBound_def del: of_nat_Suc)

definition ranges_meet :: "range \<Rightarrow> range \<Rightarrow> bool" where
  "ranges_meet r s \<longleftrightarrow> fst s \<le> snd r \<and> fst r \<le> snd s"

lemma overlaps_from_upto:
  assumes "length this = length e" "length e < 2 ^ 32" "\<forall>i \<in> set is. i < length e"
  shows "overlaps_from this e (map (\<lambda>i. of_nat (Suc i)) is)
    = Inr (\<forall>i \<in> set is. ranges_meet (this ! i) (e ! i))"
proof -
  have b: "getRangeLowerBound e (of_nat (Suc i)) = Inr (fst (e ! i))" "getRangeUpperBound e (of_nat (Suc i)) = Inr (snd (e ! i))"
    "getRangeLowerBound this (of_nat (Suc i)) = Inr (fst (this ! i))" "getRangeUpperBound this (of_nat (Suc i)) = Inr (snd (this ! i))"
    if "i < length e" for i
    using bounds_of_nat [of i e] bounds_of_nat [of i this] that assms(1,2) by (simp_all del: of_nat_Suc)
  show ?thesis
    using assms(3) by (induction "is") (auto simp: b ranges_meet_def not_le not_less simp del: of_nat_Suc)
qed

lemma extent_overlaps_run:
  assumes "length this = length e" "length e < 2 ^ 32"
  shows "extent_overlaps this e = Inr (\<forall>i < length e. ranges_meet (this ! i) (e ! i))"
proof -
  have "map of_nat [1..<Suc (length this)] = map (\<lambda>i. of_nat (Suc i) :: dimension_handle) [0..<length this]"
    by (rule nth_equalityI) (simp_all del: upt_Suc)
  then have "extent_overlaps this e = overlaps_from this e (map (\<lambda>i. of_nat (Suc i)) [0..<length this])"
    by (simp only: extent_overlaps_def)
  also have "\<dots> = Inr (\<forall>i \<in> set [0..<length this]. ranges_meet (this ! i) (e ! i))"
    by (rule overlaps_from_upto [OF assms]) (simp add: assms(1))
  finally show ?thesis by (simp add: assms(1) Ball_def)
qed

lemma ranges_meet_iff:
  assumes "fst r \<le> snd r" "fst s \<le> snd s"
  shows "ranges_meet r s \<longleftrightarrow> (\<exists>x. fst r \<le> x \<and> x \<le> snd r \<and> fst s \<le> x \<and> x \<le> snd s)"
proof
  assume "ranges_meet r s"
  then show "\<exists>x. fst r \<le> x \<and> x \<le> snd r \<and> fst s \<le> x \<and> x \<le> snd s"
    using assms by (intro exI [of _ "max (fst r) (fst s)"]) (auto simp: ranges_meet_def)
qed (auto simp: ranges_meet_def intro: order_trans)

lemma extents_share_point:
  assumes "length a = length b" "extent_ok a" "extent_ok b"
  shows "(\<exists>p. point_in p a \<and> point_in p b) \<longleftrightarrow> (\<forall>i < length b. ranges_meet (a ! i) (b ! i))"
proof
  assume "\<exists>p. point_in p a \<and> point_in p b"
  then show "\<forall>i < length b. ranges_meet (a ! i) (b ! i)"
    using assms(1) by (auto simp: point_in_def ranges_meet_def intro: order_trans)
next
  assume m: "\<forall>i < length b. ranges_meet (a ! i) (b ! i)"
  define p where "p = map (\<lambda>i. max (fst (a ! i)) (fst (b ! i))) [0..<length b]"
  have "point_in p a \<and> point_in p b"
    using m assms by (auto simp: point_in_def p_def ranges_meet_def extent_ok_def)
  then show "\<exists>p. point_in p a \<and> point_in p b" by blast
qed

lemma any_overlap_run:
  assumes "\<forall>(a, b) \<in> set ps. \<exists>x. extent_overlaps a b = Inr x"
  shows "any_overlap ps = Inr (\<exists>(a, b) \<in> set ps. extent_overlaps a b = Inr True)"
  using assms by (induction ps rule: any_overlap.induct) (auto split: bool.splits sum.splits)

section \<open>Properties\<close>

text \<open>
  C31. Two regions of the same routing space, whose extents have the dimensions of the space and
  ordered bounds, overlap exactly when some point lies in an extent of each of them.
\<close>

theorem region_overlaps_iff_common_point:
  assumes "rg_space r = rg_space s" "\<forall>e \<in> set (rg_extents r) \<union> set (rg_extents s). extent_ok e \<and> length e = n"
  shows "region_overlaps r s = Inr (\<exists>p. (\<exists>a \<in> set (rg_extents r). point_in p a) \<and> (\<exists>b \<in> set (rg_extents s). point_in p b))"
proof -
  have ov: "extent_overlaps a b = Inr (\<exists>p. point_in p a \<and> point_in p b)"
    if "a \<in> set (rg_extents r)" "b \<in> set (rg_extents s)" for a b
  proof -
    have "length a = length b" "extent_ok a" "extent_ok b" using assms(2) that by auto
    then show ?thesis using extents_share_point [of a b] extent_overlaps_run [of a b] by (simp add: extent_ok_def)
  qed
  have "any_overlap (List.product (rg_extents r) (rg_extents s))
      = Inr (\<exists>(a, b) \<in> set (List.product (rg_extents r) (rg_extents s)). extent_overlaps a b = Inr True)"
    by (rule any_overlap_run) (use ov in auto)
  also have "\<dots> = Inr (\<exists>p. (\<exists>a \<in> set (rg_extents r). point_in p a) \<and> (\<exists>b \<in> set (rg_extents s). point_in p b))"
    using ov by (auto 0 3)
  finally show ?thesis using assms(1) by (simp add: region_overlaps_def)
qed

theorem region_overlaps_iff_common_point_witness:
  "region_overlaps \<lparr>rg_handle = 1, rg_space = 1, rg_extents = [[(0, 5), (2, 9)]]\<rparr>
     \<lparr>rg_handle = 2, rg_space = 1, rg_extents = [[(7, 8), (0, 1)], [(5, 6), (9, 9)]]\<rparr> = Inr True"
proof -
  let ?r = "\<lparr>rg_handle = 1, rg_space = 1, rg_extents = [[(0, 5), (2, 9)]]\<rparr> :: region"
  let ?s = "\<lparr>rg_handle = 2, rg_space = 1, rg_extents = [[(7, 8), (0, 1)], [(5, 6), (9, 9)]]\<rparr> :: region"
  have "point_in [5, 9] [(0, 5), (2, 9)]" "point_in [5, 9] [(5, 6), (9, 9)]"
    by (auto simp: point_in_def less_Suc_eq nth_Cons')
  then have "\<exists>p. (\<exists>a \<in> set (rg_extents ?r). point_in p a) \<and> (\<exists>b \<in> set (rg_extents ?s). point_in p b)"
    by auto
  then show ?thesis using region_overlaps_iff_common_point [of ?r ?s 2] by (simp add: extent_ok_def)
qed

text \<open>
  \<open>FedRegion::commit\<close> does not commit the ranges that were set: it brings back the extents the
  region was created with.
\<close>

theorem fed_region_commit_reverts:
  "length es' = length es \<Longrightarrow>
     fed_region_commit ((fed_region_new h s es)\<lparr>rg_extents := es'\<rparr>) = Inr (fed_region_new h s es)"
  by (simp add: fed_region_commit_def fed_region_new_def)

theorem fed_region_commit_reverts_witness:
  "fed_region_commit ((fed_region_new 1 1 [[(0, 9)]])\<lparr>rg_extents := [[(3, 4)]]\<rparr>) = Inr (fed_region_new 1 1 [[(0, 9)]])"
  by (rule fed_region_commit_reverts) simp

end
