(* ===== verification/HandleManager.thy ===== *)
theory HandleManager
  imports Prelude
begin

text \<open>
  \<open>libCERTI/HandleManager.hh\<close>: the generator of federation-wide handles, at the type
  \<open>uint32_t\<close> of all handles.
\<close>

record handle_manager =
  maximum :: handle
  highest :: handle
  available :: "handle list"

text \<open>The constructor with an initial value: the maximum is that of the type.\<close>

definition handle_manager_new :: "handle \<Rightarrow> handle_manager" where
  "handle_manager_new init = \<lparr>maximum = - 1, highest = init, available = []\<rparr>"

definition provide :: "(handle_manager, handle) action" where
  "provide =
     bind (gets available) (\<lambda>av.
       case av of
         h # av' \<Rightarrow> seq (modify (\<lambda>m. m\<lparr>available := av'\<rparr>)) (ret h)
       | [] \<Rightarrow> bind (gets (\<lambda>m. (highest m, maximum m))) (\<lambda>(hi, mx).
           if hi \<noteq> mx then seq (modify (\<lambda>m. m\<lparr>highest := highest m + 1\<rparr>)) (ret hi)
           else throw RTIinternalError))"

text \<open>The body of \<open>free\<close> is commented out in the code: nothing is done.\<close>

definition free :: "handle \<Rightarrow> (handle_manager, unit) action" where
  "free h = ret ()"

primrec provide_many :: "nat \<Rightarrow> (handle_manager, handle list) action" where
  "provide_many 0 = ret []"
| "provide_many (Suc n) = bind provide (\<lambda>h. bind (provide_many n) (\<lambda>hs. ret (h # hs)))"

text \<open>The manager has handed out the handles in \<open>[init, highest)\<close>, and \<open>free\<close> never feeds the list.\<close>

definition hm_ok :: "handle \<Rightarrow> handle_manager \<Rightarrow> bool" where
  "hm_ok init m \<longleftrightarrow> available m = [] \<and> init \<le> highest m \<and> maximum m = - 1"

lemma hm_ok_new: "hm_ok init (handle_manager_new init)"
  by (simp add: hm_ok_def handle_manager_new_def)

lemma provide_run:
  assumes "available m = []"
  shows "provide m = (if highest m \<noteq> maximum m then (Inr (highest m), m\<lparr>highest := highest m + 1\<rparr>)
                      else (Inl RTIinternalError, m))"
  using assms by (simp add: provide_def act_simps)

lemma word_less_plus_one: "(h::handle) \<noteq> - 1 \<Longrightarrow> h < h + 1"
proof -
  assume "h \<noteq> - 1"
  then have "1 + h \<noteq> 0" by (simp add: eq_neg_iff_add_eq_0 add.commute)
  then have "unat (1 + h) = Suc (unat h)" by (rule unatSuc)
  then show ?thesis by (simp add: word_less_nat_alt add.commute)
qed

lemma provide_ok:
  assumes "hm_ok init m" and "provide m = (Inr h, m')"
  shows "h = highest m \<and> h < highest m' \<and> hm_ok init m'"
proof -
  have av: "available m = []" using assms(1) by (simp add: hm_ok_def)
  have "h = highest m" "m' = m\<lparr>highest := highest m + 1\<rparr>" "highest m \<noteq> - 1"
    using assms by (auto simp: provide_run [OF av] hm_ok_def split: if_splits)
  then show ?thesis using assms(1) word_less_plus_one [of "highest m"]
    by (auto simp: hm_ok_def intro: order_trans less_imp_le)
qed

lemma provide_many_ok:
  assumes "hm_ok init m" and "provide_many n m = (Inr hs, m')"
  shows "length hs = n \<and> sorted_wrt (<) hs \<and> (\<forall>h \<in> set hs. highest m \<le> h \<and> h < highest m') \<and> hm_ok init m'
    \<and> highest m \<le> highest m'"
  using assms
proof (induction n arbitrary: m hs)
  case 0
  then show ?case by (auto simp: act_simps)
next
  case (Suc n)
  from Suc.prems(2) obtain h m1 where p: "provide m = (Inr h, m1)"
    and r: "bind (provide_many n) (\<lambda>hs. ret (h # hs)) m1 = (Inr hs, m')"
    by (auto dest: bind_InrD)
  from r obtain hs' where q: "provide_many n m1 = (Inr hs', m')" and hs: "hs = h # hs'"
    by (auto simp: act_simps split: prod.splits sum.splits)
  have 1: "h = highest m" "h < highest m1" "hm_ok init m1"
    using provide_ok [OF Suc.prems(1) p] by auto
  have "length hs' = n \<and> sorted_wrt (<) hs' \<and> (\<forall>h \<in> set hs'. highest m1 \<le> h \<and> h < highest m') \<and> hm_ok init m'
    \<and> highest m1 \<le> highest m'"
    using Suc.IH [OF 1(3) q] .
  with 1 hs show ?case by (auto dest: less_le_trans order_trans less_imp_le)
qed

lemma free_run [act_simps]: "free h m = (Inr (), m)"
  by (simp add: free_def act_simps)

end
