(* ===== verification/Objects.thy ===== *)
theory Objects
  imports Sockets Ddm HandleManager
begin

text \<open>
  The object model of a federation: \<open>libCERTI/Subscribable.cc\<close>, \<open>ObjectClassAttribute.cc\<close>,
  \<open>ObjectAttribute.cc\<close>, \<open>Object.cc\<close>, the data of \<open>ObjectClass.hh\<close> and \<open>RootObject.hh\<close>, and
  \<open>ObjectSet.cc\<close>.

  The state is one store, the record \<open>root\<close>. A pointer to an object, an object class or a region is
  its handle; a null region is \<open>None\<close>, and a pointer whose target has been deleted is a handle
  that is not found, which is undefined behaviour. Whether a component points to a security
  server is a flag of its state (it does in the RTIG, and does not in the RTIA); what the server
  answers is the environment \<open>object_env\<close>. Messages that the code writes to a socket at once
  are appended to \<open>ro_sent\<close>.
\<close>

section \<open>The environment: the security server\<close>

record object_env =
  env_federation :: federation_handle
  env_link :: "federate_handle \<Rightarrow> exn + socket option"
  env_access :: "federate_handle \<Rightarrow> level_id \<Rightarrow> exn + bool"

definition env_of :: "security_server \<Rightarrow> socket_server \<Rightarrow> object_env" where
  "env_of sv ss = \<lparr>env_federation = sec_federation sv, env_link = sec_getSocketLink sv ss,
     env_access = canFederateAccessData sv ss\<rparr>"

section \<open>Subscribers\<close>

record subscriber =
  sub_handle :: federate_handle
  sub_region :: "region_handle option"

definition find_region :: "region_handle \<Rightarrow> region list \<Rightarrow> region option" where
  "find_region h rs = find (\<lambda>r. rg_handle r = h) rs"

definition sub_match :: "region list \<Rightarrow> subscriber \<Rightarrow> region_handle option \<Rightarrow> exn + bool" where
  "sub_match rs s r =
     (case (sub_region s, r) of
        (Some a, Some b) \<Rightarrow>
          ebind (some_or UndefinedBehaviour (find_region a rs)) (\<lambda>ra.
          ebind (some_or UndefinedBehaviour (find_region b rs)) (\<lambda>rb. region_overlaps ra rb))
      | _ \<Rightarrow> Inr True)"

type_synonym subscribers = "subscriber list"

text \<open>
  \<open>Subscribable::unsubscribe(fed)\<close> only calls \<open>std::remove_if\<close>: the kept elements are moved to the
  front and nothing is erased, so the tail of the list keeps its old elements.
\<close>

definition sub_unsubscribe_all :: "federate_handle \<Rightarrow> subscribers \<Rightarrow> subscribers" where
  "sub_unsubscribe_all fed xs =
     (let kept = filter (\<lambda>s. sub_handle s \<noteq> fed) xs in kept @ drop (length kept) xs)"

definition sub_unsubscribe :: "federate_handle \<Rightarrow> region_handle option \<Rightarrow> subscribers \<Rightarrow> subscribers" where
  "sub_unsubscribe fed r xs = filter (\<lambda>s. s \<noteq> \<lparr>sub_handle = fed, sub_region = r\<rparr>) xs"

definition sub_isSubscribed :: "federate_handle \<Rightarrow> region_handle option \<Rightarrow> subscribers \<Rightarrow> bool" where
  "sub_isSubscribed fed r xs \<longleftrightarrow> \<lparr>sub_handle = fed, sub_region = r\<rparr> \<in> set xs"

definition sub_isSubscribed_any :: "federate_handle \<Rightarrow> subscribers \<Rightarrow> bool" where
  "sub_isSubscribed_any fed xs \<longleftrightarrow> (\<exists>s \<in> set xs. sub_handle s = fed)"

text \<open>\<open>checkAccess\<close> is the pure virtual \<open>checkFederateAccess\<close>.\<close>

definition sub_subscribe :: "(federate_handle \<Rightarrow> exn + unit) \<Rightarrow> federate_handle \<Rightarrow> region_handle option
    \<Rightarrow> subscribers \<Rightarrow> exn + subscribers" where
  "sub_subscribe checkAccess fed r xs =
     (if \<not> sub_isSubscribed fed r xs
      then ebind (checkAccess fed) (\<lambda>_. Inr (xs @ [\<lparr>sub_handle = fed, sub_region = r\<rparr>]))
      else Inr xs)"

section \<open>Attributes of object classes\<close>

record class_attribute =
  ca_name :: string
  ca_handle :: attribute_handle
  ca_level :: level_id
  ca_order :: "32 word"
  ca_transport :: "32 word"
  ca_server :: bool
  ca_space :: space_handle
  ca_publishers :: "federate_handle list"
  ca_subscribers :: subscribers

definition class_attribute_new :: "string \<Rightarrow> attribute_handle \<Rightarrow> class_attribute" where
  "class_attribute_new n h =
     \<lparr>ca_name = n, ca_handle = h, ca_level = PublicLevelID, ca_order = 0, ca_transport = 0, ca_server = False,
      ca_space = 0, ca_publishers = [], ca_subscribers = []\<rparr>"

text \<open>The copy constructor copies neither publishers nor subscribers.\<close>

definition class_attribute_copy :: "class_attribute \<Rightarrow> class_attribute" where
  "class_attribute_copy a = a\<lparr>ca_publishers := [], ca_subscribers := []\<rparr>"

definition ca_checkFederateAccess :: "object_env \<Rightarrow> class_attribute \<Rightarrow> federate_handle \<Rightarrow> exn + unit" where
  "ca_checkFederateAccess env a fed =
     (if ca_server a
      then ebind (env_access env fed (ca_level a)) (\<lambda>ok. if ok then Inr () else Inl SecurityError)
      else Inr ())"

definition ca_isPublishing :: "federate_handle \<Rightarrow> class_attribute \<Rightarrow> bool" where
  "ca_isPublishing fed a \<longleftrightarrow> fed \<in> set (ca_publishers a)"

definition ca_publish :: "object_env \<Rightarrow> federate_handle \<Rightarrow> (class_attribute, unit) action" where
  "ca_publish env fed =
     bind (gets id) (\<lambda>a.
       if \<not> ca_isPublishing fed a
       then seq (lift_sum (ca_checkFederateAccess env a fed))
                (modify (\<lambda>a. a\<lparr>ca_publishers := oset_insert fed (ca_publishers a)\<rparr>))
       else ret ())"

definition deletePublisher :: "federate_handle \<Rightarrow> class_attribute \<Rightarrow> class_attribute" where
  "deletePublisher fed a = a\<lparr>ca_publishers := oset_erase fed (ca_publishers a)\<rparr>"

definition ca_unpublish :: "federate_handle \<Rightarrow> (class_attribute, unit) action" where
  "ca_unpublish fed = modify (\<lambda>a. if ca_isPublishing fed a then deletePublisher fed a else a)"

definition ca_subscribe :: "object_env \<Rightarrow> federate_handle \<Rightarrow> region_handle option \<Rightarrow> (class_attribute, unit) action" where
  "ca_subscribe env fed r =
     bind (gets (\<lambda>a. sub_subscribe (ca_checkFederateAccess env a) fed r (ca_subscribers a))) (\<lambda>x.
     bind (lift_sum x) (\<lambda>xs. modify (\<lambda>a. a\<lparr>ca_subscribers := xs\<rparr>)))"

section \<open>Attributes of object instances\<close>

record object_attribute =
  oa_handle :: attribute_handle
  oa_owner :: federate_handle
  oa_divesting :: bool
  oa_candidates :: "federate_handle list"
  oa_space :: space_handle
  oa_source :: "object_class_handle \<times> attribute_handle"
  oa_region :: "region_handle option"

definition object_attribute_new ::
  "attribute_handle \<Rightarrow> federate_handle \<Rightarrow> object_class_handle \<times> attribute_handle \<Rightarrow> object_attribute" where
  "object_attribute_new h fed src =
     \<lparr>oa_handle = h, oa_owner = fed, oa_divesting = False, oa_candidates = [], oa_space = 0, oa_source = src,
      oa_region = None\<rparr>"

definition oa_setOwner :: "federate_handle \<Rightarrow> object_attribute \<Rightarrow> object_attribute" where
  "oa_setOwner fed a = a\<lparr>oa_owner := fed\<rparr>"

definition oa_setDivesting :: "bool \<Rightarrow> object_attribute \<Rightarrow> object_attribute" where
  "oa_setDivesting b a = a\<lparr>oa_divesting := b\<rparr>"

definition oa_isCandidate :: "federate_handle \<Rightarrow> object_attribute \<Rightarrow> bool" where
  "oa_isCandidate fed a \<longleftrightarrow> fed \<in> set (oa_candidates a)"

definition oa_addCandidate :: "federate_handle \<Rightarrow> object_attribute \<Rightarrow> object_attribute" where
  "oa_addCandidate fed a = a\<lparr>oa_candidates := oset_insert fed (oa_candidates a)\<rparr>"

definition oa_removeCandidate :: "federate_handle \<Rightarrow> object_attribute \<Rightarrow> object_attribute" where
  "oa_removeCandidate fed a = a\<lparr>oa_candidates := oset_erase fed (oa_candidates a)\<rparr>"

definition oa_getFirstCandidate :: "object_attribute \<Rightarrow> exn + federate_handle" where
  "oa_getFirstCandidate a = (case oa_candidates a of [] \<Rightarrow> Inl RTIinternalError | c # _ \<Rightarrow> Inr c)"

definition oa_hasCandidates :: "object_attribute \<Rightarrow> bool" where
  "oa_hasCandidates a \<longleftrightarrow> oa_candidates a \<noteq> []"

definition oa_associate :: "region_handle option \<Rightarrow> object_attribute \<Rightarrow> object_attribute" where
  "oa_associate r a = a\<lparr>oa_region := r\<rparr>"

definition oa_unassociate :: "region_handle option \<Rightarrow> object_attribute \<Rightarrow> object_attribute" where
  "oa_unassociate r a = (if oa_region a = r then a\<lparr>oa_region := None\<rparr> else a)"

section \<open>Objects\<close>

text \<open>The member \<open>Owner\<close> duplicates the owner of the attribute \<open>privilegeToDelete\<close>.\<close>

record object =
  ob_handle :: object_handle
  ob_name :: string
  ob_class :: object_class_handle
  ob_owner :: federate_handle
  ob_attributes :: "(attribute_handle \<times> object_attribute) list"

definition ob_addAttribute :: "object_attribute \<Rightarrow> object \<Rightarrow> exn + object" where
  "ob_addAttribute a ob =
     (if map_of (ob_attributes ob) (oa_handle a) \<noteq> None then Inl RTIinternalError
      else Inr (ob\<lparr>ob_attributes := om_put (oa_handle a) a (ob_attributes ob)\<rparr>))"

definition ob_getAttribute :: "attribute_handle \<Rightarrow> object \<Rightarrow> exn + object_attribute" where
  "ob_getAttribute h ob = some_or AttributeNotDefined (map_of (ob_attributes ob) h)"

definition ob_isAttributeOwnedByFederate :: "federate_handle \<Rightarrow> attribute_handle \<Rightarrow> object \<Rightarrow> exn + bool" where
  "ob_isAttributeOwnedByFederate fed h ob = ebind (ob_getAttribute h ob) (\<lambda>a. Inr (oa_owner a = fed))"

definition ob_unassociate :: "region_handle \<Rightarrow> object \<Rightarrow> object" where
  "ob_unassociate r ob = ob\<lparr>ob_attributes := om_map (\<lambda>_. oa_unassociate (Some r)) (ob_attributes ob)\<rparr>"

definition ob_killFederate :: "federate_handle \<Rightarrow> object \<Rightarrow> object" where
  "ob_killFederate fed ob = ob\<lparr>ob_attributes :=
     om_map (\<lambda>_ a. if oa_owner a = fed then oa_setOwner 0 a else a) (ob_attributes ob)\<rparr>"

text \<open>A change through the pointer that \<open>getAttribute\<close> returns.\<close>

definition ob_update :: "attribute_handle \<Rightarrow> (object_attribute \<Rightarrow> object_attribute) \<Rightarrow> object \<Rightarrow> object" where
  "ob_update h f ob = (case map_of (ob_attributes ob) h of
     None \<Rightarrow> ob | Some a \<Rightarrow> ob\<lparr>ob_attributes := om_put h (f a) (ob_attributes ob)\<rparr>)"

section \<open>The data of object classes, interactions and the root object\<close>

text \<open>
  \<open>oc_subs\<close> is the \<open>fromName\<close> map of \<open>subClasses\<close>, \<open>oc_instances\<close> the keys of
  \<open>_handleObjectMap\<close>, whose values are the objects with these handles.
\<close>

record object_class =
  oc_handle :: object_class_handle
  oc_name :: string
  oc_server :: bool
  oc_level :: level_id
  oc_super :: object_class_handle
  oc_subs :: "(string \<times> object_class_handle) list"
  oc_maxSubscriber :: federate_handle
  oc_attributes :: "(attribute_handle \<times> class_attribute) list"
  oc_instances :: "object_handle list"

definition object_class_new :: "string \<Rightarrow> object_class_handle \<Rightarrow> object_class" where
  "object_class_new n h =
     \<lparr>oc_handle = h, oc_name = n, oc_server = False, oc_level = PublicLevelID, oc_super = 0, oc_subs = [],
      oc_maxSubscriber = 0, oc_attributes = [], oc_instances = []\<rparr>"

type_synonym interaction_class_handle = handle
type_synonym parameter_handle = handle

record parameter =
  pa_handle :: parameter_handle
  pa_name :: string
  pa_level :: level_id

record interaction =
  ic_handle :: interaction_class_handle
  ic_name :: string
  ic_server :: bool
  ic_level :: level_id
  ic_super :: interaction_class_handle
  ic_subs :: "(string \<times> interaction_class_handle) list"
  ic_order :: "32 word"
  ic_transport :: "32 word"
  ic_space :: space_handle
  ic_parameters :: "(parameter_handle \<times> parameter) list"
  ic_publishers :: "federate_handle list"
  ic_subscribers :: subscribers

text \<open>The counters for the handles of the classes that a FOM parser creates.\<close>

record free_handles =
  freeObjectClassHandle :: int
  freeInteractionClassHandle :: int
  freeDimensionHandle :: int
  freeParameterHandle :: int
  freeSpaceHandle :: int

text \<open>\<open>ro_class_names\<close> and \<open>ro_object_names\<close> map names to the handles of the objects pointed to.\<close>

record root =
  ro_server :: bool
  ro_classes :: "(object_class_handle \<times> object_class) list"
  ro_class_names :: "(string \<times> object_class_handle) list"
  ro_interactions :: "(interaction_class_handle \<times> interaction) list"
  ro_interaction_names :: "(string \<times> interaction_class_handle) list"
  ro_objects :: "(object_handle \<times> object) list"
  ro_object_names :: "(string \<times> object_handle) list"
  ro_reserved :: "(string \<times> federate_handle) list"
  ro_spaces :: "routing_space list"
  ro_regions :: "region list"
  ro_region_handles :: handle_manager
  ro_free :: free_handles
  ro_sent :: "(socket \<times> network_message) list"

definition root_new :: "bool \<Rightarrow> root" where
  "root_new server =
     \<lparr>ro_server = server, ro_classes = [], ro_class_names = [], ro_interactions = [], ro_interaction_names = [],
      ro_objects = [], ro_object_names = [], ro_reserved = [], ro_spaces = [], ro_regions = [],
      ro_region_handles = handle_manager_new 1,
      ro_free = \<lparr>freeObjectClassHandle = 0, freeInteractionClassHandle = 0, freeDimensionHandle = 0,
                 freeParameterHandle = 0, freeSpaceHandle = 0\<rparr>, ro_sent = []\<rparr>"

type_synonym 'a root_action = "(root, 'a) action"

text \<open>
  \<open>sendToFederate\<close>: an internal error or a network error is ignored, a missing federate is not.
\<close>

definition sendToFederate :: "object_env \<Rightarrow> network_message \<Rightarrow> federate_handle \<Rightarrow> unit root_action" where
  "sendToFederate env m fed =
     (case env_link env fed of
        Inl e \<Rightarrow> if e = RTIinternalError \<or> e = NetworkError then ret () else throw e
      | Inr l \<Rightarrow> modify (\<lambda>s. s\<lparr>ro_sent := ro_sent s @ transmit [l] m\<rparr>))"

section \<open>The set of objects\<close>

fun show_nat :: "nat \<Rightarrow> string" where
  "show_nat n = (if n < 10 then [char_of (48 + n)] else show_nat (n div 10) @ [char_of (48 + n mod 10)])"

declare show_nat.simps [simp del]

definition os_getObject :: "object_handle \<Rightarrow> root \<Rightarrow> exn + object" where
  "os_getObject h s = some_or ObjectNotKnown (map_of (ro_objects s) h)"

text \<open>The target of a pointer to an object.\<close>

definition os_deref :: "object_handle \<Rightarrow> root \<Rightarrow> exn + object" where
  "os_deref h s = some_or UndefinedBehaviour (map_of (ro_objects s) h)"

definition os_getObjectInstanceHandle :: "string \<Rightarrow> root \<Rightarrow> exn + object_handle" where
  "os_getObjectInstanceHandle n s =
     ebind (some_or ObjectNotKnown (map_of (ro_object_names s) n)) (\<lambda>h.
     ebind (os_deref h s) (\<lambda>ob. Inr (ob_handle ob)))"

definition os_getObjectInstanceName :: "object_handle \<Rightarrow> root \<Rightarrow> exn + string" where
  "os_getObjectInstanceName h s = ebind (os_getObject h s) (\<lambda>ob. Inr (ob_name ob))"

definition os_getObjectClass :: "object_handle \<Rightarrow> root \<Rightarrow> exn + object_class_handle" where
  "os_getObjectClass h s = ebind (os_getObject h s) (\<lambda>ob. Inr (ob_class ob))"

definition os_getObjectByName :: "string \<Rightarrow> root \<Rightarrow> object_handle option" where
  "os_getObjectByName n s = map_of (ro_object_names s) n"

definition os_requestObjectOwner :: "object_handle \<Rightarrow> root \<Rightarrow> exn + federate_handle" where
  "os_requestObjectOwner h s = ebind (os_getObject h s) (\<lambda>ob. Inr (ob_owner ob))"

text \<open>The name map is indexed by the requested name, even if it is empty.\<close>

definition os_registerObjectInstance ::
  "federate_handle \<Rightarrow> object_class_handle \<Rightarrow> object_handle \<Rightarrow> string \<Rightarrow> unit root_action" where
  "os_registerObjectInstance fed c h n =
     seq (bind (gets (\<lambda>s. map_of (ro_objects s) h)) (\<lambda>x. throw_if (x \<noteq> None) ObjectAlreadyRegistered))
     (seq (bind (gets (\<lambda>s. map_of (ro_object_names s) n)) (\<lambda>x. throw_if (x \<noteq> None) ObjectAlreadyRegistered))
     (modify (\<lambda>s. s\<lparr>ro_objects := om_put h
         \<lparr>ob_handle = h, ob_name = (if n \<noteq> [] then n else ''HLAobject_'' @ show_nat (unat h)), ob_class = c,
          ob_owner = fed, ob_attributes = []\<rparr> (ro_objects s),
        ro_object_names := om_put n h (ro_object_names s)\<rparr>)))"

definition os_deleteObjectInstance :: "object_handle \<Rightarrow> unit root_action" where
  "os_deleteObjectInstance h =
     bind (gets (os_getObject h)) (\<lambda>r. bind (lift_sum r) (\<lambda>ob.
     modify (\<lambda>s. s\<lparr>ro_objects := om_erase (ob_handle ob) (ro_objects s),
                   ro_object_names := om_erase (ob_name ob) (ro_object_names s)\<rparr>)))"

text \<open>
  \<open>ObjectSet::killFederate\<close> starts again after every deletion; the fuel is the number of restarts
  that it takes at most, one for every object.
\<close>

fun os_kill_pass :: "federate_handle \<Rightarrow> object_handle list \<Rightarrow> (root, bool) action" where
  "os_kill_pass fed [] = ret False"
| "os_kill_pass fed (h # hs) =
     bind (gets (os_deref h)) (\<lambda>r. bind (lift_sum r) (\<lambda>ob.
       if ob_owner ob = fed then seq (os_deleteObjectInstance h) (ret True)
       else seq (modify (\<lambda>s. s\<lparr>ro_objects := om_put h (ob_killFederate fed ob) (ro_objects s)\<rparr>)) (os_kill_pass fed hs)))"

fun os_kill_loop :: "nat \<Rightarrow> federate_handle \<Rightarrow> (root, bool) action" where
  "os_kill_loop 0 fed = ret False"
| "os_kill_loop (Suc n) fed =
     bind (gets (\<lambda>s. map fst (ro_objects s))) (\<lambda>hs.
     bind (os_kill_pass fed hs) (\<lambda>again. if again then os_kill_loop n fed else ret True))"

definition os_killFederate :: "federate_handle \<Rightarrow> (root, bool) action" where
  "os_killFederate fed = bind (gets (\<lambda>s. length (ro_objects s))) (\<lambda>n. os_kill_loop (Suc n) fed)"

definition os_isAttributeOwnedByFederate :: "federate_handle \<Rightarrow> object_handle \<Rightarrow> attribute_handle \<Rightarrow> root \<Rightarrow> exn + bool" where
  "os_isAttributeOwnedByFederate fed h a s =
     (if \<not> ro_server s then Inl RTIinternalError
      else ebind (os_getObject h s) (ob_isAttributeOwnedByFederate fed a))"

definition os_queryAttributeOwnership ::
  "object_env \<Rightarrow> federate_handle \<Rightarrow> object_handle \<Rightarrow> attribute_handle \<Rightarrow> unit root_action" where
  "os_queryAttributeOwnership env fed h a =
     bind (gets ro_server) (\<lambda>server.
       if \<not> server then ret ()
       else
         bind (gets (\<lambda>s. ebind (os_getObject h s) (ob_getAttribute a))) (\<lambda>r. bind (lift_sum r) (\<lambda>oa.
         sendToFederate env
           (setFederate (oa_owner oa) (setFederation (env_federation env)
              (new_message (if oa_owner oa \<noteq> 0 then INFORM_ATTRIBUTE_OWNERSHIP else ATTRIBUTE_IS_NOT_OWNED)
                (AttributeOf h a)))) fed)))"

definition divesting_checks :: "federate_handle \<Rightarrow> object \<Rightarrow> attribute_handle list \<Rightarrow> exn + unit" where
  "divesting_checks fed ob hs =
     efold (\<lambda>h _. ebind (ob_getAttribute h ob) (\<lambda>oa.
       if oa_owner oa \<noteq> fed then Inl AttributeNotOwned
       else if \<not> oa_divesting oa then Inl AttributeDivestitureWasNotRequested else Inr ())) hs ()"

definition os_cancelNegotiatedAttributeOwnershipDivestiture ::
  "federate_handle \<Rightarrow> object_handle \<Rightarrow> attribute_handle list \<Rightarrow> unit root_action" where
  "os_cancelNegotiatedAttributeOwnershipDivestiture fed h hs =
     bind (gets ro_server) (\<lambda>server.
     seq (throw_if (\<not> server) RTIinternalError)
     (bind (gets (os_getObject h)) (\<lambda>r. bind (lift_sum r) (\<lambda>ob.
      seq (lift_sum (divesting_checks fed ob hs))
      (modify (\<lambda>s. s\<lparr>ro_objects := om_put h (fold (\<lambda>a. ob_update a (oa_setDivesting False)) hs ob) (ro_objects s)\<rparr>))))))"

definition os_getAllObjectInstancesFromFederate :: "federate_handle \<Rightarrow> root \<Rightarrow> object_handle list" where
  "os_getAllObjectInstancesFromFederate fed s = map fst (filter (\<lambda>e. ob_owner (snd e) = fed) (ro_objects s))"

end
