(* ===== verification/Broadcast.thy ===== *)
theory Broadcast
  imports Objects
begin

text \<open>
  \<open>libCERTI/ObjectClassBroadcastList.cc\<close>: a message about an object together with the federates
  that wait for it or have got it, which is handed from an object class to its superclasses.

  The lemmas show that a federate that has got the message (or an attribute of it) never gets
  it again, however the list is used, and that the sender gets nothing.
\<close>

datatype line_state = Sent | Waiting | NotSub

record broadcast_line =
  bl_federate :: federate_handle
  bl_initial :: line_state
  bl_states :: "(attribute_handle \<times> line_state) list"

definition line_new :: "federate_handle \<Rightarrow> line_state \<Rightarrow> broadcast_line" where
  "line_new fed st = \<lparr>bl_federate = fed, bl_initial = st, bl_states = []\<rparr>"

definition stateFor :: "attribute_handle \<Rightarrow> broadcast_line \<Rightarrow> line_state" where
  "stateFor a l = (case map_of (bl_states l) a of None \<Rightarrow> bl_initial l | Some st \<Rightarrow> st)"

definition setState :: "attribute_handle \<Rightarrow> line_state \<Rightarrow> broadcast_line \<Rightarrow> broadcast_line" where
  "setState a st l = l\<lparr>bl_states := om_put a st (bl_states l)\<rparr>"

definition isWaitingAny :: "attribute_handle \<Rightarrow> broadcast_line \<Rightarrow> bool" where
  "isWaitingAny mx l \<longleftrightarrow> (\<exists>a \<in> set (handles_upto mx). stateFor a l = Waiting)"

definition isWaitingAll :: "attribute_handle list \<Rightarrow> broadcast_line \<Rightarrow> bool" where
  "isWaitingAll as l \<longleftrightarrow> (\<forall>a \<in> set as. stateFor a l = Waiting)"

text \<open>The pointers \<open>msgRO\<close>, \<open>msgDO\<close>, \<open>msgRAV\<close> and so on are told apart by the type of the message.\<close>

record broadcast_list =
  bc_message :: network_message
  bc_max :: attribute_handle
  bc_lines :: "broadcast_line list"

definition broadcast_types :: "nm_type list" where
  "broadcast_types = [REMOVE_OBJECT, DISCOVER_OBJECT, REFLECT_ATTRIBUTE_VALUES,
     REQUEST_ATTRIBUTE_OWNERSHIP_ASSUMPTION, ATTRIBUTE_OWNERSHIP_DIVESTITURE_NOTIFICATION]"

definition broadcast_new :: "network_message \<Rightarrow> attribute_handle \<Rightarrow> exn + broadcast_list" where
  "broadcast_new m mx =
     (if nm_kind m \<notin> set broadcast_types then Inl RTIinternalError
      else Inr \<lparr>bc_message = m, bc_max = mx,
             bc_lines = (if nm_federate m \<noteq> 0 then [line_new (nm_federate m) Sent] else [])\<rparr>)"

definition mark_waiting :: "attribute_handle \<Rightarrow> broadcast_line \<Rightarrow> broadcast_line" where
  "mark_waiting a l = (if stateFor a l \<noteq> Sent then setState a Waiting l else l)"

definition bc_addFederate :: "federate_handle \<Rightarrow> attribute_handle \<Rightarrow> broadcast_list \<Rightarrow> exn + broadcast_list" where
  "bc_addFederate fed a b =
     (if a > bc_max b then Inl RTIinternalError
      else if \<exists>l \<in> set (bc_lines b). bl_federate l = fed
      then Inr (b\<lparr>bc_lines := update_first (\<lambda>l. bl_federate l = fed) (mark_waiting a) (bc_lines b)\<rparr>)
      else Inr (b\<lparr>bc_lines := bc_lines b @ [setState a Waiting (line_new fed NotSub)]\<rparr>))"

definition setObjectClass :: "object_class_handle \<Rightarrow> network_message \<Rightarrow> network_message" where
  "setObjectClass c m = (case nm_body m of ObjectAndClass ob _ \<Rightarrow> m\<lparr>nm_body := ObjectAndClass ob c\<rparr> | _ \<Rightarrow> m)"

definition upcastTo :: "object_class_handle \<Rightarrow> broadcast_list \<Rightarrow> exn + broadcast_list" where
  "upcastTo c b =
     (if nm_kind (bc_message b) = REMOVE_OBJECT \<or> nm_kind (bc_message b) = DISCOVER_OBJECT
      then Inr (b\<lparr>bc_message := setObjectClass c (bc_message b)\<rparr>)
      else if nm_kind (bc_message b) \<in> set broadcast_types then Inr b
      else Inl RTIinternalError)"

text \<open>Every \<open>certi::Exception\<close> of \<open>getSocketLink\<close> is caught: such a federate is passed over.\<close>

definition link_or_skip :: "object_env \<Rightarrow> federate_handle \<Rightarrow> exn + socket option option" where
  "link_or_skip env fed = (case env_link env fed of
     Inr l \<Rightarrow> Inr (Some l) | Inl e \<Rightarrow> if is_certi_exception e then Inr None else Inl e)"

section \<open>Messages about an object: discovery and removal\<close>

text \<open>The loop of \<open>preparePendingDOMessage\<close>: the sockets and the lines it leaves.\<close>

fun pending_do :: "object_env \<Rightarrow> broadcast_line list \<Rightarrow> exn + (socket option list \<times> broadcast_line list)" where
  "pending_do env [] = Inr ([], [])"
| "pending_do env (l # ls) =
     (if stateFor 0 l = Waiting then
        ebind (link_or_skip env (bl_federate l)) (\<lambda>k.
        ebind (pending_do env ls) (\<lambda>(ss, ls').
          Inr ((case k of None \<Rightarrow> ss | Some s \<Rightarrow> s # ss), setState 0 Sent l # ls')))
      else ebind (pending_do env ls) (\<lambda>(ss, ls'). Inr (ss, l # ls')))"

definition preparePendingDOMessage :: "object_env \<Rightarrow> broadcast_list \<Rightarrow> exn + (broadcast_list \<times> responses)" where
  "preparePendingDOMessage env b =
     ebind (pending_do env (bc_lines b)) (\<lambda>(ss, ls).
       Inr (b\<lparr>bc_lines := ls\<rparr>, if ss = [] then [] else [event ss (bc_message b)]))"

section \<open>Messages about attributes\<close>

definition msg_attributes :: "network_message \<Rightarrow> attribute_handle list" where
  "msg_attributes m = (case nm_body m of AttributesOf _ as \<Rightarrow> as | ValuesOf _ as _ \<Rightarrow> as | _ \<Rightarrow> [])"

text \<open>
  \<open>createResponseMessage(message, line)\<close> and \<open>createResponseMessageWithValues\<close>: the copy keeps the
  waiting attributes. The values are resized with the first attribute that is kept.
\<close>

definition reduced_message :: "network_message \<Rightarrow> broadcast_line \<Rightarrow> network_message" where
  "reduced_message m l = (case nm_body m of
      AttributesOf ob as \<Rightarrow> m\<lparr>nm_body := AttributesOf ob (filter (\<lambda>a. stateFor a l = Waiting) as)\<rparr>
    | ValuesOf ob as vs \<Rightarrow>
        (let kept = filter (\<lambda>e. stateFor (fst e) l = Waiting) (zip as vs)
         in m\<lparr>nm_body := ValuesOf ob (map fst kept) (if kept = [] then vs else map snd kept)\<rparr>)
    | _ \<Rightarrow> m)"

definition mark_sent :: "attribute_handle \<Rightarrow> broadcast_line \<Rightarrow> broadcast_line" where
  "mark_sent mx l = fold (\<lambda>a l. if stateFor a l = Waiting then setState a Sent l else l) (handles_upto mx) l"

definition current_message :: "network_message \<Rightarrow> broadcast_line \<Rightarrow> network_message" where
  "current_message m l = (if isWaitingAll (msg_attributes m) l then m else reduced_message m l)"

fun pending_rav :: "object_env \<Rightarrow> network_message \<Rightarrow> attribute_handle \<Rightarrow> broadcast_line list
    \<Rightarrow> exn + (responses \<times> broadcast_line list)" where
  "pending_rav env m mx [] = Inr ([], [])"
| "pending_rav env m mx (l # ls) =
     (if isWaitingAny mx l then
        ebind (link_or_skip env (bl_federate l)) (\<lambda>k.
        ebind (pending_rav env m mx ls) (\<lambda>(rs, ls').
          Inr ((case k of None \<Rightarrow> rs | Some s \<Rightarrow> event [s] (current_message m l) # rs), mark_sent mx l # ls')))
      else ebind (pending_rav env m mx ls) (\<lambda>(rs, ls'). Inr (rs, l # ls')))"

definition preparePendingRAVMessage :: "object_env \<Rightarrow> broadcast_list \<Rightarrow> exn + (broadcast_list \<times> responses)" where
  "preparePendingRAVMessage env b =
     ebind (pending_rav env (bc_message b) (bc_max b) (bc_lines b)) (\<lambda>(rs, ls). Inr (b\<lparr>bc_lines := ls\<rparr>, rs))"

definition preparePendingMessage :: "object_env \<Rightarrow> broadcast_list \<Rightarrow> exn + (broadcast_list \<times> responses)" where
  "preparePendingMessage env b =
     (let k = nm_kind (bc_message b) in
      if k = REFLECT_ATTRIBUTE_VALUES \<or> k = REQUEST_ATTRIBUTE_OWNERSHIP_ASSUMPTION then preparePendingRAVMessage env b
      else if k = DISCOVER_OBJECT \<or> k = REMOVE_OBJECT then preparePendingDOMessage env b
      else Inl RTIinternalError)"

section \<open>What a federate still may get\<close>

lemma stateFor_new [simp]: "stateFor a (line_new fed st) = st"
  by (simp add: stateFor_def line_new_def)

lemma stateFor_setState [simp]: "stateFor a (setState b st l) = (if a = b then st else stateFor a l)"
  by (simp add: stateFor_def setState_def om_simps split: option.split)

lemma line_federate [simp]:
  "bl_federate (setState b st l) = bl_federate l" "bl_federate (line_new fed st) = fed"
  "bl_federate (mark_waiting a l) = bl_federate l"
  by (simp_all add: setState_def line_new_def mark_waiting_def)

lemma stateFor_mark_waiting [simp]:
  "stateFor a (mark_waiting b l) = (if a = b \<and> stateFor a l \<noteq> Sent then Waiting else stateFor a l)"
  by (auto simp: mark_waiting_def)

lemma mark_sent_run:
  "bl_federate (mark_sent mx l) = bl_federate l \<and>
   stateFor a (mark_sent mx l) = (if a \<in> set (handles_upto mx) \<and> stateFor a l = Waiting then Sent else stateFor a l)"
proof -
  have "bl_federate (fold (\<lambda>a l. if stateFor a l = Waiting then setState a Sent l else l) hs l) = bl_federate l \<and>
     stateFor a (fold (\<lambda>a l. if stateFor a l = Waiting then setState a Sent l else l) hs l)
       = (if a \<in> set hs \<and> stateFor a l = Waiting then Sent else stateFor a l)" for hs
    by (induction hs arbitrary: l) auto
  then show ?thesis by (simp add: mark_sent_def)
qed

lemmas mark_sent_simps [simp] = conjunct1 [OF mark_sent_run] conjunct2 [OF mark_sent_run]

text \<open>A list is well formed if each federate has one line, and the sender's line is closed.\<close>

definition line_of :: "broadcast_list \<Rightarrow> federate_handle \<Rightarrow> broadcast_line option" where
  "line_of b fed = find (\<lambda>l. bl_federate l = fed) (bc_lines b)"

definition got :: "attribute_handle \<Rightarrow> federate_handle \<Rightarrow> broadcast_list \<Rightarrow> bool" where
  "got a fed b \<longleftrightarrow> (\<exists>l \<in> set (bc_lines b). bl_federate l = fed \<and> stateFor a l = Sent)"

definition bc_ok :: "broadcast_list \<Rightarrow> bool" where
  "bc_ok b \<longleftrightarrow> distinct (map bl_federate (bc_lines b))"

text \<open>No federate is between the steps of the protocol: nothing waits.\<close>

definition settled :: "broadcast_list \<Rightarrow> bool" where
  "settled b \<longleftrightarrow> (\<forall>l \<in> set (bc_lines b). stateFor 0 l \<noteq> Waiting)"

lemma update_first_federates:
  "(\<And>l. bl_federate (f l) = bl_federate l) \<Longrightarrow> map bl_federate (update_first p f ls) = map bl_federate ls"
  by (induction ls) auto

lemma update_first_unique:
  "distinct (map bl_federate ls) \<Longrightarrow> (\<And>l. bl_federate (f l) = bl_federate l) \<Longrightarrow>
   set (update_first (\<lambda>l. bl_federate l = fed) f ls) = (\<lambda>l. if bl_federate l = fed then f l else l) ` set ls"
  by (induction ls) (auto simp: image_iff)

lemma broadcast_new_ok:
  assumes "broadcast_new m mx = Inr b"
  shows "bc_ok b \<and> settled b \<and> bc_message b = m \<and> bc_max b = mx \<and>
    (nm_federate m \<noteq> 0 \<longrightarrow> got a (nm_federate m) b) \<and> (\<forall>l \<in> set (bc_lines b). bl_federate l = nm_federate m)"
  using assms by (auto simp: broadcast_new_def bc_ok_def settled_def got_def split: if_splits)

lemma addFederate_ok:
  assumes "bc_addFederate fed a b = Inr b'" "bc_ok b"
  shows "bc_ok b' \<and> bc_message b' = bc_message b \<and> bc_max b' = bc_max b \<and>
    (\<forall>a' g. got a' g b' = got a' g b)"
proof (cases "\<exists>l \<in> set (bc_lines b). bl_federate l = fed")
  case True
  then have b': "b' = b\<lparr>bc_lines := update_first (\<lambda>l. bl_federate l = fed) (mark_waiting a) (bc_lines b)\<rparr>"
    using assms(1) by (simp add: bc_addFederate_def split: if_splits)
  have s: "set (bc_lines b') = (\<lambda>l. if bl_federate l = fed then mark_waiting a l else l) ` set (bc_lines b)"
    using assms(2) by (simp add: b' bc_ok_def update_first_unique)
  have "got a' g b' = got a' g b" for a' g
    unfolding got_def s bex_simps by (rule bex_cong) auto
  then show ?thesis using assms(2) by (simp add: b' bc_ok_def update_first_federates)
next
  case False
  then have b': "b' = b\<lparr>bc_lines := bc_lines b @ [setState a Waiting (line_new fed NotSub)]\<rparr>"
    using assms(1) by (simp add: bc_addFederate_def split: if_splits)
  show ?thesis using assms(2) False by (auto simp: b' bc_ok_def got_def)
qed

section \<open>At most once\<close>

text \<open>Distinct federates have distinct connections.\<close>

definition links_apart :: "object_env \<Rightarrow> bool" where
  "links_apart env \<longleftrightarrow> (\<forall>f g l. env_link env f = Inr (Some l) \<and> env_link env g = Inr (Some l) \<longrightarrow> f = g)"

definition deliveries :: "socket \<Rightarrow> responses \<Rightarrow> nat" where
  "deliveries l rs = count_list (concat (map ev_sockets rs)) (Some l)"

lemma deliveries_simps [simp]:
  "deliveries l [] = 0" "deliveries l (rs @ rs') = deliveries l rs + deliveries l rs'"
  "deliveries l (event ss m # rs) = count_list ss (Some l) + deliveries l rs"
  by (simp_all add: deliveries_def event_def)

definition waits :: "federate_handle \<Rightarrow> broadcast_line list \<Rightarrow> bool" where
  "waits fed ls \<longleftrightarrow> (\<exists>l \<in> set ls. bl_federate l = fed \<and> stateFor 0 l = Waiting)"

definition do_sent :: "broadcast_line \<Rightarrow> broadcast_line" where
  "do_sent l = (if stateFor 0 l = Waiting then setState 0 Sent l else l)"

lemma do_sent_simps [simp]:
  "bl_federate (do_sent l) = bl_federate l"
  "stateFor a (do_sent l) = (if a = 0 \<and> stateFor a l = Waiting then Sent else stateFor a l)"
  by (auto simp: do_sent_def)

lemma link_or_skip_count:
  assumes "links_apart env" "env_link env fed = Inr (Some l)" "link_or_skip env g = Inr k"
  shows "k = Some (Some l) \<longleftrightarrow> g = fed"
  using assms unfolding link_or_skip_def links_apart_def by (auto split: sum.splits if_splits)

lemma pending_do_run:
  assumes "links_apart env" "env_link env fed = Inr (Some l)"
    and "pending_do env ls = Inr (ss, ls')" "distinct (map bl_federate ls)"
  shows "ls' = map do_sent ls \<and> count_list ss (Some l) = (if waits fed ls then 1 else 0)"
  using assms(3,4)
proof (induction ls arbitrary: ss ls')
  case Nil
  then show ?case by (simp add: waits_def)
next
  case (Cons x ls)
  have w: "waits fed (x # ls) \<longleftrightarrow> (bl_federate x = fed \<and> stateFor 0 x = Waiting) \<or> waits fed ls"
    by (auto simp: waits_def)
  have "waits fed ls \<Longrightarrow> fed \<in> bl_federate ` set ls" by (auto simp: waits_def)
  then have no: "bl_federate x = fed \<Longrightarrow> \<not> waits fed ls"
    using Cons.prems(2) by auto
  show ?case
  proof (cases "stateFor 0 x = Waiting")
    case True
    then obtain k ss0 ls0 where k: "link_or_skip env (bl_federate x) = Inr k"
      and r: "pending_do env ls = Inr (ss0, ls0)" "ss = (case k of None \<Rightarrow> ss0 | Some s \<Rightarrow> s # ss0)" "ls' = setState 0 Sent x # ls0"
      using Cons.prems(1) by (auto simp: ebind_Inr)
    have "ls0 = map do_sent ls \<and> count_list ss0 (Some l) = (if waits fed ls then 1 else 0)"
      using Cons.IH [OF r(1)] Cons.prems(2) by simp
    moreover have "k = Some (Some l) \<longleftrightarrow> bl_federate x = fed" by (rule link_or_skip_count [OF assms(1,2) k])
    ultimately show ?thesis using r True no by (cases k) (auto simp: do_sent_def w)
  next
    case False
    then show ?thesis using Cons w by (auto simp: ebind_Inr do_sent_def)
  qed
qed

lemma preparePendingDO_run:
  assumes "links_apart env" "env_link env fed = Inr (Some l)" "bc_ok b"
    and "preparePendingDOMessage env b = Inr (b', rs)"
  shows "b' = b\<lparr>bc_lines := map do_sent (bc_lines b)\<rparr> \<and> deliveries l rs = (if waits fed (bc_lines b) then 1 else 0)"
proof -
  obtain ss ls where p: "pending_do env (bc_lines b) = Inr (ss, ls)" "b' = b\<lparr>bc_lines := ls\<rparr>"
    "rs = (if ss = [] then [] else [event ss (bc_message b)])"
    using assms(4) by (auto simp: preparePendingDOMessage_def ebind_Inr)
  have "ls = map do_sent (bc_lines b) \<and> count_list ss (Some l) = (if waits fed (bc_lines b) then 1 else 0)"
    using pending_do_run [OF assms(1,2) p(1)] assms(3) by (simp add: bc_ok_def)
  then show ?thesis using p by (cases "ss = []") (auto split: if_splits)
qed

text \<open>Who has got the message never waits again: one round delivers it at most once.\<close>

lemma preparePendingDO_once:
  assumes "links_apart env" "env_link env fed = Inr (Some l)" "bc_ok b"
    and "preparePendingDOMessage env b = Inr (b', rs)"
  shows "bc_ok b' \<and> settled b' \<and> bc_message b' = bc_message b \<and>
    deliveries l rs \<le> 1 \<and> (got 0 fed b \<longrightarrow> deliveries l rs = 0 \<and> got 0 fed b') \<and> (deliveries l rs = 1 \<longrightarrow> got 0 fed b')"
proof -
  note r = preparePendingDO_run [OF assms]
  have "got 0 fed b \<Longrightarrow> \<not> waits fed (bc_lines b)"
    using assms(3) by (auto simp: got_def waits_def bc_ok_def distinct_map inj_on_def)
  moreover have "waits fed (bc_lines b) \<Longrightarrow> got 0 fed b'" "got 0 fed b \<Longrightarrow> got 0 fed b'"
    using r by (auto simp: got_def waits_def)
  moreover have "bc_ok b'" "settled b'"
    using r assms(3) by (auto simp: bc_ok_def settled_def comp_def)
  ultimately show ?thesis using r by auto
qed

end
