(* ===== verification/ObjectClasses.thy ===== *)
theory ObjectClasses
  imports Broadcast
begin

text \<open>
  \<open>libCERTI/ObjectClass.cc\<close> without the ownership services, \<open>libCERTI/ObjectClassSet.cc\<close> without
  them, and \<open>add\<close> of \<open>TreeNamedAndHandledSet.hh\<close> for object classes. The loops from a class to
  its superclasses and subclasses are bounded by the number of classes.
\<close>

section \<open>Pointers\<close>

text \<open>\<open>getObjectFromHandle\<close>, and the target of a pointer to a class.\<close>

definition ocs_getObjectFromHandle :: "object_class_handle \<Rightarrow> root \<Rightarrow> exn + object_class" where
  "ocs_getObjectFromHandle c s = some_or ObjectClassNotDefined (map_of (ro_classes s) c)"

definition oc_deref :: "object_class_handle \<Rightarrow> root \<Rightarrow> exn + object_class" where
  "oc_deref c s = some_or UndefinedBehaviour (map_of (ro_classes s) c)"

text \<open>A call to a member function of the class with handle \<open>c\<close>, of the object with handle \<open>h\<close>.\<close>

definition on_class :: "object_class_handle \<Rightarrow> (object_class, 'a) action \<Rightarrow> 'a root_action" where
  "on_class c m = (\<lambda>s. case map_of (ro_classes s) c of
       None \<Rightarrow> (Inl UndefinedBehaviour, s)
     | Some oc \<Rightarrow> (case m oc of (r, oc') \<Rightarrow> (r, s\<lparr>ro_classes := om_put c oc' (ro_classes s)\<rparr>)))"

definition on_object :: "object_handle \<Rightarrow> (object, 'a) action \<Rightarrow> 'a root_action" where
  "on_object h m = (\<lambda>s. case map_of (ro_objects s) h of
       None \<Rightarrow> (Inl UndefinedBehaviour, s)
     | Some ob \<Rightarrow> (case m ob of (r, ob') \<Rightarrow> (r, s\<lparr>ro_objects := om_put h ob' (ro_objects s)\<rparr>)))"

definition on_class_attribute :: "attribute_handle \<Rightarrow> (class_attribute, 'a) action \<Rightarrow> (object_class, 'a) action" where
  "on_class_attribute h m = (\<lambda>oc. case map_of (oc_attributes oc) h of
       None \<Rightarrow> (Inl AttributeNotDefined, oc)
     | Some a \<Rightarrow> (case m a of (r, a') \<Rightarrow> (r, oc\<lparr>oc_attributes := om_put h a' (oc_attributes oc)\<rparr>)))"

section \<open>Attributes and security\<close>

definition oc_addAttribute :: "class_attribute \<Rightarrow> bool \<Rightarrow> (object_class, attribute_handle) action" where
  "oc_addAttribute a is_inherited =
     bind (gets id) (\<lambda>oc.
     seq (throw_if (map_of (oc_attributes oc) (ca_handle a) \<noteq> None) RTIinternalError)
     (let a1 = a\<lparr>ca_server := oc_server oc\<rparr>;
          a2 = (if \<not> is_inherited then a1\<lparr>ca_level := oc_level oc\<rparr> else a1)
      in seq (modify (\<lambda>oc. oc\<lparr>oc_attributes := om_put (ca_handle a) a2 (oc_attributes oc)\<rparr>)) (ret (ca_handle a))))"

definition addInheritedClassAttributes :: "object_class \<Rightarrow> (object_class, unit) action" where
  "addInheritedClassAttributes parent =
     for_each (\<lambda>e. seq (oc_addAttribute (class_attribute_copy (snd e)) True) (ret ())) (oc_attributes parent)"

definition oc_getAttribute :: "attribute_handle \<Rightarrow> object_class \<Rightarrow> exn + class_attribute" where
  "oc_getAttribute h oc = some_or AttributeNotDefined (map_of (oc_attributes oc) h)"

definition oc_getAttributeHandle :: "string \<Rightarrow> object_class \<Rightarrow> exn + attribute_handle" where
  "oc_getAttributeHandle n oc =
     (case find (\<lambda>e. ca_name (snd e) = n) (oc_attributes oc) of Some e \<Rightarrow> Inr (ca_handle (snd e)) | None \<Rightarrow> Inl NameNotFound)"

definition oc_getAttributeName :: "attribute_handle \<Rightarrow> object_class \<Rightarrow> exn + string" where
  "oc_getAttributeName h oc = ebind (oc_getAttribute h oc) (\<lambda>a. Inr (ca_name a))"

definition oc_hasAttribute :: "attribute_handle \<Rightarrow> object_class \<Rightarrow> bool" where
  "oc_hasAttribute h oc \<longleftrightarrow> map_of (oc_attributes oc) h \<noteq> None"

definition oc_isFederatePublisher :: "federate_handle \<Rightarrow> object_class \<Rightarrow> bool" where
  "oc_isFederatePublisher fed oc \<longleftrightarrow> (\<exists>e \<in> set (oc_attributes oc). ca_isPublishing fed (snd e))"

definition oc_isSubscribed :: "federate_handle \<Rightarrow> object_class \<Rightarrow> bool" where
  "oc_isSubscribed fed oc \<longleftrightarrow> (\<exists>e \<in> set (oc_attributes oc). sub_isSubscribed_any fed (ca_subscribers (snd e)))"

definition isInstanceInClass :: "object_handle \<Rightarrow> object_class \<Rightarrow> bool" where
  "isInstanceInClass h oc \<longleftrightarrow> h \<in> set (oc_instances oc)"

definition oc_checkFederateAccess :: "object_env \<Rightarrow> object_class \<Rightarrow> federate_handle \<Rightarrow> exn + unit" where
  "oc_checkFederateAccess env oc fed =
     (if \<not> oc_server oc then Inr ()
      else ebind (env_access env fed (oc_level oc)) (\<lambda>ok. if ok then Inr () else Inl SecurityError))"

text \<open>\<open>dominates\<close> uses no member of the security server, which may be null here.\<close>

definition setSecurityLevelId :: "level_id \<Rightarrow> (object_class, unit) action" where
  "setSecurityLevelId level = bind (gets oc_level) (\<lambda>old.
     seq (throw_if (\<not> dominates level old) SecurityError) (modify (\<lambda>oc. oc\<lparr>oc_level := level\<rparr>)))"

section \<open>Publication and subscription\<close>

definition attributes_exist :: "attribute_handle list \<Rightarrow> object_class \<Rightarrow> exn + unit" where
  "attributes_exist hs oc = efold (\<lambda>h _. ebind (oc_getAttribute h oc) (\<lambda>_. Inr ())) hs ()"

definition oc_publish :: "object_env \<Rightarrow> federate_handle \<Rightarrow> attribute_handle list \<Rightarrow> bool \<Rightarrow> (object_class, unit) action" where
  "oc_publish env fed hs pub =
     seq (bind (gets (attributes_exist hs)) lift_sum)
     (seq (bind (gets (\<lambda>oc. oc_checkFederateAccess env oc fed)) lift_sum)
     (seq (modify (\<lambda>oc. oc\<lparr>oc_attributes := om_map (\<lambda>_ a. if ca_isPublishing fed a then snd (ca_unpublish fed a) else a)
                                              (oc_attributes oc)\<rparr>))
      (for_each (\<lambda>h. on_class_attribute h (if pub then ca_publish env fed else ca_unpublish fed)) hs)))"

definition oc_unsubscribe :: "federate_handle \<Rightarrow> region_handle option \<Rightarrow> object_class \<Rightarrow> object_class" where
  "oc_unsubscribe fed r oc = oc\<lparr>oc_attributes := om_map (\<lambda>_ a.
     if sub_isSubscribed fed r (ca_subscribers a) then a\<lparr>ca_subscribers := sub_unsubscribe fed r (ca_subscribers a)\<rparr> else a)
     (oc_attributes oc)\<rparr>"

definition oc_unsubscribe_all :: "federate_handle \<Rightarrow> object_class \<Rightarrow> object_class" where
  "oc_unsubscribe_all fed oc = oc\<lparr>oc_attributes := om_map (\<lambda>_ a.
     if sub_isSubscribed_any fed (ca_subscribers a) then a\<lparr>ca_subscribers := sub_unsubscribe_all fed (ca_subscribers a)\<rparr> else a)
     (oc_attributes oc)\<rparr>"

definition oc_subscribe :: "object_env \<Rightarrow> federate_handle \<Rightarrow> attribute_handle list \<Rightarrow> region_handle option
    \<Rightarrow> (object_class, bool) action" where
  "oc_subscribe env fed hs r =
     seq (bind (gets (\<lambda>oc. oc_checkFederateAccess env oc fed)) lift_sum)
     (seq (bind (gets (attributes_exist hs)) lift_sum)
     (seq (modify (\<lambda>oc. if length hs > 0 then oc\<lparr>oc_maxSubscriber := max fed (oc_maxSubscriber oc)\<rparr> else oc))
     (bind (gets (oc_isSubscribed fed)) (\<lambda>was_subscriber.
      seq (modify (oc_unsubscribe fed r))
      (seq (for_each (\<lambda>h. on_class_attribute h (ca_subscribe env fed r)) hs)
      (ret (length hs > 0 \<and> \<not> was_subscriber)))))))"

section \<open>Broadcasts\<close>

text \<open>\<open>removeAttributes\<close> removes the attribute handle only: the values of the message stay.\<close>

definition remove_foreign :: "object_class \<Rightarrow> network_message \<Rightarrow> network_message" where
  "remove_foreign oc m = (case nm_body m of
      ValuesOf ob as vs \<Rightarrow> m\<lparr>nm_body := ValuesOf ob (filter (\<lambda>a. oc_hasAttribute a oc) as) vs\<rparr>
    | _ \<Rightarrow> m)"

definition addFederatesIfOverlap :: "region list \<Rightarrow> subscribers \<Rightarrow> region_handle option \<Rightarrow> attribute_handle
    \<Rightarrow> broadcast_list \<Rightarrow> exn + broadcast_list" where
  "addFederatesIfOverlap rs subs r h b =
     efold (\<lambda>x b. ebind (sub_match rs x r) (\<lambda>m. if m then bc_addFederate (sub_handle x) h b else Inr b)) subs b"

text \<open>
  \<open>updateBroadcastList\<close> for values; its other branch, which adds the publishers, is only used by
  \<open>broadcastClassMessage\<close> after the undefined behaviour below.
\<close>

definition add_attribute_subscribers :: "region list \<Rightarrow> object_class \<Rightarrow> object option \<Rightarrow> attribute_handle
    \<Rightarrow> broadcast_list \<Rightarrow> exn + broadcast_list" where
  "add_attribute_subscribers rs oc source h b =
     (case map_of (oc_attributes oc) h of
        None \<Rightarrow> Inr b
      | Some ca \<Rightarrow>
          ebind (some_or UndefinedBehaviour source) (\<lambda>ob. ebind (ob_getAttribute h ob) (\<lambda>oa.
          addFederatesIfOverlap rs (ca_subscribers ca) (oa_region oa) (ca_handle ca) b)))"

definition add_class_subscribers :: "object_class \<Rightarrow> broadcast_list \<Rightarrow> exn + broadcast_list" where
  "add_class_subscribers oc b =
     efold (\<lambda>fed b. if oc_isSubscribed fed oc \<and> fed \<noteq> nm_federate (bc_message b) then bc_addFederate fed 0 b else Inr b)
       (handles_upto (oc_maxSubscriber oc)) b"

text \<open>
  For the request of an ownership assumption, the loop over the attributes reads \<open>getMsgRAV()\<close>,
  which is null for this message.
\<close>

definition broadcastClassMessage :: "object_env \<Rightarrow> object_class_handle \<Rightarrow> object option \<Rightarrow> broadcast_list \<Rightarrow> root
    \<Rightarrow> exn + (broadcast_list \<times> responses)" where
  "broadcastClassMessage env c source b s =
     ebind (oc_deref c s) (\<lambda>oc.
     ebind (upcastTo (oc_handle oc) b) (\<lambda>b1.
     let k = nm_kind (bc_message b1) in
     if k = REQUEST_ATTRIBUTE_OWNERSHIP_ASSUMPTION then Inl UndefinedBehaviour
     else
       ebind (if k = DISCOVER_OBJECT \<or> k = REMOVE_OBJECT then add_class_subscribers oc b1
              else if k = REFLECT_ATTRIBUTE_VALUES then
                (let b2 = b1\<lparr>bc_message := remove_foreign oc (bc_message b1)\<rparr>
                 in efold (add_attribute_subscribers (ro_regions s) oc source) (msg_attributes (bc_message b2)) b2)
              else Inl RTIinternalError) (\<lambda>b3.
       if \<not> oc_server oc then Inl UndefinedBehaviour else preparePendingMessage env b3)))"

definition oc_broadcast :: "object_env \<Rightarrow> object_class_handle \<Rightarrow> object option \<Rightarrow> broadcast_list
    \<Rightarrow> (broadcast_list \<times> responses) root_action" where
  "oc_broadcast env c source b = bind (gets (broadcastClassMessage env c source b)) lift_sum"

text \<open>
  The loop \<open>while (current_class != 0)\<close> that all services of \<open>ObjectClassSet\<close> share: it hands the
  list to the superclasses.
\<close>

fun broadcast_up :: "nat \<Rightarrow> object_env \<Rightarrow> object option \<Rightarrow> object_class_handle \<Rightarrow> broadcast_list \<Rightarrow> root \<Rightarrow> exn + responses" where
  "broadcast_up n env source c b s =
     (if c = 0 then Inr []
      else case n of
          0 \<Rightarrow> Inl OutOfFuel
        | Suc n' \<Rightarrow>
            ebind (ocs_getObjectFromHandle c s) (\<lambda>oc.
            ebind (broadcastClassMessage env c source b s) (\<lambda>(b', rs).
            ebind (broadcast_up n' env source (oc_super oc) b' s) (\<lambda>rs'. Inr (rs @ rs')))))"

declare broadcast_up.simps [simp del]

definition ocs_broadcast_up :: "object_env \<Rightarrow> object option \<Rightarrow> object_class_handle \<Rightarrow> broadcast_list \<Rightarrow> responses root_action" where
  "ocs_broadcast_up env source c b = bind (gets (\<lambda>s. broadcast_up (length (ro_classes s)) env source c b s)) lift_sum"

section \<open>Instances\<close>

definition about_object :: "object_env \<Rightarrow> federate_handle \<Rightarrow> nm_type \<Rightarrow> msg_body \<Rightarrow> network_message" where
  "about_object env fed k b = setFederate fed (setFederation (env_federation env) (new_message k b))"

text \<open>A new broadcast list for the message, and its broadcast in this class.\<close>

definition announce :: "object_env \<Rightarrow> object_class_handle \<Rightarrow> attribute_handle \<Rightarrow> network_message
    \<Rightarrow> (broadcast_list option \<times> responses) root_action" where
  "announce env c mx m =
     bind (lift_sum (broadcast_new m mx)) (\<lambda>b.
     bind (oc_broadcast env c None b) (\<lambda>(b', rs). ret (Some b', rs)))"

text \<open>Both overloads of \<open>deleteInstance\<close>; \<open>dated\<close> sets the date of the message.\<close>

definition delete_instance :: "(network_message \<Rightarrow> network_message) \<Rightarrow> object_env \<Rightarrow> object_class_handle
    \<Rightarrow> federate_handle \<Rightarrow> object_handle \<Rightarrow> string \<Rightarrow> (broadcast_list option \<times> responses) root_action" where
  "delete_instance dated env c fed h tag =
     bind (gets (oc_deref c)) (\<lambda>r1. bind (lift_sum r1) (\<lambda>oc.
     bind (gets (os_deref h)) (\<lambda>r2. bind (lift_sum r2) (\<lambda>ob.
     seq (throw_if (oc_server oc \<and> ob_owner ob \<noteq> fed) DeletePrivilegeNotHeld)
     (seq (on_class c (modify (\<lambda>oc. oc\<lparr>oc_instances := oset_erase (ob_handle ob) (oc_instances oc)\<rparr>)))
     (if oc_server oc then
        announce env c 0 (setLabel tag (dated
          (about_object env fed REMOVE_OBJECT (ObjectAndClass (ob_handle ob) (oc_handle oc)))))
      else ret (None, [])))))))"

definition oc_deleteInstanceAt :: "object_env \<Rightarrow> object_class_handle \<Rightarrow> federate_handle \<Rightarrow> object_handle \<Rightarrow> fed_time
    \<Rightarrow> string \<Rightarrow> (broadcast_list option \<times> responses) root_action" where
  "oc_deleteInstanceAt env c fed h t tag = delete_instance (setDate t) env c fed h tag"

definition oc_deleteInstance :: "object_env \<Rightarrow> object_class_handle \<Rightarrow> federate_handle \<Rightarrow> object_handle
    \<Rightarrow> string \<Rightarrow> (broadcast_list option \<times> responses) root_action" where
  "oc_deleteInstance env c fed h tag = delete_instance id env c fed h tag"

definition privilegeToDelete :: string where
  "privilegeToDelete = ''privilegeToDelete''"

definition add_instance_attribute :: "federate_handle \<Rightarrow> object_class_handle \<Rightarrow> class_attribute \<Rightarrow> (object, unit) action" where
  "add_instance_attribute fed c ca =
     (let oa = object_attribute_new (ca_handle ca) (if ca_isPublishing fed ca then fed else 0) (c, ca_handle ca);
          oa' = (if ca_name ca = privilegeToDelete then oa_setOwner fed oa else oa)
      in (\<lambda>ob. case ob_addAttribute oa' ob of Inl e \<Rightarrow> (Inl e, ob) | Inr ob' \<Rightarrow> (Inr (), ob')))"

definition oc_registerObjectInstance :: "object_env \<Rightarrow> object_class_handle \<Rightarrow> federate_handle \<Rightarrow> object_handle
    \<Rightarrow> (broadcast_list option \<times> responses) root_action" where
  "oc_registerObjectInstance env c fed h =
     bind (gets (oc_deref c)) (\<lambda>r1. bind (lift_sum r1) (\<lambda>oc.
     bind (gets (os_deref h)) (\<lambda>r2. bind (lift_sum r2) (\<lambda>ob.
     seq (throw_if (isInstanceInClass (ob_handle ob) oc) ObjectAlreadyRegistered)
     (seq (throw_if (oc_server oc \<and> \<not> oc_isFederatePublisher fed oc) ObjectClassNotPublished)
     (seq (on_object h (for_each (\<lambda>e. add_instance_attribute fed c (snd e)) (oc_attributes oc)))
     (seq (on_class c (modify (\<lambda>oc. oc\<lparr>oc_instances := oset_insert (ob_handle ob) (oc_instances oc)\<rparr>)))
     (if oc_server oc then
        announce env c 0 (setLabel (ob_name ob)
          (about_object env fed DISCOVER_OBJECT (ObjectAndClass (ob_handle ob) (oc_handle oc))))
      else ret (None, [])))))))))"

text \<open>The ownership test of \<open>updateAttributeValues\<close>, which reads the value of every attribute.\<close>

definition update_checks :: "federate_handle \<Rightarrow> object \<Rightarrow> attribute_handle list \<Rightarrow> attribute_value list \<Rightarrow> exn + unit" where
  "update_checks fed ob hs vs =
     efold (\<lambda>i _. ebind (ob_getAttribute (hs ! i) ob) (\<lambda>oa.
       if i \<ge> length vs then Inl UndefinedBehaviour
       else if oa_owner oa \<noteq> fed then Inl AttributeNotOwned else Inr ())) [0..<length hs] ()"

definition update_values :: "(network_message \<Rightarrow> network_message) \<Rightarrow> object_env \<Rightarrow> object_class_handle \<Rightarrow> federate_handle
    \<Rightarrow> object_handle \<Rightarrow> attribute_handle list \<Rightarrow> attribute_value list \<Rightarrow> string \<Rightarrow> (broadcast_list \<times> responses) root_action" where
  "update_values dated env c fed h hs vs tag =
     bind (gets (oc_deref c)) (\<lambda>r1. bind (lift_sum r1) (\<lambda>oc.
     bind (gets (os_deref h)) (\<lambda>r2. bind (lift_sum r2) (\<lambda>ob.
     seq (lift_sum (update_checks fed ob hs vs))
     (seq (throw_if (\<not> oc_server oc) RTIinternalError)
     (bind (lift_sum (broadcast_new (setLabel tag (dated
              (about_object env fed REFLECT_ATTRIBUTE_VALUES (ValuesOf (ob_handle ob) hs (take (length hs) vs)))))
              (of_nat (length (oc_attributes oc))))) (\<lambda>b.
      oc_broadcast env c (Some ob) b)))))))"

definition oc_updateAttributeValuesAt :: "object_env \<Rightarrow> object_class_handle \<Rightarrow> federate_handle \<Rightarrow> object_handle
    \<Rightarrow> attribute_handle list \<Rightarrow> attribute_value list \<Rightarrow> fed_time \<Rightarrow> string \<Rightarrow> (broadcast_list \<times> responses) root_action" where
  "oc_updateAttributeValuesAt env c fed h hs vs t tag = update_values (setDate t) env c fed h hs vs tag"

definition oc_updateAttributeValues :: "object_env \<Rightarrow> object_class_handle \<Rightarrow> federate_handle \<Rightarrow> object_handle
    \<Rightarrow> attribute_handle list \<Rightarrow> attribute_value list \<Rightarrow> string \<Rightarrow> (broadcast_list \<times> responses) root_action" where
  "oc_updateAttributeValues env c fed h hs vs tag = update_values id env c fed h hs vs tag"

end
