(* ===== verification/ObjectClassSets.thy ===== *)
theory ObjectClassSets
  imports ObjectClasses
begin

text \<open>
  \<open>libCERTI/ObjectClassSet.cc\<close> with the discovery functions of \<open>ObjectClass.cc\<close>, and \<open>add\<close> of
  \<open>TreeNamedAndHandledSet.hh\<close> for object classes.
\<close>

section \<open>Building the hierarchy\<close>

definition root_names :: "string list" where
  "root_names = [''ObjectRoot'', ''InteractionRoot'', ''HLAobjectRoot'', ''HLAinteractionRoot'']"

definition qualified_name :: "string \<Rightarrow> string \<Rightarrow> string" where
  "qualified_name parent child = (if parent \<in> set root_names then child else parent @ ''.'' @ child)"

text \<open>
  \<open>ObjectClass::addSubClass\<close>, on the new class that is not in a set yet. Adding the child to the set of
  subclasses, whose server is null, resets the server of the child before the attributes of the parent are
  copied; it is set afterwards.
\<close>

definition addSubClass :: "object_class_handle \<Rightarrow> object_class \<Rightarrow> object_class root_action" where
  "addSubClass p child =
     bind (gets (oc_deref p)) (\<lambda>r. bind (lift_sum r) (\<lambda>parent.
     seq (throw_if (map_of (oc_subs parent) (oc_name child) \<noteq> None) RTIinternalError)
     (seq (on_class p (modify (\<lambda>oc. oc\<lparr>oc_subs := om_put (oc_name child) (oc_handle child) (oc_subs oc)\<rparr>)))
     (case addInheritedClassAttributes parent (child\<lparr>oc_server := False, oc_super := oc_handle parent\<rparr>) of
        (Inl e, _) \<Rightarrow> throw e
      | (Inr _, child1) \<Rightarrow>
          (case setSecurityLevelId (oc_level parent) (child1\<lparr>oc_server := oc_server parent\<rparr>) of
             (Inl e, _) \<Rightarrow> throw e
           | (Inr _, child2) \<Rightarrow> ret child2)))))"

definition ocs_addClass :: "object_class \<Rightarrow> object_class_handle option \<Rightarrow> unit root_action" where
  "ocs_addClass newClass parentClass =
     bind (gets (\<lambda>s. newClass\<lparr>oc_server := ro_server s\<rparr>)) (\<lambda>c0.
     bind (case parentClass of
             None \<Rightarrow> ret c0
           | Some p \<Rightarrow>
               bind (gets (oc_deref p)) (\<lambda>r. bind (lift_sum r) (\<lambda>parent.
               addSubClass p (c0\<lparr>oc_name := qualified_name (oc_name parent) (oc_name c0)\<rparr>)))) (\<lambda>c.
     seq (bind (gets (\<lambda>s. map_of (ro_class_names s) (oc_name c))) (\<lambda>x. throw_if (x \<noteq> None) RTIinternalError))
     (modify (\<lambda>s. s\<lparr>ro_classes := om_put (oc_handle c) c (ro_classes s),
                   ro_class_names := om_put (oc_name c) (oc_handle c) (ro_class_names s)\<rparr>))))"

text \<open>\<open>Named::getNextClassName\<close> returns the first component and updates its argument.\<close>

definition getNextClassName :: "string \<Rightarrow> string \<times> string" where
  "getNextClassName q =
     (case dropWhile (\<lambda>c. c \<noteq> CHR ''.'') q of [] \<Rightarrow> (q, q) | _ # rest \<Rightarrow> (takeWhile (\<lambda>c. c \<noteq> CHR ''.'') q, rest))"

definition isQualifiedClassName :: "string \<Rightarrow> bool" where
  "isQualifiedClassName n \<longleftrightarrow> CHR ''.'' \<in> set n"

definition getLeafClassName :: "string \<Rightarrow> string" where
  "getLeafClassName q = rev (takeWhile (\<lambda>c. c \<noteq> CHR ''.'') (rev q))"

definition getHandleFromName :: "string \<Rightarrow> (string \<times> handle) list \<Rightarrow> exn + handle" where
  "getHandleFromName name names =
     (let (prefix, rest) = getNextClassName name;
          sname = (if prefix \<in> set root_names then rest else name)
      in case map_of names sname of
           Some h \<Rightarrow> Inr h
         | None \<Rightarrow>
             if \<not> isQualifiedClassName sname
             then (case find (\<lambda>e. getLeafClassName (fst e) = sname) names of Some e \<Rightarrow> Inr (snd e) | None \<Rightarrow> Inl NameNotFound)
             else Inl NameNotFound)"

definition ocs_getObjectClassHandle :: "string \<Rightarrow> root \<Rightarrow> exn + object_class_handle" where
  "ocs_getObjectClassHandle n s = getHandleFromName n (ro_class_names s)"

definition ocs_getObjectClassName :: "object_class_handle \<Rightarrow> root \<Rightarrow> exn + string" where
  "ocs_getObjectClassName c s = ebind (ocs_getObjectFromHandle c s) (\<lambda>oc. Inr (oc_name oc))"

definition ocs_getAttributeHandle :: "string \<Rightarrow> object_class_handle \<Rightarrow> root \<Rightarrow> exn + attribute_handle" where
  "ocs_getAttributeHandle n c s =
     (if n = [] then Inl RTIinternalError else ebind (ocs_getObjectFromHandle c s) (oc_getAttributeHandle n))"

definition ocs_getAttributeName :: "attribute_handle \<Rightarrow> object_class_handle \<Rightarrow> root \<Rightarrow> exn + string" where
  "ocs_getAttributeName h c s = ebind (ocs_getObjectFromHandle c s) (oc_getAttributeName h)"

definition ocs_getInstanceClass :: "object_handle \<Rightarrow> root \<Rightarrow> exn + object_class_handle" where
  "ocs_getInstanceClass h s =
     (case find (\<lambda>e. isInstanceInClass h (snd e)) (ro_classes s) of Some e \<Rightarrow> Inr (fst e) | None \<Rightarrow> Inl ObjectNotKnown)"

section \<open>Publication, subscription and discovery\<close>

definition ocs_publish :: "object_env \<Rightarrow> federate_handle \<Rightarrow> object_class_handle \<Rightarrow> attribute_handle list \<Rightarrow> bool
    \<Rightarrow> unit root_action" where
  "ocs_publish env fed c hs pub =
     bind (gets (ocs_getObjectFromHandle c)) (\<lambda>r. bind (lift_sum r) (\<lambda>_. on_class c (oc_publish env fed hs pub)))"

definition send_discovery :: "object_env \<Rightarrow> object_class \<Rightarrow> federate_handle \<Rightarrow> object_class_handle \<Rightarrow> object_handle
    \<Rightarrow> unit root_action" where
  "send_discovery env oc fed super_handle h =
     bind (gets (os_deref h)) (\<lambda>r. bind (lift_sum r) (\<lambda>ob.
       if ob_owner ob \<noteq> fed then
         seq (throw_if (\<not> oc_server oc) UndefinedBehaviour)
         (sendToFederate env (setLabel (ob_name ob)
            (about_object env fed DISCOVER_OBJECT (ObjectAndClass (ob_handle ob) super_handle))) fed)
       else ret ()))"

definition sendDiscoverMessages :: "object_env \<Rightarrow> object_class_handle \<Rightarrow> federate_handle \<Rightarrow> object_class_handle
    \<Rightarrow> bool root_action" where
  "sendDiscoverMessages env c fed super_handle =
     bind (gets (oc_deref c)) (\<lambda>r. bind (lift_sum r) (\<lambda>oc.
       if oc_handle oc \<noteq> super_handle \<and> oc_isSubscribed fed oc then ret False
       else seq (for_each (send_discovery env oc fed super_handle) (oc_instances oc)) (ret True)))"

text \<open>The recursion through the subclasses; the fuel bounds the depth of the hierarchy.\<close>

fun recursiveDiscovering :: "nat \<Rightarrow> object_env \<Rightarrow> object_class_handle \<Rightarrow> federate_handle \<Rightarrow> object_class_handle
    \<Rightarrow> unit root_action" where
  "recursiveDiscovering 0 env c fed sub = throw OutOfFuel"
| "recursiveDiscovering (Suc n) env c fed sub =
     bind (sendDiscoverMessages env c fed sub) (\<lambda>go_deeper.
       if go_deeper then
         bind (gets (oc_deref c)) (\<lambda>r. bind (lift_sum r) (\<lambda>oc.
         for_each (\<lambda>e. recursiveDiscovering n env (snd e) fed sub) (oc_subs oc)))
       else ret ())"

definition ocs_subscribe :: "object_env \<Rightarrow> federate_handle \<Rightarrow> object_class_handle \<Rightarrow> attribute_handle list
    \<Rightarrow> region_handle option \<Rightarrow> unit root_action" where
  "ocs_subscribe env fed c hs r =
     bind (gets (ocs_getObjectFromHandle c)) (\<lambda>x. bind (lift_sum x) (\<lambda>_.
     bind (on_class c (oc_subscribe env fed hs r)) (\<lambda>need_discover.
       if need_discover
       then bind (gets (\<lambda>s. length (ro_classes s))) (\<lambda>n. recursiveDiscovering n env c fed c)
       else ret ())))"

section \<open>Services on instances\<close>

text \<open>What the services share: a broadcast list that is not null goes to the superclasses.\<close>

definition continue_up :: "object_env \<Rightarrow> object_class_handle \<Rightarrow> broadcast_list option \<times> responses \<Rightarrow> responses root_action" where
  "continue_up env c r = (case r of
      (None, rs) \<Rightarrow> ret rs
    | (Some b, rs) \<Rightarrow>
        bind (gets (oc_deref c)) (\<lambda>x. bind (lift_sum x) (\<lambda>oc.
        bind (ocs_broadcast_up env None (oc_super oc) b) (\<lambda>rs'. ret (rs @ rs')))))"

definition ocs_deleteObjectAt :: "object_env \<Rightarrow> federate_handle \<Rightarrow> object_handle \<Rightarrow> fed_time \<Rightarrow> string \<Rightarrow> responses root_action" where
  "ocs_deleteObjectAt env fed h t tag =
     bind (gets (ocs_getInstanceClass h)) (\<lambda>x. bind (lift_sum x) (\<lambda>c.
     bind (oc_deleteInstanceAt env c fed h t tag) (continue_up env c)))"

definition ocs_deleteObject :: "object_env \<Rightarrow> federate_handle \<Rightarrow> object_handle \<Rightarrow> string \<Rightarrow> responses root_action" where
  "ocs_deleteObject env fed h tag =
     bind (gets (ocs_getInstanceClass h)) (\<lambda>x. bind (lift_sum x) (\<lambda>c.
     bind (oc_deleteInstance env c fed h tag) (continue_up env c)))"

definition ocs_registerObjectInstance :: "object_env \<Rightarrow> federate_handle \<Rightarrow> object_handle \<Rightarrow> object_class_handle
    \<Rightarrow> responses root_action" where
  "ocs_registerObjectInstance env fed h c =
     bind (gets (ocs_getObjectFromHandle c)) (\<lambda>x. bind (lift_sum x) (\<lambda>_.
     bind (oc_registerObjectInstance env c fed h) (continue_up env c)))"

text \<open>For an update the list is never null, and the object goes along for its regions.\<close>

definition update_up :: "object_env \<Rightarrow> object_class_handle \<Rightarrow> object_handle \<Rightarrow> broadcast_list \<times> responses \<Rightarrow> responses root_action" where
  "update_up env c h r =
     bind (gets (oc_deref c)) (\<lambda>x. bind (lift_sum x) (\<lambda>oc.
     bind (gets (os_deref h)) (\<lambda>y. bind (lift_sum y) (\<lambda>ob.
     bind (ocs_broadcast_up env (Some ob) (oc_super oc) (fst r)) (\<lambda>rs'. ret (snd r @ rs'))))))"

definition ocs_updateAttributeValuesAt :: "object_env \<Rightarrow> federate_handle \<Rightarrow> object_handle \<Rightarrow> attribute_handle list
    \<Rightarrow> attribute_value list \<Rightarrow> fed_time \<Rightarrow> string \<Rightarrow> responses root_action" where
  "ocs_updateAttributeValuesAt env fed h hs vs t tag =
     bind (gets (\<lambda>s. ebind (os_deref h s) (\<lambda>ob. ebind (ocs_getObjectFromHandle (ob_class ob) s) (\<lambda>_. Inr (ob_class ob))))) (\<lambda>x.
     bind (lift_sum x) (\<lambda>c.
     bind (oc_updateAttributeValuesAt env c fed h hs vs t tag) (update_up env c h)))"

definition ocs_updateAttributeValues :: "object_env \<Rightarrow> federate_handle \<Rightarrow> object_handle \<Rightarrow> attribute_handle list
    \<Rightarrow> attribute_value list \<Rightarrow> string \<Rightarrow> responses root_action" where
  "ocs_updateAttributeValues env fed h hs vs tag =
     bind (gets (\<lambda>s. ebind (os_deref h s) (\<lambda>ob. ebind (ocs_getObjectFromHandle (ob_class ob) s) (\<lambda>_. Inr (ob_class ob))))) (\<lambda>x.
     bind (lift_sum x) (\<lambda>c.
     bind (oc_updateAttributeValues env c fed h hs vs tag) (update_up env c h)))"

section \<open>A federate that has crashed\<close>

text \<open>
  \<open>ObjectClass::killFederate\<close> is \<open>noexcept\<close>. A security error of \<open>publish\<close> also skips the unsubscription.
\<close>

definition oc_forget :: "object_env \<Rightarrow> federate_handle \<Rightarrow> (object_class, unit) action" where
  "oc_forget env fed = catch
     (seq (bind (gets (oc_isFederatePublisher fed)) (\<lambda>p. if p then oc_publish env fed [] False else ret ()))
          (modify (\<lambda>oc. if oc_isSubscribed fed oc then oc_unsubscribe_all fed oc else oc)))
     (\<lambda>e. e = SecurityError) (\<lambda>_. ret ())"

fun first_owned :: "federate_handle \<Rightarrow> object_handle list \<Rightarrow> root \<Rightarrow> exn + object_handle option" where
  "first_owned fed [] s = Inr None"
| "first_owned fed (h # hs) s =
     ebind (os_deref h s) (\<lambda>ob. if ob_owner ob = fed then Inr (Some h) else first_owned fed hs s)"

definition oc_killFederate :: "object_env \<Rightarrow> object_class_handle \<Rightarrow> federate_handle
    \<Rightarrow> (broadcast_list option \<times> responses) root_action" where
  "oc_killFederate env c fed = noexcept (
     seq (on_class c (oc_forget env fed))
     (bind (gets (oc_deref c)) (\<lambda>r. bind (lift_sum r) (\<lambda>oc.
      bind (gets (first_owned fed (oc_instances oc))) (\<lambda>x. bind (lift_sum x) (\<lambda>owned. case owned of
         None \<Rightarrow> ret (None, [])
       | Some h \<Rightarrow> oc_deleteInstance env c fed h ''Killed''))))))"

text \<open>The inner loop catches \<open>ObjectClassNotDefined\<close> without moving on: it would not end.\<close>

definition kill_up :: "object_env \<Rightarrow> object_class_handle \<Rightarrow> broadcast_list \<Rightarrow> responses root_action" where
  "kill_up env c b = catch (ocs_broadcast_up env None c b) (\<lambda>e. e = ObjectClassNotDefined) (\<lambda>_. throw OutOfFuel)"

text \<open>The \<open>do\<close> loop for one class: every further round is due to an instance that has been deleted.\<close>

fun kill_class :: "nat \<Rightarrow> object_env \<Rightarrow> object_class_handle \<Rightarrow> federate_handle \<Rightarrow> responses root_action" where
  "kill_class 0 env c fed = throw OutOfFuel"
| "kill_class (Suc n) env c fed =
     bind (oc_killFederate env c fed) (\<lambda>(ocb, rs). case ocb of
         None \<Rightarrow> ret rs
       | Some b \<Rightarrow>
           bind (gets (oc_deref c)) (\<lambda>r. bind (lift_sum r) (\<lambda>oc.
           bind (kill_up env (oc_super oc) b) (\<lambda>rs1.
           bind (kill_class n env c fed) (\<lambda>rs2. ret (rs @ rs1 @ rs2))))))"

fun kill_classes :: "object_env \<Rightarrow> federate_handle \<Rightarrow> object_class_handle list \<Rightarrow> responses root_action" where
  "kill_classes env fed [] = ret []"
| "kill_classes env fed (c # cs) =
     bind (gets (oc_deref c)) (\<lambda>r. bind (lift_sum r) (\<lambda>oc.
     bind (kill_class (Suc (length (oc_instances oc))) env c fed) (\<lambda>rs.
     bind (kill_classes env fed cs) (\<lambda>rs'. ret (rs @ rs')))))"

definition ocs_killFederate :: "object_env \<Rightarrow> federate_handle \<Rightarrow> responses root_action" where
  "ocs_killFederate env fed = noexcept (bind (gets (\<lambda>s. map fst (ro_classes s))) (kill_classes env fed))"

end
