(* ===== verification/Interactions.thy ===== *)
theory Interactions
  imports ObjectClassSets
begin

text \<open>
  \<open>libCERTI/Interaction.cc\<close>, \<open>libCERTI/InteractionSet.cc\<close> with \<open>add\<close> of
  \<open>TreeNamedAndHandledSet.hh\<close>, and \<open>libCERTI/InteractionBroadcastList.cc\<close>.

  The state is the store \<open>root\<close> of the theory \<open>Objects\<close>; a pointer to an interaction class is its
  handle. The lines of a broadcast list, an unordered map, are visited in the order of the handles.
\<close>

section \<open>Pointers\<close>

definition ics_getObjectFromHandle :: "interaction_class_handle \<Rightarrow> root \<Rightarrow> exn + interaction" where
  "ics_getObjectFromHandle i s = some_or InteractionClassNotDefined (map_of (ro_interactions s) i)"

definition ic_deref :: "interaction_class_handle \<Rightarrow> root \<Rightarrow> exn + interaction" where
  "ic_deref i s = some_or UndefinedBehaviour (map_of (ro_interactions s) i)"

definition on_interaction :: "interaction_class_handle \<Rightarrow> (interaction, 'a) action \<Rightarrow> 'a root_action" where
  "on_interaction i m = (\<lambda>s. case map_of (ro_interactions s) i of
       None \<Rightarrow> (Inl UndefinedBehaviour, s)
     | Some ic \<Rightarrow> (case m ic of (r, ic') \<Rightarrow> (r, s\<lparr>ro_interactions := om_put i ic' (ro_interactions s)\<rparr>)))"

section \<open>Interaction classes\<close>

text \<open>The constructor leaves the pointer to the security server unset; \<open>addClass\<close> sets it.\<close>

definition interaction_new :: "string \<Rightarrow> interaction_class_handle \<Rightarrow> 32 word \<Rightarrow> 32 word \<Rightarrow> interaction" where
  "interaction_new n h transport order =
     \<lparr>ic_handle = h, ic_name = n, ic_server = False, ic_level = PublicLevelID, ic_super = 0, ic_subs = [],
      ic_order = order, ic_transport = transport, ic_space = 0, ic_parameters = [], ic_publishers = [],
      ic_subscribers = []\<rparr>"

definition addParameter :: "parameter \<Rightarrow> bool \<Rightarrow> (interaction, parameter_handle) action" where
  "addParameter p is_inherited =
     bind (gets id) (\<lambda>ic.
     seq (throw_if (map_of (ic_parameters ic) (pa_handle p) \<noteq> None) RTIinternalError)
     (let p' = (if is_inherited then p else p\<lparr>pa_level := ic_level ic\<rparr>)
      in seq (modify (\<lambda>ic. ic\<lparr>ic_parameters := om_put (pa_handle p) p' (ic_parameters ic)\<rparr>)) (ret (pa_handle p))))"

definition addInheritedClassParameter :: "interaction \<Rightarrow> (interaction, unit) action" where
  "addInheritedClassParameter parent =
     for_each (\<lambda>e. seq (addParameter (snd e) True) (ret ())) (ic_parameters parent)"

definition ic_setSecurityLevelId :: "level_id \<Rightarrow> (interaction, unit) action" where
  "ic_setSecurityLevelId level = bind (gets ic_level) (\<lambda>old.
     seq (throw_if (\<not> dominates level old) SecurityError) (modify (\<lambda>ic. ic\<lparr>ic_level := level\<rparr>)))"

text \<open>
  \<open>Interaction::addSubClass\<close>, on the new class that is not in a set yet; the set of subclasses has a null
  server.
\<close>

definition ic_addSubClass :: "interaction_class_handle \<Rightarrow> interaction \<Rightarrow> interaction root_action" where
  "ic_addSubClass p child =
     bind (gets (ic_deref p)) (\<lambda>r. bind (lift_sum r) (\<lambda>parent.
     seq (throw_if (map_of (ic_subs parent) (ic_name child) \<noteq> None) RTIinternalError)
     (seq (on_interaction p (modify (\<lambda>ic. ic\<lparr>ic_subs := om_put (ic_name child) (ic_handle child) (ic_subs ic)\<rparr>)))
     (case addInheritedClassParameter parent (child\<lparr>ic_server := False, ic_super := ic_handle parent\<rparr>) of
        (Inl e, _) \<Rightarrow> throw e
      | (Inr _, child1) \<Rightarrow>
          (case ic_setSecurityLevelId (ic_level parent) (child1\<lparr>ic_server := ic_server parent\<rparr>) of
             (Inl e, _) \<Rightarrow> throw e
           | (Inr _, child2) \<Rightarrow> ret child2)))))"

definition ics_addClass :: "interaction \<Rightarrow> interaction_class_handle option \<Rightarrow> unit root_action" where
  "ics_addClass newClass parentClass =
     bind (gets (\<lambda>s. newClass\<lparr>ic_server := ro_server s\<rparr>)) (\<lambda>c0.
     bind (case parentClass of
             None \<Rightarrow> ret c0
           | Some p \<Rightarrow>
               bind (gets (ic_deref p)) (\<lambda>r. bind (lift_sum r) (\<lambda>parent.
               ic_addSubClass p (c0\<lparr>ic_name := qualified_name (ic_name parent) (ic_name c0)\<rparr>)))) (\<lambda>c.
     seq (bind (gets (\<lambda>s. map_of (ro_interaction_names s) (ic_name c))) (\<lambda>x. throw_if (x \<noteq> None) RTIinternalError))
     (modify (\<lambda>s. s\<lparr>ro_interactions := om_put (ic_handle c) c (ro_interactions s),
                   ro_interaction_names := om_put (ic_name c) (ic_handle c) (ro_interaction_names s)\<rparr>))))"

definition ic_isPublishing :: "federate_handle \<Rightarrow> interaction \<Rightarrow> bool" where
  "ic_isPublishing fed ic \<longleftrightarrow> fed \<in> set (ic_publishers ic)"

definition changeTransportationType :: "32 word \<Rightarrow> federate_handle \<Rightarrow> (interaction, unit) action" where
  "changeTransportationType t fed = bind (gets (ic_isPublishing fed)) (\<lambda>p.
     seq (throw_if (\<not> p) FederateNotPublishing)
     (seq (throw_if (t \<noteq> 1 \<and> t \<noteq> 2) InvalidTransportationHandle)
     (modify (\<lambda>ic. ic\<lparr>ic_transport := t\<rparr>))))"

text \<open>The new order is not stored.\<close>

definition changeOrderType :: "32 word \<Rightarrow> federate_handle \<Rightarrow> (interaction, unit) action" where
  "changeOrderType t fed = bind (gets (ic_isPublishing fed)) (\<lambda>p.
     seq (throw_if (\<not> p) FederateNotPublishing) (throw_if (t \<noteq> 1 \<and> t \<noteq> 2) InvalidOrderingHandle))"

definition ic_checkFederateAccess :: "object_env \<Rightarrow> interaction \<Rightarrow> federate_handle \<Rightarrow> exn + unit" where
  "ic_checkFederateAccess env ic fed =
     (if \<not> ic_server ic then Inr ()
      else ebind (env_access env fed (ic_level ic)) (\<lambda>ok. if ok then Inr () else Inl SecurityError))"

definition ic_publish :: "object_env \<Rightarrow> federate_handle \<Rightarrow> (interaction, unit) action" where
  "ic_publish env fed =
     seq (bind (gets (\<lambda>ic. ic_checkFederateAccess env ic fed)) lift_sum)
     (modify (\<lambda>ic. if ic_isPublishing fed ic then ic else ic\<lparr>ic_publishers := oset_insert fed (ic_publishers ic)\<rparr>))"

definition ic_unpublish :: "federate_handle \<Rightarrow> (interaction, unit) action" where
  "ic_unpublish fed = bind (gets (ic_isPublishing fed)) (\<lambda>p.
     if p then modify (\<lambda>ic. ic\<lparr>ic_publishers := oset_erase fed (ic_publishers ic)\<rparr>) else throw FederateNotPublishing)"

definition ic_subscribe :: "object_env \<Rightarrow> federate_handle \<Rightarrow> region_handle option \<Rightarrow> (interaction, unit) action" where
  "ic_subscribe env fed r =
     bind (gets (\<lambda>ic. sub_subscribe (ic_checkFederateAccess env ic) fed r (ic_subscribers ic))) (\<lambda>x.
     bind (lift_sum x) (\<lambda>xs. modify (\<lambda>ic. ic\<lparr>ic_subscribers := xs\<rparr>)))"

definition ic_unsubscribe :: "federate_handle \<Rightarrow> region_handle option \<Rightarrow> interaction \<Rightarrow> interaction" where
  "ic_unsubscribe fed r ic = ic\<lparr>ic_subscribers := sub_unsubscribe fed r (ic_subscribers ic)\<rparr>"

definition getParameterByHandle :: "parameter_handle \<Rightarrow> interaction \<Rightarrow> exn + parameter" where
  "getParameterByHandle h ic = some_or InteractionParameterNotDefined (map_of (ic_parameters ic) h)"

definition ic_getParameterHandle :: "string \<Rightarrow> interaction \<Rightarrow> exn + parameter_handle" where
  "ic_getParameterHandle n ic =
     (case find (\<lambda>e. pa_name (snd e) = n) (ic_parameters ic) of Some e \<Rightarrow> Inr (pa_handle (snd e)) | None \<Rightarrow> Inl NameNotFound)"

definition ic_getParameterName :: "parameter_handle \<Rightarrow> interaction \<Rightarrow> exn + string" where
  "ic_getParameterName h ic = ebind (getParameterByHandle h ic) (\<lambda>p. Inr (pa_name p))"

definition hasParameter :: "parameter_handle \<Rightarrow> interaction \<Rightarrow> bool" where
  "hasParameter h ic \<longleftrightarrow> map_of (ic_parameters ic) h \<noteq> None"

definition isReady :: "federate_handle \<Rightarrow> parameter_handle list \<Rightarrow> nat \<Rightarrow> interaction \<Rightarrow> exn + unit" where
  "isReady fed ps n ic =
     (if \<not> ic_isPublishing fed ic then Inl FederateNotPublishing
      else efold (\<lambda>i _. if i \<ge> length ps then Inl UndefinedBehaviour
                        else ebind (getParameterByHandle (ps ! i) ic) (\<lambda>_. Inr ())) [0..<n] ())"

definition ic_killFederate :: "federate_handle \<Rightarrow> interaction \<Rightarrow> interaction" where
  "ic_killFederate fed ic =
     (let ic1 = (if ic_isPublishing fed ic then snd (ic_unpublish fed ic) else ic)
      in if sub_isSubscribed_any fed (ic_subscribers ic1)
         then ic1\<lparr>ic_subscribers := sub_unsubscribe_all fed (ic_subscribers ic1)\<rparr> else ic1)"

section \<open>Broadcast lists\<close>

record interaction_list =
  ib_message :: network_message
  ib_lines :: "(federate_handle \<times> line_state) list"

definition ib_new :: "network_message \<Rightarrow> interaction_list" where
  "ib_new m = \<lparr>ib_message = m, ib_lines = (if nm_federate m \<noteq> 0 then [(nm_federate m, Sent)] else [])\<rparr>"

definition ib_addFederate :: "federate_handle \<Rightarrow> interaction_list \<Rightarrow> interaction_list" where
  "ib_addFederate fed b =
     (if map_of (ib_lines b) fed = None then b\<lparr>ib_lines := om_put fed Waiting (ib_lines b)\<rparr> else b)"

fun ib_pending :: "object_env \<Rightarrow> (federate_handle \<times> line_state) list
    \<Rightarrow> exn + (socket option list \<times> (federate_handle \<times> line_state) list)" where
  "ib_pending env [] = Inr ([], [])"
| "ib_pending env ((fed, st) # ls) =
     (if st = Waiting then
        ebind (link_or_skip env fed) (\<lambda>k.
        ebind (ib_pending env ls) (\<lambda>(ss, ls').
          Inr ((case k of None \<Rightarrow> ss | Some s \<Rightarrow> s # ss), (fed, Sent) # ls')))
      else ebind (ib_pending env ls) (\<lambda>(ss, ls'). Inr (ss, (fed, st) # ls')))"

text \<open>There is an event even if nobody waits.\<close>

definition ib_preparePendingMessage :: "object_env \<Rightarrow> interaction_list \<Rightarrow> exn + (interaction_list \<times> responses)" where
  "ib_preparePendingMessage env b =
     ebind (ib_pending env (ib_lines b)) (\<lambda>(ss, ls). Inr (b\<lparr>ib_lines := ls\<rparr>, [event ss (ib_message b)]))"

section \<open>Sending an interaction\<close>

definition addFederatesIfOverlap_i :: "region list \<Rightarrow> subscribers \<Rightarrow> region_handle option
    \<Rightarrow> interaction_list \<Rightarrow> exn + interaction_list" where
  "addFederatesIfOverlap_i rs subs r b =
     efold (\<lambda>x b. ebind (sub_match rs x r) (\<lambda>m. Inr (if m then ib_addFederate (sub_handle x) b else b))) subs b"

text \<open>
  The first steps of \<open>broadcastInteractionMessage\<close>: the class of the message and its parameters. As for
  attributes, the values of the removed parameters stay.
\<close>

definition at_interaction_class :: "interaction \<Rightarrow> network_message \<Rightarrow> network_message" where
  "at_interaction_class ic m = (case nm_body m of
      ParametersOf _ ps vs r \<Rightarrow> m\<lparr>nm_body := ParametersOf (ic_handle ic) (filter (\<lambda>p. hasParameter p ic) ps) vs r\<rparr>
    | _ \<Rightarrow> m)"

definition broadcastInteractionMessage :: "object_env \<Rightarrow> region_handle option \<Rightarrow> interaction_class_handle
    \<Rightarrow> interaction_list \<Rightarrow> root \<Rightarrow> exn + (interaction_list \<times> responses)" where
  "broadcastInteractionMessage env r i b s =
     ebind (ic_deref i s) (\<lambda>ic.
     ebind (addFederatesIfOverlap_i (ro_regions s) (ic_subscribers ic) r
              (b\<lparr>ib_message := at_interaction_class ic (ib_message b)\<rparr>)) (\<lambda>b'.
     if \<not> ic_server ic then Inl UndefinedBehaviour else ib_preparePendingMessage env b'))"

text \<open>The size check of the values only prints a warning, but reads every value.\<close>

definition parameter_checks :: "interaction \<Rightarrow> parameter_handle list \<Rightarrow> attribute_value list \<Rightarrow> nat \<Rightarrow> exn + unit" where
  "parameter_checks ic ps vs n =
     efold (\<lambda>i _. if i \<ge> length ps then Inl UndefinedBehaviour
                  else ebind (getParameterByHandle (ps ! i) ic) (\<lambda>_.
                         if i \<ge> length vs then Inl UndefinedBehaviour else Inr ())) [0..<n] ()"

definition send_interaction :: "(network_message \<Rightarrow> network_message) \<Rightarrow> object_env \<Rightarrow> interaction_class_handle
    \<Rightarrow> federate_handle \<Rightarrow> parameter_handle list \<Rightarrow> attribute_value list \<Rightarrow> nat \<Rightarrow> region_handle option \<Rightarrow> string
    \<Rightarrow> root \<Rightarrow> exn + (interaction_list \<times> responses)" where
  "send_interaction dated env i fed ps vs n r tag s =
     ebind (ic_deref i s) (\<lambda>ic.
     if \<not> ic_isPublishing fed ic then Inl FederateNotPublishing
     else ebind (parameter_checks ic ps vs n) (\<lambda>_.
       if \<not> ic_server ic then Inl RTIinternalError
       else broadcastInteractionMessage env r i (ib_new (setLabel tag (dated (about_object env fed RECEIVE_INTERACTION
              (ParametersOf (ic_handle ic) (take n ps) (take n vs) 0))))) s))"

definition sendInteractionAt :: "object_env \<Rightarrow> interaction_class_handle \<Rightarrow> federate_handle \<Rightarrow> parameter_handle list
    \<Rightarrow> attribute_value list \<Rightarrow> nat \<Rightarrow> fed_time \<Rightarrow> region_handle option \<Rightarrow> string \<Rightarrow> root \<Rightarrow> exn + (interaction_list \<times> responses)" where
  "sendInteractionAt env i fed ps vs n t r tag s = send_interaction (setDate t) env i fed ps vs n r tag s"

definition sendInteraction :: "object_env \<Rightarrow> interaction_class_handle \<Rightarrow> federate_handle \<Rightarrow> parameter_handle list
    \<Rightarrow> attribute_value list \<Rightarrow> nat \<Rightarrow> region_handle option \<Rightarrow> string \<Rightarrow> root \<Rightarrow> exn + (interaction_list \<times> responses)" where
  "sendInteraction env i fed ps vs n r tag s = send_interaction id env i fed ps vs n r tag s"

section \<open>The set of interaction classes\<close>

text \<open>The loop over the superclasses; the number of classes bounds it.\<close>

fun interaction_up :: "nat \<Rightarrow> object_env \<Rightarrow> region_handle option \<Rightarrow> interaction_class_handle \<Rightarrow> interaction_list
    \<Rightarrow> root \<Rightarrow> exn + responses" where
  "interaction_up n env r i b s =
     (if i = 0 then Inr []
      else case n of
          0 \<Rightarrow> Inl OutOfFuel
        | Suc n' \<Rightarrow>
            ebind (ics_getObjectFromHandle i s) (\<lambda>ic.
            ebind (broadcastInteractionMessage env r i b s) (\<lambda>(b', rs).
            ebind (interaction_up n' env r (ic_super ic) b' s) (\<lambda>rs'. Inr (rs @ rs')))))"

declare interaction_up.simps [simp del]

definition broadcast_sent :: "object_env \<Rightarrow> interaction_class_handle \<Rightarrow> region_handle option
    \<Rightarrow> exn + (interaction_list \<times> responses) \<Rightarrow> root \<Rightarrow> exn + responses" where
  "broadcast_sent env i r sent s =
     ebind (ics_getObjectFromHandle i s) (\<lambda>ic.
     ebind sent (\<lambda>(b, rs).
     ebind (interaction_up (length (ro_interactions s)) env r (ic_super ic) b s) (\<lambda>rs'. Inr (rs @ rs'))))"

definition ics_broadcastInteractionAt :: "object_env \<Rightarrow> federate_handle \<Rightarrow> interaction_class_handle \<Rightarrow> parameter_handle list
    \<Rightarrow> attribute_value list \<Rightarrow> nat \<Rightarrow> fed_time \<Rightarrow> region_handle option \<Rightarrow> string \<Rightarrow> root \<Rightarrow> exn + responses" where
  "ics_broadcastInteractionAt env fed i ps vs n t r tag s =
     broadcast_sent env i r (sendInteractionAt env i fed ps vs n t r tag s) s"

definition ics_broadcastInteraction :: "object_env \<Rightarrow> federate_handle \<Rightarrow> interaction_class_handle \<Rightarrow> parameter_handle list
    \<Rightarrow> attribute_value list \<Rightarrow> nat \<Rightarrow> region_handle option \<Rightarrow> string \<Rightarrow> root \<Rightarrow> exn + responses" where
  "ics_broadcastInteraction env fed i ps vs n r tag s =
     broadcast_sent env i r (sendInteraction env i fed ps vs n r tag s) s"

definition getInteractionClassHandle :: "string \<Rightarrow> root \<Rightarrow> exn + interaction_class_handle" where
  "getInteractionClassHandle n s = getHandleFromName n (ro_interaction_names s)"

definition getInteractionClassName :: "interaction_class_handle \<Rightarrow> root \<Rightarrow> exn + string" where
  "getInteractionClassName i s = ebind (ics_getObjectFromHandle i s) (\<lambda>ic. Inr (ic_name ic))"

definition ics_getParameterHandle :: "string \<Rightarrow> interaction_class_handle \<Rightarrow> root \<Rightarrow> exn + parameter_handle" where
  "ics_getParameterHandle n i s = ebind (ics_getObjectFromHandle i s) (ic_getParameterHandle n)"

definition ics_getParameterName :: "parameter_handle \<Rightarrow> interaction_class_handle \<Rightarrow> root \<Rightarrow> exn + string" where
  "ics_getParameterName h i s = ebind (ics_getObjectFromHandle i s) (ic_getParameterName h)"

definition ics_isReady :: "federate_handle \<Rightarrow> interaction_class_handle \<Rightarrow> parameter_handle list \<Rightarrow> nat \<Rightarrow> root \<Rightarrow> exn + unit" where
  "ics_isReady fed i ps n s = ebind (ics_getObjectFromHandle i s) (isReady fed ps n)"

definition ics_killFederate :: "federate_handle \<Rightarrow> root \<Rightarrow> root" where
  "ics_killFederate fed s = s\<lparr>ro_interactions := om_map (\<lambda>_. ic_killFederate fed) (ro_interactions s)\<rparr>"

definition ics_publish :: "object_env \<Rightarrow> federate_handle \<Rightarrow> interaction_class_handle \<Rightarrow> bool \<Rightarrow> unit root_action" where
  "ics_publish env fed i pub =
     bind (gets (ics_getObjectFromHandle i)) (\<lambda>r. bind (lift_sum r) (\<lambda>_.
     on_interaction i (if pub then ic_publish env fed else ic_unpublish fed)))"

definition ics_subscribe :: "object_env \<Rightarrow> federate_handle \<Rightarrow> interaction_class_handle \<Rightarrow> region_handle option \<Rightarrow> bool
    \<Rightarrow> unit root_action" where
  "ics_subscribe env fed i r sub =
     bind (gets (ics_getObjectFromHandle i)) (\<lambda>x. bind (lift_sum x) (\<lambda>_.
     on_interaction i (if sub then ic_subscribe env fed r else modify (ic_unsubscribe fed r))))"

end
