(* ===== verification/RootObject.thy ===== *)
theory RootObject
  imports Interactions
begin

text \<open>
  \<open>libCERTI/RootObject.cc\<close>: the operations of the root object, which combine the object classes, the
  interaction classes, the objects, the reserved names, the routing spaces and the regions.
\<close>

section \<open>Routing spaces and regions\<close>

definition addRoutingSpace :: "routing_space \<Rightarrow> unit root_action" where
  "addRoutingSpace rs = modify (\<lambda>s. s\<lparr>ro_spaces := ro_spaces s @ [rs\<lparr>rs_handle := of_nat (Suc (length (ro_spaces s)))\<rparr>]\<rparr>)"

definition getRoutingSpaceHandle :: "string \<Rightarrow> root \<Rightarrow> exn + space_handle" where
  "getRoutingSpaceHandle n s =
     (case find (\<lambda>r. rs_name r = n) (ro_spaces s) of None \<Rightarrow> Inl NameNotFound | Some r \<Rightarrow> Inr (rs_handle r))"

definition getRoutingSpace :: "space_handle \<Rightarrow> root \<Rightarrow> exn + routing_space" where
  "getRoutingSpace h s =
     (if h = 0 \<or> unat h > length (ro_spaces s) then Inl SpaceNotDefined else Inr (ro_spaces s ! (unat h - 1)))"

definition getRoutingSpaceName :: "space_handle \<Rightarrow> root \<Rightarrow> exn + string" where
  "getRoutingSpaceName h s = ebind (getRoutingSpace h s) (\<lambda>r. Inr (rs_name r))"

definition addRegion :: "region \<Rightarrow> unit root_action" where
  "addRegion r = modify (\<lambda>s. s\<lparr>ro_regions := ro_regions s @ [r]\<rparr>)"

definition with_region_handles :: "(handle_manager, 'a) action \<Rightarrow> 'a root_action" where
  "with_region_handles = on_field ro_region_handles (\<lambda>m s. s\<lparr>ro_region_handles := m\<rparr>)"

text \<open>
  The order in which the arguments of the constructor are evaluated is not specified: here the handle is
  provided first.
\<close>

definition createRegion :: "axis \<Rightarrow> space_handle \<Rightarrow> nat \<Rightarrow> region_handle root_action" where
  "createRegion ax h n =
     bind (with_region_handles provide) (\<lambda>rh.
     bind (gets (getRoutingSpace h)) (\<lambda>x. bind (lift_sum x) (\<lambda>rs.
     bind (lift_sum (rti_region_new ax rh rs n)) (\<lambda>r.
     seq (addRegion r) (ret (rg_handle r))))))"

definition getRegion :: "region_handle \<Rightarrow> root \<Rightarrow> exn + region" where
  "getRegion h s = some_or RegionNotKnown (find_region h (ro_regions s))"

definition modifyRegion :: "region_handle \<Rightarrow> extent list \<Rightarrow> unit root_action" where
  "modifyRegion h es =
     bind (gets (getRegion h)) (\<lambda>x. bind (lift_sum x) (\<lambda>r.
     bind (lift_sum (replaceExtents es r)) (\<lambda>r'.
     modify (\<lambda>s. s\<lparr>ro_regions := update_first (\<lambda>r. rg_handle r = h) (\<lambda>_. r') (ro_regions s)\<rparr>))))"

text \<open>\<open>regions.remove(*it)\<close> invalidates the iterator, which is dereferenced afterwards.\<close>

definition deleteRegion :: "region_handle \<Rightarrow> unit root_action" where
  "deleteRegion h =
     bind (gets (getRegion h)) (\<lambda>x. bind (lift_sum x) (\<lambda>r.
     seq (modify (\<lambda>s. s\<lparr>ro_regions := filter (\<lambda>r. rg_handle r \<noteq> h) (ro_regions s)\<rparr>))
         (throw UndefinedBehaviour)))"

section \<open>Objects\<close>

definition reserveObjectInstanceName :: "federate_handle \<Rightarrow> string \<Rightarrow> bool root_action" where
  "reserveObjectInstanceName fed n =
     bind (gets (\<lambda>s. n = [] \<or> take 3 n = ''HLA'' \<or> os_getObjectByName n s \<noteq> None \<or> map_of (ro_reserved s) n \<noteq> None))
       (\<lambda>refused.
         if refused then ret False
         else seq (modify (\<lambda>s. s\<lparr>ro_reserved := om_put n fed (ro_reserved s)\<rparr>)) (ret True))"

text \<open>\<open>catch (...)\<close> catches every exception.\<close>

definition is_exception :: "exn \<Rightarrow> bool" where
  "is_exception e \<longleftrightarrow> e \<noteq> UndefinedBehaviour \<and> e \<noteq> OutOfFuel"

definition ro_registerObjectInstance :: "object_env \<Rightarrow> federate_handle \<Rightarrow> object_class_handle \<Rightarrow> object_handle
    \<Rightarrow> string \<Rightarrow> responses root_action" where
  "ro_registerObjectInstance env fed c h n =
     bind (gets (\<lambda>s. map_of (ro_reserved s) n)) (\<lambda>reserved.
     seq (throw_if (reserved \<noteq> None \<and> reserved \<noteq> Some fed) ObjectAlreadyRegistered)
     (seq (os_registerObjectInstance fed c h n)
     (bind (catch (ocs_registerObjectInstance env fed h c) is_exception
              (\<lambda>e. seq (os_deleteObjectInstance h) (throw e))) (\<lambda>rs.
      seq (modify (\<lambda>s. if reserved \<noteq> None then s\<lparr>ro_reserved := om_erase n (ro_reserved s)\<rparr> else s)) (ret rs)))))"

text \<open>What the two overloads of \<open>deleteObjectInstance\<close> share.\<close>

definition delete_object :: "(object_handle \<Rightarrow> responses root_action) \<Rightarrow> object_handle \<Rightarrow> responses root_action" where
  "delete_object classes h =
     bind (gets (os_getObject h)) (\<lambda>x. bind (lift_sum x) (\<lambda>_.
     bind (classes h) (\<lambda>rs.
     seq (os_deleteObjectInstance h) (ret rs))))"

definition ro_deleteObjectInstanceAt :: "object_env \<Rightarrow> federate_handle \<Rightarrow> object_handle \<Rightarrow> fed_time \<Rightarrow> string
    \<Rightarrow> responses root_action" where
  "ro_deleteObjectInstanceAt env fed h t tag = delete_object (\<lambda>h. ocs_deleteObjectAt env fed h t tag) h"

definition ro_deleteObjectInstance :: "object_env \<Rightarrow> federate_handle \<Rightarrow> object_handle \<Rightarrow> string \<Rightarrow> responses root_action" where
  "ro_deleteObjectInstance env fed h tag = delete_object (\<lambda>h. ocs_deleteObject env fed h tag) h"

definition ro_killFederate :: "object_env \<Rightarrow> federate_handle \<Rightarrow> responses root_action" where
  "ro_killFederate env fed =
     bind (ocs_killFederate env fed) (\<lambda>rs.
     seq (modify (ics_killFederate fed))
     (bind (os_killFederate fed) (\<lambda>finished. if finished then ret rs else throw OutOfFuel)))"

section \<open>Access to the parts\<close>

text \<open>The class attribute that an attribute of an object points to, by the handles of its class and of itself.\<close>

definition getObjectClassAttribute :: "object_handle \<Rightarrow> attribute_handle \<Rightarrow> root \<Rightarrow> exn + (object_class_handle \<times> attribute_handle)" where
  "getObjectClassAttribute h a s = ebind (os_getObject h s) (\<lambda>ob. ebind (ob_getAttribute a ob) (\<lambda>oa. Inr (oa_source oa)))"

definition getObjectAttribute :: "object_handle \<Rightarrow> attribute_handle \<Rightarrow> root \<Rightarrow> exn + object_attribute" where
  "getObjectAttribute h a s = ebind (os_getObject h s) (ob_getAttribute a)"

definition ro_requestObjectOwner :: "object_handle \<Rightarrow> root \<Rightarrow> exn + federate_handle" where
  "ro_requestObjectOwner h s = os_requestObjectOwner h s"

definition addObjectClass :: "object_class \<Rightarrow> object_class_handle option \<Rightarrow> unit root_action" where
  "addObjectClass c p = ocs_addClass c p"

definition addInteractionClass :: "interaction \<Rightarrow> interaction_class_handle option \<Rightarrow> unit root_action" where
  "addInteractionClass c p = ics_addClass c p"

text \<open>The counters are of type \<open>int\<close>, whose overflow is undefined.\<close>

definition next_free :: "(free_handles \<Rightarrow> int) \<Rightarrow> (int \<Rightarrow> free_handles \<Rightarrow> free_handles) \<Rightarrow> int root_action" where
  "next_free get put =
     bind (gets (\<lambda>s. get (ro_free s))) (\<lambda>n.
     seq (throw_if (n \<ge> 2 ^ 31 - 1) UndefinedBehaviour)
     (seq (modify (\<lambda>s. s\<lparr>ro_free := put (n + 1) (ro_free s)\<rparr>)) (ret (n + 1))))"

definition getFreeObjectClassHandle :: "int root_action" where
  "getFreeObjectClassHandle = next_free freeObjectClassHandle (\<lambda>n f. f\<lparr>freeObjectClassHandle := n\<rparr>)"

definition getFreeInteractionClassHandle :: "int root_action" where
  "getFreeInteractionClassHandle = next_free freeInteractionClassHandle (\<lambda>n f. f\<lparr>freeInteractionClassHandle := n\<rparr>)"

definition getFreeDimensionHandle :: "int root_action" where
  "getFreeDimensionHandle = next_free freeDimensionHandle (\<lambda>n f. f\<lparr>freeDimensionHandle := n\<rparr>)"

definition getFreeParameterHandle :: "int root_action" where
  "getFreeParameterHandle = next_free freeParameterHandle (\<lambda>n f. f\<lparr>freeParameterHandle := n\<rparr>)"

definition getFreeSpaceHandle :: "int root_action" where
  "getFreeSpaceHandle = next_free freeSpaceHandle (\<lambda>n f. f\<lparr>freeSpaceHandle := n\<rparr>)"

end
