(* ===== verification/Ownership.thy ===== *)
theory Ownership
  imports ObjectClassSets
begin

text \<open>
  Ownership management: the ownership services of \<open>libCERTI/ObjectClass.cc\<close> and their counterparts
  in \<open>libCERTI/ObjectClassSet.cc\<close>.

  An attribute of an object has an owner, 0 if it is free, a flag that its owner offers it, and the
  set of the federates that want it. The lemmas show that no operation makes a federate both the
  owner of an attribute and a candidate for it, and who gets an attribute in each case.
\<close>

section \<open>Messages to the owners\<close>

definition about_attributes :: "object_env \<Rightarrow> federate_handle \<Rightarrow> nm_type \<Rightarrow> object_handle \<Rightarrow> attribute_handle list \<Rightarrow> network_message" where
  "about_attributes env fed k h as = about_object env fed k (AttributesOf h as)"

text \<open>
  \<open>sendToOwners\<close>: one message to each federate of the list, with all its attributes; the code marks
  the entries it has served with the federate 0, which is skipped.
\<close>

fun sendToOwners :: "object_env \<Rightarrow> nm_type \<Rightarrow> federate_handle \<Rightarrow> object_handle \<Rightarrow> string
    \<Rightarrow> (federate_handle \<times> attribute_handle) list \<Rightarrow> unit root_action" where
  "sendToOwners env k fed h tag [] = ret ()"
| "sendToOwners env k fed h tag ((to, a) # ds) =
     (if to \<noteq> 0 then
        seq (sendToFederate env (setLabel tag (about_attributes env fed k h
               (a # map snd (filter (\<lambda>d. fst d = to) ds)))) to)
            (sendToOwners env k fed h tag (filter (\<lambda>d. fst d \<noteq> to) ds))
      else sendToOwners env k fed h tag ds)"

definition unless_empty :: "'a list \<Rightarrow> unit root_action \<Rightarrow> unit root_action" where
  "unless_empty xs m = (if xs = [] then ret () else m)"

section \<open>Steps on one attribute\<close>

definition is_privilege :: "object_class \<Rightarrow> attribute_handle \<Rightarrow> bool" where
  "is_privilege oc a \<longleftrightarrow> (case map_of (oc_attributes oc) a of Some ca \<Rightarrow> ca_name ca = privilegeToDelete | None \<Rightarrow> False)"

definition set_owner_if :: "bool \<Rightarrow> federate_handle \<Rightarrow> object \<Rightarrow> object" where
  "set_owner_if p fed ob = (if p then ob\<lparr>ob_owner := fed\<rparr> else ob)"

text \<open>The first candidate, which is the one with the smallest handle, becomes the owner.\<close>

definition to_candidate :: "federate_handle \<Rightarrow> object_attribute \<Rightarrow> object_attribute" where
  "to_candidate new oa = oa_setDivesting False (oa_removeCandidate new (oa_setOwner new oa))"

definition give_to_candidate :: "object_class \<Rightarrow> attribute_handle \<Rightarrow> (object, federate_handle \<times> attribute_handle) action" where
  "give_to_candidate oc a =
     bind (gets (ob_getAttribute a)) (\<lambda>r. bind (lift_sum r) (\<lambda>oa.
     bind (lift_sum (oa_getFirstCandidate oa)) (\<lambda>new.
     seq (modify (\<lambda>ob. set_owner_if (is_privilege oc a) new (ob_update a (to_candidate new) ob)))
     (ret (new, oa_handle oa)))))"

text \<open>The outcome of an acquisition: the attribute changes hands, or its owner has to be asked.\<close>

datatype acquisition =
    Acquired (divested: bool) (oldOwner: federate_handle)
  | Pending (oldOwner: federate_handle)

definition outcome :: "object_attribute \<Rightarrow> acquisition" where
  "outcome oa = (if oa_owner oa = 0 \<or> oa_divesting oa then Acquired (oa_divesting oa) (oa_owner oa) else Pending (oa_owner oa))"

text \<open>\<open>cleanup\<close> is what is done to the candidates when the attribute is taken, \<open>queue\<close> when it is not.\<close>

definition acquire_attribute :: "(object_attribute \<Rightarrow> object_attribute) \<Rightarrow> (object_attribute \<Rightarrow> object_attribute)
    \<Rightarrow> federate_handle \<Rightarrow> object_class \<Rightarrow> attribute_handle \<Rightarrow> (object, acquisition \<times> attribute_handle) action" where
  "acquire_attribute cleanup queue fed oc a =
     bind (gets (ob_getAttribute a)) (\<lambda>r. bind (lift_sum r) (\<lambda>oa.
     seq (case outcome oa of
            Acquired d old \<Rightarrow> modify (\<lambda>ob. set_owner_if (is_privilege oc a) fed
              (ob_update a (\<lambda>x. oa_setDivesting False (oa_setOwner fed (cleanup x))) ob))
          | Pending old \<Rightarrow> modify (ob_update a queue))
     (ret (outcome oa, oa_handle oa))))"

definition acquired :: "(acquisition \<times> attribute_handle) list \<Rightarrow> attribute_handle list" where
  "acquired xs = map snd (filter (\<lambda>x. is_Acquired (fst x)) xs)"

definition divestitures :: "(acquisition \<times> attribute_handle) list \<Rightarrow> (federate_handle \<times> attribute_handle) list" where
  "divestitures xs = map (\<lambda>x. (oldOwner (fst x), snd x)) (filter (\<lambda>x. is_Acquired (fst x) \<and> divested (fst x)) xs)"

definition pending :: "(acquisition \<times> attribute_handle) list \<Rightarrow> (federate_handle \<times> attribute_handle) list" where
  "pending xs = map (\<lambda>x. (oldOwner (fst x), snd x)) (filter (\<lambda>x. \<not> is_Acquired (fst x)) xs)"

section \<open>The services of an object class\<close>

definition with_instance :: "object_class_handle \<Rightarrow> object_handle \<Rightarrow> (object_class \<Rightarrow> object \<Rightarrow> 'a root_action) \<Rightarrow> 'a root_action" where
  "with_instance c h k =
     bind (gets (oc_deref c)) (\<lambda>r1. bind (lift_sum r1) (\<lambda>oc.
     bind (gets (os_deref h)) (\<lambda>r2. bind (lift_sum r2) (\<lambda>ob. k oc ob))))"

definition acquisition_checks :: "federate_handle \<Rightarrow> object_class \<Rightarrow> object \<Rightarrow> attribute_handle list \<Rightarrow> exn + unit" where
  "acquisition_checks fed oc ob hs =
     efold (\<lambda>a _. ebind (oc_getAttribute a oc) (\<lambda>ca. ebind (ob_getAttribute a ob) (\<lambda>oa.
       if oa_owner oa = fed then Inl FederateOwnsAttributes
       else if \<not> (ca_isPublishing fed ca \<or> ca_name ca = privilegeToDelete) then Inl AttributeNotPublished
       else Inr ()))) hs ()"

definition oc_attributeOwnershipAcquisition :: "object_env \<Rightarrow> object_class_handle \<Rightarrow> federate_handle \<Rightarrow> object_handle
    \<Rightarrow> attribute_handle list \<Rightarrow> string \<Rightarrow> unit root_action" where
  "oc_attributeOwnershipAcquisition env c fed h hs tag =
     with_instance c h (\<lambda>oc ob.
     seq (lift_sum (acquisition_checks fed oc ob hs))
     (seq (throw_if (\<not> oc_server oc) RTIinternalError)
     (seq (throw_if (\<not> oc_isFederatePublisher fed oc) ObjectClassNotPublished)
     (bind (on_object h (collect (acquire_attribute
              (\<lambda>x. if oa_isCandidate fed x then oa_removeCandidate fed x else x)
              (\<lambda>x. oa_addCandidate fed (oa_removeCandidate fed x)) fed oc) hs)) (\<lambda>xs.
      seq (unless_empty (acquired xs) (sendToFederate env
             (about_attributes env fed ATTRIBUTE_OWNERSHIP_ACQUISITION_NOTIFICATION (ob_handle ob) (acquired xs)) fed))
      (seq (sendToOwners env ATTRIBUTE_OWNERSHIP_DIVESTITURE_NOTIFICATION fed (ob_handle ob) [] (divestitures xs))
           (sendToOwners env REQUEST_ATTRIBUTE_OWNERSHIP_RELEASE fed (ob_handle ob) tag (pending xs))))))))"

definition if_available_checks :: "federate_handle \<Rightarrow> object_class \<Rightarrow> object \<Rightarrow> attribute_handle list \<Rightarrow> exn + unit" where
  "if_available_checks fed oc ob hs =
     efold (\<lambda>a _. ebind (oc_getAttribute a oc) (\<lambda>ca. ebind (ob_getAttribute a ob) (\<lambda>oa.
       if \<not> ca_isPublishing fed ca \<and> ca_name ca \<noteq> privilegeToDelete then Inl AttributeNotPublished
       else if oa_owner oa = fed then Inl FederateOwnsAttributes
       else if oa_isCandidate fed oa then Inl AttributeAlreadyBeingAcquired
       else Inr ()))) hs ()"

definition oc_attributeOwnershipAcquisitionIfAvailable :: "object_env \<Rightarrow> object_class_handle \<Rightarrow> federate_handle
    \<Rightarrow> object_handle \<Rightarrow> attribute_handle list \<Rightarrow> unit root_action" where
  "oc_attributeOwnershipAcquisitionIfAvailable env c fed h hs =
     with_instance c h (\<lambda>oc ob.
     seq (lift_sum (attributes_exist hs oc))
     (seq (throw_if (\<not> oc_server oc) RTIinternalError)
     (seq (throw_if (\<not> oc_isFederatePublisher fed oc) ObjectClassNotPublished)
     (seq (lift_sum (if_available_checks fed oc ob hs))
     (bind (on_object h (collect (acquire_attribute id (oa_addCandidate fed) fed oc) hs)) (\<lambda>xs.
      seq (unless_empty (acquired xs) (sendToFederate env
             (about_attributes env fed ATTRIBUTE_OWNERSHIP_ACQUISITION_NOTIFICATION (ob_handle ob) (acquired xs)) fed))
      (seq (sendToOwners env ATTRIBUTE_OWNERSHIP_DIVESTITURE_NOTIFICATION fed (ob_handle ob) [] (divestitures xs))
      (unless_empty (pending xs) (sendToFederate env
             (about_attributes env fed ATTRIBUTE_OWNERSHIP_UNAVAILABLE (ob_handle ob) (map snd (pending xs))) fed)))))))))"

definition release_checks :: "federate_handle \<Rightarrow> object \<Rightarrow> attribute_handle list \<Rightarrow> exn + unit" where
  "release_checks fed ob hs =
     efold (\<lambda>a _. ebind (ob_getAttribute a ob) (\<lambda>oa.
       if oa_owner oa \<noteq> fed then Inl AttributeNotOwned
       else if \<not> oa_hasCandidates oa then Inl FederateWasNotAskedToReleaseAttribute else Inr ())) hs ()"

definition oc_attributeOwnershipReleaseResponse :: "object_env \<Rightarrow> object_class_handle \<Rightarrow> federate_handle \<Rightarrow> object_handle
    \<Rightarrow> attribute_handle list \<Rightarrow> attribute_handle list root_action" where
  "oc_attributeOwnershipReleaseResponse env c fed h hs =
     with_instance c h (\<lambda>oc ob.
     seq (lift_sum (attributes_exist hs oc))
     (seq (lift_sum (release_checks fed ob hs))
     (seq (throw_if (\<not> oc_server oc) RTIinternalError)
     (bind (on_object h (collect (give_to_candidate oc) hs)) (\<lambda>ds.
      seq (sendToOwners env ATTRIBUTE_OWNERSHIP_ACQUISITION_NOTIFICATION fed (ob_handle ob) [] ds)
          (ret (map snd ds)))))))"

definition cancel_checks :: "federate_handle \<Rightarrow> object \<Rightarrow> attribute_handle list \<Rightarrow> exn + unit" where
  "cancel_checks fed ob hs =
     efold (\<lambda>a _. ebind (ob_getAttribute a ob) (\<lambda>oa.
       if oa_owner oa = fed then Inl AttributeAlreadyOwned
       else if \<not> oa_isCandidate fed oa then Inl AttributeAcquisitionWasNotRequested else Inr ())) hs ()"

definition oc_cancelAttributeOwnershipAcquisition :: "object_env \<Rightarrow> object_class_handle \<Rightarrow> federate_handle \<Rightarrow> object_handle
    \<Rightarrow> attribute_handle list \<Rightarrow> unit root_action" where
  "oc_cancelAttributeOwnershipAcquisition env c fed h hs =
     with_instance c h (\<lambda>oc ob.
     seq (lift_sum (attributes_exist hs oc))
     (seq (throw_if (\<not> oc_server oc) RTIinternalError)
     (seq (lift_sum (cancel_checks fed ob hs))
     (seq (on_object h (modify (fold (\<lambda>a. ob_update a (oa_removeCandidate fed)) hs)))
      (unless_empty hs (sendToFederate env
        (about_attributes env fed CONFIRM_ATTRIBUTE_OWNERSHIP_ACQUISITION_CANCELLATION (ob_handle ob) hs) fed))))))"

section \<open>Divestiture\<close>

definition owner_checks :: "bool \<Rightarrow> federate_handle \<Rightarrow> object \<Rightarrow> attribute_handle list \<Rightarrow> exn + unit" where
  "owner_checks divesting fed ob hs =
     efold (\<lambda>a _. ebind (ob_getAttribute a ob) (\<lambda>oa.
       if oa_owner oa \<noteq> fed then Inl AttributeNotOwned
       else if divesting \<and> oa_divesting oa then Inl AttributeAlreadyBeingDivested else Inr ())) hs ()"

text \<open>
  The loop of \<open>unconditionalAttributeOwnershipDivestiture\<close> for one attribute: the new owner, or \<open>None\<close> if
  the attribute becomes free.
\<close>

definition divest_attribute :: "object_class \<Rightarrow> attribute_handle
    \<Rightarrow> (object, (federate_handle \<times> attribute_handle) option) action" where
  "divest_attribute oc a =
     bind (gets (ob_getAttribute a)) (\<lambda>r. bind (lift_sum r) (\<lambda>oa.
       if oa_hasCandidates oa then bind (give_to_candidate oc a) (\<lambda>d. ret (Some d))
       else seq (modify (ob_update a (\<lambda>x. oa_setDivesting False (oa_setOwner 0 x)))) (ret None)))"

text \<open>The broadcast list refuses the type of the message.\<close>

definition oc_unconditionalAttributeOwnershipDivestiture :: "object_env \<Rightarrow> object_class_handle \<Rightarrow> federate_handle
    \<Rightarrow> object_handle \<Rightarrow> attribute_handle list \<Rightarrow> (broadcast_list option \<times> responses) root_action" where
  "oc_unconditionalAttributeOwnershipDivestiture env c fed h hs =
     with_instance c h (\<lambda>oc ob.
     seq (lift_sum (attributes_exist hs oc))
     (seq (lift_sum (owner_checks False fed ob hs))
     (seq (throw_if (\<not> oc_server oc) RTIinternalError)
     (bind (on_object h (collect (divest_attribute oc) hs)) (\<lambda>ds.
      let free = map fst (filter (\<lambda>x. snd x = None) (zip hs ds));
          given = List.map_filter id ds
      in bind (if free = [] then ret (None, [])
               else announce env c (of_nat (length (oc_attributes oc))) (setLabel [] (about_attributes env fed
                       UNCONDITIONAL_ATTRIBUTE_OWNERSHIP_DIVESTITURE (ob_handle ob) free))) (\<lambda>r.
         seq (sendToOwners env ATTRIBUTE_OWNERSHIP_ACQUISITION_NOTIFICATION fed (ob_handle ob) [] given) (ret r)))))))"

text \<open>
  The loop of \<open>negotiatedAttributeOwnershipDivestiture\<close> for one attribute. With a candidate the handle is
  stored in \<open>AnswerDivestiture\<close>, whose vector of attributes is empty: a write past its end.
\<close>

definition offer_attribute :: "object_class \<Rightarrow> attribute_handle \<Rightarrow> (object, unit) action" where
  "offer_attribute oc a =
     bind (gets (ob_getAttribute a)) (\<lambda>r. bind (lift_sum r) (\<lambda>oa.
       if oa_hasCandidates oa then seq (give_to_candidate oc a) (throw UndefinedBehaviour)
       else modify (ob_update a (oa_setDivesting True))))"

definition oc_negotiatedAttributeOwnershipDivestiture :: "object_env \<Rightarrow> object_class_handle \<Rightarrow> federate_handle
    \<Rightarrow> object_handle \<Rightarrow> attribute_handle list \<Rightarrow> string \<Rightarrow> (broadcast_list option \<times> responses) root_action" where
  "oc_negotiatedAttributeOwnershipDivestiture env c fed h hs tag =
     with_instance c h (\<lambda>oc ob.
     seq (lift_sum (attributes_exist hs oc))
     (seq (lift_sum (owner_checks True fed ob hs))
     (seq (throw_if (\<not> oc_server oc) RTIinternalError)
     (seq (on_object h (for_each (offer_attribute oc) hs))
     (if hs = [] then ret (None, [])
      else announce env c (of_nat (length (oc_attributes oc))) (setLabel tag (about_attributes env fed
             REQUEST_ATTRIBUTE_OWNERSHIP_ASSUMPTION (ob_handle ob) hs)))))))"

section \<open>The services of the set of classes\<close>

definition of_instance :: "object_handle \<Rightarrow> (object_class_handle \<Rightarrow> 'a root_action) \<Rightarrow> 'a root_action" where
  "of_instance h k = bind (gets (\<lambda>s. ebind (os_deref h s) (\<lambda>ob. ocs_getInstanceClass (ob_handle ob) s))) (\<lambda>r. bind (lift_sum r) k)"

definition ocs_attributeOwnershipAcquisition where
  "ocs_attributeOwnershipAcquisition env fed h hs tag =
     of_instance h (\<lambda>c. oc_attributeOwnershipAcquisition env c fed h hs tag)"

definition ocs_attributeOwnershipAcquisitionIfAvailable where
  "ocs_attributeOwnershipAcquisitionIfAvailable env fed h hs =
     of_instance h (\<lambda>c. oc_attributeOwnershipAcquisitionIfAvailable env c fed h hs)"

definition ocs_attributeOwnershipReleaseResponse where
  "ocs_attributeOwnershipReleaseResponse env fed h hs =
     of_instance h (\<lambda>c. oc_attributeOwnershipReleaseResponse env c fed h hs)"

definition ocs_cancelAttributeOwnershipAcquisition where
  "ocs_cancelAttributeOwnershipAcquisition env fed h hs =
     of_instance h (\<lambda>c. oc_cancelAttributeOwnershipAcquisition env c fed h hs)"

definition ocs_unconditionalAttributeOwnershipDivestiture where
  "ocs_unconditionalAttributeOwnershipDivestiture env fed h hs =
     of_instance h (\<lambda>c. bind (oc_unconditionalAttributeOwnershipDivestiture env c fed h hs) (continue_up env c))"

text \<open>Here a null list is handed on as well, and dereferenced by the first superclass.\<close>

definition ocs_negotiatedAttributeOwnershipDivestiture where
  "ocs_negotiatedAttributeOwnershipDivestiture env fed h hs tag =
     of_instance h (\<lambda>c.
       bind (oc_negotiatedAttributeOwnershipDivestiture env c fed h hs tag) (\<lambda>r.
       bind (gets (\<lambda>s. ebind (oc_deref c s) (\<lambda>oc.
               if fst r = None \<and> oc_super oc \<noteq> 0 then ebind (ocs_getObjectFromHandle (oc_super oc) s) (\<lambda>_. Inl UndefinedBehaviour)
               else Inr ()))) (\<lambda>x. seq (lift_sum x) (continue_up env c r))))"

end
