(* ===== verification/LBTS.thy ===== *)
theory LBTS
  imports FedTime
begin

text \<open>
  \<open>libCERTI/LBTS.hh\<close> and \<open>libCERTI/LBTS.cc\<close>: the lower bound on time stamps that a federate
  computes from the logical times of the regulating federates. It is the base class of the
  RTIA's \<open>TimeManagement\<close> and the \<open>my_regulators\<close> field of the RTIG's \<open>Federation\<close>.

  The lemmas show that after every operation the bound is the time of a regulating federate
  other than the own one, or infinite, and that no such time is below it.
\<close>

record lbts =
  lbts_value :: fed_time
  lbts_me :: federate_handle
  lbts_anonymous :: bool
  lbts_last_anonymous :: fed_time
  lbts_clocks :: "(federate_handle \<times> fed_time) list"

definition lbts_new :: lbts where
  "lbts_new = \<lparr>lbts_value = PInf, lbts_me = 0, lbts_anonymous = False,
     lbts_last_anonymous = Fin 0, lbts_clocks = []\<rparr>"

text \<open>One iteration of the loop of \<open>compute\<close>: the own clock is skipped.\<close>

definition compute_step :: "federate_handle \<Rightarrow> federate_handle \<times> fed_time \<Rightarrow> fed_time \<Rightarrow> fed_time" where
  "compute_step me e acc = (if fst e \<noteq> me then (if ft_lt (snd e) acc then snd e else acc) else acc)"

definition lbts_compute :: "(lbts, unit) action" where
  "lbts_compute = modify (\<lambda>l. l\<lparr>lbts_value := fold (compute_step (lbts_me l)) (lbts_clocks l) PInf\<rparr>)"

definition lbts_exists :: "federate_handle \<Rightarrow> lbts \<Rightarrow> bool" where
  "lbts_exists h l \<longleftrightarrow> map_of (lbts_clocks l) h \<noteq> None"

text \<open>\<open>LBTS::get\<close> appends the clocks to its output parameter.\<close>

definition lbts_get :: "lbts \<Rightarrow> (federate_handle \<times> fed_time) list \<Rightarrow> (federate_handle \<times> fed_time) list" where
  "lbts_get l v = v @ lbts_clocks l"

definition lbts_size :: "lbts \<Rightarrow> nat" where
  "lbts_size l = length (lbts_clocks l)"

definition lbts_insert :: "federate_handle \<Rightarrow> fed_time \<Rightarrow> (lbts, unit) action" where
  "lbts_insert h t =
     bind (gets (lbts_exists h)) (\<lambda>present.
       if present then throw RTIinternalError
       else seq (modify (\<lambda>l. l\<lparr>lbts_clocks := om_put h t (lbts_clocks l)\<rparr>)) lbts_compute)"

text \<open>The coherence test of \<open>update\<close>: a time that is lower than the stored one is ignored.\<close>

definition advance_clock :: "fed_time \<Rightarrow> fed_time \<Rightarrow> fed_time" where
  "advance_clock t old = (if ft_gt old t then old else t)"

text \<open>
  \<open>LBTS::update\<close>. Handle 0 is an anonymous update, which visits every clock; the loop is a
  \<open>do ... while\<close>, so it dereferences the first iterator even if there is no clock.
\<close>

definition lbts_update :: "federate_handle \<Rightarrow> fed_time \<Rightarrow> (lbts, unit) action" where
  "lbts_update h t =
     (if h \<noteq> 0 then
        bind (gets (\<lambda>l. map_of (lbts_clocks l) h)) (\<lambda>c. case c of
          None \<Rightarrow> throw RTIinternalError
        | Some old \<Rightarrow>
            seq (modify (\<lambda>l. l\<lparr>lbts_clocks := om_put h (advance_clock t old) (lbts_clocks l)\<rparr>)) lbts_compute)
      else
        seq (modify (\<lambda>l. l\<lparr>lbts_anonymous := True, lbts_last_anonymous := t\<rparr>))
        (bind (gets lbts_clocks) (\<lambda>cs.
           if cs = [] then throw UndefinedBehaviour
           else seq (modify (\<lambda>l. l\<lparr>lbts_clocks := om_map (\<lambda>_. advance_clock t) (lbts_clocks l)\<rparr>)) lbts_compute)))"

definition lbts_remove :: "federate_handle \<Rightarrow> (lbts, unit) action" where
  "lbts_remove h =
     bind (gets (lbts_exists h)) (\<lambda>present.
       if \<not> present then throw RTIinternalError
       else seq (modify (\<lambda>l. l\<lparr>lbts_clocks := om_erase h (lbts_clocks l)\<rparr>)) lbts_compute)"

definition lbts_setFederate :: "federate_handle \<Rightarrow> lbts \<Rightarrow> lbts" where
  "lbts_setFederate h l = l\<lparr>lbts_me := h\<rparr>"

definition lbts_resetAnonymousUpdate :: "lbts \<Rightarrow> lbts" where
  "lbts_resetAnonymousUpdate l = l\<lparr>lbts_anonymous := False\<rparr>"

section \<open>Lower bounds in a time order\<close>

text \<open>
  The client side of the interface \<open>time_order\<close>: the running minimum of a list under the
  tolerant comparison. The comparison is not transitive in general, and the argument rests on
  the weaker laws of the locale.
\<close>

definition running_min :: "('t \<Rightarrow> 't \<Rightarrow> bool) \<Rightarrow> 't list \<Rightarrow> 't \<Rightarrow> 't" where
  "running_min lt ts acc = fold (\<lambda>t a. if lt t a then t else a) ts acc"

context time_order
begin

lemma running_min_mem: "running_min lt ts acc = acc \<or> running_min lt ts acc \<in> set ts"
  by (induction ts arbitrary: acc) (auto simp: running_min_def)

lemma running_min_Cons: "running_min lt (t # ts) acc = running_min lt ts (if lt t acc then t else acc)"
  by (simp add: running_min_def)

lemma running_min_nonneg:
  "zero \<le> acc \<Longrightarrow> \<forall>t \<in> set ts. zero \<le> t \<Longrightarrow> zero \<le> running_min lt ts acc"
  using running_min_mem [of ts acc] by auto

lemma running_min_acc:
  "zero \<le> acc \<Longrightarrow> \<forall>t \<in> set ts. zero \<le> t \<Longrightarrow> running_min lt ts acc = acc \<or> lt (running_min lt ts acc) acc"
proof (induction ts arbitrary: acc)
  case Nil
  then show ?case by (simp add: running_min_def)
next
  case (Cons t ts)
  have ts: "\<forall>t \<in> set ts. zero \<le> t" and t: "zero \<le> t" using Cons.prems by auto
  show ?case
  proof (cases "lt t acc")
    case True
    let ?r = "running_min lt ts t"
    have "?r = t \<or> lt ?r t" using Cons.IH [OF t ts] .
    moreover have "lt ?r t \<Longrightarrow> lt ?r acc"
      using lt_trans [OF running_min_nonneg [OF t ts] _ True] .
    ultimately have "lt ?r acc" using True by (elim disjE) simp_all
    with True show ?thesis by (simp add: running_min_Cons)
  next
    case False
    then show ?thesis using Cons.IH [OF Cons.prems(1) ts] by (simp add: running_min_Cons)
  qed
qed

lemma running_min_keeps_lower:
  assumes "zero \<le> c" "zero \<le> acc" "\<forall>t \<in> set ts. zero \<le> t" "\<not> lt c acc"
  shows "\<not> lt c (running_min lt ts acc)"
  using running_min_acc [OF assms(2,3)] assms(1,4) lt_trans [of c "running_min lt ts acc" acc] by auto

lemma running_min_lower:
  "zero \<le> acc \<Longrightarrow> \<forall>t \<in> set ts. zero \<le> t \<Longrightarrow> c \<in> set ts \<Longrightarrow> \<not> lt c (running_min lt ts acc)"
proof (induction ts arbitrary: acc)
  case Nil
  then show ?case by simp
next
  case (Cons t ts)
  define acc' where "acc' = (if lt t acc then t else acc)"
  have nn: "zero \<le> acc'" "\<forall>t \<in> set ts. zero \<le> t" using Cons.prems by (auto simp: acc'_def)
  have "\<not> lt t acc'" by (simp add: acc'_def lt_irrefl)
  then have "\<not> lt t (running_min lt ts acc')"
    using Cons.prems nn by (intro running_min_keeps_lower) auto
  then show ?case unfolding running_min_Cons acc'_def [symmetric]
    using Cons.IH [OF nn] Cons.prems(3) by auto
qed

lemma running_min_below:
  assumes "zero \<le> acc" "\<forall>t \<in> set ts. zero \<le> t" "c \<in> set ts" "lt d (running_min lt ts acc)" "zero \<le> d"
  shows "d < c"
proof (rule ccontr)
  assume "\<not> d < c"
  then have "c \<le> d" by simp
  then have "lt c (running_min lt ts acc)"
    using assms lt_mono by auto
  with running_min_lower assms show False by blast
qed

end

text \<open>What holds of the bound after \<open>compute\<close>.\<close>

definition others :: "lbts \<Rightarrow> fed_time list" where
  "others l = map snd (filter (\<lambda>e. fst e \<noteq> lbts_me l) (lbts_clocks l))"

lemma compute_fold: "fold (compute_step me) cs acc = running_min ft_lt (map snd (filter (\<lambda>e. fst e \<noteq> me) cs)) acc"
  by (induction cs arbitrary: acc) (auto simp: running_min_def compute_step_def)

lemma lbts_compute_run [act_simps]:
  "lbts_compute l = (Inr (), l\<lparr>lbts_value := running_min ft_lt (others l) PInf\<rparr>)"
  by (simp add: lbts_compute_def act_simps compute_fold others_def)

definition nonneg_clocks :: "lbts \<Rightarrow> bool" where
  "nonneg_clocks l \<longleftrightarrow> (\<forall>(h, t) \<in> set (lbts_clocks l). Fin 0 \<le> t)"

text \<open>The bound is up to date: it is what \<open>compute\<close> would store.\<close>

definition lbts_ok :: "lbts \<Rightarrow> bool" where
  "lbts_ok l \<longleftrightarrow> om_ok (lbts_clocks l) \<and> lbts_value l = running_min ft_lt (others l) PInf"

lemma others_update [simp]:
  "others (l\<lparr>lbts_value := v\<rparr>) = others l" "others (l\<lparr>lbts_anonymous := b\<rparr>) = others l"
  "others (l\<lparr>lbts_last_anonymous := t\<rparr>) = others l"
  by (simp_all add: others_def)

lemma others_mem: "om_ok (lbts_clocks l) \<Longrightarrow>
  t \<in> set (others l) \<longleftrightarrow> (\<exists>h. h \<noteq> lbts_me l \<and> map_of (lbts_clocks l) h = Some t)"
  by (auto simp: others_def om_ok_map_of image_iff)

lemma nonneg_others: "nonneg_clocks l \<Longrightarrow> \<forall>t \<in> set (others l). Fin 0 \<le> t"
  by (auto simp: nonneg_clocks_def others_def)

lemma lbts_ok_new: "lbts_ok lbts_new"
  by (simp add: lbts_ok_def lbts_new_def others_def running_min_def)

lemma lbts_value_attained:
  assumes "lbts_ok l"
  shows "lbts_value l = PInf \<or> (\<exists>h. h \<noteq> lbts_me l \<and> map_of (lbts_clocks l) h = Some (lbts_value l))"
  using assms ft.running_min_mem [of "others l" PInf] others_mem [of l] by (auto simp: lbts_ok_def)

lemma lbts_value_lower:
  assumes "lbts_ok l" "nonneg_clocks l" "h \<noteq> lbts_me l" "map_of (lbts_clocks l) h = Some t"
  shows "\<not> ft_lt t (lbts_value l)"
proof -
  have "t \<in> set (others l)" using assms others_mem [of l] by (auto simp: lbts_ok_def)
  then show ?thesis
    using ft.running_min_lower [of PInf "others l" t] nonneg_others [OF assms(2)] assms(1)
    by (auto simp: lbts_ok_def)
qed

lemma below_lbts_below_clock:
  assumes "lbts_ok l" "nonneg_clocks l" "h \<noteq> lbts_me l" "map_of (lbts_clocks l) h = Some t"
    and "ft_lt d (lbts_value l)" "Fin 0 \<le> d"
  shows "d < t"
proof -
  have "\<not> t \<le> d" using lbts_value_lower [OF assms(1-4)] ft.lt_mono [of t d "lbts_value l"] assms
    by (metis nonneg_clocks_def case_prodD om_ok_map_of lbts_ok_def)
  then show ?thesis by simp
qed

section \<open>Every operation keeps the bound\<close>

lemma lbts_insert_run:
  "lbts_insert h t l =
     (if lbts_exists h l then (Inl RTIinternalError, l)
      else let l' = l\<lparr>lbts_clocks := om_put h t (lbts_clocks l)\<rparr>
           in (Inr (), l'\<lparr>lbts_value := running_min ft_lt (others l') PInf\<rparr>))"
  by (simp add: lbts_insert_def act_simps Let_def)

lemma lbts_remove_run:
  "lbts_remove h l =
     (if \<not> lbts_exists h l then (Inl RTIinternalError, l)
      else let l' = l\<lparr>lbts_clocks := om_erase h (lbts_clocks l)\<rparr>
           in (Inr (), l'\<lparr>lbts_value := running_min ft_lt (others l') PInf\<rparr>))"
  by (simp add: lbts_remove_def act_simps Let_def)

lemma lbts_compute_keeps [keeps_intros]: "keeps (\<lambda>l. om_ok (lbts_clocks l)) lbts_compute"
  by (simp add: keeps_def act_simps)

lemma lbts_insert_ok [keeps_intros]: "keeps lbts_ok (lbts_insert h t)"
  by (rule keepsI) (auto simp: lbts_ok_def lbts_insert_run Let_def others_def)

lemma lbts_remove_ok [keeps_intros]: "keeps lbts_ok (lbts_remove h)"
  by (rule keepsI) (auto simp: lbts_ok_def lbts_remove_run Let_def others_def)

lemma lbts_update_run:
  "lbts_update h t l =
     (if h \<noteq> 0 then
        (case map_of (lbts_clocks l) h of
           None \<Rightarrow> (Inl RTIinternalError, l)
         | Some old \<Rightarrow>
             let l' = l\<lparr>lbts_clocks := om_put h (advance_clock t old) (lbts_clocks l)\<rparr>
             in (Inr (), l'\<lparr>lbts_value := running_min ft_lt (others l') PInf\<rparr>))
      else
        let l1 = l\<lparr>lbts_anonymous := True, lbts_last_anonymous := t\<rparr>
        in if lbts_clocks l = [] then (Inl UndefinedBehaviour, l1)
           else let l' = l1\<lparr>lbts_clocks := om_map (\<lambda>_. advance_clock t) (lbts_clocks l)\<rparr>
                in (Inr (), l'\<lparr>lbts_value := running_min ft_lt (others l') PInf\<rparr>))"
  by (simp add: lbts_update_def act_simps Let_def split: option.splits)

lemma lbts_update_ok [keeps_intros]: "keeps lbts_ok (lbts_update h t)"
  by (rule keepsI) (auto simp: lbts_ok_def lbts_update_run Let_def others_def om_simps split: option.splits)

lemma lbts_update_me: "lbts_me (snd (lbts_update h t l)) = lbts_me l"
  by (auto simp: lbts_update_run Let_def split: option.splits)

lemma advance_clock_nonneg: "Fin 0 \<le> t \<Longrightarrow> Fin 0 \<le> old \<Longrightarrow> Fin 0 \<le> advance_clock t old"
  by (simp add: advance_clock_def)

lemma advance_clock_forward: "\<not> ft_lt (advance_clock t old) old"
  by (auto simp: advance_clock_def ft_gt_iff ft_lt_irrefl)

lemma nonneg_put: "nonneg_clocks l \<Longrightarrow> Fin 0 \<le> t \<Longrightarrow> nonneg_clocks (l\<lparr>lbts_clocks := om_put h t (lbts_clocks l)\<rparr>)"
  using set_om_put_subset [of h t "lbts_clocks l"] by (fastforce simp: nonneg_clocks_def)

lemma nonneg_clocks_update [simp]:
  "nonneg_clocks (l\<lparr>lbts_value := v\<rparr>) = nonneg_clocks l"
  "nonneg_clocks (l\<lparr>lbts_anonymous := b\<rparr>) = nonneg_clocks l"
  "nonneg_clocks (l\<lparr>lbts_last_anonymous := t\<rparr>) = nonneg_clocks l"
  by (simp_all add: nonneg_clocks_def)

lemma lbts_update_nonneg:
  assumes "nonneg_clocks l" "Fin 0 \<le> t"
  shows "nonneg_clocks (snd (lbts_update h t l))"
proof (cases "h = 0")
  case True
  then show ?thesis using assms
    by (auto simp: lbts_update_run Let_def nonneg_clocks_def om_map_def intro!: advance_clock_nonneg)
next
  case False
  show ?thesis
  proof (cases "map_of (lbts_clocks l) h")
    case None
    then show ?thesis using False assms by (simp add: lbts_update_run)
  next
    case (Some old)
    have "Fin 0 \<le> old" using map_of_SomeD [OF Some] assms(1) by (auto simp: nonneg_clocks_def)
    then show ?thesis using False Some assms
      by (simp add: lbts_update_run Let_def nonneg_put advance_clock_nonneg)
  qed
qed

text \<open>The clock of a federate after an update, and an update of the bound of the clock only upward.\<close>

lemma lbts_update_clock:
  assumes "lbts_update h t l = (Inr (), l')"
  shows "map_of (lbts_clocks l') k
    = (if h = 0 \<or> h = k then map_option (advance_clock t) (map_of (lbts_clocks l) k)
       else map_of (lbts_clocks l) k)"
  using assms
  by (auto simp: lbts_update_run Let_def om_simps split: option.splits if_splits)

end
