(* ===== verification/Federates.thy ===== *)
theory Federates
  imports Messages
begin

text \<open>
  \<open>RTIG/Federate.hh\<close> and \<open>RTIG/Federate.cc\<close>: what the RTIG knows of a joined federate. The
  unordered set of synchronization labels is a list without repetition.
\<close>

record federate =
  f_handle :: federate_handle
  f_name :: string
  f_type :: string
  f_version :: rti_version
  f_regulator :: bool
  f_constrained :: bool
  f_usingNERx :: bool
  f_lastNERx :: fed_time
  f_cras :: bool
  f_iras :: bool
  f_aras :: bool
  f_asas :: bool
  f_regionSets :: bool
  f_producing :: bool
  f_serviceReporting :: bool
  f_exceptionReporting :: bool
  f_saving :: bool
  f_restoring :: bool
  f_labels :: "string list"

definition federate_new :: "string \<Rightarrow> string \<Rightarrow> rti_version \<Rightarrow> federate_handle \<Rightarrow> exn + federate" where
  "federate_new n t v h =
     (if h = 0 then Inl RTIinternalError
      else Inr \<lparr>f_handle = h, f_name = n, f_type = t, f_version = v, f_regulator = False, f_constrained = False,
                f_usingNERx = False, f_lastNERx = Fin 0, f_cras = True, f_iras = True, f_aras = False, f_asas = False,
                f_regionSets = False, f_producing = False, f_serviceReporting = False, f_exceptionReporting = False,
                f_saving = False, f_restoring = False, f_labels = []\<rparr>)"

type_synonym 'a federate_action = "(federate, 'a) action"

definition setHandle :: "federate_handle \<Rightarrow> unit federate_action" where
  "setHandle h = bind (gets f_handle) (\<lambda>old.
     if h = 0 then throw RTIinternalError
     else if old = h then throw RTIinternalError
     else modify (\<lambda>f. f\<lparr>f_handle := h\<rparr>))"

text \<open>The switches that refuse to be set to the value they have.\<close>

definition set_switch :: "(federate \<Rightarrow> bool) \<Rightarrow> (bool \<Rightarrow> federate \<Rightarrow> federate) \<Rightarrow> bool \<Rightarrow> unit federate_action" where
  "set_switch get put b = bind (gets get) (\<lambda>old. if old = b then throw RTIinternalError else modify (put b))"

definition setConstrained_f :: "bool \<Rightarrow> unit federate_action" where
  "setConstrained_f = set_switch f_constrained (\<lambda>b f. f\<lparr>f_constrained := b\<rparr>)"

definition setRegulator :: "bool \<Rightarrow> unit federate_action" where
  "setRegulator = set_switch f_regulator (\<lambda>b f. f\<lparr>f_regulator := b\<rparr>)"

definition setClassRelevanceAdvisorySwitch :: "bool \<Rightarrow> unit federate_action" where
  "setClassRelevanceAdvisorySwitch = set_switch f_cras (\<lambda>b f. f\<lparr>f_cras := b\<rparr>)"

definition setInteractionRelevanceAdvisorySwitch :: "bool \<Rightarrow> unit federate_action" where
  "setInteractionRelevanceAdvisorySwitch = set_switch f_iras (\<lambda>b f. f\<lparr>f_iras := b\<rparr>)"

definition setAttributeRelevanceAdvisorySwitch :: "bool \<Rightarrow> unit federate_action" where
  "setAttributeRelevanceAdvisorySwitch = set_switch f_aras (\<lambda>b f. f\<lparr>f_aras := b\<rparr>)"

definition setAttributeScopeAdvisorySwitch :: "bool \<Rightarrow> unit federate_action" where
  "setAttributeScopeAdvisorySwitch = set_switch f_asas (\<lambda>b f. f\<lparr>f_asas := b\<rparr>)"

text \<open>The four switches that are set without a check.\<close>

definition setConveyRegionDesignatorSetsSwitch :: "bool \<Rightarrow> unit federate_action" where
  "setConveyRegionDesignatorSetsSwitch b = modify (\<lambda>f. f\<lparr>f_regionSets := b\<rparr>)"

definition setConveyProducingFederateSwitch :: "bool \<Rightarrow> unit federate_action" where
  "setConveyProducingFederateSwitch b = modify (\<lambda>f. f\<lparr>f_producing := b\<rparr>)"

definition setServiceReportingSwitch :: "bool \<Rightarrow> unit federate_action" where
  "setServiceReportingSwitch b = modify (\<lambda>f. f\<lparr>f_serviceReporting := b\<rparr>)"

definition setExceptionReportingSwitch :: "bool \<Rightarrow> unit federate_action" where
  "setExceptionReportingSwitch b = modify (\<lambda>f. f\<lparr>f_exceptionReporting := b\<rparr>)"

definition setIsUsingNERx :: "bool \<Rightarrow> unit federate_action" where
  "setIsUsingNERx b = modify (\<lambda>f. f\<lparr>f_usingNERx := b\<rparr>)"

definition setLastNERxValue :: "fed_time \<Rightarrow> unit federate_action" where
  "setLastNERxValue t = modify (\<lambda>f. f\<lparr>f_lastNERx := t, f_usingNERx := True\<rparr>)"

definition setSaving :: "bool \<Rightarrow> unit federate_action" where
  "setSaving b = modify (\<lambda>f. f\<lparr>f_saving := b\<rparr>)"

definition setRestoring :: "bool \<Rightarrow> unit federate_action" where
  "setRestoring b = modify (\<lambda>f. f\<lparr>f_restoring := b\<rparr>)"

definition hasSynchronizationLabel :: "string \<Rightarrow> federate \<Rightarrow> bool" where
  "hasSynchronizationLabel l f \<longleftrightarrow> l \<in> set (f_labels f)"

definition addSynchronizationLabel :: "string \<Rightarrow> unit federate_action" where
  "addSynchronizationLabel l = bind (gets (hasSynchronizationLabel l)) (\<lambda>present.
     if present then throw RTIinternalError else modify (\<lambda>f. f\<lparr>f_labels := l # f_labels f\<rparr>))"

definition removeSynchronizationLabel :: "string \<Rightarrow> unit federate_action" where
  "removeSynchronizationLabel l = bind (gets (hasSynchronizationLabel l)) (\<lambda>present.
     if \<not> present then throw RTIinternalError
     else modify (\<lambda>f. f\<lparr>f_labels := filter (\<lambda>x. x \<noteq> l) (f_labels f)\<rparr>))"

lemma set_switch_run [act_simps]:
  "set_switch get put b f = (if get f = b then (Inl RTIinternalError, f) else (Inr (), put b f))"
  by (simp add: set_switch_def act_simps)

lemma label_runs [act_simps]:
  "addSynchronizationLabel l f =
     (if hasSynchronizationLabel l f then (Inl RTIinternalError, f) else (Inr (), f\<lparr>f_labels := l # f_labels f\<rparr>))"
  "removeSynchronizationLabel l f =
     (if hasSynchronizationLabel l f then (Inr (), f\<lparr>f_labels := filter (\<lambda>x. x \<noteq> l) (f_labels f)\<rparr>)
      else (Inl RTIinternalError, f))"
  by (simp_all add: addSynchronizationLabel_def removeSynchronizationLabel_def act_simps)

end
