(* ===== verification/Federation.thy ===== *)
theory Federation
  imports HandleManager LBTS Sockets Federates
begin

text \<open>
  \<open>RTIG/Federation.hh\<close> and \<open>RTIG/Federation.cc\<close>: a federation execution in the RTIG, with its
  federates, its regulating federates, the synchronization points, save and restore. The
  management object model is disabled (\<open>my_mom\<close> is null).

  The state is polymorphic in the root object \<open>'r\<close>. The \<open>SocketServer\<close> that the federation refers
  to through its security server is the field \<open>fd_sockets\<close>. \<open>my_federates\<close> is visited in the
  order of the handles.
\<close>

record 'r federation =
  fd_handle :: federation_handle
  fd_name :: string
  fd_server :: security_server
  fd_sockets :: socket_server
  fd_root :: 'r
  fd_min_NERx :: fed_time
  fd_federates :: "(federate_handle \<times> federate) list"
  fd_regulators :: lbts
  fd_labels :: "(string \<times> string) list"
  fd_handles :: handle_manager
  fd_objects :: handle_manager
  fd_saving :: bool
  fd_restoring :: bool
  fd_save_status :: bool
  fd_restore_status :: bool
  fd_save_label :: string
  fd_auto_provide :: bool

type_synonym ('r, 'a) fed_action = "('r federation, 'a) action"

text \<open>
  The constructor, apart from the reading of the FOM modules, which fills the root object \<open>ro\<close>. \<open>last0\<close> and
  \<open>mom0\<close> are the values of the members that the security server leaves uninitialised.
\<close>

definition federation_new ::
  "string \<Rightarrow> federation_handle \<Rightarrow> socket_server \<Rightarrow> 'r \<Rightarrow> level_id \<Rightarrow> federate_handle \<Rightarrow> exn + 'r federation" where
  "federation_new n h ss ro last0 mom0 =
     (if n = [] \<or> \<not> valid_handle h then Inl RTIinternalError
      else case security_server_new h last0 mom0 of
          Inl e \<Rightarrow> Inl e
        | Inr sv \<Rightarrow> Inr \<lparr>fd_handle = h, fd_name = n, fd_server = sv, fd_sockets = ss, fd_root = ro,
            fd_min_NERx = Fin 0, fd_federates = [], fd_regulators = lbts_new, fd_labels = [],
            fd_handles = handle_manager_new 1, fd_objects = handle_manager_new 1, fd_saving = False,
            fd_restoring = False, fd_save_status = True, fd_restore_status = True, fd_save_label = [],
            fd_auto_provide = False\<rparr>)"

section \<open>Access to the federates and their sockets\<close>

definition getFederate :: "federate_handle \<Rightarrow> 'r federation \<Rightarrow> exn + federate" where
  "getFederate h s = (case map_of (fd_federates s) h of Some f \<Rightarrow> Inr f | None \<Rightarrow> Inl FederateNotExecutionMember)"

definition getFederateByName :: "string \<Rightarrow> 'r federation \<Rightarrow> exn + federate" where
  "getFederateByName n s =
     (case find (\<lambda>e. f_name (snd e) = n) (fd_federates s) of
        Some e \<Rightarrow> Inr (snd e) | None \<Rightarrow> Inl FederateNotExecutionMember)"

text \<open>A call to a member function of the federate with handle \<open>h\<close>, which \<open>getFederate\<close> has found.\<close>

definition on_federate :: "federate_handle \<Rightarrow> 'a federate_action \<Rightarrow> ('r, 'a) fed_action" where
  "on_federate h m = (\<lambda>s. case map_of (fd_federates s) h of
       None \<Rightarrow> (Inl FederateNotExecutionMember, s)
     | Some f \<Rightarrow> (case m f of (r, f') \<Rightarrow> (r, s\<lparr>fd_federates := om_put h f' (fd_federates s)\<rparr>)))"

definition handles_of :: "'r federation \<Rightarrow> federate_handle list" where
  "handles_of s = map fst (fd_federates s)"

text \<open>A loop over \<open>my_federates\<close> that calls a member function of each.\<close>

definition for_federates :: "unit federate_action \<Rightarrow> ('r, unit) fed_action" where
  "for_federates m = bind (gets handles_of) (for_each (\<lambda>h. on_federate h m))"

definition check :: "federate_handle \<Rightarrow> ('r, unit) fed_action" where
  "check h = bind (gets (\<lambda>s. map_of (fd_federates s) h)) (\<lambda>f. throw_if (f = None) FederateNotExecutionMember)"

definition fed_empty :: "'r federation \<Rightarrow> exn + unit" where
  "fed_empty s = (if fd_federates s = [] then Inr () else Inl FederatesCurrentlyJoined)"

definition getNbFederates :: "'r federation \<Rightarrow> nat" where
  "getNbFederates s = length (fd_federates s)"

definition getNbRegulators :: "'r federation \<Rightarrow> nat" where
  "getNbRegulators s = lbts_size (fd_regulators s)"

definition isSynchronizing :: "'r federation \<Rightarrow> bool" where
  "isSynchronizing s \<longleftrightarrow> fd_labels s \<noteq> []"

definition link_of :: "'r federation \<Rightarrow> federate_handle \<Rightarrow> exn + socket option" where
  "link_of s h = sec_getSocketLink (fd_server s) (fd_sockets s) h"

fun links_of :: "'r federation \<Rightarrow> federate_handle list \<Rightarrow> exn + socket option list" where
  "links_of s [] = Inr []"
| "links_of s (h # hs) =
     (case link_of s h of Inl e \<Rightarrow> Inl e
      | Inr l \<Rightarrow> (case links_of s hs of Inl e \<Rightarrow> Inl e | Inr ls \<Rightarrow> Inr (l # ls)))"

definition respondToSome :: "network_message \<Rightarrow> federate_handle list \<Rightarrow> ('r, responses) fed_action" where
  "respondToSome m hs = bind (gets (\<lambda>s. links_of s hs)) (\<lambda>r. bind (lift_sum r) (\<lambda>ls. ret [event ls m]))"

text \<open>The default value of \<open>except\<close> is 0, which is no federate's handle.\<close>

definition respondToAll :: "network_message \<Rightarrow> federate_handle \<Rightarrow> ('r, responses) fed_action" where
  "respondToAll m except = bind (gets handles_of) (\<lambda>hs. respondToSome m (filter (\<lambda>h. h \<noteq> except) hs))"

text \<open>\<open>responses.emplace_back(my_server->getSocketLink(h), std::move(m))\<close>.\<close>

definition respondTo :: "federate_handle \<Rightarrow> network_message \<Rightarrow> ('r, message_event) fed_action" where
  "respondTo h m = bind (gets (\<lambda>s. link_of s h)) (\<lambda>r. bind (lift_sum r) (\<lambda>l. ret (event [l] m)))"

definition with_regulators :: "(lbts, 'a) action \<Rightarrow> ('r, 'a) fed_action" where
  "with_regulators = on_field fd_regulators (\<lambda>l s. s\<lparr>fd_regulators := l\<rparr>)"

definition with_sockets :: "(socket_server, 'a) action \<Rightarrow> ('r, 'a) fed_action" where
  "with_sockets = on_field fd_sockets (\<lambda>l s. s\<lparr>fd_sockets := l\<rparr>)"

definition with_root :: "('r, 'a) action \<Rightarrow> ('r, 'a) fed_action" where
  "with_root = on_field fd_root (\<lambda>l s. s\<lparr>fd_root := l\<rparr>)"

definition with_handles :: "(handle_manager, 'a) action \<Rightarrow> ('r, 'a) fed_action" where
  "with_handles = on_field fd_handles (\<lambda>l s. s\<lparr>fd_handles := l\<rparr>)"

text \<open>A message of this federation that concerns a federate.\<close>

definition fed_message :: "'r federation \<Rightarrow> federate_handle \<Rightarrow> nm_type \<Rightarrow> msg_body \<Rightarrow> network_message" where
  "fed_message s h k b = setFederate h (setFederation (fd_handle s) (new_message k b))"

section \<open>Joining and resigning\<close>

definition null_events :: "socket \<Rightarrow> 'r federation \<Rightarrow> responses" where
  "null_events link s =
     map (\<lambda>(h, t). event [Some link] (setDate t (fed_message s h MESSAGE_NULL NoBody))) (lbts_get (fd_regulators s) [])"

definition announce_event :: "socket \<Rightarrow> 'r federation \<Rightarrow> federate_handle \<Rightarrow> string \<times> string \<Rightarrow> message_event" where
  "announce_event link s h lt =
     event [Some link] (setTag (snd lt) (setLabel (fst lt) (fed_message s h ANNOUNCE_SYNCHRONIZATION_POINT NoBody)))"

text \<open>
  \<open>add\<close>. The argument \<open>openFom\<close> is the call of \<open>openFomModules\<close> on the additional modules, and \<open>getFOM\<close> that of
  \<open>convertToSerializedFOM\<close>, whose two overloads give the same data.
\<close>

definition add :: "('r, unit) fed_action \<Rightarrow> ('r \<Rightarrow> exn + fom) \<Rightarrow> string \<Rightarrow> string \<Rightarrow> rti_version \<Rightarrow> socket \<Rightarrow> 32 word \<Rightarrow> 32 word \<Rightarrow>
    ('r, federate_handle \<times> responses) fed_action" where
  "add openFom getFOM name type version link peer address =
     seq (bind (gets (getFederateByName name)) (\<lambda>r. throw_if (\<not> isl r) FederateAlreadyExecutionMember))
     (bind (with_handles provide) (\<lambda>h.
      bind (lift_sum (federate_new name type version h)) (\<lambda>f.
      seq (modify (\<lambda>s. s\<lparr>fd_federates := (case map_of (fd_federates s) h of
                                           None \<Rightarrow> om_put h f (fd_federates s) | Some _ \<Rightarrow> fd_federates s)\<rparr>))
      (seq openFom
      (bind (catch
         (bind (gets (null_events link)) (\<lambda>nulls.
          bind (gets fd_labels) (\<lambda>labels.
          seq (for_each (\<lambda>lt. on_federate h (addSynchronizationLabel (fst lt))) labels)
          (bind (gets (\<lambda>s. map (announce_event link s h) labels)) (\<lambda>announcements.
           ret (nulls @ announcements))))))
         (\<lambda>e. e = NetworkError) (\<lambda>_. throw RTIinternalError)) (\<lambda>rs1.
      bind (gets (\<lambda>s. getFOM (fd_root s))) (\<lambda>x. bind (lift_sum x) (\<lambda>fom.
      bind (respondToAll (new_message ADDITIONAL_FOM_MODULE (FomModule fom)) h) (\<lambda>rs2.
      bind (gets (\<lambda>s. event [Some link] (fed_message s h JOIN_FEDERATION_EXECUTION
                 (JoinReply (fd_name s) (getNbRegulators s) peer address fom)))) (\<lambda>reply.
      bind (gets fd_handle) (\<lambda>fn.
      seq (with_sockets (ss_setReferences link fn h))
      (ret (h, rs1 @ rs2 @ [reply])))))))))))))"

definition remove :: "federate_handle \<Rightarrow> ('r, responses) fed_action" where
  "remove h =
     seq (check h)
     (seq (with_handles (free h))
     (seq (modify (\<lambda>s. s\<lparr>fd_federates := om_erase h (fd_federates s)\<rparr>))
     (bind (gets (\<lambda>s. fed_message s h RESIGN_FEDERATION_EXECUTION NoBody)) (\<lambda>m.
      bind (respondTo h m) (\<lambda>e. ret [e])))))"

section \<open>Time management\<close>

definition addRegulator :: "federate_handle \<Rightarrow> fed_time \<Rightarrow> ('r, responses) fed_action" where
  "addRegulator h t =
     bind (gets (getFederate h)) (\<lambda>r. bind (lift_sum r) (\<lambda>_.
     seq (with_regulators (lbts_insert h t))
     (seq (on_federate h (setRegulator True))
     (bind (gets (\<lambda>s. setDate t (fed_message s h SET_TIME_REGULATING (Regulator True)))) (\<lambda>m.
      bind (respondToAll m 0) (\<lambda>rs.
      bind (gets (\<lambda>s. setDate t (fed_message s h TIME_REGULATION_ENABLED NoBody))) (\<lambda>rep.
      bind (respondTo h rep) (\<lambda>e. ret (rs @ [e])))))))))"

definition updateRegulator :: "federate_handle \<Rightarrow> fed_time \<Rightarrow> bool \<Rightarrow> ('r, responses) fed_action" where
  "updateRegulator h t anonymous =
     seq (if \<not> anonymous then
            bind (gets (getFederate h)) (\<lambda>r. bind (lift_sum r) (\<lambda>f.
            seq (throw_if (\<not> f_regulator f) RTIinternalError)
                (with_regulators (lbts_update h t))))
          else ret ())
     (bind (gets (\<lambda>s. setDate t (fed_message s (if anonymous then 0 else h) MESSAGE_NULL NoBody))) (\<lambda>m.
      respondToAll m h))"

definition removeRegulator :: "federate_handle \<Rightarrow> ('r, responses) fed_action" where
  "removeRegulator h =
     bind (gets (getFederate h)) (\<lambda>r. bind (lift_sum r) (\<lambda>_.
     seq (with_regulators (lbts_remove h))
     (seq (on_federate h (setRegulator False))
     (bind (gets (\<lambda>s. fed_message s h SET_TIME_REGULATING (Regulator False))) (\<lambda>m.
      respondToAll m 0)))))"

definition setConstrained :: "federate_handle \<Rightarrow> bool \<Rightarrow> fed_time \<Rightarrow> ('r, responses) fed_action" where
  "setConstrained h c t =
     seq (on_federate h (setConstrained_f c))
     (if c then
        bind (gets (\<lambda>s. setDate t (fed_message s h TIME_CONSTRAINED_ENABLED NoBody))) (\<lambda>m.
        bind (respondTo h m) (\<lambda>e. ret [e]))
      else ret [])"

text \<open>
  \<open>computeMinNERx\<close>: the LBTS of the regulators, where a federate that uses NER counts with the
  date it has asked for; zero unless at least two federates use NER.
\<close>

fun ner_clocks :: "'r federation \<Rightarrow> (federate_handle \<times> fed_time) list \<Rightarrow> nat \<Rightarrow> lbts \<Rightarrow> exn + (nat \<times> lbts)" where
  "ner_clocks s [] n l = Inr (n, l)"
| "ner_clocks s ((h, t) # cs) n l =
     (case getFederate h s of
        Inl e \<Rightarrow> Inl e
      | Inr f \<Rightarrow>
          (case lbts_insert h (if f_usingNERx f then f_lastNERx f else t) l of
             (Inl e, _) \<Rightarrow> Inl e
           | (Inr _, l') \<Rightarrow> ner_clocks s cs (if f_usingNERx f then n + 1 else n) l'))"

definition computeMinNERx :: "'r federation \<Rightarrow> exn + fed_time" where
  "computeMinNERx s =
     (case ner_clocks s (lbts_get (fd_regulators s) []) 0 lbts_new of
        Inl e \<Rightarrow> Inl e
      | Inr (n, l) \<Rightarrow> Inr (if n < 2 then Fin 0 else lbts_value (snd (lbts_compute l))))"

definition stop_NERx :: "unit federate_action" where
  "stop_NERx = bind (gets f_usingNERx) (\<lambda>u.
     if u then seq (setLastNERxValue (Fin 0)) (setIsUsingNERx False) else ret ())"

definition updateLastNERxForFederate :: "federate_handle \<Rightarrow> fed_time \<Rightarrow> ('r, bool) fed_action" where
  "updateLastNERxForFederate h t =
     seq (on_federate h (setLastNERxValue t))
     (bind (gets computeMinNERx) (\<lambda>r. bind (lift_sum r) (\<lambda>newMin.
      bind (gets fd_min_NERx) (\<lambda>old.
        if ft_gt newMin old then
          seq (modify (\<lambda>s. s\<lparr>fd_min_NERx := newMin\<rparr>)) (seq (for_federates stop_NERx) (ret True))
        else ret False))))"

section \<open>Synchronization points\<close>

text \<open>\<open>my_synchronization_labels.insert\<close> refuses a label that is pending.\<close>

definition insert_label :: "string \<Rightarrow> string \<Rightarrow> ('r, unit) fed_action" where
  "insert_label l tag = bind (gets (\<lambda>s. map_of (fd_labels s) l)) (\<lambda>old.
     if old \<noteq> None then throw FederationAlreadyPaused
     else modify (\<lambda>s. s\<lparr>fd_labels := om_put l tag (fd_labels s)\<rparr>))"

definition registerSynchronization :: "federate_handle \<Rightarrow> string \<Rightarrow> string \<Rightarrow> ('r, unit) fed_action" where
  "registerSynchronization h l tag =
     seq (check h)
     (seq (throw_if (l = []) RTIinternalError)
     (seq (insert_label l tag)
      (for_federates (addSynchronizationLabel l))))"

text \<open>The overload for a set of federates: \<open>my_federates.at\<close> throws \<open>std::out_of_range\<close>.\<close>

definition at_federate :: "federate_handle \<Rightarrow> unit federate_action \<Rightarrow> ('r, unit) fed_action" where
  "at_federate h m = bind (gets (\<lambda>s. map_of (fd_federates s) h)) (\<lambda>f.
     if f = None then throw StdOutOfRange else on_federate h m)"

definition registerSynchronizationFor ::
  "federate_handle \<Rightarrow> string \<Rightarrow> string \<Rightarrow> federate_handle list \<Rightarrow> ('r, unit) fed_action" where
  "registerSynchronizationFor h l tag hs =
     bind (gets (getFederate h)) (\<lambda>r. bind (lift_sum r) (\<lambda>_.
     seq (throw_if (l = []) RTIinternalError)
     (seq (insert_label l tag)
     (seq (if hs \<noteq> [] then on_federate h (addSynchronizationLabel l) else ret ())
      (for_each (\<lambda>g. at_federate g (addSynchronizationLabel l)) hs)))))"

definition unregisterSynchronization :: "federate_handle \<Rightarrow> string \<Rightarrow> ('r, responses) fed_action" where
  "unregisterSynchronization h l =
     seq (check h)
     (seq (throw_if (l = []) RTIinternalError)
     (seq (on_federate h (removeSynchronizationLabel l))
     (bind (gets fd_federates) (\<lambda>fs.
        if \<exists>e \<in> set fs. hasSynchronizationLabel l (snd e) then ret []
        else
          seq (modify (\<lambda>s. s\<lparr>fd_labels := om_erase l (fd_labels s)\<rparr>))
          (bind (gets (\<lambda>s. setLabel l (fed_message s h FEDERATION_SYNCHRONIZED NoBody))) (\<lambda>m.
           respondToAll m 0))))))"

definition announcement :: "'r federation \<Rightarrow> federate_handle \<Rightarrow> string \<Rightarrow> string \<Rightarrow> network_message" where
  "announcement s h l tag = setTag tag (setLabel l (fed_message s h ANNOUNCE_SYNCHRONIZATION_POINT NoBody))"

definition broadcastSynchronization :: "federate_handle \<Rightarrow> string \<Rightarrow> string \<Rightarrow> ('r, responses) fed_action" where
  "broadcastSynchronization h l tag =
     seq (check h)
     (seq (throw_if (l = []) RTIinternalError)
     (bind (gets (\<lambda>s. announcement s h l tag)) (\<lambda>m. respondToAll m 0)))"

definition broadcastSynchronizationFor ::
  "federate_handle \<Rightarrow> string \<Rightarrow> string \<Rightarrow> federate_handle list \<Rightarrow> ('r, responses) fed_action" where
  "broadcastSynchronizationFor h l tag hs =
     seq (check h)
     (seq (throw_if (l = []) RTIinternalError)
     (bind (gets (\<lambda>s. announcement s h l tag)) (\<lambda>m. respondToSome m hs)))"

section \<open>Save and restore\<close>

text \<open>What the two overloads of \<open>requestFederationSave\<close> share, up to the broadcast.\<close>

definition begin_save :: "federate_handle \<Rightarrow> string \<Rightarrow> (network_message \<Rightarrow> network_message) \<Rightarrow> ('r, responses) fed_action" where
  "begin_save h l dated =
     seq (check h)
     (bind (gets fd_saving) (\<lambda>b.
      seq (throw_if b SaveInProgress)
      (seq (for_federates (setSaving True))
      (seq (modify (\<lambda>s. s\<lparr>fd_save_status := True, fd_saving := True, fd_save_label := l\<rparr>))
      (bind (gets (\<lambda>s. dated (setLabel l (fed_message s h INITIATE_FEDERATE_SAVE NoBody)))) (\<lambda>m.
       respondToAll m 0))))))"

definition requestFederationSave :: "federate_handle \<Rightarrow> string \<Rightarrow> ('r, responses) fed_action" where
  "requestFederationSave h l = begin_save h l id"

text \<open>
  The overload with a time inserts the responses of the broadcast twice: the second time their
  messages have been moved away.
\<close>

definition requestFederationSaveAt :: "federate_handle \<Rightarrow> string \<Rightarrow> fed_time \<Rightarrow> ('r, responses) fed_action" where
  "requestFederationSaveAt h l t = bind (begin_save h l (setDate t)) (\<lambda>resp. ret (resp @ moved_from resp))"

definition federateSaveBegun :: "federate_handle \<Rightarrow> ('r, unit) fed_action" where
  "federateSaveBegun h = check h"

text \<open>\<open>saveXml\<close> is the result of \<open>saveXmlData\<close>, which writes a file.\<close>

definition federateSaveStatus :: "bool \<Rightarrow> federate_handle \<Rightarrow> bool \<Rightarrow> ('r, responses) fed_action" where
  "federateSaveStatus saveXml h status =
     seq (on_federate h (setSaving False))
     (seq (modify (\<lambda>s. if \<not> status then s\<lparr>fd_save_status := False\<rparr> else s))
     (bind (gets fd_federates) (\<lambda>fs.
        if \<exists>e \<in> set fs. f_saving (snd e) then ret []
        else
          seq (modify (\<lambda>s. if fd_save_status s then s\<lparr>fd_save_status := saveXml\<rparr> else s))
          (bind (gets (\<lambda>s. fed_message s h (if fd_save_status s then FEDERATION_SAVED else FEDERATION_NOT_SAVED) NoBody)) (\<lambda>m.
           bind (respondToAll m 0) (\<lambda>rs.
           seq (modify (\<lambda>s. s\<lparr>fd_save_status := True, fd_saving := False\<rparr>)) (ret rs)))))))"

text \<open>
  \<open>restoreXmlData\<close> (\<open>RTIG/Federation_fom.cc\<close>) reads the file of a saved federation. The parameter
  is the list of the federate elements of the file, \<open>None\<close> when there is no such file or it has
  another structure.
\<close>

record saved_federate =
  sf_name :: string
  sf_constrained :: bool
  sf_regulator :: bool
  sf_handle :: federate_handle

definition ignore_internal :: "unit federate_action \<Rightarrow> unit federate_action" where
  "ignore_internal m = catch m (\<lambda>e. e = RTIinternalError) (\<lambda>_. ret ())"

definition restore_one :: "saved_federate \<Rightarrow> ('r, unit) fed_action" where
  "restore_one x = bind (gets fd_federates) (\<lambda>fs.
     case find (\<lambda>e. f_name (snd e) = sf_name x) fs of
       None \<Rightarrow> ret ()
     | Some e \<Rightarrow> on_federate (fst e)
         (seq (ignore_internal (setConstrained_f (sf_constrained x)))
         (seq (ignore_internal (setRegulator (sf_regulator x)))
              (ignore_internal (setHandle (sf_handle x))))))"

definition restoreXmlData :: "saved_federate list option \<Rightarrow> ('r, unit) fed_action" where
  "restoreXmlData doc = (case doc of None \<Rightarrow> ret () | Some xs \<Rightarrow> for_each restore_one xs)"

text \<open>The result of \<open>restoreXmlData\<close> is not used: the restore always goes on.\<close>

definition restore_event :: "string \<Rightarrow> federate_handle \<Rightarrow> ('r, message_event) fed_action" where
  "restore_event l k = bind (gets (\<lambda>s. map_of (fd_federates s) k)) (\<lambda>f.
     case f of None \<Rightarrow> throw FederateNotExecutionMember
     | Some f \<Rightarrow>
         bind (gets (\<lambda>s. setFederate (f_handle f) (setLabel l (setFederation (fd_handle s)
                 (new_message INITIATE_FEDERATE_RESTORE NoBody))))) (\<lambda>m. respondTo (f_handle f) m))"

definition requestFederationRestore ::
  "saved_federate list option \<Rightarrow> federate_handle \<Rightarrow> string \<Rightarrow> ('r, responses) fed_action" where
  "requestFederationRestore doc h l =
     seq (check h)
     (bind (gets fd_restoring) (\<lambda>b.
      seq (throw_if b RestoreInProgress)
      (seq (restoreXmlData doc)
      (bind (gets (\<lambda>s. setLabel l (fed_message s h REQUEST_FEDERATION_RESTORE_SUCCEEDED NoBody))) (\<lambda>m.
       bind (respondTo h m) (\<lambda>e1.
       seq (for_federates (setRestoring True))
       (seq (modify (\<lambda>s. s\<lparr>fd_restore_status := True, fd_restoring := True\<rparr>))
       (bind (gets (\<lambda>s. fed_message s h FEDERATION_RESTORE_BEGUN NoBody)) (\<lambda>m2.
        bind (respondToAll m2 0) (\<lambda>rs.
        bind (gets handles_of) (\<lambda>hs.
        bind (collect (restore_event l) hs) (\<lambda>es. ret ([e1] @ rs @ es)))))))))))))"

definition federateRestoreStatus :: "federate_handle \<Rightarrow> bool \<Rightarrow> ('r, responses) fed_action" where
  "federateRestoreStatus h status =
     seq (on_federate h (setRestoring False))
     (seq (modify (\<lambda>s. if \<not> status then s\<lparr>fd_restore_status := False\<rparr> else s))
     (bind (gets fd_federates) (\<lambda>fs.
        if \<exists>e \<in> set fs. f_restoring (snd e) then ret []
        else
          bind (gets (\<lambda>s. fed_message s h (if fd_restore_status s then FEDERATION_RESTORED else FEDERATION_NOT_RESTORED) NoBody)) (\<lambda>m.
          bind (respondToAll m 0) (\<lambda>rs.
          seq (modify (\<lambda>s. s\<lparr>fd_restore_status := True, fd_restoring := False\<rparr>)) (ret rs))))))"

section \<open>A federate that has crashed\<close>

text \<open>
  \<open>kill\<close> is \<open>noexcept\<close>: an exception that leaves it would terminate the RTIG. \<open>rootKill\<close> is
  \<open>RootObject::killFederate\<close>. The responses of \<open>removeRegulator\<close> are dropped.
\<close>

definition kill :: "(federate_handle \<Rightarrow> ('r, responses) action) \<Rightarrow> federate_handle \<Rightarrow> ('r, responses) fed_action" where
  "kill rootKill h = noexcept (catch
     (bind (gets (getFederate h)) (\<lambda>r. bind (lift_sum r) (\<lambda>_.
      seq (catch (seq (removeRegulator h) (ret ())) is_certi_exception (\<lambda>_. ret ()))
      (seq (catch (on_federate h (setConstrained_f False)) is_certi_exception (\<lambda>_. ret ()))
      (bind (with_root (rootKill h)) (\<lambda>rs.
       catch (bind (remove h) (\<lambda>rs'. ret (rs @ rs'))) is_certi_exception (\<lambda>_. ret rs)))))))
     (\<lambda>e. e = FederateNotExecutionMember) (\<lambda>_. ret []))"

end
