(* ===== verification/FederationObjects.thy ===== *)
theory FederationObjects
  imports RootObject Ownership Federation
begin

text \<open>
  \<open>RTIG/Federation.cc\<close>, the services on object classes, objects, interactions, ownership and regions:
  each checks the federate, calls the root object and answers. The root object asks the security
  server and the sockets of the federation, its environment.
\<close>

section \<open>Calls of the root object\<close>

definition fed_env :: "root federation \<Rightarrow> object_env" where
  "fed_env s = env_of (fd_server s) (fd_sockets s)"

definition on_root :: "(object_env \<Rightarrow> 'a root_action) \<Rightarrow> (root, 'a) fed_action" where
  "on_root m = bind (gets fed_env) (\<lambda>env. with_root (m env))"

definition from_root :: "(root \<Rightarrow> exn + 'a) \<Rightarrow> (root, 'a) fed_action" where
  "from_root f = bind (gets (\<lambda>s. f (fd_root s))) lift_sum"

definition with_objects :: "(handle_manager, 'a) action \<Rightarrow> ('r, 'a) fed_action" where
  "with_objects = on_field fd_objects (\<lambda>m s. s\<lparr>fd_objects := m\<rparr>)"

text \<open>An answer that is given no federation, to the federate it is for.\<close>

definition answer :: "federate_handle \<Rightarrow> service \<Rightarrow> msg_body \<Rightarrow> ('r, message_event) fed_action" where
  "answer h k b = respondTo h (setFederate h (new_message (Service k) b))"

section \<open>Publication and subscription\<close>

definition publishers_of :: "object_class \<Rightarrow> federate_handle list" where
  "publishers_of oc = fold (\<lambda>e acc. fold oset_insert (ca_publishers (snd e)) acc) (oc_attributes oc) []"

text \<open>The publishers that want to know when a registration is worthwhile; each has to be a member.\<close>

definition advised :: "federate_handle list \<Rightarrow> 'r federation \<Rightarrow> exn + federate_handle list" where
  "advised hs s = efold (\<lambda>h acc. ebind (getFederate h s) (\<lambda>f.
     Inr (if f_cras f then oset_insert h acc else acc))) hs []"

definition start_registration :: "federate_handle \<Rightarrow> object_class_handle \<Rightarrow> attribute_handle list \<Rightarrow> (root, responses) fed_action" where
  "start_registration fed c as =
     (if as = [] then ret []
      else
        bind (from_root (ocs_getObjectFromHandle c)) (\<lambda>oc.
        bind (gets (advised (publishers_of oc))) (\<lambda>x. bind (lift_sum x) (\<lambda>hs.
        bind (gets (\<lambda>s. fed_message s fed START_REGISTRATION_FOR_OBJECT_CLASS (ObjectClassOf c))) (\<lambda>m.
        respondToSome m hs)))))"

definition publishObject :: "federate_handle \<Rightarrow> object_class_handle \<Rightarrow> attribute_handle list \<Rightarrow> bool
    \<Rightarrow> (root, responses) fed_action" where
  "publishObject fed c as pub =
     seq (check fed)
     (seq (on_root (\<lambda>env. ocs_publish env fed c as pub))
     (bind (start_registration fed c as) (\<lambda>rs.
      bind (gets (\<lambda>s. fed_message s fed (Service (if pub then PUBLISH_OBJECT_CLASS else UNPUBLISH_OBJECT_CLASS)) (ObjectClassOf c))) (\<lambda>m.
      bind (respondTo fed m) (\<lambda>e. ret (rs @ [e]))))))"

definition subscribeObject :: "federate_handle \<Rightarrow> object_class_handle \<Rightarrow> attribute_handle list \<Rightarrow> bool
    \<Rightarrow> (root, responses) fed_action" where
  "subscribeObject fed c as sub =
     seq (check fed)
     (seq (on_root (\<lambda>env. ocs_subscribe env fed c as None))
     (bind (start_registration fed c as) (\<lambda>rs.
      bind (answer fed (if sub then SUBSCRIBE_OBJECT_CLASS else UNSUBSCRIBE_OBJECT_CLASS) (ObjectClassOf c)) (\<lambda>e.
      ret (rs @ [e])))))"

definition publishInteraction :: "federate_handle \<Rightarrow> interaction_class_handle \<Rightarrow> bool \<Rightarrow> (root, responses) fed_action" where
  "publishInteraction fed i pub =
     seq (check fed)
     (seq (on_root (\<lambda>env. ics_publish env fed i pub))
     (bind (answer fed (if pub then PUBLISH_INTERACTION_CLASS else UNPUBLISH_INTERACTION_CLASS) (InteractionOf i)) (\<lambda>e.
      ret [e])))"

definition subscribeInteraction :: "federate_handle \<Rightarrow> interaction_class_handle \<Rightarrow> bool \<Rightarrow> (root, responses) fed_action" where
  "subscribeInteraction fed i sub =
     seq (check fed)
     (seq (on_root (\<lambda>env. ics_subscribe env fed i None sub))
     (bind (answer fed (if sub then SUBSCRIBE_INTERACTION_CLASS else UNSUBSCRIBE_INTERACTION_CLASS) (InteractionOf i)) (\<lambda>e.
      ret [e])))"

section \<open>Objects\<close>

text \<open>The answer to a reservation is written to the socket at once.\<close>

definition fed_reserveObjectInstanceName :: "federate_handle \<Rightarrow> string \<Rightarrow> (root, unit) fed_action" where
  "fed_reserveObjectInstanceName fed n =
     bind (on_root (\<lambda>_. reserveObjectInstanceName fed n)) (\<lambda>ok.
     bind (gets (\<lambda>s. fed_message s fed
       (if ok then RESERVE_OBJECT_INSTANCE_NAME_SUCCEEDED else RESERVE_OBJECT_INSTANCE_NAME_FAILED) (ObjectNameOf n))) (\<lambda>m.
     bind (gets (\<lambda>s. link_of s fed)) (\<lambda>r. bind (lift_sum r) (\<lambda>l.
     with_root (modify (\<lambda>ro. ro\<lparr>ro_sent := ro_sent ro @ transmit [l] m\<rparr>))))))"

definition default_name :: "object_handle \<Rightarrow> string \<Rightarrow> string" where
  "default_name h n = (if n \<noteq> [] then n else ''HLAObject_'' @ show_nat (unat h))"

definition registerObject :: "federate_handle \<Rightarrow> object_class_handle \<Rightarrow> string
    \<Rightarrow> (root, object_handle \<times> responses) fed_action" where
  "registerObject fed c n =
     bind (with_objects provide) (\<lambda>h.
     bind (catch (on_root (\<lambda>env. ro_registerObjectInstance env fed c h (default_name h n))) is_exception
            (\<lambda>e. seq (with_objects (free h)) (throw e))) (\<lambda>rs.
     bind (gets (\<lambda>s. setLabel (default_name h n) (fed_message s fed (Service REGISTER_OBJECT)
            (RegistrationOf c h (default_name h n))))) (\<lambda>m.
     bind (respondTo fed m) (\<lambda>e. ret (h, rs @ [e])))))"

definition delete_and_answer :: "(object_env \<Rightarrow> responses root_action) \<Rightarrow> federate_handle \<Rightarrow> object_handle
    \<Rightarrow> (root, responses) fed_action" where
  "delete_and_answer deletion fed h =
     seq (check fed)
     (bind (on_root deletion) (\<lambda>rs.
      seq (with_objects (free h))
      (bind (answer fed DELETE_OBJECT (ObjectOf h)) (\<lambda>e. ret (rs @ [e])))))"

definition deleteObjectAt :: "federate_handle \<Rightarrow> object_handle \<Rightarrow> fed_time \<Rightarrow> string \<Rightarrow> (root, responses) fed_action" where
  "deleteObjectAt fed h t tag = delete_and_answer (\<lambda>env. ro_deleteObjectInstanceAt env fed h t tag) fed h"

definition deleteObject :: "federate_handle \<Rightarrow> object_handle \<Rightarrow> string \<Rightarrow> (root, responses) fed_action" where
  "deleteObject fed h tag = delete_and_answer (\<lambda>env. ro_deleteObjectInstance env fed h tag) fed h"

text \<open>
  The attributes of a request by owner, and the loop \<open>message->setAttributes(attribute, ++i)\<close>, which starts
  at index 1 of a vector that has just enough room.
\<close>

definition attributes_by_owner :: "object \<Rightarrow> attribute_handle list \<Rightarrow> exn + (federate_handle \<times> attribute_handle list) list" where
  "attributes_by_owner ob as = efold (\<lambda>a m. ebind (ob_getAttribute a ob) (\<lambda>oa.
     Inr (if oa_owner oa \<noteq> 0
          then om_put (oa_owner oa) ((case map_of m (oa_owner oa) of None \<Rightarrow> [] | Some xs \<Rightarrow> xs) @ [a]) m else m))) as []"

fun store_attributes :: "nat \<Rightarrow> attribute_handle list \<Rightarrow> attribute_handle list \<Rightarrow> exn + attribute_handle list" where
  "store_attributes i [] v = Inr v"
| "store_attributes i (a # as) v =
     (if Suc i \<ge> length v then Inl UndefinedBehaviour else store_attributes (Suc i) as (v[Suc i := a]))"

definition ask_owner :: "federate_handle \<Rightarrow> object_handle \<Rightarrow> federate_handle \<times> attribute_handle list
    \<Rightarrow> (root, message_event) fed_action" where
  "ask_owner fed h x =
     bind (lift_sum (store_attributes 0 (snd x) (replicate (length (snd x)) 0))) (\<lambda>v.
     respondTo (fst x) (setFederate fed (new_message PROVIDE_ATTRIBUTE_VALUE_UPDATE (AttributesOf h v))))"

definition requestObjectOwner :: "federate_handle \<Rightarrow> object_handle \<Rightarrow> attribute_handle list
    \<Rightarrow> (root, federate_handle \<times> responses) fed_action" where
  "requestObjectOwner fed h as =
     bind (from_root (os_getObject h)) (\<lambda>ob.
     bind (lift_sum (attributes_by_owner ob as)) (\<lambda>m.
     bind (collect (ask_owner fed h) m) (\<lambda>rs.
     bind (from_root (ro_requestObjectOwner h)) (\<lambda>owner. ret (owner, rs)))))"

definition requestClassAttributeValueUpdate :: "federate_handle \<Rightarrow> object_class_handle \<Rightarrow> attribute_handle list
    \<Rightarrow> (root, responses) fed_action" where
  "requestClassAttributeValueUpdate fed c as =
     bind (from_root (ocs_getObjectFromHandle c)) (\<lambda>oc.
     bind (collect (\<lambda>h. requestObjectOwner fed h as) (oc_instances oc)) (\<lambda>xs. ret (concat (map snd xs))))"

definition on_known_object :: "federate_handle \<Rightarrow> object_handle \<Rightarrow> (object_env \<Rightarrow> 'a root_action) \<Rightarrow> (root, 'a) fed_action" where
  "on_known_object fed h m = seq (check fed) (bind (from_root (os_getObject h)) (\<lambda>_. on_root m))"

definition updateAttributeValuesAt :: "federate_handle \<Rightarrow> object_handle \<Rightarrow> attribute_handle list \<Rightarrow> attribute_value list
    \<Rightarrow> fed_time \<Rightarrow> string \<Rightarrow> (root, responses) fed_action" where
  "updateAttributeValuesAt fed h as vs t tag =
     on_known_object fed h (\<lambda>env. ocs_updateAttributeValuesAt env fed h as vs t tag)"

definition updateAttributeValues :: "federate_handle \<Rightarrow> object_handle \<Rightarrow> attribute_handle list \<Rightarrow> attribute_value list
    \<Rightarrow> string \<Rightarrow> (root, responses) fed_action" where
  "updateAttributeValues fed h as vs tag = on_known_object fed h (\<lambda>env. ocs_updateAttributeValues env fed h as vs tag)"

section \<open>Interactions\<close>

text \<open>The number of parameters is passed on as a \<open>uint16_t\<close>.\<close>

definition send_in_region :: "federate_handle \<Rightarrow> region_handle
    \<Rightarrow> (object_env \<Rightarrow> region_handle option \<Rightarrow> root \<Rightarrow> exn + responses) \<Rightarrow> (root, responses) fed_action" where
  "send_in_region fed rh send =
     seq (check fed)
     (bind (if rh \<noteq> 0 then bind (from_root (getRegion rh)) (\<lambda>r. ret (Some (rg_handle r))) else ret None) (\<lambda>r.
      on_root (\<lambda>env. bind (gets (send env r)) lift_sum)))"

definition broadcastInteractionAt :: "federate_handle \<Rightarrow> interaction_class_handle \<Rightarrow> parameter_handle list
    \<Rightarrow> attribute_value list \<Rightarrow> fed_time \<Rightarrow> region_handle \<Rightarrow> string \<Rightarrow> (root, responses) fed_action" where
  "broadcastInteractionAt fed i ps vs t rh tag =
     send_in_region fed rh (\<lambda>env r. ics_broadcastInteractionAt env fed i ps vs (length ps mod 2 ^ 16) t r tag)"

definition broadcastInteraction :: "federate_handle \<Rightarrow> interaction_class_handle \<Rightarrow> parameter_handle list
    \<Rightarrow> attribute_value list \<Rightarrow> region_handle \<Rightarrow> string \<Rightarrow> (root, responses) fed_action" where
  "broadcastInteraction fed i ps vs rh tag =
     send_in_region fed rh (\<lambda>env r. ics_broadcastInteraction env fed i ps vs (length ps mod 2 ^ 16) r tag)"

section \<open>Ownership\<close>

definition isOwner :: "federate_handle \<Rightarrow> object_handle \<Rightarrow> attribute_handle \<Rightarrow> (root, bool) fed_action" where
  "isOwner fed h a = seq (check fed) (from_root (os_isAttributeOwnedByFederate fed h a))"

definition queryAttributeOwnership :: "federate_handle \<Rightarrow> object_handle \<Rightarrow> attribute_handle \<Rightarrow> (root, unit) fed_action" where
  "queryAttributeOwnership fed h a = seq (check fed) (on_root (\<lambda>env. os_queryAttributeOwnership env fed h a))"

definition negotiateDivestiture :: "federate_handle \<Rightarrow> object_handle \<Rightarrow> attribute_handle list \<Rightarrow> string
    \<Rightarrow> (root, responses) fed_action" where
  "negotiateDivestiture fed h as tag =
     on_known_object fed h (\<lambda>env. ocs_negotiatedAttributeOwnershipDivestiture env fed h as tag)"

definition acquireIfAvailable :: "federate_handle \<Rightarrow> object_handle \<Rightarrow> attribute_handle list \<Rightarrow> (root, unit) fed_action" where
  "acquireIfAvailable fed h as =
     on_known_object fed h (\<lambda>env. ocs_attributeOwnershipAcquisitionIfAvailable env fed h as)"

definition divest :: "federate_handle \<Rightarrow> object_handle \<Rightarrow> attribute_handle list \<Rightarrow> (root, responses) fed_action" where
  "divest fed h as =
     bind (on_known_object fed h (\<lambda>env. ocs_unconditionalAttributeOwnershipDivestiture env fed h as)) (\<lambda>rs.
     bind (respondTo fed (setFederate fed (new_message UNCONDITIONAL_ATTRIBUTE_OWNERSHIP_DIVESTITURE (ObjectOf h)))) (\<lambda>e.
     ret (rs @ [e])))"

definition acquire :: "federate_handle \<Rightarrow> object_handle \<Rightarrow> attribute_handle list \<Rightarrow> string \<Rightarrow> (root, unit) fed_action" where
  "acquire fed h as tag = on_known_object fed h (\<lambda>env. ocs_attributeOwnershipAcquisition env fed h as tag)"

definition cancelDivestiture :: "federate_handle \<Rightarrow> object_handle \<Rightarrow> attribute_handle list \<Rightarrow> (root, unit) fed_action" where
  "cancelDivestiture fed h as =
     seq (check fed) (on_root (\<lambda>_. os_cancelNegotiatedAttributeOwnershipDivestiture fed h as))"

definition respondRelease :: "federate_handle \<Rightarrow> object_handle \<Rightarrow> attribute_handle list
    \<Rightarrow> (root, attribute_handle list) fed_action" where
  "respondRelease fed h as = on_known_object fed h (\<lambda>env. ocs_attributeOwnershipReleaseResponse env fed h as)"

definition cancelAcquisition :: "federate_handle \<Rightarrow> object_handle \<Rightarrow> attribute_handle list \<Rightarrow> (root, unit) fed_action" where
  "cancelAcquisition fed h as = on_known_object fed h (\<lambda>env. ocs_cancelAttributeOwnershipAcquisition env fed h as)"

section \<open>Regions\<close>

definition fed_createRegion :: "axis \<Rightarrow> federate_handle \<Rightarrow> space_handle \<Rightarrow> nat \<Rightarrow> (root, region_handle) fed_action" where
  "fed_createRegion ax fed sp n = seq (check fed) (with_root (createRegion ax sp n))"

definition fed_modifyRegion :: "federate_handle \<Rightarrow> region_handle \<Rightarrow> extent list \<Rightarrow> (root, unit) fed_action" where
  "fed_modifyRegion fed rh es = seq (check fed) (with_root (modifyRegion rh es))"

definition fed_deleteRegion :: "federate_handle \<Rightarrow> region_handle \<Rightarrow> (root, unit) fed_action" where
  "fed_deleteRegion fed rh =
     seq (check fed)
     (seq (bind (gets fd_saving) (\<lambda>b. throw_if b SaveInProgress))
     (seq (bind (gets fd_restoring) (\<lambda>b. throw_if b RestoreInProgress))
      (with_root (deleteRegion rh))))"

text \<open>A call of \<open>unassociate\<close> on the object, of \<open>associate\<close> on its attributes one by one.\<close>

definition unassociate_object :: "object_handle \<Rightarrow> region_handle \<Rightarrow> (root, unit) fed_action" where
  "unassociate_object h rh =
     bind (from_root (os_getObject h)) (\<lambda>_. with_root (on_object h (modify (ob_unassociate rh))))"

definition associate_attributes :: "object_handle \<Rightarrow> region_handle \<Rightarrow> attribute_handle list \<Rightarrow> (root, unit) fed_action" where
  "associate_attributes h rh as = for_each (\<lambda>a.
     bind (from_root (getObjectAttribute h a)) (\<lambda>_.
     with_root (on_object h (modify (ob_update a (oa_associate (Some rh))))))) as"

definition associateRegion :: "federate_handle \<Rightarrow> object_handle \<Rightarrow> region_handle \<Rightarrow> attribute_handle list
    \<Rightarrow> (root, unit) fed_action" where
  "associateRegion fed h rh as =
     seq (check fed)
     (bind (from_root (getRegion rh)) (\<lambda>r.
      seq (unassociate_object h (rg_handle r)) (associate_attributes h (rg_handle r) as)))"

definition unassociateRegion :: "federate_handle \<Rightarrow> object_handle \<Rightarrow> region_handle \<Rightarrow> (root, unit) fed_action" where
  "unassociateRegion fed h rh =
     seq (check fed) (bind (from_root (getRegion rh)) (\<lambda>r. unassociate_object h (rg_handle r)))"

definition subscribeAttributesWR :: "federate_handle \<Rightarrow> object_class_handle \<Rightarrow> region_handle \<Rightarrow> attribute_handle list
    \<Rightarrow> (root, unit) fed_action" where
  "subscribeAttributesWR fed c rh as =
     seq (check fed)
     (bind (from_root (getRegion rh)) (\<lambda>r. on_root (\<lambda>env. ocs_subscribe env fed c as (Some (rg_handle r)))))"

definition unsubscribeAttributesWR :: "federate_handle \<Rightarrow> object_class_handle \<Rightarrow> region_handle \<Rightarrow> (root, unit) fed_action" where
  "unsubscribeAttributesWR fed c rh =
     seq (check fed)
     (bind (from_root (getRegion rh)) (\<lambda>r.
      bind (from_root (ocs_getObjectFromHandle c)) (\<lambda>_.
      with_root (on_class c (modify (oc_unsubscribe fed (Some (rg_handle r))))))))"

definition subscribeInteractionWR :: "federate_handle \<Rightarrow> interaction_class_handle \<Rightarrow> region_handle \<Rightarrow> (root, unit) fed_action" where
  "subscribeInteractionWR fed i rh =
     seq (check fed)
     (bind (from_root (getRegion rh)) (\<lambda>r.
      bind (from_root (ics_getObjectFromHandle i)) (\<lambda>_.
      on_root (\<lambda>env. on_interaction i (ic_subscribe env fed (Some (rg_handle r)))))))"

definition unsubscribeInteractionWR :: "federate_handle \<Rightarrow> interaction_class_handle \<Rightarrow> region_handle \<Rightarrow> (root, unit) fed_action" where
  "unsubscribeInteractionWR fed i rh =
     seq (check fed)
     (bind (from_root (getRegion rh)) (\<lambda>r.
      bind (from_root (ics_getObjectFromHandle i)) (\<lambda>_.
      with_root (on_interaction i (modify (ic_unsubscribe fed (Some (rg_handle r))))))))"

text \<open>Unlike \<open>registerObject\<close>, it keeps the handle and the object when something fails, and builds no answer.\<close>

definition registerObjectWithRegion :: "federate_handle \<Rightarrow> object_class_handle \<Rightarrow> string \<Rightarrow> region_handle
    \<Rightarrow> attribute_handle list \<Rightarrow> (root, object_handle \<times> responses) fed_action" where
  "registerObjectWithRegion fed c n rh as =
     seq (check fed)
     (bind (with_objects provide) (\<lambda>h.
      bind (on_root (\<lambda>env. ro_registerObjectInstance env fed c h (default_name h n))) (\<lambda>rs.
      bind (from_root (getRegion rh)) (\<lambda>r.
      seq (unassociate_object h (rg_handle r))
      (seq (associate_attributes h (rg_handle r) as) (ret (h, rs)))))))"

text \<open>Only the management object model uses it.\<close>

definition updateAsynchronousDelivery :: "federate_handle \<Rightarrow> bool \<Rightarrow> ('r, responses) fed_action" where
  "updateAsynchronousDelivery fed b = ret []"

section \<open>Crash\<close>

definition fed_kill :: "federate_handle \<Rightarrow> (root, responses) fed_action" where
  "fed_kill h = bind (gets fed_env) (\<lambda>env. kill (ro_killFederate env) h)"

end
