(* ===== verification/Fom.thy ===== *)
theory Fom
  imports RootObject
begin

text \<open>
  \<open>libCERTI/RootObject.cc\<close>, the object model on the wire: \<open>convertToSerializedFOM\<close>, which fills the message
  that the RTIG sends to an RTIA, and \<open>rebuildFromSerializedFOM\<close>, which rebuilds the root object of the RTIA
  from it. The two overloads of \<open>convertToSerializedFOM\<close> are the same code for two types of messages.
\<close>

section \<open>From the root object to the message\<close>

definition fom_of_space :: "routing_space \<Rightarrow> fom_space" where
  "fom_of_space r = \<lparr>fs_handle = rs_handle r, fs_name = rs_name r,
     fs_dimensions = map (\<lambda>d. (dim_handle d, dim_name d)) (rs_dimensions r)\<rparr>"

text \<open>The name without the name of the parent: \<open>find\<close> and \<open>substr\<close>.\<close>

definition short_name :: "string \<Rightarrow> string \<Rightarrow> string" where
  "short_name parent n = (let p = parent @ ''.'' in if take (length p) n = p then drop (length p) n else n)"

definition fom_of_attribute :: "class_attribute \<Rightarrow> fom_attribute" where
  "fom_of_attribute a = \<lparr>fa_handle = ca_handle a, fa_name = ca_name a, fa_space = ca_space a,
     fa_order = ca_order a, fa_transport = ca_transport a\<rparr>"

text \<open>The attributes that the parent does not have.\<close>

definition own_attributes :: "object_class option \<Rightarrow> object_class \<Rightarrow> class_attribute list" where
  "own_attributes parent oc = filter (\<lambda>a. case parent of None \<Rightarrow> True | Some p \<Rightarrow> \<not> oc_hasAttribute (ca_handle a) p)
     (map snd (oc_attributes oc))"

definition fom_of_class :: "root \<Rightarrow> object_class \<Rightarrow> exn + fom_class" where
  "fom_of_class s oc =
     ebind (if 0 < oc_super oc then ebind (ocs_getObjectFromHandle (oc_super oc) s) (\<lambda>p. Inr (Some p)) else Inr None) (\<lambda>parent.
     Inr \<lparr>fc_handle = oc_handle oc, fc_super = oc_super oc,
          fc_name = (case parent of None \<Rightarrow> oc_name oc | Some p \<Rightarrow> short_name (oc_name p) (oc_name oc)),
          fc_attributes = map fom_of_attribute (own_attributes parent oc)\<rparr>)"

definition own_parameters :: "interaction option \<Rightarrow> interaction \<Rightarrow> parameter list" where
  "own_parameters parent ic = filter (\<lambda>a. case parent of None \<Rightarrow> True | Some p \<Rightarrow> map_of (ic_parameters p) (pa_handle a) = None)
     (map snd (ic_parameters ic))"

definition fom_of_interaction :: "root \<Rightarrow> interaction \<Rightarrow> exn + fom_interaction" where
  "fom_of_interaction s ic =
     ebind (if 0 < ic_super ic then ebind (ics_getObjectFromHandle (ic_super ic) s) (\<lambda>p. Inr (Some p)) else Inr None) (\<lambda>parent.
     Inr \<lparr>fi_handle = ic_handle ic, fi_super = ic_super ic,
          fi_name = (case parent of None \<Rightarrow> ic_name ic | Some p \<Rightarrow> short_name (ic_name p) (ic_name ic)),
          fi_space = ic_space ic, fi_order = ic_order ic, fi_transport = ic_transport ic,
          fi_parameters = map (\<lambda>p. (pa_handle p, pa_name p)) (own_parameters parent ic)\<rparr>)"

fun each :: "('x \<Rightarrow> exn + 'a) \<Rightarrow> 'x list \<Rightarrow> exn + 'a list" where
  "each f [] = Inr []"
| "each f (x # xs) = ebind (f x) (\<lambda>a. ebind (each f xs) (\<lambda>as. Inr (a # as)))"

definition convertToSerializedFOM :: "root \<Rightarrow> exn + fom" where
  "convertToSerializedFOM s =
     ebind (each (fom_of_class s) (map snd (ro_classes s))) (\<lambda>cs.
     ebind (each (fom_of_interaction s) (map snd (ro_interactions s))) (\<lambda>is.
     Inr \<lparr>fom_spaces = map fom_of_space (ro_spaces s), fom_classes = cs, fom_interactions = is\<rparr>))"

section \<open>From the message to the root object\<close>

definition rebuild_space :: "fom_space \<Rightarrow> unit root_action" where
  "rebuild_space m =
     bind (lift_sum (efold (\<lambda>(h, n). addDimension \<lparr>dim_handle = h, dim_name = n\<rparr>) (fs_dimensions m)
       \<lparr>rs_handle = fs_handle m, rs_name = fs_name m, rs_dimensions = []\<rparr>)) addRoutingSpace"

definition attribute_of_fom :: "fom_attribute \<Rightarrow> class_attribute" where
  "attribute_of_fom m = (class_attribute_new (fa_name m) (fa_handle m))
     \<lparr>ca_transport := fa_transport m, ca_order := fa_order m, ca_space := fa_space m\<rparr>"

text \<open>\<open>current\<close> is a pointer to the class in the set, which is found under its handle.\<close>

definition rebuild_class :: "fom_class \<Rightarrow> unit root_action" where
  "rebuild_class m =
     bind (gets (\<lambda>s. if 0 < fc_super m then ebind (ocs_getObjectFromHandle (fc_super m) s) (\<lambda>_. Inr (Some (fc_super m)))
                     else Inr None)) (\<lambda>x. bind (lift_sum x) (\<lambda>parent.
     seq (addObjectClass (object_class_new (fc_name m) (fc_handle m)) parent)
         (for_each (\<lambda>a. on_class (fc_handle m) (seq (oc_addAttribute (attribute_of_fom a) False) (ret ()))) (fc_attributes m))))"

definition parameter_new :: "string \<Rightarrow> parameter_handle \<Rightarrow> parameter" where
  "parameter_new n h = \<lparr>pa_handle = h, pa_name = n, pa_level = PublicLevelID\<rparr>"

definition rebuild_interaction :: "fom_interaction \<Rightarrow> unit root_action" where
  "rebuild_interaction m =
     bind (gets (\<lambda>s. if 0 < fi_super m then ebind (ics_getObjectFromHandle (fi_super m) s) (\<lambda>_. Inr (Some (fi_super m)))
                     else Inr None)) (\<lambda>x. bind (lift_sum x) (\<lambda>parent.
     seq (addInteractionClass ((interaction_new (fi_name m) (fi_handle m) (fi_transport m) (fi_order m))
            \<lparr>ic_space := fi_space m\<rparr>) parent)
         (for_each (\<lambda>(h, n). on_interaction (fi_handle m) (seq (addParameter (parameter_new n h) False) (ret ())))
            (fi_parameters m))))"

definition rebuildFromSerializedFOM :: "fom \<Rightarrow> unit root_action" where
  "rebuildFromSerializedFOM m =
     seq (for_each rebuild_space (fom_spaces m))
     (seq (for_each rebuild_class (fom_classes m))
          (for_each rebuild_interaction (fom_interactions m)))"

text \<open>The overload for additional modules passes over the spaces and the classes that exist already.\<close>

definition rebuild_additional :: "fom \<Rightarrow> unit root_action" where
  "rebuild_additional m =
     seq (for_each (\<lambda>r. bind (gets (getRoutingSpaceHandle (fs_name r))) (\<lambda>x.
            case x of Inr _ \<Rightarrow> ret () | Inl _ \<Rightarrow> rebuild_space r)) (fom_spaces m))
     (seq (for_each (\<lambda>c. bind (gets (ocs_getObjectFromHandle (fc_handle c))) (\<lambda>x.
            case x of Inr _ \<Rightarrow> ret () | Inl _ \<Rightarrow> rebuild_class c)) (fom_classes m))
          (for_each (\<lambda>i. bind (gets (ics_getObjectFromHandle (fi_handle i))) (\<lambda>x.
            case x of Inr _ \<Rightarrow> ret () | Inl _ \<Rightarrow> rebuild_interaction i)) (fom_interactions m)))"

end
