(* ===== verification/MessageFields.thy ===== *)
theory MessageFields
  imports Objects
begin

text \<open>
  The accessors of the classes of network messages (\<open>libCERTI/NM_Classes.hh\<close>), by which the RTIG reads the requests of
  the RTIAs, and the RTIAs the messages of the RTIG.
\<close>

text \<open>A message of another class does not have the field.\<close>

fun nm_getObject :: "msg_body \<Rightarrow> object_handle" where
  "nm_getObject (ObjectOf h) = h"
| "nm_getObject (ObjectAndClass h _) = h"
| "nm_getObject (AttributeOf h _) = h"
| "nm_getObject (AttributesOf h _) = h"
| "nm_getObject (ValuesOf h _ _) = h"
| "nm_getObject (ObjectRegionOf h _ _) = h"
| "nm_getObject (RegistrationOf _ h _) = h"
| "nm_getObject _ = 0"

fun nm_getObjectClass :: "msg_body \<Rightarrow> object_class_handle" where
  "nm_getObjectClass (ObjectClassOf c) = c"
| "nm_getObjectClass (ObjectAndClass _ c) = c"
| "nm_getObjectClass (ClassAttributesOf c _ _) = c"
| "nm_getObjectClass (RegistrationOf c _ _) = c"
| "nm_getObjectClass (RegionRegistrationOf c _ _ _) = c"
| "nm_getObjectClass _ = 0"

fun nm_getAttribute :: "msg_body \<Rightarrow> attribute_handle" where
  "nm_getAttribute (AttributeOf _ a) = a"
| "nm_getAttribute _ = 0"

fun nm_getAttributes :: "msg_body \<Rightarrow> attribute_handle list" where
  "nm_getAttributes (AttributesOf _ as) = as"
| "nm_getAttributes (ValuesOf _ as _) = as"
| "nm_getAttributes (ClassAttributesOf _ as _) = as"
| "nm_getAttributes (ObjectRegionOf _ as _) = as"
| "nm_getAttributes (RegionRegistrationOf _ as _ _) = as"
| "nm_getAttributes _ = []"

fun nm_getValues :: "msg_body \<Rightarrow> attribute_value list" where
  "nm_getValues (ValuesOf _ _ vs) = vs"
| "nm_getValues (ParametersOf _ _ vs _) = vs"
| "nm_getValues _ = []"

fun nm_getInteractionClass :: "msg_body \<Rightarrow> interaction_class_handle" where
  "nm_getInteractionClass (InteractionOf i) = i"
| "nm_getInteractionClass (InteractionRegionOf i _) = i"
| "nm_getInteractionClass (ParametersOf i _ _ _) = i"
| "nm_getInteractionClass _ = 0"

fun nm_getParameters :: "msg_body \<Rightarrow> parameter_handle list" where
  "nm_getParameters (ParametersOf _ ps _ _) = ps"
| "nm_getParameters _ = []"

fun nm_getRegion :: "msg_body \<Rightarrow> region_handle" where
  "nm_getRegion (RegionOf r) = r"
| "nm_getRegion (InteractionRegionOf _ r) = r"
| "nm_getRegion (ParametersOf _ _ _ r) = r"
| "nm_getRegion (ClassAttributesOf _ _ r) = r"
| "nm_getRegion (ObjectRegionOf _ _ r) = r"
| "nm_getRegion (ExtentsOf r _) = r"
| "nm_getRegion (RegionRegistrationOf _ _ r _) = r"
| "nm_getRegion _ = 0"

fun nm_getExtents :: "msg_body \<Rightarrow> extent list" where
  "nm_getExtents (ExtentsOf _ es) = es"
| "nm_getExtents _ = []"

fun nm_getSpace :: "msg_body \<Rightarrow> space_handle" where
  "nm_getSpace (SpaceOf sp _) = sp"
| "nm_getSpace _ = 0"

fun nm_getNbExtents :: "msg_body \<Rightarrow> nat" where
  "nm_getNbExtents (SpaceOf _ n) = n"
| "nm_getNbExtents _ = 0"

fun nm_isSwitchOn :: "msg_body \<Rightarrow> bool" where
  "nm_isSwitchOn (Switch b) = b"
| "nm_isSwitchOn (Regulator b) = b"
| "nm_isSwitchOn (Constrained b) = b"
| "nm_isSwitchOn _ = False"

fun nm_getExists :: "msg_body \<Rightarrow> bool" where
  "nm_getExists (FederatesOf b _) = b"
| "nm_getExists _ = False"

fun nm_getFederates :: "msg_body \<Rightarrow> federate_handle list" where
  "nm_getFederates (FederatesOf _ hs) = hs"
| "nm_getFederates _ = []"

fun nm_getName :: "msg_body \<Rightarrow> string" where
  "nm_getName (FederationNameOf n) = n"
| "nm_getName (ObjectNameOf n) = n"
| "nm_getName (CreationOf n _ _ _) = n"
| "nm_getName _ = []"

end
