(* ===== verification/Rtig.thy ===== *)
theory Rtig
  imports FederationObjects Fom MessageFields
begin

text \<open>
  \<open>RTIG/FederationsList.cc\<close>, \<open>RTIG/MessageProcessor.cc\<close> and \<open>RTIG/RTIG.cc\<close>: the process that serves the
  federates. It keeps the connections and the federations, and handles one incoming message after the
  other. What it writes to the sockets is the log \<open>rt_sent\<close>.
\<close>

record rtig =
  rt_sockets :: socket_server
  rt_handles :: handle_manager
  rt_federations :: "(federation_handle \<times> root federation) list"
  rt_sent :: "(socket \<times> network_message) list"

type_synonym 'a rtig_action = "(rtig, 'a) action"

definition rtig_new :: "socket \<Rightarrow> rtig" where
  "rtig_new udp = \<lparr>rt_sockets = socket_server_new udp, rt_handles = handle_manager_new 1, rt_federations = [], rt_sent = []\<rparr>"

text \<open>
  What the RTIG relies on outside the model: the reading of FOM modules into a root object, the file
  that a save writes and a restore reads, the bounds of the axes, the values that the constructor of the
  security server leaves, and the sockets on which a write fails.
\<close>

record surroundings =
  w_openFomModules :: "string list \<Rightarrow> bool \<Rightarrow> unit root_action"
  w_saveXmlData :: bool
  w_saved :: "string \<Rightarrow> saved_federate list option"
  w_axis :: axis
  w_last_level :: level_id
  w_mom :: federate_handle
  w_broken :: "socket \<Rightarrow> bool"

section \<open>The list of federations\<close>

definition searchFederation :: "federation_handle \<Rightarrow> rtig \<Rightarrow> exn + root federation" where
  "searchFederation fn s = some_or FederationExecutionDoesNotExist (map_of (rt_federations s) fn)"

text \<open>
  A call of a member function of the federation that \<open>searchFederation\<close> finds. The federations share the
  connections of the RTIG; what the objects of the federation write at once goes to the log.
\<close>

definition on_federation :: "federation_handle \<Rightarrow> (root, 'a) fed_action \<Rightarrow> 'a rtig_action" where
  "on_federation fn m = (\<lambda>s. case map_of (rt_federations s) fn of
       None \<Rightarrow> (Inl FederationExecutionDoesNotExist, s)
     | Some f \<Rightarrow> (case m (f\<lparr>fd_sockets := rt_sockets s\<rparr>) of (r, g) \<Rightarrow>
         (r, s\<lparr>rt_sockets := fd_sockets g,
               rt_sent := rt_sent s @ ro_sent (fd_root g),
               rt_federations := om_put fn (g\<lparr>fd_root := (fd_root g)\<lparr>ro_sent := []\<rparr>\<rparr>) (rt_federations s)\<rparr>)))"

definition getFederationHandle :: "string \<Rightarrow> rtig \<Rightarrow> exn + federation_handle" where
  "getFederationHandle n s = (case find (\<lambda>e. fd_name (snd e) = n) (rt_federations s) of
       None \<Rightarrow> Inl FederationExecutionDoesNotExist | Some e \<Rightarrow> Inr (fst e))"

text \<open>\<open>openFomModules\<close> as the constructor calls it; \<open>front\<close> of an empty vector is undefined.\<close>

definition read_fom :: "surroundings \<Rightarrow> rti_version \<Rightarrow> string list \<Rightarrow> string \<Rightarrow> unit root_action" where
  "read_fom w v modules mim =
     (if v = IEEE_1516_2010 then
        seq (w_openFomModules w [if mim = [] then ''HLAstandardMIM.xml'' else mim] True)
            (w_openFomModules w modules False)
      else case modules of [] \<Rightarrow> throw UndefinedBehaviour | m # _ \<Rightarrow> w_openFomModules w [m] False)"

definition constructed :: "surroundings \<Rightarrow> string \<Rightarrow> federation_handle \<Rightarrow> socket_server \<Rightarrow> string list \<Rightarrow> string \<Rightarrow> rti_version
    \<Rightarrow> exn + root federation" where
  "constructed w n h ss modules mim v =
     ebind (federation_new n h ss (root_new True) (w_last_level w) (w_mom w)) (\<lambda>f.
     case with_root (read_fom w v modules mim) f of (Inl e, _) \<Rightarrow> Inl e | (Inr _, g) \<Rightarrow> Inr g)"

definition creation_answer :: "string \<Rightarrow> federation_handle \<Rightarrow> string list \<Rightarrow> string \<Rightarrow> rti_version \<Rightarrow> network_message" where
  "creation_answer n h modules mim v = setFederation h (new_message CREATE_FEDERATION_EXECUTION (CreationOf n modules mim v))"

definition createFederation :: "surroundings \<Rightarrow> string \<Rightarrow> federation_handle \<Rightarrow> string list \<Rightarrow> string \<Rightarrow> rti_version
    \<Rightarrow> network_message rtig_action" where
  "createFederation w n h modules mim v =
     seq (throw_if (n = []) RTIinternalError)
     (seq (bind (gets (getFederationHandle n)) (\<lambda>r. throw_if (\<not> isl r) FederationExecutionAlreadyExists))
     (bind (gets (\<lambda>s. constructed w n h (rt_sockets s) modules mim v)) (\<lambda>x. bind (lift_sum x) (\<lambda>f.
      seq (modify (\<lambda>s. s\<lparr>rt_federations := (case map_of (rt_federations s) h of
                    None \<Rightarrow> om_put h f (rt_federations s) | Some _ \<Rightarrow> rt_federations s)\<rparr>))
          (ret (creation_answer n h modules mim v))))))"

definition destroyFederation :: "federation_handle \<Rightarrow> unit rtig_action" where
  "destroyFederation fn =
     seq (on_federation fn (bind (gets fed_empty) lift_sum))
         (modify (\<lambda>s. s\<lparr>rt_federations := om_erase fn (rt_federations s)\<rparr>))"

definition rt_killFederate :: "federation_handle \<Rightarrow> federate_handle \<Rightarrow> responses rtig_action" where
  "rt_killFederate fn fed = noexcept (catch (on_federation fn (fed_kill fed)) is_certi_exception (\<lambda>_. ret []))"

definition with_federation_handles :: "(handle_manager, 'a) action \<Rightarrow> 'a rtig_action" where
  "with_federation_handles = on_field rt_handles (\<lambda>m s. s\<lparr>rt_handles := m\<rparr>)"

definition with_connections :: "(socket_server, 'a) action \<Rightarrow> 'a rtig_action" where
  "with_connections = on_field rt_sockets (\<lambda>m s. s\<lparr>rt_sockets := m\<rparr>)"

section \<open>The handlers of the message processor\<close>

text \<open>The call of a member function of the federation that the message names.\<close>

definition in_federation :: "network_message \<Rightarrow> (federate_handle \<Rightarrow> msg_body \<Rightarrow> (root, 'a) fed_action) \<Rightarrow> 'a rtig_action" where
  "in_federation m f = on_federation (nm_federation m) (f (nm_federate m) (nm_body m))"

text \<open>The answer to the connection of the request, most often about the federate that asks.\<close>

definition reply :: "socket \<Rightarrow> service \<Rightarrow> network_message \<Rightarrow> msg_body \<Rightarrow> message_event" where
  "reply l k m b = event [Some l] (setFederate (nm_federate m) (new_message (Service k) b))"

definition then_reply :: "responses rtig_action \<Rightarrow> message_event \<Rightarrow> responses rtig_action" where
  "then_reply f e = bind f (\<lambda>rs. ret (rs @ [e]))"

definition only_reply :: "unit rtig_action \<Rightarrow> message_event \<Rightarrow> responses rtig_action" where
  "only_reply f e = seq f (ret [e])"

subsection \<open>Federations and federates\<close>

text \<open>The federation that has been created has no management object model to enable.\<close>

definition process_create :: "surroundings \<Rightarrow> socket \<Rightarrow> network_message \<Rightarrow> responses rtig_action" where
  "process_create w l m =
     (case nm_body m of
        CreationOf n modules mim v \<Rightarrow>
          bind (with_federation_handles provide) (\<lambda>h.
          bind (createFederation w n h modules mim v) (\<lambda>rep.
          bind (gets (searchFederation (nm_federation rep))) (\<lambda>x. bind (lift_sum x) (\<lambda>_.
          ret [event [Some l] rep]))))
      | _ \<Rightarrow> throw UndefinedBehaviour)"

text \<open>\<open>getFederationHandle\<close> finds the federation that \<open>add\<close> is called on.\<close>

definition process_join :: "surroundings \<Rightarrow> socket \<Rightarrow> network_message \<Rightarrow> responses rtig_action" where
  "process_join w l m =
     (case nm_body m of
        JoinRequest federation name type modules v peer address \<Rightarrow>
          seq (throw_if (federation = [] \<or> name = []) RTIinternalError)
          (bind (gets (getFederationHandle federation)) (\<lambda>r. bind (lift_sum r) (\<lambda>fn.
           bind (on_federation fn (add (with_root (w_openFomModules w modules False)) convertToSerializedFOM name type v l peer address)) (\<lambda>hrs.
           ret (snd hrs)))))
      | _ \<Rightarrow> throw UndefinedBehaviour)"

definition process_resign :: "network_message \<Rightarrow> responses rtig_action" where
  "process_resign m = in_federation m (\<lambda>fed b. remove fed)"

definition process_destroy :: "socket \<Rightarrow> network_message \<Rightarrow> responses rtig_action" where
  "process_destroy l m =
     bind (gets (getFederationHandle (nm_getName (nm_body m)))) (\<lambda>r. bind (lift_sum r) (\<lambda>fn.
     seq (destroyFederation fn)
     (seq (with_federation_handles (free fn))
          (ret [reply l DESTROY_FEDERATION_EXECUTION m (FederationNameOf (nm_getName (nm_body m)))]))))"

text \<open>The answer to a request to set a switch names no federate.\<close>

definition process_switch :: "(bool \<Rightarrow> unit federate_action) \<Rightarrow> service \<Rightarrow> socket \<Rightarrow> network_message \<Rightarrow> responses rtig_action" where
  "process_switch switch k l m =
     only_reply (in_federation m (\<lambda>fed b. on_federate fed (switch (nm_isSwitchOn b))))
       (event [Some l] (new_message (Service k) NoBody))"

subsection \<open>Time\<close>

definition process_regulating :: "network_message \<Rightarrow> responses rtig_action" where
  "process_regulating m = in_federation m (\<lambda>fed b.
     if nm_isSwitchOn b then addRegulator fed (nm_date m) else removeRegulator fed)"

definition process_constrained :: "network_message \<Rightarrow> responses rtig_action" where
  "process_constrained m = in_federation m (\<lambda>fed b. setConstrained fed (nm_isSwitchOn b) (nm_date m))"

definition process_null :: "bool \<Rightarrow> network_message \<Rightarrow> responses rtig_action" where
  "process_null anonymous m =
     catch (in_federation m (\<lambda>fed b. updateRegulator fed (nm_date m) anonymous)) is_certi_exception (\<lambda>_. ret [])"

definition anonymous_null :: "federation_handle \<Rightarrow> fed_time \<Rightarrow> network_message" where
  "anonymous_null fn t = setFederation fn (setDate t (new_message MESSAGE_NULL NoBody))"

definition process_null_prime :: "network_message \<Rightarrow> responses rtig_action" where
  "process_null_prime m =
     bind (in_federation m (\<lambda>fed b. updateLastNERxForFederate fed (nm_date m))) (\<lambda>advanced.
     if advanced then
       bind (in_federation m (\<lambda>fed b. gets fd_min_NERx)) (\<lambda>t.
       process_null True (anonymous_null (nm_federation m) t))
     else ret [])"

text \<open>Without a management object model the state of the time management is not used.\<close>

definition process_time_state :: "network_message \<Rightarrow> responses rtig_action" where
  "process_time_state m = catch (in_federation m (\<lambda>fed b. ret [])) is_certi_exception (\<lambda>_. ret [])"

subsection \<open>Synchronization, save and restore\<close>

definition registration :: "network_message \<Rightarrow> unit rtig_action" where
  "registration m = in_federation m (\<lambda>fed b.
     if nm_getExists b then registerSynchronizationFor fed (nm_label m) (nm_tag m) (nm_getFederates b)
     else registerSynchronization fed (nm_label m) (nm_tag m))"

definition registration_broadcast :: "network_message \<Rightarrow> responses rtig_action" where
  "registration_broadcast m = in_federation m (\<lambda>fed b.
     if nm_getExists b then broadcastSynchronizationFor fed (nm_label m) (nm_tag m) (nm_getFederates b)
     else broadcastSynchronization fed (nm_label m) (nm_tag m))"

definition confirmation :: "network_message \<Rightarrow> bool \<Rightarrow> network_message" where
  "confirmation m ok = setLabel (nm_label m) (setFederation (nm_federation m) (setFederate (nm_federate m)
     (new_message CONFIRM_SYNCHRONIZATION_POINT_REGISTRATION (Success ok))))"

definition process_register_point :: "socket \<Rightarrow> network_message \<Rightarrow> responses rtig_action" where
  "process_register_point l m =
     bind (catch (seq (registration m) (ret True)) is_certi_exception (\<lambda>_. ret False)) (\<lambda>ok.
     bind (if ok then registration_broadcast m else ret []) (\<lambda>rs.
     ret (rs @ [event [Some l] (confirmation m ok)])))"

definition process_achieved :: "network_message \<Rightarrow> responses rtig_action" where
  "process_achieved m = in_federation m (\<lambda>fed b. unregisterSynchronization fed (nm_label m))"

definition process_request_save :: "network_message \<Rightarrow> responses rtig_action" where
  "process_request_save m = in_federation m (\<lambda>fed b.
     if nm_isDated m then requestFederationSaveAt fed (nm_label m) (nm_date m)
     else requestFederationSave fed (nm_label m))"

definition process_save_begun :: "network_message \<Rightarrow> responses rtig_action" where
  "process_save_begun m = seq (in_federation m (\<lambda>fed b. federateSaveBegun fed)) (ret [])"

definition process_save_status :: "surroundings \<Rightarrow> bool \<Rightarrow> network_message \<Rightarrow> responses rtig_action" where
  "process_save_status w ok m = in_federation m (\<lambda>fed b. federateSaveStatus (w_saveXmlData w) fed ok)"

definition process_request_restore :: "surroundings \<Rightarrow> network_message \<Rightarrow> responses rtig_action" where
  "process_request_restore w m =
     in_federation m (\<lambda>fed b. requestFederationRestore (w_saved w (nm_label m)) fed (nm_label m))"

definition process_restore_status :: "bool \<Rightarrow> network_message \<Rightarrow> responses rtig_action" where
  "process_restore_status ok m = in_federation m (\<lambda>fed b. federateRestoreStatus fed ok)"

subsection \<open>Publication and subscription\<close>

definition process_publish :: "bool \<Rightarrow> network_message \<Rightarrow> responses rtig_action" where
  "process_publish pub m = in_federation m (\<lambda>fed b. publishObject fed (nm_getObjectClass b) (nm_getAttributes b) pub)"

definition process_subscribe :: "bool \<Rightarrow> network_message \<Rightarrow> responses rtig_action" where
  "process_subscribe sub m = in_federation m (\<lambda>fed b.
     subscribeObject fed (nm_getObjectClass b) (if sub then nm_getAttributes b else []) sub)"

definition process_publish_interaction :: "bool \<Rightarrow> network_message \<Rightarrow> responses rtig_action" where
  "process_publish_interaction pub m = in_federation m (\<lambda>fed b. publishInteraction fed (nm_getInteractionClass b) pub)"

definition process_subscribe_interaction :: "bool \<Rightarrow> network_message \<Rightarrow> responses rtig_action" where
  "process_subscribe_interaction sub m = in_federation m (\<lambda>fed b. subscribeInteraction fed (nm_getInteractionClass b) sub)"

subsection \<open>Objects and interactions\<close>

definition process_reserve :: "network_message \<Rightarrow> responses rtig_action" where
  "process_reserve m = seq (in_federation m (\<lambda>fed b. fed_reserveObjectInstanceName fed (nm_getName b))) (ret [])"

definition process_register :: "network_message \<Rightarrow> responses rtig_action" where
  "process_register m = bind (in_federation m (\<lambda>fed b. registerObject fed (nm_getObjectClass b) (nm_label m))) (\<lambda>x. ret (snd x))"

text \<open>The answer keeps the date, the label and the tag of the request, if it has them.\<close>

definition keep_marks :: "network_message \<Rightarrow> network_message \<Rightarrow> network_message" where
  "keep_marks m rep =
     (let r1 = (if nm_isDated m then setDate (nm_date m) rep else rep);
          r2 = (if nm_isLabelled m then setLabel (nm_label m) r1 else r1)
      in if nm_isTagged m then setTag (nm_tag m) r2 else r2)"

definition process_update :: "socket \<Rightarrow> network_message \<Rightarrow> responses rtig_action" where
  "process_update l m =
     then_reply (in_federation m (\<lambda>fed b.
       if nm_isDated m
       then updateAttributeValuesAt fed (nm_getObject b) (nm_getAttributes b) (nm_getValues b) (nm_date m) (nm_label m)
       else updateAttributeValues fed (nm_getObject b) (nm_getAttributes b) (nm_getValues b) (nm_label m)))
     (event [Some l] (keep_marks m (setFederate (nm_federate m)
       (new_message (Service UPDATE_ATTRIBUTE_VALUES) (ObjectOf (nm_getObject (nm_body m)))))))"

text \<open>
  For an interaction without a date the number of parameters is passed where the other overload takes
  none: the call has seven arguments, as the overload with a date, and the number converts to a date.
\<close>

definition process_interaction :: "socket \<Rightarrow> network_message \<Rightarrow> responses rtig_action" where
  "process_interaction l m =
     then_reply (in_federation m (\<lambda>fed b.
       broadcastInteractionAt fed (nm_getInteractionClass b) (nm_getParameters b) (nm_getValues b)
         (if nm_isDated m then nm_date m else Fin (of_nat (length (nm_getParameters b)))) (nm_getRegion b) (nm_label m)))
     (event [Some l] (keep_marks m (setFederate (nm_federate m)
       (new_message (Service SEND_INTERACTION) (InteractionOf (nm_getInteractionClass (nm_body m)))))))"

definition process_delete :: "network_message \<Rightarrow> responses rtig_action" where
  "process_delete m = in_federation m (\<lambda>fed b.
     if nm_isDated m then deleteObjectAt fed (nm_getObject b) (nm_date m) (nm_label m)
     else deleteObject fed (nm_getObject b) (nm_label m))"

definition process_request_update :: "socket \<Rightarrow> network_message \<Rightarrow> responses rtig_action" where
  "process_request_update l m =
     then_reply (bind (in_federation m (\<lambda>fed b. requestObjectOwner fed (nm_getObject b) (nm_getAttributes b))) (\<lambda>x. ret (snd x)))
       (reply l REQUEST_OBJECT_ATTRIBUTE_VALUE_UPDATE m (ObjectOf (nm_getObject (nm_body m))))"

definition process_request_class_update :: "socket \<Rightarrow> network_message \<Rightarrow> responses rtig_action" where
  "process_request_class_update l m =
     then_reply (in_federation m (\<lambda>fed b. requestClassAttributeValueUpdate fed (nm_getObjectClass b) (nm_getAttributes b)))
       (reply l REQUEST_CLASS_ATTRIBUTE_VALUE_UPDATE m (ObjectClassOf (nm_getObjectClass (nm_body m))))"

definition process_asynchronous :: "bool \<Rightarrow> network_message \<Rightarrow> responses rtig_action" where
  "process_asynchronous on m = in_federation m (\<lambda>fed b. updateAsynchronousDelivery fed on)"

subsection \<open>Ownership\<close>

text \<open>The answers that name the object.\<close>

definition reply_object :: "socket \<Rightarrow> service \<Rightarrow> network_message \<Rightarrow> message_event" where
  "reply_object l k m = reply l k m (ObjectOf (nm_getObject (nm_body m)))"

definition process_query_owner :: "socket \<Rightarrow> network_message \<Rightarrow> responses rtig_action" where
  "process_query_owner l m =
     only_reply (in_federation m (\<lambda>fed b. queryAttributeOwnership fed (nm_getObject b) (nm_getAttribute b)))
       (reply_object l QUERY_ATTRIBUTE_OWNERSHIP m)"

definition process_is_owner :: "socket \<Rightarrow> network_message \<Rightarrow> responses rtig_action" where
  "process_is_owner l m =
     bind (in_federation m (\<lambda>fed b. isOwner fed (nm_getObject b) (nm_getAttribute b))) (\<lambda>owned.
     ret [event [Some l] (setFederate (nm_federate m) (setLabel (if owned then ''RTI_TRUE'' else ''RTI_FALSE'')
       (new_message (Service IS_ATTRIBUTE_OWNED_BY_FEDERATE)
         (AttributeOf (nm_getObject (nm_body m)) (nm_getAttribute (nm_body m))))))])"

definition process_negotiate :: "socket \<Rightarrow> network_message \<Rightarrow> responses rtig_action" where
  "process_negotiate l m =
     then_reply (in_federation m (\<lambda>fed b. negotiateDivestiture fed (nm_getObject b) (nm_getAttributes b) (nm_label m)))
       (reply_object l NEGOTIATED_ATTRIBUTE_OWNERSHIP_DIVESTITURE m)"

definition process_acquire_if_available :: "socket \<Rightarrow> network_message \<Rightarrow> responses rtig_action" where
  "process_acquire_if_available l m =
     only_reply (in_federation m (\<lambda>fed b. acquireIfAvailable fed (nm_getObject b) (nm_getAttributes b)))
       (reply_object l ATTRIBUTE_OWNERSHIP_ACQUISITION_IF_AVAILABLE m)"

definition process_divest :: "network_message \<Rightarrow> responses rtig_action" where
  "process_divest m = in_federation m (\<lambda>fed b. divest fed (nm_getObject b) (nm_getAttributes b))"

definition process_acquire :: "socket \<Rightarrow> network_message \<Rightarrow> responses rtig_action" where
  "process_acquire l m =
     only_reply (in_federation m (\<lambda>fed b. acquire fed (nm_getObject b) (nm_getAttributes b) (nm_label m)))
       (reply l ATTRIBUTE_OWNERSHIP_ACQUISITION m (AttributesOf (nm_getObject (nm_body m)) []))"

definition process_cancel_divestiture :: "socket \<Rightarrow> network_message \<Rightarrow> responses rtig_action" where
  "process_cancel_divestiture l m =
     only_reply (in_federation m (\<lambda>fed b. cancelDivestiture fed (nm_getObject b) (nm_getAttributes b)))
       (reply_object l CANCEL_NEGOTIATED_ATTRIBUTE_OWNERSHIP_DIVESTITURE m)"

definition process_release :: "socket \<Rightarrow> network_message \<Rightarrow> responses rtig_action" where
  "process_release l m =
     bind (in_federation m (\<lambda>fed b. respondRelease fed (nm_getObject b) (nm_getAttributes b))) (\<lambda>released.
     ret [reply l ATTRIBUTE_OWNERSHIP_RELEASE_RESPONSE m (AttributesOf (nm_getObject (nm_body m)) released)])"

definition process_cancel_acquisition :: "socket \<Rightarrow> network_message \<Rightarrow> responses rtig_action" where
  "process_cancel_acquisition l m =
     only_reply (in_federation m (\<lambda>fed b. cancelAcquisition fed (nm_getObject b) (nm_getAttributes b)))
       (reply_object l CANCEL_ATTRIBUTE_OWNERSHIP_ACQUISITION m)"

subsection \<open>Data distribution\<close>

definition process_create_region :: "surroundings \<Rightarrow> socket \<Rightarrow> network_message \<Rightarrow> responses rtig_action" where
  "process_create_region w l m =
     bind (in_federation m (\<lambda>fed b. fed_createRegion (w_axis w) fed (nm_getSpace b) (nm_getNbExtents b))) (\<lambda>r.
     ret [reply l DDM_CREATE_REGION m (RegionOf r)])"

definition process_modify_region :: "socket \<Rightarrow> network_message \<Rightarrow> responses rtig_action" where
  "process_modify_region l m =
     only_reply (in_federation m (\<lambda>fed b. fed_modifyRegion fed (nm_getRegion b) (nm_getExtents b)))
       (reply l DDM_MODIFY_REGION m NoBody)"

definition process_delete_region :: "socket \<Rightarrow> network_message \<Rightarrow> responses rtig_action" where
  "process_delete_region l m =
     only_reply (in_federation m (\<lambda>fed b. fed_deleteRegion fed (nm_getRegion b)))
       (reply l DDM_DELETE_REGION m (RegionOf (nm_getRegion (nm_body m))))"

definition process_associate :: "socket \<Rightarrow> network_message \<Rightarrow> responses rtig_action" where
  "process_associate l m =
     only_reply (in_federation m (\<lambda>fed b. associateRegion fed (nm_getObject b) (nm_getRegion b) (nm_getAttributes b)))
       (reply l DDM_ASSOCIATE_REGION m NoBody)"

definition process_unassociate :: "socket \<Rightarrow> network_message \<Rightarrow> responses rtig_action" where
  "process_unassociate l m =
     only_reply (in_federation m (\<lambda>fed b. unassociateRegion fed (nm_getObject b) (nm_getRegion b)))
       (reply l DDM_UNASSOCIATE_REGION m NoBody)"

definition process_subscribe_region :: "socket \<Rightarrow> network_message \<Rightarrow> responses rtig_action" where
  "process_subscribe_region l m =
     only_reply (in_federation m (\<lambda>fed b.
         subscribeAttributesWR fed (nm_getObjectClass b) (nm_getRegion b) (nm_getAttributes b)))
       (reply l DDM_SUBSCRIBE_ATTRIBUTES m (ObjectClassOf (nm_getObjectClass (nm_body m))))"

definition process_unsubscribe_region :: "socket \<Rightarrow> network_message \<Rightarrow> responses rtig_action" where
  "process_unsubscribe_region l m =
     only_reply (in_federation m (\<lambda>fed b. unsubscribeAttributesWR fed (nm_getObjectClass b) (nm_getRegion b)))
       (reply l DDM_UNSUBSCRIBE_ATTRIBUTES m NoBody)"

definition process_subscribe_interaction_region :: "socket \<Rightarrow> network_message \<Rightarrow> responses rtig_action" where
  "process_subscribe_interaction_region l m =
     only_reply (in_federation m (\<lambda>fed b. subscribeInteractionWR fed (nm_getInteractionClass b) (nm_getRegion b)))
       (reply l DDM_SUBSCRIBE_INTERACTION m NoBody)"

definition process_unsubscribe_interaction_region :: "socket \<Rightarrow> network_message \<Rightarrow> responses rtig_action" where
  "process_unsubscribe_interaction_region l m =
     only_reply (in_federation m (\<lambda>fed b. unsubscribeInteractionWR fed (nm_getInteractionClass b) (nm_getRegion b)))
       (reply l DDM_UNSUBSCRIBE_INTERACTION m NoBody)"

text \<open>The answer does not name the object that has been registered.\<close>

definition process_register_region :: "socket \<Rightarrow> network_message \<Rightarrow> responses rtig_action" where
  "process_register_region l m =
     then_reply (bind (in_federation m (\<lambda>fed b.
         registerObjectWithRegion fed (nm_getObjectClass b) (nm_label m) (nm_getRegion b) (nm_getAttributes b))) (\<lambda>x. ret (snd x)))
       (reply l DDM_REGISTER_OBJECT m NoBody)"

subsection \<open>The dispatch on the type of the message\<close>

definition process_service :: "surroundings \<Rightarrow> socket \<Rightarrow> network_message \<Rightarrow> service \<Rightarrow> responses rtig_action" where
  "process_service w l m k = (case k of
     UPDATE_ATTRIBUTE_VALUES \<Rightarrow> process_update l m
   | SEND_INTERACTION \<Rightarrow> process_interaction l m
   | DESTROY_FEDERATION_EXECUTION \<Rightarrow> process_destroy l m
   | REGISTER_FEDERATION_SYNCHRONIZATION_POINT \<Rightarrow> process_register_point l m
   | SYNCHRONIZATION_POINT_ACHIEVED \<Rightarrow> process_achieved m
   | REQUEST_FEDERATION_SAVE \<Rightarrow> process_request_save m
   | FEDERATE_SAVE_BEGUN \<Rightarrow> process_save_begun m
   | FEDERATE_SAVE_COMPLETE \<Rightarrow> process_save_status w True m
   | FEDERATE_SAVE_NOT_COMPLETE \<Rightarrow> process_save_status w False m
   | REQUEST_FEDERATION_RESTORE \<Rightarrow> process_request_restore w m
   | FEDERATE_RESTORE_COMPLETE \<Rightarrow> process_restore_status True m
   | FEDERATE_RESTORE_NOT_COMPLETE \<Rightarrow> process_restore_status False m
   | REQUEST_OBJECT_ATTRIBUTE_VALUE_UPDATE \<Rightarrow> process_request_update l m
   | REQUEST_CLASS_ATTRIBUTE_VALUE_UPDATE \<Rightarrow> process_request_class_update l m
   | PUBLISH_OBJECT_CLASS \<Rightarrow> process_publish True m
   | UNPUBLISH_OBJECT_CLASS \<Rightarrow> process_publish False m
   | PUBLISH_INTERACTION_CLASS \<Rightarrow> process_publish_interaction True m
   | UNPUBLISH_INTERACTION_CLASS \<Rightarrow> process_publish_interaction False m
   | SUBSCRIBE_OBJECT_CLASS \<Rightarrow> process_subscribe True m
   | UNSUBSCRIBE_OBJECT_CLASS \<Rightarrow> process_subscribe False m
   | SUBSCRIBE_INTERACTION_CLASS \<Rightarrow> process_subscribe_interaction True m
   | UNSUBSCRIBE_INTERACTION_CLASS \<Rightarrow> process_subscribe_interaction False m
   | SET_CLASS_RELEVANCE_ADVISORY_SWITCH \<Rightarrow> process_switch setClassRelevanceAdvisorySwitch k l m
   | SET_INTERACTION_RELEVANCE_ADVISORY_SWITCH \<Rightarrow> process_switch setInteractionRelevanceAdvisorySwitch k l m
   | SET_ATTRIBUTE_RELEVANCE_ADVISORY_SWITCH \<Rightarrow> process_switch setAttributeRelevanceAdvisorySwitch k l m
   | SET_ATTRIBUTE_SCOPE_ADVISORY_SWITCH \<Rightarrow> process_switch setAttributeScopeAdvisorySwitch k l m
   | RESERVE_OBJECT_INSTANCE_NAME \<Rightarrow> process_reserve m
   | REGISTER_OBJECT \<Rightarrow> process_register m
   | DELETE_OBJECT \<Rightarrow> process_delete m
   | IS_ATTRIBUTE_OWNED_BY_FEDERATE \<Rightarrow> process_is_owner l m
   | QUERY_ATTRIBUTE_OWNERSHIP \<Rightarrow> process_query_owner l m
   | NEGOTIATED_ATTRIBUTE_OWNERSHIP_DIVESTITURE \<Rightarrow> process_negotiate l m
   | CANCEL_NEGOTIATED_ATTRIBUTE_OWNERSHIP_DIVESTITURE \<Rightarrow> process_cancel_divestiture l m
   | ATTRIBUTE_OWNERSHIP_ACQUISITION_IF_AVAILABLE \<Rightarrow> process_acquire_if_available l m
   | ATTRIBUTE_OWNERSHIP_ACQUISITION \<Rightarrow> process_acquire l m
   | ATTRIBUTE_OWNERSHIP_RELEASE_RESPONSE \<Rightarrow> process_release l m
   | CANCEL_ATTRIBUTE_OWNERSHIP_ACQUISITION \<Rightarrow> process_cancel_acquisition l m
   | DDM_CREATE_REGION \<Rightarrow> process_create_region w l m
   | DDM_MODIFY_REGION \<Rightarrow> process_modify_region l m
   | DDM_DELETE_REGION \<Rightarrow> process_delete_region l m
   | DDM_REGISTER_OBJECT \<Rightarrow> process_register_region l m
   | DDM_ASSOCIATE_REGION \<Rightarrow> process_associate l m
   | DDM_UNASSOCIATE_REGION \<Rightarrow> process_unassociate l m
   | DDM_SUBSCRIBE_ATTRIBUTES \<Rightarrow> process_subscribe_region l m
   | DDM_UNSUBSCRIBE_ATTRIBUTES \<Rightarrow> process_unsubscribe_region l m
   | DDM_SUBSCRIBE_INTERACTION \<Rightarrow> process_subscribe_interaction_region l m
   | DDM_UNSUBSCRIBE_INTERACTION \<Rightarrow> process_unsubscribe_interaction_region l m
   | ENABLE_ASYNCHRONOUS_DELIVERY \<Rightarrow> process_asynchronous True m
   | DISABLE_ASYNCHRONOUS_DELIVERY \<Rightarrow> process_asynchronous False m
   | CLOSE_CONNEXION \<Rightarrow> throw RTIinternalError)"

definition processEvent :: "surroundings \<Rightarrow> socket \<Rightarrow> network_message \<Rightarrow> responses rtig_action" where
  "processEvent w l m = (case nm_kind m of
     Service k \<Rightarrow> process_service w l m k
   | MESSAGE_NULL \<Rightarrow> process_null False m
   | MESSAGE_NULL_PRIME \<Rightarrow> process_null_prime m
   | CREATE_FEDERATION_EXECUTION \<Rightarrow> process_create w l m
   | JOIN_FEDERATION_EXECUTION \<Rightarrow> process_join w l m
   | RESIGN_FEDERATION_EXECUTION \<Rightarrow> process_resign m
   | SET_TIME_REGULATING \<Rightarrow> process_regulating m
   | SET_TIME_CONSTRAINED \<Rightarrow> process_constrained m
   | UNCONDITIONAL_ATTRIBUTE_OWNERSHIP_DIVESTITURE \<Rightarrow> process_divest m
   | TIME_STATE_UPDATE \<Rightarrow> process_time_state m
   | _ \<Rightarrow> throw RTIinternalError)"

section \<open>The server\<close>

text \<open>
  A message is written to one socket after the other: null sockets are passed over, and a write that
  fails leaves the loop. The event of a message that has been moved away has no message to call.
\<close>

fun write_to :: "surroundings \<Rightarrow> network_message \<Rightarrow> socket option list \<Rightarrow> unit rtig_action" where
  "write_to w m [] = ret ()"
| "write_to w m (None # ls) = write_to w m ls"
| "write_to w m (Some l # ls) =
     seq (throw_if (w_broken w l) NetworkError)
     (seq (modify (\<lambda>s. s\<lparr>rt_sent := rt_sent s @ [(l, m)]\<rparr>)) (write_to w m ls))"

definition send_event :: "surroundings \<Rightarrow> message_event \<Rightarrow> unit rtig_action" where
  "send_event w e = (case ev_message e of None \<Rightarrow> throw UndefinedBehaviour | Some m \<Rightarrow> write_to w m (ev_sockets e))"

definition send_responses :: "surroundings \<Rightarrow> responses \<Rightarrow> unit rtig_action" where
  "send_responses w rs = for_each (send_event w) rs"

definition closeConnection :: "surroundings \<Rightarrow> socket \<Rightarrow> bool \<Rightarrow> unit rtig_action" where
  "closeConnection w l emergency =
     bind (catch (with_connections (ss_close l)) (\<lambda>e. e = RTIinternalError) (\<lambda>_. ret (0, 0))) (\<lambda>(fn, fed).
     if emergency then bind (rt_killFederate fn fed) (send_responses w) else ret ())"

definition exception_answer :: "network_message \<Rightarrow> exn \<Rightarrow> network_message" where
  "exception_answer m e = setException e (setFederate (nm_federate m) (new_message (nm_kind m) NoBody))"

text \<open>\<open>processIncomingMessage\<close> returns the connection unless it has been closed.\<close>

definition processIncomingMessage :: "surroundings \<Rightarrow> socket \<Rightarrow> network_message \<Rightarrow> socket option rtig_action" where
  "processIncomingMessage w l m =
     catch
       (seq (if nm_kind m \<noteq> Service DESTROY_FEDERATION_EXECUTION
             then bind (gets (\<lambda>s. checkMessage l m (rt_sockets s))) lift_sum else ret ())
         (if nm_kind m = Service CLOSE_CONNEXION then seq (closeConnection w l False) (ret None)
          else bind (processEvent w l m) (\<lambda>rs. seq (send_responses w rs) (ret (Some l)))))
       (\<lambda>e. is_certi_exception e \<and> e \<noteq> NetworkError)
       (\<lambda>e. seq (write_to w (exception_answer m e) [Some l]) (ret (Some l)))"

definition openConnection :: "socket \<Rightarrow> string option \<Rightarrow> unit rtig_action" where
  "openConnection l peer = with_connections (ss_open l peer)"

text \<open>
  The loop of \<open>execute\<close>, by what \<open>select\<close> wakes it up for: a message that has arrived on an open
  connection, a connection whose reading fails, or a new client. An exception that leaves the handling of
  an input leaves the loop.
\<close>

datatype input =
    Incoming socket network_message
  | Failing socket
  | Connecting socket "string option"

definition serve :: "surroundings \<Rightarrow> input \<Rightarrow> unit rtig_action" where
  "serve w i = (case i of
     Incoming l m \<Rightarrow> catch (seq (processIncomingMessage w l m) (ret ())) (\<lambda>e. e = NetworkError) (\<lambda>_. closeConnection w l True)
   | Failing l \<Rightarrow> closeConnection w l True
   | Connecting l peer \<Rightarrow> openConnection l peer)"

definition execute :: "surroundings \<Rightarrow> input list \<Rightarrow> unit rtig_action" where
  "execute w = for_each (serve w)"

end
