(* ===== verification/FederationFrame.thy ===== *)
theory FederationFrame
  imports FederationObjects
begin

text \<open>
  What the services of a federation leave alone: its handle, its name, its security server and, apart
  from joining, the connections of the RTIG.
\<close>

named_theorems frame_intros "services that keep the identity and the connections of a federation"

definition anchored :: "'r federation \<Rightarrow> 'r federation \<Rightarrow> bool" where
  "anchored f g \<longleftrightarrow> fd_handle g = fd_handle f \<and> fd_name g = fd_name f \<and> fd_server g = fd_server f \<and> fd_sockets g = fd_sockets f"

lemma anchored_refl [simp]: "anchored f f"
  by (simp add: anchored_def)

lemma anchored_link: "anchored f g \<Longrightarrow> link_of g h = link_of f h"
  by (simp add: anchored_def link_of_def)

lemma frame_modify [frame_intros]:
  "(\<And>s. fd_handle (u s) = fd_handle s \<and> fd_name (u s) = fd_name s \<and> fd_server (u s) = fd_server s \<and> fd_sockets (u s) = fd_sockets s)
    \<Longrightarrow> keeps (anchored f) (modify u)"
  by (rule keeps_modify) (simp add: anchored_def)

lemma frame_on_federate [frame_intros]: "keeps (anchored f) (on_federate h m)"
  by (auto simp: on_federate_def keeps_def anchored_def split: option.splits prod.splits)

lemma frame_with_root [frame_intros]: "keeps (anchored f) (with_root m)"
  unfolding with_root_def by (rule keeps_on_field) (simp add: anchored_def)

lemma frame_with_handles [frame_intros]: "keeps (anchored f) (with_handles m)"
  unfolding with_handles_def by (rule keeps_on_field) (simp add: anchored_def)

lemma frame_with_objects [frame_intros]: "keeps (anchored f) (with_objects m)"
  unfolding with_objects_def by (rule keeps_on_field) (simp add: anchored_def)

lemma frame_with_regulators [frame_intros]: "keeps (anchored f) (with_regulators m)"
  unfolding with_regulators_def by (rule keeps_on_field) (simp add: anchored_def)

lemma frame_parts [frame_intros]:
  "keeps (anchored f) (for_federates u)" "keeps (anchored f) (check h)" "keeps (anchored f) (respondToSome m hs)"
  "keeps (anchored f) (respondToAll m h)" "keeps (anchored f) (respondTo h m)" "keeps (anchored f) (answer h k b)"
  "keeps (anchored g) (on_root a)" "keeps (anchored g) (from_root r)"
  unfolding for_federates_def check_def respondToSome_def respondToAll_def respondTo_def answer_def on_root_def from_root_def
  by (intro keeps_intros frame_intros)+

subsection \<open>Membership, time, synchronization, save and restore\<close>

lemma frame_basic [frame_intros]:
  "keeps (anchored f) (remove h)" "keeps (anchored f) (addRegulator h t)" "keeps (anchored f) (updateRegulator h t b)"
  "keeps (anchored f) (removeRegulator h)" "keeps (anchored f) (setConstrained h b t)"
  "keeps (anchored f) (updateLastNERxForFederate h t)"
  unfolding remove_def addRegulator_def updateRegulator_def removeRegulator_def setConstrained_def updateLastNERxForFederate_def
  by (intro keeps_intros frame_intros; simp)+

lemma frame_synchronization [frame_intros]:
  "keeps (anchored f) (registerSynchronization h l t)" "keeps (anchored f) (registerSynchronizationFor h l t hs)"
  "keeps (anchored f) (unregisterSynchronization h l)" "keeps (anchored f) (broadcastSynchronization h l t)"
  "keeps (anchored f) (broadcastSynchronizationFor h l t hs)"
  unfolding registerSynchronization_def registerSynchronizationFor_def unregisterSynchronization_def broadcastSynchronization_def
    broadcastSynchronizationFor_def insert_label_def at_federate_def
  by (intro keeps_intros frame_intros; simp)+

lemma frame_save [frame_intros]:
  "keeps (anchored f) (requestFederationSave h l)" "keeps (anchored f) (requestFederationSaveAt h l t)"
  "keeps (anchored f) (federateSaveBegun h)" "keeps (anchored f) (federateSaveStatus x h b)"
  unfolding requestFederationSave_def requestFederationSaveAt_def begin_save_def federateSaveBegun_def federateSaveStatus_def
  by (intro keeps_intros frame_intros; simp)+

lemma frame_restore [frame_intros]:
  "keeps (anchored f) (requestFederationRestore doc h l)" "keeps (anchored f) (federateRestoreStatus h b)"
  unfolding requestFederationRestore_def federateRestoreStatus_def restoreXmlData_def restore_one_def restore_event_def
  by (intro keeps_intros frame_intros; simp)+

subsection \<open>Objects, interactions, ownership and regions\<close>

lemma frame_publication [frame_intros]:
  "keeps (anchored f) (publishObject h c as b)" "keeps (anchored f) (subscribeObject h c as b)"
  "keeps (anchored f) (publishInteraction h i b)" "keeps (anchored f) (subscribeInteraction h i b)"
  unfolding publishObject_def subscribeObject_def publishInteraction_def subscribeInteraction_def start_registration_def
  by (intro keeps_intros frame_intros)+

lemma frame_objects [frame_intros]:
  "keeps (anchored f) (fed_reserveObjectInstanceName h n)" "keeps (anchored f) (registerObject h c n)"
  "keeps (anchored f) (deleteObjectAt h ob t tag)" "keeps (anchored f) (deleteObject h ob tag)"
  "keeps (anchored f) (requestObjectOwner h ob as)" "keeps (anchored f) (requestClassAttributeValueUpdate h c as)"
  "keeps (anchored f) (updateAttributeValuesAt h ob as vs t tag)" "keeps (anchored f) (updateAttributeValues h ob as vs tag)"
  "keeps (anchored f) (broadcastInteractionAt h i ps vs t r tag)" "keeps (anchored f) (broadcastInteraction h i ps vs r tag)"
  unfolding fed_reserveObjectInstanceName_def registerObject_def deleteObjectAt_def deleteObject_def delete_and_answer_def
    requestObjectOwner_def ask_owner_def requestClassAttributeValueUpdate_def updateAttributeValuesAt_def updateAttributeValues_def
    on_known_object_def broadcastInteractionAt_def broadcastInteraction_def send_in_region_def
  by (intro keeps_intros frame_intros)+

lemma frame_ownership [frame_intros]:
  "keeps (anchored f) (isOwner h ob a)" "keeps (anchored f) (queryAttributeOwnership h ob a)"
  "keeps (anchored f) (negotiateDivestiture h ob as tag)" "keeps (anchored f) (acquireIfAvailable h ob as)"
  "keeps (anchored f) (divest h ob as)" "keeps (anchored f) (acquire h ob as tag)" "keeps (anchored f) (cancelDivestiture h ob as)"
  "keeps (anchored f) (respondRelease h ob as)" "keeps (anchored f) (cancelAcquisition h ob as)"
  unfolding isOwner_def queryAttributeOwnership_def negotiateDivestiture_def acquireIfAvailable_def divest_def acquire_def
    cancelDivestiture_def respondRelease_def cancelAcquisition_def on_known_object_def
  by (intro keeps_intros frame_intros)+

lemma frame_regions [frame_intros]:
  "keeps (anchored f) (fed_createRegion ax h sp n)" "keeps (anchored f) (fed_modifyRegion h r es)" "keeps (anchored f) (fed_deleteRegion h r)"
  "keeps (anchored f) (associateRegion h ob r as)" "keeps (anchored f) (unassociateRegion h ob r)"
  "keeps (anchored f) (subscribeAttributesWR h c r as)" "keeps (anchored f) (unsubscribeAttributesWR h c r)"
  "keeps (anchored f) (subscribeInteractionWR h i r)" "keeps (anchored f) (unsubscribeInteractionWR h i r)"
  "keeps (anchored f) (registerObjectWithRegion h c name r as)" "keeps (anchored f) (updateAsynchronousDelivery h b)"
  unfolding fed_createRegion_def fed_modifyRegion_def fed_deleteRegion_def associateRegion_def unassociateRegion_def
    subscribeAttributesWR_def unsubscribeAttributesWR_def subscribeInteractionWR_def unsubscribeInteractionWR_def
    registerObjectWithRegion_def updateAsynchronousDelivery_def unassociate_object_def associate_attributes_def
  by (intro keeps_intros frame_intros)+

lemma frame_kill [frame_intros]: "keeps (anchored f) (fed_kill h)"
  unfolding fed_kill_def kill_def by (intro keeps_intros frame_intros)

text \<open>Joining attaches the connection to the new federate and keeps the rest.\<close>

definition identified :: "'r federation \<Rightarrow> 'r federation \<Rightarrow> bool" where
  "identified f g \<longleftrightarrow> fd_handle g = fd_handle f \<and> fd_name g = fd_name f \<and> fd_server g = fd_server f
     \<and> (references_ok (fd_sockets f) \<longrightarrow> references_ok (fd_sockets g))"

lemma identified_refl [simp]: "identified f f"
  by (simp add: identified_def)

lemma identified_anchored: "identified f g \<Longrightarrow> anchored g h \<Longrightarrow> identified f h"
  by (simp add: identified_def anchored_def)

lemma keeps_identified: "(\<And>g. keeps (anchored g) m) \<Longrightarrow> keeps (identified f) m"
  by (meson anchored_refl identified_anchored keeps_def)

lemma identified_setReferences:
  assumes "valid_handle (fd_handle f)" "h \<noteq> 0"
  shows "keeps (identified f) (bind (gets fd_handle) (\<lambda>fn. seq (with_sockets (ss_setReferences l fn h)) (ret x)))"
  using assms ss_setReferences_ok [of _ "fd_handle f" h l]
  by (auto intro!: keepsI simp: identified_def with_sockets_def act_simps split: prod.splits sum.splits)
    (metis snd_conv)+

lemma identified_add:
  assumes "valid_handle (fd_handle f)"
  shows "keeps (identified f) (add (with_root m) fom name type v l peer address)"
proof -
  have new: "keeps (identified f) (bind (lift_sum (federate_new name type v h)) k)"
    if "\<And>x. h \<noteq> 0 \<Longrightarrow> keeps (identified f) (k x)" for h and k :: "federate \<Rightarrow> ('a, federate_handle \<times> responses) fed_action"
    using that by (cases "h = 0") (auto intro: keeps_intros simp: federate_new_def keeps_def bind_def lift_sum_def)
  have reply: "keeps (identified f) (bind (gets (\<lambda>s. event ls (x s))) k)"
    if "\<And>e. keeps (identified f) (k e)" for ls x and k :: "message_event \<Rightarrow> ('a, federate_handle \<times> responses) fed_action"
    using that by (rule keeps_bind [OF keeps_gets])
  have fom: "keeps (identified f) (bind (gets (\<lambda>s. fom (fd_root s))) (\<lambda>x. bind (lift_sum x) k))"
    if "\<And>a. keeps (identified f) (k a)" for k :: "fom \<Rightarrow> ('a, federate_handle \<times> responses) fed_action"
    by (intro keeps_bind keeps_gets keeps_lift_sum that)
  show ?thesis
    unfolding add_def
    by (intro keeps_seq keeps_bind [of _ "with_handles _"] new fom keeps_bind [of _ "catch _ _ _"] keeps_bind [of _ "respondToAll _ _"]
        reply identified_setReferences assms)
      (intro keeps_identified keeps_intros frame_intros; simp)+
qed

end
