(* ===== verification/FederationLemmas.thy ===== *)
theory FederationLemmas
  imports Federation
begin

text \<open>
  Evaluation of the loops of \<open>Federation\<close> and the invariant of its state: the federates are
  ordered by handle, each has its handle and a name of its own, and handles are never reused.
\<close>

named_theorems fed_simps "evaluation of the operations of Federation"

section \<open>Loops over the federates\<close>

lemma on_federate_run [act_simps]:
  "on_federate h m s = (case map_of (fd_federates s) h of
     None \<Rightarrow> (Inl FederateNotExecutionMember, s)
   | Some f \<Rightarrow> (fst (m f), s\<lparr>fd_federates := om_put h (snd (m f)) (fd_federates s)\<rparr>))"
  by (simp add: on_federate_def split: option.split prod.split)

lemma for_each_federates:
  assumes "om_ok (fd_federates s)" "distinct ks" "set ks \<subseteq> fst ` set (fd_federates s)"
    and "\<And>h f. (h, f) \<in> set (fd_federates s) \<Longrightarrow> h \<in> set ks \<Longrightarrow> fst (m f) = Inr ()"
  shows "for_each (\<lambda>h. on_federate h m) ks s
    = (Inr (), s\<lparr>fd_federates := om_map (\<lambda>h f. if h \<in> set ks then snd (m f) else f) (fd_federates s)\<rparr>)"
  using assms
proof (induction ks arbitrary: s)
  case Nil
  then show ?case by (simp add: act_simps om_map_id)
next
  case (Cons k ks)
  obtain f where f: "map_of (fd_federates s) k = Some f"
    using Cons.prems(3) by (metis insert_subset list.simps(15) map_of_eq_None_iff not_None_eq)
  then have kf: "(k, f) \<in> set (fd_federates s)" by (rule map_of_SomeD)
  then have ok: "fst (m f) = Inr ()" using Cons.prems(4) by simp
  let ?fs = "om_map (\<lambda>k' v'. if k' = k then snd (m f) else v') (fd_federates s)"
  have put: "om_put k (snd (m f)) (fd_federates s) = ?fs"
    using Cons.prems by (intro om_put_present) auto
  have mem: "(h, g) \<in> set ?fs \<longleftrightarrow> (\<exists>g'. (h, g') \<in> set (fd_federates s) \<and> g = (if h = k then snd (m f) else g'))" for h g
    by (force simp: om_map_def)
  have "for_each (\<lambda>h. on_federate h m) ks (s\<lparr>fd_federates := ?fs\<rparr>)
      = (Inr (), s\<lparr>fd_federates := om_map (\<lambda>h f. if h \<in> set ks then snd (m f) else f) ?fs\<rparr>)"
    by (subst Cons.IH) (use Cons.prems in \<open>auto simp: om_simps mem\<close>)
  moreover have "om_map (\<lambda>h f. if h \<in> set ks then snd (m f) else f) ?fs
      = om_map (\<lambda>h f. if h \<in> set (k # ks) then snd (m f) else f) (fd_federates s)"
    unfolding om_map_comp
  proof (rule om_map_cong)
    fix h v
    assume "(h, v) \<in> set (fd_federates s)"
    then have "h = k \<Longrightarrow> v = f" using f om_ok_map_of [OF Cons.prems(1), of k v] by auto
    then show "(if h \<in> set ks then snd (m (if h = k then snd (m f) else v)) else if h = k then snd (m f) else v)
      = (if h \<in> set (k # ks) then snd (m v) else v)"
      using Cons.prems(2) by auto
  qed
  ultimately show ?case using f ok put by (simp add: seq_run on_federate_run [of k m s])
qed

lemma for_federates_run:
  assumes "om_ok (fd_federates s)" "\<And>h f. (h, f) \<in> set (fd_federates s) \<Longrightarrow> fst (m f) = Inr ()"
  shows "for_federates m s = (Inr (), s\<lparr>fd_federates := om_map (\<lambda>h f. snd (m f)) (fd_federates s)\<rparr>)"
proof -
  have "for_each (\<lambda>h. on_federate h m) (handles_of s) s
    = (Inr (), s\<lparr>fd_federates := om_map (\<lambda>h f. if h \<in> set (handles_of s) then snd (m f) else f) (fd_federates s)\<rparr>)"
    by (rule for_each_federates) (use assms in \<open>auto simp: handles_of_def om_ok_distinct\<close>)
  moreover have "om_map (\<lambda>h f. if h \<in> set (handles_of s) then snd (m f) else f) (fd_federates s)
      = om_map (\<lambda>h f. snd (m f)) (fd_federates s)"
    by (rule om_map_cong) (auto simp: handles_of_def intro: rev_image_eqI)
  ultimately show ?thesis by (simp add: for_federates_def act_simps)
qed

lemma check_run [act_simps]:
  "check h s = (if map_of (fd_federates s) h = None then (Inl FederateNotExecutionMember, s) else (Inr (), s))"
  by (simp add: check_def act_simps)

lemma respondToSome_run [act_simps]:
  "respondToSome m hs s = (case links_of s hs of Inl e \<Rightarrow> (Inl e, s) | Inr ls \<Rightarrow> (Inr [event ls m], s))"
  by (simp add: respondToSome_def act_simps split: sum.split)

lemma respondToAll_run [act_simps]:
  "respondToAll m x s =
     (case links_of s (filter (\<lambda>h. h \<noteq> x) (handles_of s)) of Inl e \<Rightarrow> (Inl e, s) | Inr ls \<Rightarrow> (Inr [event ls m], s))"
  by (simp add: respondToAll_def act_simps)

lemma respondTo_run [act_simps]:
  "respondTo h m s = (case link_of s h of Inl e \<Rightarrow> (Inl e, s) | Inr l \<Rightarrow> (Inr (event [l] m), s))"
  by (simp add: respondTo_def act_simps split: sum.split)

lemma links_of_cong:
  "fd_server s' = fd_server s \<Longrightarrow> fd_sockets s' = fd_sockets s \<Longrightarrow> links_of s' hs = links_of s hs"
  by (induction hs) (simp_all add: link_of_def split: sum.splits)

text \<open>Every federate of the list has a socket tuple, so that \<open>getSocketLink\<close> does not throw.\<close>

definition connected :: "'r federation \<Rightarrow> bool" where
  "connected s \<longleftrightarrow> (\<forall>h \<in> fst ` set (fd_federates s). \<exists>l. link_of s h = Inr l)"

definition the_link :: "'r federation \<Rightarrow> federate_handle \<Rightarrow> socket option" where
  "the_link s h = (case link_of s h of Inr l \<Rightarrow> l | Inl _ \<Rightarrow> None)"

lemma links_of_connected: "connected s \<Longrightarrow> set hs \<subseteq> fst ` set (fd_federates s) \<Longrightarrow> links_of s hs = Inr (map (the_link s) hs)"
  by (induction hs) (auto simp: connected_def the_link_def split: sum.splits)

lemma connected_cong:
  assumes "fd_server s' = fd_server s" "fd_sockets s' = fd_sockets s"
    and sub: "fst ` set (fd_federates s') \<subseteq> fst ` set (fd_federates s)" and c: "connected s"
  shows "connected s'"
  unfolding connected_def
proof
  fix h
  assume "h \<in> fst ` set (fd_federates s')"
  then have "h \<in> fst ` set (fd_federates s)" using sub by (rule rev_subsetD)
  then have "\<exists>l. link_of s h = Inr l" by (rule bspec [OF c [unfolded connected_def]])
  then show "\<exists>l. link_of s' h = Inr l" by (simp add: link_of_def assms(1,2))
qed

lemma the_link_cong: "fd_server s' = fd_server s \<Longrightarrow> fd_sockets s' = fd_sockets s \<Longrightarrow> the_link s' = the_link s"
  by (rule ext) (simp add: the_link_def link_of_def)

lemma respondToAll_connected:
  "connected s \<Longrightarrow> respondToAll m x s = (Inr [event (map (the_link s) (filter (\<lambda>h. h \<noteq> x) (handles_of s))) m], s)"
  by (simp add: respondToAll_run links_of_connected handles_of_def)

lemma handles_of_update [fed_simps]:
  "handles_of (s\<lparr>fd_federates := om_map g (fd_federates s)\<rparr>) = handles_of s"
  "handles_of (s\<lparr>fd_labels := ls\<rparr>) = handles_of s"
  by (simp_all add: handles_of_def om_simps)

section \<open>The invariant\<close>

definition fed_ok :: "'r federation \<Rightarrow> bool" where
  "fed_ok s \<longleftrightarrow> om_ok (fd_federates s) \<and> om_ok (fd_labels s) \<and> hm_ok 1 (fd_handles s)
     \<and> (\<forall>(h, f) \<in> set (fd_federates s). 1 \<le> h \<and> h < highest (fd_handles s))
     \<and> inj_on (\<lambda>e. f_name (snd e)) (set (fd_federates s))"

lemma fed_ok_new: "federation_new n h ss ro l0 mom = Inr s \<Longrightarrow> fed_ok s"
  by (auto simp: federation_new_def fed_ok_def hm_ok_new split: if_splits sum.splits)

text \<open>A member function that keeps the name of its federate keeps the invariant.\<close>

lemma fed_ok_om_map:
  assumes "fed_ok s" "\<And>h f. f_name (g h f) = f_name f"
  shows "fed_ok (s\<lparr>fd_federates := om_map g (fd_federates s)\<rparr>)"
proof -
  have mem: "(h, f) \<in> set (om_map g (fd_federates s)) \<longleftrightarrow> (\<exists>f'. (h, f') \<in> set (fd_federates s) \<and> f = g h f')" for h f
    by (force simp: om_map_def)
  have "inj_on (\<lambda>e. f_name (snd e)) (set (om_map g (fd_federates s)))"
  proof (rule inj_onI)
    fix x y
    assume a: "x \<in> set (om_map g (fd_federates s))" "y \<in> set (om_map g (fd_federates s))"
      "f_name (snd x) = f_name (snd y)"
    obtain f f' where f: "(fst x, f) \<in> set (fd_federates s)" "snd x = g (fst x) f"
      "(fst y, f') \<in> set (fd_federates s)" "snd y = g (fst y) f'"
      using a(1,2) mem by (metis prod.collapse)
    then have "f_name f = f_name f'" using a(3) assms(2) by simp
    then have "(fst x, f) = (fst y, f')"
      using assms(1) f(1,3) unfolding fed_ok_def by (elim conjE inj_onD) auto
    then show "x = y" using f by (simp add: prod_eq_iff)
  qed
  then show ?thesis using assms(1) by (auto simp: fed_ok_def om_simps mem)
qed

lemma no_zero_handle: "fed_ok s \<Longrightarrow> filter (\<lambda>h. h \<noteq> 0) (handles_of s) = handles_of s"
  by (force simp: fed_ok_def handles_of_def filter_id_conv)

text \<open>The state keeps what the broadcasts depend on.\<close>

definition same_links :: "'r federation \<Rightarrow> 'r federation \<Rightarrow> bool" where
  "same_links s s' \<longleftrightarrow> fd_handle s' = fd_handle s \<and> fd_server s' = fd_server s \<and> fd_sockets s' = fd_sockets s
     \<and> handles_of s' = handles_of s"

lemma same_links_trans: "same_links a b \<Longrightarrow> same_links b c \<Longrightarrow> same_links a c"
  by (simp add: same_links_def)

lemma same_links_connected: "same_links s s' \<Longrightarrow> connected s \<Longrightarrow> connected s'"
proof -
  assume a: "same_links s s'" "connected s"
  have "fst ` set (fd_federates s') = fst ` set (fd_federates s)"
    using a(1) by (metis handles_of_def list.set_map same_links_def)
  then show "connected s'"
    using a by (intro connected_cong [of s' s]) (simp_all add: same_links_def)
qed

lemma same_linksD:
  assumes "same_links s s'"
  shows "fd_handle s' = fd_handle s" "the_link s' = the_link s" "handles_of s' = handles_of s"
  using assms the_link_cong [of s' s] unfolding same_links_def by blast+

text \<open>An event for all the federates.\<close>

definition to_all :: "'r federation \<Rightarrow> network_message \<Rightarrow> message_event" where
  "to_all s m = event (map (the_link s) (handles_of s)) m"

lemma respondToAll_all: "fed_ok s \<Longrightarrow> connected s \<Longrightarrow> respondToAll m 0 s = (Inr [to_all s m], s)"
  by (simp add: respondToAll_connected to_all_def no_zero_handle)

lemma same_links_events:
  assumes "same_links s s'"
  shows "to_all s' = to_all s" "fed_message s' = fed_message s"
proof -
  show "to_all s' = to_all s" by (rule ext) (simp add: to_all_def same_linksD [OF assms])
  show "fed_message s' = fed_message s" by (intro ext) (simp add: fed_message_def same_linksD [OF assms])
qed

section \<open>An example\<close>

text \<open>Two federates, joined on the sockets 7 and 8.\<close>

definition demo_federate :: "federate_handle \<Rightarrow> string \<Rightarrow> federate" where
  "demo_federate h n = \<lparr>f_handle = h, f_name = n, f_type = n, f_version = HLA_1_3, f_regulator = False,
     f_constrained = False, f_usingNERx = False, f_lastNERx = Fin 0, f_cras = True, f_iras = True, f_aras = False,
     f_asas = False, f_regionSets = False, f_producing = False, f_serviceReporting = False,
     f_exceptionReporting = False, f_saving = False, f_restoring = False, f_labels = []\<rparr>"

definition demo_tuple :: "federate_handle \<Rightarrow> socket \<Rightarrow> socket_tuple" where
  "demo_tuple h fd = \<lparr>st_federation = 1, st_federate = h, st_reliable = Some fd, st_bestEffort = Some 3, st_peer = None\<rparr>"

definition demo_federation :: "unit federation" where
  "demo_federation = \<lparr>fd_handle = 1, fd_name = ''demo'',
     fd_server = \<lparr>sec_federation = 1, sec_levels = [], sec_last = 0, sec_federates = [], sec_mom = 99\<rparr>,
     fd_sockets = \<lparr>ss_tuples = [demo_tuple 1 7, demo_tuple 2 8], ss_udp = 3\<rparr>, fd_root = (), fd_min_NERx = Fin 0,
     fd_federates = [(1, demo_federate 1 ''a''), (2, demo_federate 2 ''b'')],
     fd_regulators = lbts_new, fd_labels = [], fd_handles = (handle_manager_new 1)\<lparr>highest := 3\<rparr>,
     fd_objects = handle_manager_new 1, fd_saving = False, fd_restoring = False, fd_save_status = True,
     fd_restore_status = True, fd_save_label = [], fd_auto_provide = False\<rparr>"

definition demo_fom :: fom where
  "demo_fom = \<lparr>fom_spaces = [], fom_classes = [], fom_interactions = []\<rparr>"

lemma demo_federation_ok: "fed_ok demo_federation" "connected demo_federation"
proof -
  show "fed_ok demo_federation"
    by (auto simp: fed_ok_def demo_federation_def om_ok_def hm_ok_def handle_manager_new_def demo_federate_def)
  show "connected demo_federation"
    by (simp add: connected_def demo_federation_def link_of_def sec_getSocketLink_def getSocketLink_def
        getWithReferences_def refers_def demo_tuple_def)
qed

end
