(* ===== verification/RtigProperties.thy ===== *)
theory RtigProperties
  imports Rtig FederationFrame FederationLemmas
begin

text \<open>
  What the RTIG keeps whatever it is sent: the federations do not touch each other, and its state stays
  well formed. Each fact is proved for the two ways in which the RTIG changes its federations, a call
  of a federation and the log of what is written, and carried over to the handlers.
\<close>

section \<open>Handlers that act on one federation\<close>

lemma on_federation_run [act_simps]:
  "on_federation fn m s = (case map_of (rt_federations s) fn of
       None \<Rightarrow> (Inl FederationExecutionDoesNotExist, s)
     | Some f \<Rightarrow> (fst (m (f\<lparr>fd_sockets := rt_sockets s\<rparr>)),
         let g = snd (m (f\<lparr>fd_sockets := rt_sockets s\<rparr>)) in
         s\<lparr>rt_sockets := fd_sockets g,
           rt_sent := rt_sent s @ ro_sent (fd_root g),
           rt_federations := om_put fn (g\<lparr>fd_root := (fd_root g)\<lparr>ro_sent := []\<rparr>\<rparr>) (rt_federations s)\<rparr>))"
  by (simp add: on_federation_def Let_def split: option.split prod.split)

lemma keeps_then_reply [keeps_intros]: "keeps I f \<Longrightarrow> keeps I (then_reply f e)"
  by (simp add: then_reply_def keeps_intros)

lemma keeps_only_reply [keeps_intros]: "keeps I f \<Longrightarrow> keeps I (only_reply f e)"
  by (simp add: only_reply_def keeps_intros)

text \<open>The handlers of the services, apart from those that name a federation by its name.\<close>

lemmas in_federation_handlers =
  process_resign_def process_switch_def process_regulating_def process_constrained_def process_null_def
  process_time_state_def registration_def registration_broadcast_def process_register_point_def
  process_achieved_def process_request_save_def process_save_begun_def process_save_status_def
  process_request_restore_def process_restore_status_def process_publish_def process_subscribe_def
  process_publish_interaction_def process_subscribe_interaction_def process_reserve_def process_register_def
  process_update_def process_interaction_def process_delete_def process_request_update_def
  process_request_class_update_def process_asynchronous_def process_query_owner_def process_is_owner_def
  process_negotiate_def process_acquire_if_available_def process_divest_def process_acquire_def
  process_cancel_divestiture_def process_release_def process_cancel_acquisition_def
  process_create_region_def process_modify_region_def process_delete_region_def process_associate_def
  process_unassociate_def process_subscribe_region_def process_unsubscribe_region_def
  process_subscribe_interaction_region_def process_unsubscribe_interaction_region_def process_register_region_def

text \<open>
  A predicate that every service of the federation \<open>fn\<close> keeps is kept by the handlers of a message that names
  \<open>fn\<close>. The services keep the identity and the connections of a federation.
\<close>

definition framed :: "(federate_handle \<Rightarrow> msg_body \<Rightarrow> (root, 'a) fed_action) \<Rightarrow> bool" where
  "framed f \<longleftrightarrow> (\<forall>fed b g. keeps (anchored g) (f fed b))"

lemma framedI: "(\<And>fed b g. keeps (anchored g) (f fed b)) \<Longrightarrow> framed f"
  by (simp add: framed_def)

lemma keeps_process_service:
  assumes calls:
    "\<And>(f :: federate_handle \<Rightarrow> msg_body \<Rightarrow> (root, unit) fed_action). framed f \<Longrightarrow> keeps I (in_federation m f)"
    "\<And>(f :: federate_handle \<Rightarrow> msg_body \<Rightarrow> (root, bool) fed_action). framed f \<Longrightarrow> keeps I (in_federation m f)"
    "\<And>(f :: federate_handle \<Rightarrow> msg_body \<Rightarrow> (root, responses) fed_action). framed f \<Longrightarrow> keeps I (in_federation m f)"
    "\<And>(f :: federate_handle \<Rightarrow> msg_body \<Rightarrow> (root, object_handle \<times> responses) fed_action). framed f \<Longrightarrow> keeps I (in_federation m f)"
    "\<And>(f :: federate_handle \<Rightarrow> msg_body \<Rightarrow> (root, attribute_handle list) fed_action). framed f \<Longrightarrow> keeps I (in_federation m f)"
    "\<And>(f :: federate_handle \<Rightarrow> msg_body \<Rightarrow> (root, region_handle) fed_action). framed f \<Longrightarrow> keeps I (in_federation m f)"
    and k: "k \<noteq> DESTROY_FEDERATION_EXECUTION"
  shows "keeps I (process_service w l m k)"
  using k by (cases k)
    (simp_all only: process_service_def service.case in_federation_handlers not_False_eq_True simp_thms,
     (intro keeps_intros calls framedI frame_intros)+)

text \<open>The messages that name a federation by its name, not by its handle.\<close>

definition names_federation :: "network_message \<Rightarrow> bool" where
  "names_federation m \<longleftrightarrow> nm_kind m \<in> {CREATE_FEDERATION_EXECUTION, JOIN_FEDERATION_EXECUTION, Service DESTROY_FEDERATION_EXECUTION}"

lemma keeps_processEvent:
  assumes calls:
    "\<And>m' (f :: federate_handle \<Rightarrow> msg_body \<Rightarrow> (root, unit) fed_action). nm_federation m' = nm_federation m \<Longrightarrow> framed f \<Longrightarrow> keeps I (in_federation m' f)"
    "\<And>m' (f :: federate_handle \<Rightarrow> msg_body \<Rightarrow> (root, bool) fed_action). nm_federation m' = nm_federation m \<Longrightarrow> framed f \<Longrightarrow> keeps I (in_federation m' f)"
    "\<And>m' (f :: federate_handle \<Rightarrow> msg_body \<Rightarrow> (root, fed_time) fed_action). nm_federation m' = nm_federation m \<Longrightarrow> framed f \<Longrightarrow> keeps I (in_federation m' f)"
    "\<And>m' (f :: federate_handle \<Rightarrow> msg_body \<Rightarrow> (root, responses) fed_action). nm_federation m' = nm_federation m \<Longrightarrow> framed f \<Longrightarrow> keeps I (in_federation m' f)"
    "\<And>m' (f :: federate_handle \<Rightarrow> msg_body \<Rightarrow> (root, object_handle \<times> responses) fed_action). nm_federation m' = nm_federation m \<Longrightarrow> framed f \<Longrightarrow> keeps I (in_federation m' f)"
    "\<And>m' (f :: federate_handle \<Rightarrow> msg_body \<Rightarrow> (root, attribute_handle list) fed_action). nm_federation m' = nm_federation m \<Longrightarrow> framed f \<Longrightarrow> keeps I (in_federation m' f)"
    "\<And>m' (f :: federate_handle \<Rightarrow> msg_body \<Rightarrow> (root, region_handle) fed_action). nm_federation m' = nm_federation m \<Longrightarrow> framed f \<Longrightarrow> keeps I (in_federation m' f)"
    and named: "\<not> names_federation m"
  shows "keeps I (processEvent w l m)"
proof -
  have anon: "nm_federation (anonymous_null (nm_federation m) t) = nm_federation m" for t
    by (simp add: anonymous_null_def message_defs)
  have srv: "keeps I (process_service w l m k)" if "k \<noteq> DESTROY_FEDERATION_EXECUTION" for k
    using that by (intro keeps_process_service calls refl)
  have prime: "keeps I (process_null_prime m)"
    unfolding process_null_prime_def process_null_def
    by (intro keeps_intros calls framedI frame_intros) (simp_all add: anon)
  have others: "keeps I (process_null False m)" "keeps I (process_resign m)" "keeps I (process_regulating m)"
    "keeps I (process_constrained m)" "keeps I (process_divest m)" "keeps I (process_time_state m)"
    unfolding in_federation_handlers by (intro keeps_intros calls framedI frame_intros; simp)+
  show ?thesis
    using named by (cases "nm_kind m") (simp_all add: processEvent_def srv prime others names_federation_def keeps_throw)
qed

lemma keeps_write_to:
  assumes "\<And>s x. I s \<Longrightarrow> I (s\<lparr>rt_sent := rt_sent s @ x\<rparr>)"
  shows "keeps I (write_to w m ls)"
  by (induction w m ls rule: write_to.induct) (auto intro!: keeps_intros keeps_modify assms)

lemma keeps_send_responses:
  assumes "\<And>s x. I s \<Longrightarrow> I (s\<lparr>rt_sent := rt_sent s @ x\<rparr>)"
  shows "keeps I (send_responses w rs)"
  unfolding send_responses_def send_event_def
  by (intro keeps_intros keeps_write_to assms)

section \<open>Federations do not touch each other\<close>

definition untouched :: "federation_handle \<Rightarrow> root federation option \<Rightarrow> rtig \<Rightarrow> bool" where
  "untouched g X s \<longleftrightarrow> map_of (rt_federations s) g = X"

lemma untouched_in_federation:
  assumes "nm_federation m \<noteq> g"
  shows "keeps (untouched g X) (in_federation m f)"
  using assms by (auto intro!: keepsI simp: in_federation_def untouched_def act_simps om_simps Let_def split: option.splits)

lemma untouched_processEvent:
  assumes "nm_federation m \<noteq> g" "\<not> names_federation m"
  shows "keeps (untouched g X) (processEvent w l m)"
  using assms by (intro keeps_processEvent untouched_in_federation) simp_all

text \<open>The name in a request to create, join or destroy a federation.\<close>

definition requested_name :: "network_message \<Rightarrow> string" where
  "requested_name m = (case nm_body m of
     JoinRequest n _ _ _ _ _ _ \<Rightarrow> if nm_kind m = JOIN_FEDERATION_EXECUTION then n else [] | b \<Rightarrow> nm_getName b)"

definition addressed :: "network_message \<Rightarrow> rtig \<Rightarrow> federation_handle \<Rightarrow> bool" where
  "addressed m s g \<longleftrightarrow> (if names_federation m then getFederationHandle (requested_name m) s = Inr g else nm_federation m = g)"

lemma untouched_createFederation: "keeps (untouched g (Some f)) (createFederation w n h modules mim v)"
  unfolding createFederation_def
  by (intro keeps_intros keeps_modify) (auto simp: untouched_def om_simps split: option.splits)

lemma untouched_on_federation_handles: "keeps (untouched g X) (with_federation_handles a)"
  unfolding with_federation_handles_def by (rule keeps_on_field) (simp add: untouched_def)

lemma untouched_process_create: "keeps (untouched g (Some f)) (process_create w l m)"
  unfolding process_create_def
  by (cases "nm_body m") (simp_all add: keeps_intros untouched_createFederation untouched_on_federation_handles)

lemma untouched_process_join:
  assumes "untouched g X s" "nm_kind m = JOIN_FEDERATION_EXECUTION" "getFederationHandle (requested_name m) s \<noteq> Inr g"
  shows "untouched g X (snd (process_join w l m s))"
  using assms by (cases "nm_body m")
    (auto simp: process_join_def requested_name_def untouched_def act_simps om_simps Let_def split: option.splits sum.splits prod.splits)

lemma untouched_process_destroy:
  assumes "untouched g X s" "nm_kind m \<noteq> JOIN_FEDERATION_EXECUTION" "getFederationHandle (requested_name m) s \<noteq> Inr g"
  shows "untouched g X (snd (process_destroy l m s))"
proof -
  have "requested_name m = nm_getName (nm_body m)"
    using assms(2) by (cases "nm_body m") (simp_all add: requested_name_def)
  with assms show ?thesis
    by (auto simp: process_destroy_def destroyFederation_def with_federation_handles_def untouched_def act_simps om_simps
      Let_def split: option.splits sum.splits prod.splits)
qed

lemma addressed_untouched:
  assumes "untouched g (Some f) s" "\<not> addressed m s g"
  shows "untouched g (Some f) (snd (processEvent w l m s))"
proof (cases "names_federation m")
  case False
  then show ?thesis
    using keeps_snd [OF untouched_processEvent] assms by (simp add: addressed_def)
next
  case True
  then have "getFederationHandle (requested_name m) s \<noteq> Inr g" using assms(2) by (simp add: addressed_def)
  with True assms(1) show ?thesis
    by (auto simp: names_federation_def processEvent_def process_service_def untouched_process_join untouched_process_destroy
        keeps_snd [OF untouched_process_create])
qed

lemma untouched_closeConnection: "keeps (untouched g X) (closeConnection w l False)"
  unfolding closeConnection_def with_connections_def if_False
  by (intro keeps_intros keeps_on_field) (simp add: untouched_def)

text \<open>
  C10. Federations do not touch each other. Handling a message, whatever its type and its outcome, leaves every
  federation as it is but the one that the message addresses, by its handle or, in a request to create, join or
  destroy a federation, by its name.
\<close>

theorem federations_apart:
  assumes "map_of (rt_federations s) g = Some f" "\<not> addressed m s g"
  shows "map_of (rt_federations (snd (processIncomingMessage w l m s))) g = Some f"
proof -
  have s: "untouched g (Some f) s" using assms(1) by (simp add: untouched_def)
  have log: "untouched g (Some f) (t\<lparr>rt_sent := rt_sent t @ x\<rparr>)" if "untouched g (Some f) t" for t x
    using that by (simp add: untouched_def)
  have send: "keeps (untouched g (Some f)) (seq (send_responses w rs) (ret (Some l)))" for rs
    by (intro keeps_intros keeps_send_responses log)
  have event: "untouched g (Some f) (snd (bind (processEvent w l m) (\<lambda>rs. seq (send_responses w rs) (ret (Some l))) s))"
    using addressed_untouched [OF s assms(2), of w l] keeps_snd [OF send]
    by (auto simp: bind_run split: prod.splits sum.splits)
  have exn: "keeps (untouched g (Some f)) (seq (write_to w (exception_answer m e) [Some l]) (ret (Some l)))" for e
    by (intro keeps_intros keeps_write_to log)
  have close: "untouched g (Some f) (snd (seq (closeConnection w l False) (ret None) s))"
    using keeps_snd [OF keeps_seq [OF untouched_closeConnection keeps_ret] s] .
  let ?body = "seq (if nm_kind m \<noteq> Service DESTROY_FEDERATION_EXECUTION
             then bind (gets (\<lambda>s. checkMessage l m (rt_sockets s))) lift_sum else ret ())
         (if nm_kind m = Service CLOSE_CONNEXION then seq (closeConnection w l False) (ret None)
          else bind (processEvent w l m) (\<lambda>rs. seq (send_responses w rs) (ret (Some l))))"
  have "untouched g (Some f) (snd (?body s))"
    using event close s by (auto simp: seq_run [of "if _ then _ else _"] bind_run [of "gets _"] act_simps(5) gets_run ret_run lift_sum_run
        split: sum.splits prod.splits)
  then have "untouched g (Some f) (snd (processIncomingMessage w l m s))"
    unfolding processIncomingMessage_def
    using keeps_snd [OF exn] by (auto simp: catch_run split: prod.splits sum.splits)
  then show ?thesis by (simp add: untouched_def)
qed

section \<open>The well-formed states of the RTIG\<close>

text \<open>
  Every federation is stored under its own handle, which is not null and has been provided, its security server
  works for this handle, no two federations have the same name, and a connection refers to a federate exactly
  if it refers to a federation.
\<close>

definition federation_wf :: "handle \<Rightarrow> federation_handle \<times> root federation \<Rightarrow> bool" where
  "federation_wf n e \<longleftrightarrow> valid_handle (fst e) \<and> fst e < n \<and> fd_handle (snd e) = fst e
     \<and> sec_federation (fd_server (snd e)) = fst e \<and> fd_name (snd e) \<noteq> []"

definition rt_ok :: "rtig \<Rightarrow> bool" where
  "rt_ok s \<longleftrightarrow> om_ok (rt_federations s) \<and> hm_ok 1 (rt_handles s) \<and> references_ok (rt_sockets s)
     \<and> (\<forall>e \<in> set (rt_federations s). federation_wf (highest (rt_handles s)) e)
     \<and> distinct (map (\<lambda>e. fd_name (snd e)) (rt_federations s))"

lemma rt_ok_new: "rt_ok (rtig_new udp)"
  by (simp add: rt_ok_def rtig_new_def hm_ok_new references_ok_def socket_server_new_def)

lemma rt_ok_lookup: "rt_ok s \<Longrightarrow> map_of (rt_federations s) fn = Some f \<Longrightarrow> federation_wf (highest (rt_handles s)) (fn, f)"
  using map_of_SomeD by (fastforce simp: rt_ok_def)

text \<open>Replacing a federation by one of the same identity.\<close>

lemma rt_ok_replace:
  assumes "rt_ok s" "map_of (rt_federations s) fn = Some f" "references_ok ss"
    and "fd_handle g = fd_handle f" "fd_name g = fd_name f" "fd_server g = fd_server f"
  shows "rt_ok (s\<lparr>rt_sockets := ss, rt_sent := x, rt_federations := om_put fn g (rt_federations s)\<rparr>)"
proof -
  let ?u = "\<lambda>k v. if k = fn then g else v"
  have om: "om_ok (rt_federations s)" using assms(1) by (simp add: rt_ok_def)
  have put: "om_put fn g (rt_federations s) = om_map ?u (rt_federations s)"
    using om assms(2) by (intro om_put_present) (auto dest: map_of_SomeD intro: image_eqI [rotated])
  have f: "v = f" if "(fn, v) \<in> set (rt_federations s)" for v
    using om_ok_map_of [OF om, of fn v] that assms(2) by simp
  have "map (\<lambda>e. fd_name (snd e)) (om_map ?u (rt_federations s)) = map (\<lambda>e. fd_name (snd e)) (rt_federations s)"
    using f assms(5) by (auto simp: om_map_def)
  moreover have "federation_wf n e"
    if new: "e \<in> set (om_map ?u (rt_federations s))" and old: "\<forall>e \<in> set (rt_federations s). federation_wf n e" for n e
  proof -
    obtain x where e: "x \<in> set (rt_federations s)" "e = (fst x, ?u (fst x) (snd x))"
      using new by (auto simp: om_map_def)
    then have "federation_wf n x" "fst x = fn \<Longrightarrow> snd x = f" using old f [of "snd x"] by (auto simp: prod_eq_iff)
    then show ?thesis using e assms(4-6) by (cases "fst x = fn") (simp_all add: federation_wf_def)
  qed
  ultimately show ?thesis
    using assms(1,3) unfolding rt_ok_def put by (auto simp: om_simps)
qed

lemma rt_ok_log: "rt_ok s \<Longrightarrow> rt_ok (s\<lparr>rt_sent := x\<rparr>)"
  by (simp add: rt_ok_def)

lemma rt_ok_on_federation:
  assumes "\<And>f. valid_handle (fd_handle f) \<Longrightarrow> keeps (identified f) m"
  shows "keeps rt_ok (on_federation fn m)"
proof (rule keepsI)
  fix s
  assume s: "rt_ok s"
  show "rt_ok (snd (on_federation fn m s))"
  proof (cases "map_of (rt_federations s) fn")
    case None
    then show ?thesis using s by (simp add: act_simps)
  next
    case (Some f)
    let ?f = "f\<lparr>fd_sockets := rt_sockets s\<rparr>" let ?g = "snd (m ?f)"
    have "valid_handle (fd_handle ?f)" using rt_ok_lookup [OF s Some] by (simp add: federation_wf_def)
    then have "identified ?f ?g" using assms keeps_snd by fastforce
    moreover have "references_ok (rt_sockets s)" using s by (simp add: rt_ok_def)
    ultimately show ?thesis
      using rt_ok_replace [OF s Some, of "fd_sockets ?g" "?g\<lparr>fd_root := (fd_root ?g)\<lparr>ro_sent := []\<rparr>\<rparr>"] Some
      by (simp add: act_simps Let_def identified_def)
  qed
qed

lemma rt_ok_in_federation: "framed f \<Longrightarrow> keeps rt_ok (in_federation m f)"
  unfolding in_federation_def framed_def by (intro rt_ok_on_federation keeps_identified) simp

lemma rt_ok_provide:
  assumes "rt_ok s" "provide (rt_handles s) = (Inr h, hm)"
  shows "rt_ok (s\<lparr>rt_handles := hm\<rparr>) \<and> valid_handle h \<and> h < highest hm \<and> map_of (rt_federations s) h = None"
proof -
  have hm: "h = highest (rt_handles s)" "h < highest hm" "hm_ok 1 hm" "hm_ok 1 (rt_handles s)"
    using provide_ok [of 1, OF _ assms(2)] assms(1) by (auto simp: rt_ok_def)
  have "federation_wf (highest hm) e" if "federation_wf (highest (rt_handles s)) e" for e
    using that hm by (auto simp: federation_wf_def)
  moreover have "map_of (rt_federations s) h = None"
    using rt_ok_lookup [OF assms(1), of h] hm(1) by (cases "map_of (rt_federations s) h") (auto simp: federation_wf_def)
  moreover have "valid_handle h" using hm(1,4) by (auto simp: hm_ok_def valid_handle_def)
  ultimately show ?thesis using assms(1) hm by (auto simp: rt_ok_def)
qed

lemma rt_ok_insert:
  assumes "rt_ok s" "map_of (rt_federations s) h = None" "federation_wf (highest (rt_handles s)) (h, f)"
    and "getFederationHandle (fd_name f) s = Inl x"
  shows "rt_ok (s\<lparr>rt_federations := om_put h f (rt_federations s)\<rparr>)"
proof -
  have put: "distinct (map (\<lambda>e. fd_name (snd e)) (om_put h f m))
      \<and> set (map (\<lambda>e. fd_name (snd e)) (om_put h f m)) = insert (fd_name f) (set (map (\<lambda>e. fd_name (snd e)) m))"
    if "map_of m h = None" "distinct (fd_name f # map (\<lambda>e. fd_name (snd e)) m)" for m
    using that by (induction m) (auto split: if_splits)
  have "fd_name f \<notin> set (map (\<lambda>e. fd_name (snd e)) (rt_federations s))"
    using assms(4) by (fastforce simp: getFederationHandle_def find_None_iff split: option.splits)
  then have "distinct (map (\<lambda>e. fd_name (snd e)) (om_put h f (rt_federations s)))"
    using put [OF assms(2)] assms(1) by (simp add: rt_ok_def)
  moreover have "\<forall>e \<in> set (om_put h f (rt_federations s)). federation_wf (highest (rt_handles s)) e"
    using set_om_put_subset [of h f "rt_federations s"] assms(1,3) by (auto simp: rt_ok_def)
  ultimately show ?thesis using assms(1) by (auto simp: rt_ok_def om_simps)
qed

lemma constructed_identity:
  assumes "constructed w n h ss modules mim v = Inr f"
  shows "fd_handle f = h \<and> fd_name f = n \<and> sec_federation (fd_server f) = h"
  using assms by (auto simp: constructed_def ebind_Inr federation_new_def security_server_new_def with_root_def act_simps
      split: if_splits sum.splits prod.splits)

lemma rt_ok_process_create: "keeps rt_ok (process_create w l m)"
proof (rule keepsI)
  fix s
  assume s: "rt_ok s"
  show "rt_ok (snd (process_create w l m s))"
  proof (cases "nm_body m")
    case (CreationOf n modules mim v)
    show ?thesis
    proof (cases "provide (rt_handles s)")
      case (Pair r hm)
      show ?thesis
      proof (cases r)
        case (Inl e)
        then have "hm = rt_handles s"
          using Pair provide_run [of "rt_handles s"] s by (auto simp: rt_ok_def hm_ok_def split: if_splits)
        then show ?thesis using Pair Inl CreationOf s by (simp add: process_create_def with_federation_handles_def act_simps)
      next
        case (Inr h)
        let ?s = "s\<lparr>rt_handles := hm\<rparr>"
        have ok: "rt_ok ?s" "valid_handle h" "h < highest hm" "map_of (rt_federations s) h = None"
          using rt_ok_provide [OF s] Pair Inr by auto
        have put: "rt_ok (?s\<lparr>rt_federations := om_put h f (rt_federations ?s)\<rparr>)"
          if "n \<noteq> []" "getFederationHandle n ?s = Inl x" "constructed w n h ss modules mim v = Inr f" for x f ss
          using rt_ok_insert [OF ok(1), of h f x] constructed_identity [OF that(3)] that ok by (simp add: federation_wf_def)
        have "rt_ok (snd (createFederation w n h modules mim v ?s))"
          using put ok by (cases "getFederationHandle n ?s") (auto simp: createFederation_def act_simps split: sum.splits)
        then show ?thesis
          using CreationOf Pair Inr
          by (auto simp: process_create_def with_federation_handles_def act_simps split: sum.splits prod.splits)
      qed
    qed
  qed (simp_all add: process_create_def act_simps s)
qed

lemma rt_ok_process_join: "keeps rt_ok (process_join w l m)"
  unfolding process_join_def
  by (cases "nm_body m") (simp_all add: keeps_intros rt_ok_on_federation identified_add)

lemma rt_ok_erase: "rt_ok s \<Longrightarrow> rt_ok (s\<lparr>rt_federations := om_erase fn (rt_federations s)\<rparr>)"
  by (auto simp: rt_ok_def om_erase_ok) (auto simp: om_erase_def distinct_map_filter)

lemma rt_ok_process_destroy: "keeps rt_ok (process_destroy l m)"
  unfolding process_destroy_def destroyFederation_def with_federation_handles_def
  by (intro keeps_intros rt_ok_on_federation keeps_identified keeps_modify rt_ok_erase)
    (auto simp: keeps_def act_simps)

lemma rt_ok_processEvent: "keeps rt_ok (processEvent w l m)"
proof (cases "names_federation m")
  case True
  then show ?thesis
    by (auto simp: names_federation_def processEvent_def process_service_def rt_ok_process_create rt_ok_process_join rt_ok_process_destroy)
qed (intro keeps_processEvent rt_ok_in_federation)

lemma rt_ok_closeConnection: "keeps rt_ok (closeConnection w l b)"
proof -
  have "keeps rt_ok (with_connections (ss_close l))"
    using ss_close_ok by (auto intro!: keepsI simp: with_connections_def act_simps rt_ok_def split: prod.splits) (metis snd_conv)
  then show ?thesis
    unfolding closeConnection_def rt_killFederate_def
    by (intro keeps_intros keeps_send_responses rt_ok_log rt_ok_on_federation keeps_identified frame_intros)
qed

lemma rt_ok_processIncomingMessage: "keeps rt_ok (processIncomingMessage w l m)"
  unfolding processIncomingMessage_def
  by (intro keeps_intros rt_ok_closeConnection rt_ok_processEvent keeps_send_responses keeps_write_to rt_ok_log)

lemma rt_ok_serve: "keeps rt_ok (serve w i)"
proof (cases i)
  case (Connecting l peer)
  have "keeps rt_ok (with_connections (ss_open l peer))"
    using ss_open_ok by (auto intro!: keepsI simp: with_connections_def act_simps rt_ok_def split: prod.splits) (metis snd_conv)
  then show ?thesis by (simp add: serve_def openConnection_def Connecting)
qed (simp_all add: serve_def keeps_intros rt_ok_processIncomingMessage rt_ok_closeConnection)

text \<open>
  C13. The RTIG stays well formed, whatever it receives and whatever the code outside does: every federation is
  stored under its own valid handle, handles and names are distinct, its security server works for it, and each
  connection refers to a federate exactly if it refers to a federation.
\<close>

theorem rtig_well_formed: "rt_ok (snd (execute w inputs (rtig_new udp)))"
  unfolding execute_def by (intro keeps_snd [of rt_ok] keeps_for_each rt_ok_serve rt_ok_new)

section \<open>A run of the RTIG\<close>

definition demo_world :: surroundings where
  "demo_world = \<lparr>w_openFomModules = (\<lambda>_ _. ret ()), w_saveXmlData = True, w_saved = (\<lambda>_. None),
     w_axis = \<lparr>axisLowerBound = 0, axisUpperBound = 100\<rparr>, w_last_level = 0, w_mom = 99, w_broken = (\<lambda>_. False)\<rparr>"

definition demo_create :: "string \<Rightarrow> network_message" where
  "demo_create n = new_message CREATE_FEDERATION_EXECUTION (CreationOf n [''fom''] [] HLA_1_3)"

definition demo_join :: "string \<Rightarrow> string \<Rightarrow> network_message" where
  "demo_join n f = new_message JOIN_FEDERATION_EXECUTION (JoinRequest n f ''type'' [] HLA_1_3 0 0)"

text \<open>Two federations, with the federates \<open>a\<close> and \<open>b\<close> and the federate \<open>c\<close>.\<close>

definition demo_inputs :: "input list" where
  "demo_inputs = [Connecting 70 None, Connecting 80 None, Connecting 90 None,
     Incoming 70 (demo_create ''F''), Incoming 90 (demo_create ''G''),
     Incoming 70 (demo_join ''F'' ''a''), Incoming 80 (demo_join ''F'' ''b''), Incoming 90 (demo_join ''G'' ''c'')]"

definition demo_rtig :: rtig where
  "demo_rtig = snd (execute demo_world demo_inputs (rtig_new 3))"

definition demo_resign :: network_message where
  "demo_resign = setFederate 1 (setFederation 1 (new_message RESIGN_FEDERATION_EXECUTION NoBody))"

theorem federations_apart_witness:
  "\<exists>f. map_of (rt_federations demo_rtig) 2 = Some f
     \<and> map_of (rt_federations (snd (processIncomingMessage demo_world 70 demo_resign demo_rtig))) 2 = Some f"
proof -
  have "map_of (rt_federations demo_rtig) 2 \<noteq> None" by code_simp
  then obtain f where f: "map_of (rt_federations demo_rtig) 2 = Some f" by auto
  have "\<not> addressed demo_resign demo_rtig 2" by code_simp
  then show ?thesis using federations_apart [OF f, of demo_resign] f by blast
qed

end
