(* ===== verification/WireRegions.thy ===== *)
theory WireRegions
  imports WireProperties RtigProperties
begin

text \<open>
  The modification of a region from the RTIA to the RTIG: what the message loses on its way.
\<close>

section \<open>The request of the RTIA\<close>

text \<open>The request that \<open>DataDistribution::modifyRegion\<close> of the RTIA builds.\<close>

definition modification_request :: "federation_handle \<Rightarrow> federate_handle \<Rightarrow> region_handle \<Rightarrow> (32 word \<times> 32 word) list list \<Rightarrow> wire_message" where
  "modification_request fn fed r es = (wire_message_new (type_code (Of (Service DDM_MODIFY_REGION))))
     \<lparr>wm_federation := fn, wm_federate := fed, bm_extents := es, wm_fields := [VVector [], VBool False, VU32 r]\<rparr>"

text \<open>What the RTIG reads from the message: \<open>getFederation\<close>, \<open>getFederate\<close>, \<open>getRegion\<close> and \<open>getExtents\<close>.\<close>

definition modification_read :: "wire_message \<Rightarrow> network_message" where
  "modification_read w = setFederation (wm_federation w) (setFederate (wm_federate w) (new_message (Service DDM_MODIFY_REGION)
     (ExtentsOf (case wm_fields w of [_, _, VU32 r] \<Rightarrow> r | _ \<Rightarrow> 0) (bm_extents w))))"

lemma request_transportable: "transportable NM_DDM_Modify_Region (modification_request fn fed r es)"
proof -
  have "NM_Factory_create (type_code (Of (Service DDM_MODIFY_REGION))) = Inr NM_DDM_Modify_Region" by code_simp
  then show ?thesis
    by (simp add: transportable_def well_typed_def modification_request_def wire_message_new_def short_texts_def NM_DDM_Modify_Region_def message_bytes_def network_bytes_def
        outcome_bytes_def basic_bytes_def option_bytes_def)
qed

lemma request_received:
  "modification_read (as_received (modification_request fn fed r es)) =
     setFederation fn (setFederate fed (new_message (Service DDM_MODIFY_REGION) (ExtentsOf r [])))"
  by (simp add: as_received_def modification_request_def modification_read_def wire_message_new_def)

text \<open>
  C26. A region cannot be modified over the network. Whatever extents the RTIA gives to its request, the RTIG receives none, and for a
  member of the federation and a region that has extents it refuses the request with \<open>InvalidExtents\<close>.
\<close>

theorem region_modification_refused:
  assumes "standing b" "standing (cn_buffer s)"
    and "map_of (rt_federations t) fn = Some f" "map_of (fd_federates f) fed \<noteq> None"
    and "find_region r (ro_regions (fd_root f)) = Some rg" "rg_extents rg \<noteq> []"
  shows "case send rtia_big NM_DDM_Modify_Region (modification_request fn fed r es) b of
      (Inr bytes, _) \<Rightarrow>
        (case NM_Factory_receive rtig_big (s\<lparr>cn_incoming := bytes\<rparr>) of
           (Inr v, _) \<Rightarrow> fst (process_modify_region l (modification_read v) t) = Inl InvalidExtents
         | (Inl e, _) \<Rightarrow> False)
    | (Inl e, _) \<Rightarrow> False"
proof -
  let ?m = "setFederation fn (setFederate fed (new_message (Service DDM_MODIFY_REGION) (ExtentsOf r [])))"
  have fields: "nm_federation ?m = fn" "nm_federate ?m = fed" "nm_body ?m = ExtentsOf r []" by (simp_all add: message_defs)
  have "fst (process_modify_region l ?m t) = Inl InvalidExtents"
    using assms(3-6)
    by (auto simp: process_modify_region_def only_reply_def in_federation_def on_federation_run fields fed_modifyRegion_def modifyRegion_def
        with_root_def on_field_run getRegion_def replaceExtents_def act_simps Let_def)
  moreover obtain bytes b' s' where "send rtia_big NM_DDM_Modify_Region (modification_request fn fed r es) b = (Inr bytes, b')"
    "NM_Factory_receive rtig_big (s\<lparr>cn_incoming := bytes @ []\<rparr>) = (Inr (as_received (modification_request fn fed r es)), s')"
    using message_arrives [OF assms(1,2) request_transportable] by blast
  ultimately show ?thesis by (simp add: request_received)
qed

text \<open>Federate 1 of federation 1 modifies region 1, which has one extent: its new range does not reach the RTIG.\<close>

definition demo_region_rtig :: "root federation \<Rightarrow> rtig" where
  "demo_region_rtig f = demo_rtig\<lparr>rt_federations :=
     [(1, f\<lparr>fd_root := (fd_root f)\<lparr>ro_regions := [\<lparr>rg_handle = 1, rg_space = 1, rg_extents = [[(0, 9)]]\<rparr>]\<rparr>\<rparr>)]\<rparr>"

theorem region_modification_refused_witness:
  "\<exists>f. map_of (rt_federations demo_rtig) 1 = Some f \<and>
     (case send True NM_DDM_Modify_Region (modification_request 1 1 1 [[(2, 5)]]) (message_buffer_new (\<lambda>_. 0)) of
        (Inr bytes, _) \<Rightarrow>
          (case NM_Factory_receive False (\<lparr>cn_buffer = message_buffer_new (\<lambda>_. 0), cn_incoming = []\<rparr>\<lparr>cn_incoming := bytes\<rparr>) of
             (Inr v, _) \<Rightarrow> fst (process_modify_region 70 (modification_read v) (demo_region_rtig f)) = Inl InvalidExtents
           | (Inl e, _) \<Rightarrow> False)
      | (Inl e, _) \<Rightarrow> False)"
proof -
  have "case map_of (rt_federations demo_rtig) 1 of Some f \<Rightarrow> map_of (fd_federates f) 1 \<noteq> None | None \<Rightarrow> False" by code_simp
  then obtain f where f: "map_of (rt_federations demo_rtig) 1 = Some f" "map_of (fd_federates f) 1 \<noteq> None" by (auto split: option.splits)
  let ?rg = "\<lparr>rg_handle = 1, rg_space = 1, rg_extents = [[(0, 9)]]\<rparr>"
  let ?g = "f\<lparr>fd_root := (fd_root f)\<lparr>ro_regions := [?rg]\<rparr>\<rparr>"
  have g: "map_of (rt_federations (demo_region_rtig f)) 1 = Some ?g" by (simp add: demo_region_rtig_def)
  have member: "map_of (fd_federates ?g) 1 \<noteq> None" using f(2) by simp
  have region: "find_region 1 (ro_regions (fd_root ?g)) = Some ?rg" by (simp add: find_region_def)
  have extents: "rg_extents ?rg \<noteq> []" by simp
  have idle: "standing (cn_buffer \<lparr>cn_buffer = message_buffer_new (\<lambda>_. 0), cn_incoming = []\<rparr>)" by (simp add: standing_new)
  show ?thesis
    using f(1) region_modification_refused [OF standing_new [of "\<lambda>_. 0"] idle g member region extents,
      where rtia_big = True and rtig_big = False and es = "[[(2, 5)]]" and l = 70]
    by (intro exI [of _ f] conjI)
qed

end
