(* ===== verification/FederateFormats.thy ===== *)
theory FederateFormats
  imports FieldFormats
begin

text \<open>
  \<open>libCERTI/M_Classes.cc\<close>: the classes of the messages between a federate and its RTIA as the lists of the formats of their
  fields. The loops over the extents of \<open>M_Ddm_Create_Region\<close> and \<open>M_Ddm_Modify_Region\<close> are empty: only their number is sent.
\<close>

definition EventRetraction :: "field_format list" where
  "EventRetraction = [FU32, FU64]"

definition M_Open_Connexion :: "field_format list" where
  "M_Open_Connexion = [FU32, FU32]"

definition M_Create_Federation_Execution :: "field_format list" where
  "M_Create_Federation_Execution = [FString, FString]"

definition M_Create_Federation_Execution_V4 :: "field_format list" where
  "M_Create_Federation_Execution_V4 = [FString, FU8, FVector [FString], FOptional [FString], FOptional [FString]]"

definition M_Destroy_Federation_Execution :: "field_format list" where
  "M_Destroy_Federation_Execution = [FString]"

definition M_Join_Federation_Execution :: "field_format list" where
  "M_Join_Federation_Execution = [FU32, FString, FString]"

definition M_Join_Federation_Execution_V4 :: "field_format list" where
  "M_Join_Federation_Execution_V4 = [FU32, FOptional [FString], FString, FU8, FString, FVector [FString]]"

definition M_Resign_Federation_Execution :: "field_format list" where
  "M_Resign_Federation_Execution = [FU16]"

definition M_Register_Federation_Synchronization_Point :: "field_format list" where
  "M_Register_Federation_Synchronization_Point = [FHandles]"

definition M_Request_Federation_Restore_Failed :: "field_format list" where
  "M_Request_Federation_Restore_Failed = [FString]"

definition M_Initiate_Federate_Restore :: "field_format list" where
  "M_Initiate_Federate_Restore = [FU32]"

definition M_Publish_Object_Class :: "field_format list" where
  "M_Publish_Object_Class = [FU32, FHandles]"

definition M_Unpublish_Object_Class :: "field_format list" where
  "M_Unpublish_Object_Class = [FU32]"

definition M_Publish_Interaction_Class :: "field_format list" where
  "M_Publish_Interaction_Class = [FU32]"

definition M_Unpublish_Interaction_Class :: "field_format list" where
  "M_Unpublish_Interaction_Class = [FU32]"

definition M_Subscribe_Object_Class_Attributes :: "field_format list" where
  "M_Subscribe_Object_Class_Attributes = [FU32, FHandles, FBool]"

definition M_Unsubscribe_Object_Class :: "field_format list" where
  "M_Unsubscribe_Object_Class = [FU32]"

definition M_Subscribe_Interaction_Class :: "field_format list" where
  "M_Subscribe_Interaction_Class = [FU32]"

definition M_Unsubscribe_Interaction_Class :: "field_format list" where
  "M_Unsubscribe_Interaction_Class = [FU32]"

definition M_Start_Registration_For_Object_Class :: "field_format list" where
  "M_Start_Registration_For_Object_Class = [FU32]"

definition M_Stop_Registration_For_Object_Class :: "field_format list" where
  "M_Stop_Registration_For_Object_Class = [FU32]"

definition M_Turn_Interactions_On :: "field_format list" where
  "M_Turn_Interactions_On = [FU32]"

definition M_Turn_Interactions_Off :: "field_format list" where
  "M_Turn_Interactions_Off = [FU32]"

definition M_Register_Object_Instance :: "field_format list" where
  "M_Register_Object_Instance = [FU32, FU32, FOptional [FString]]"

definition M_Update_Attribute_Values :: "field_format list" where
  "M_Update_Attribute_Values = [FU32, FU32, FHandles, FVector [FBytes], FOptional EventRetraction]"

definition M_Discover_Object_Instance :: "field_format list" where
  "M_Discover_Object_Instance = [FU32, FU32, FString, FOptional EventRetraction]"

definition M_Reflect_Attribute_Values :: "field_format list" where
  "M_Reflect_Attribute_Values = [FU32, FU32, FHandles, FVector [FBytes], FOptional EventRetraction]"

definition M_Send_Interaction :: "field_format list" where
  "M_Send_Interaction = [FU32, FHandles, FVector [FBytes], FU32, FOptional EventRetraction]"

definition M_Receive_Interaction :: "field_format list" where
  "M_Receive_Interaction = [FU32, FHandles, FVector [FBytes], FU32, FOptional EventRetraction]"

definition M_Delete_Object_Instance :: "field_format list" where
  "M_Delete_Object_Instance = [FU32, FU32, FString, FOptional EventRetraction]"

definition M_Local_Delete_Object_Instance :: "field_format list" where
  "M_Local_Delete_Object_Instance = [FU32]"

definition M_Remove_Object_Instance :: "field_format list" where
  "M_Remove_Object_Instance = [FU32, FU32, FString, FOptional EventRetraction]"

definition M_Change_Attribute_Transportation_Type :: "field_format list" where
  "M_Change_Attribute_Transportation_Type = [FU8, FU8, FU32, FHandles]"

definition M_Change_Interaction_Transportation_Type :: "field_format list" where
  "M_Change_Interaction_Transportation_Type = [FU32, FU8, FU8]"

definition M_Request_Object_Attribute_Value_Update :: "field_format list" where
  "M_Request_Object_Attribute_Value_Update = [FU32, FHandles]"

definition M_Request_Class_Attribute_Value_Update :: "field_format list" where
  "M_Request_Class_Attribute_Value_Update = [FU32, FHandles]"

definition M_Provide_Attribute_Value_Update :: "field_format list" where
  "M_Provide_Attribute_Value_Update = [FU32, FHandles]"

definition M_Attributes_In_Scope :: "field_format list" where
  "M_Attributes_In_Scope = [FU32, FHandles]"

definition M_Attributes_Out_Of_Scope :: "field_format list" where
  "M_Attributes_Out_Of_Scope = [FU32, FHandles]"

definition M_Turn_Updates_On_For_Object_Instance :: "field_format list" where
  "M_Turn_Updates_On_For_Object_Instance = [FU32, FHandles]"

definition M_Turn_Updates_Off_For_Object_Instance :: "field_format list" where
  "M_Turn_Updates_Off_For_Object_Instance = [FU32, FHandles]"

definition M_Request_Attribute_Ownership_Assumption :: "field_format list" where
  "M_Request_Attribute_Ownership_Assumption = [FU32, FHandles]"

definition M_Negotiated_Attribute_Ownership_Divestiture :: "field_format list" where
  "M_Negotiated_Attribute_Ownership_Divestiture = [FU32, FHandles]"

definition M_Attribute_Ownership_Divestiture_Notification :: "field_format list" where
  "M_Attribute_Ownership_Divestiture_Notification = [FU32, FHandles]"

definition M_Attribute_Ownership_Acquisition_Notification :: "field_format list" where
  "M_Attribute_Ownership_Acquisition_Notification = [FU32, FHandles]"

definition M_Request_Attribute_Ownership_Acquisition :: "field_format list" where
  "M_Request_Attribute_Ownership_Acquisition = [FU32, FHandles]"

definition M_Request_Attribute_Ownership_Release :: "field_format list" where
  "M_Request_Attribute_Ownership_Release = [FU32, FHandles]"

definition M_Query_Attribute_Ownership :: "field_format list" where
  "M_Query_Attribute_Ownership = [FU32, FU32]"

definition M_Inform_Attribute_Ownership :: "field_format list" where
  "M_Inform_Attribute_Ownership = [FU32, FU32, FU32]"

definition M_Is_Attribute_Owned_By_Federate :: "field_format list" where
  "M_Is_Attribute_Owned_By_Federate = [FU32, FU32]"

definition M_Attribute_Is_Not_Owned :: "field_format list" where
  "M_Attribute_Is_Not_Owned = [FU32, FU32, FU32]"

definition M_Attribute_Ownership_Acquisition_If_Available :: "field_format list" where
  "M_Attribute_Ownership_Acquisition_If_Available = [FU32, FHandles]"

definition M_Attribute_Ownership_Unavailable :: "field_format list" where
  "M_Attribute_Ownership_Unavailable = [FU32, FHandles]"

definition M_Unconditional_Attribute_Ownership_Divestiture :: "field_format list" where
  "M_Unconditional_Attribute_Ownership_Divestiture = [FU32, FHandles]"

definition M_Attribute_Ownership_Acquisition :: "field_format list" where
  "M_Attribute_Ownership_Acquisition = [FU32, FHandles]"

definition M_Cancel_Negotiated_Attribute_Ownership_Divestiture :: "field_format list" where
  "M_Cancel_Negotiated_Attribute_Ownership_Divestiture = [FU32, FHandles]"

definition M_Attribute_Ownership_Release_Response :: "field_format list" where
  "M_Attribute_Ownership_Release_Response = [FU32, FHandles]"

definition M_Cancel_Attribute_Ownership_Acquisition :: "field_format list" where
  "M_Cancel_Attribute_Ownership_Acquisition = [FU32, FHandles]"

definition M_Confirm_Attribute_Ownership_Acquisition_Cancellation :: "field_format list" where
  "M_Confirm_Attribute_Ownership_Acquisition_Cancellation = [FU32, FHandles]"

definition M_Change_Attribute_Order_Type :: "field_format list" where
  "M_Change_Attribute_Order_Type = [FU8, FU8, FU32, FHandles]"

definition M_Change_Interaction_Order_Type :: "field_format list" where
  "M_Change_Interaction_Order_Type = [FU32, FU8, FU8]"

definition M_Enable_Time_Regulation :: "field_format list" where
  "M_Enable_Time_Regulation = [FU64]"

definition M_Disable_Time_Regulation :: "field_format list" where
  "M_Disable_Time_Regulation = [FU64]"

definition M_Modify_Lookahead :: "field_format list" where
  "M_Modify_Lookahead = [FU64]"

definition M_Query_Lookahead :: "field_format list" where
  "M_Query_Lookahead = [FU64]"

definition M_Retract :: "field_format list" where
  "M_Retract = EventRetraction"

definition M_Ddm_Create_Region :: "field_format list" where
  "M_Ddm_Create_Region = [FU32, FVector [], FU32]"

definition M_Ddm_Modify_Region :: "field_format list" where
  "M_Ddm_Modify_Region = [FU32, FVector []]"

definition M_Ddm_Delete_Region :: "field_format list" where
  "M_Ddm_Delete_Region = [FU32]"

definition M_Ddm_Register_Object :: "field_format list" where
  "M_Ddm_Register_Object = [FU32, FU32, FOptional [FString], FHandles]"

definition M_Ddm_Associate_Region :: "field_format list" where
  "M_Ddm_Associate_Region = [FU32, FU32, FHandles]"

definition M_Ddm_Unassociate_Region :: "field_format list" where
  "M_Ddm_Unassociate_Region = [FU32, FU32]"

definition M_Ddm_Subscribe_Attributes :: "field_format list" where
  "M_Ddm_Subscribe_Attributes = [FU32, FU32, FBool, FHandles]"

definition M_Ddm_Unsubscribe_Attributes :: "field_format list" where
  "M_Ddm_Unsubscribe_Attributes = [FU32, FU32]"

definition M_Ddm_Subscribe_Interaction :: "field_format list" where
  "M_Ddm_Subscribe_Interaction = [FU32, FU32, FBool]"

definition M_Ddm_Unsubscribe_Interaction :: "field_format list" where
  "M_Ddm_Unsubscribe_Interaction = [FU32, FU32, FBool]"

definition M_Ddm_Request_Update :: "field_format list" where
  "M_Ddm_Request_Update = [FU32, FU32, FHandles]"

definition M_Get_Object_Class_Handle :: "field_format list" where
  "M_Get_Object_Class_Handle = [FU32, FString]"

definition M_Get_Object_Class_Name :: "field_format list" where
  "M_Get_Object_Class_Name = [FU32, FString]"

definition M_Get_Attribute_Handle :: "field_format list" where
  "M_Get_Attribute_Handle = [FU32, FString, FU32]"

definition M_Get_Attribute_Name :: "field_format list" where
  "M_Get_Attribute_Name = [FU32, FString, FU32]"

definition M_Get_Interaction_Class_Handle :: "field_format list" where
  "M_Get_Interaction_Class_Handle = [FU32, FString]"

definition M_Get_Interaction_Class_Name :: "field_format list" where
  "M_Get_Interaction_Class_Name = [FU32, FString]"

definition M_Get_Parameter_Handle :: "field_format list" where
  "M_Get_Parameter_Handle = [FU32, FString, FU32]"

definition M_Get_Parameter_Name :: "field_format list" where
  "M_Get_Parameter_Name = [FU32, FString, FU32]"

definition M_Get_Object_Instance_Handle :: "field_format list" where
  "M_Get_Object_Instance_Handle = [FU32, FString]"

definition M_Get_Object_Instance_Name :: "field_format list" where
  "M_Get_Object_Instance_Name = [FU32, FString]"

definition M_Get_Space_Handle :: "field_format list" where
  "M_Get_Space_Handle = [FString, FU32]"

definition M_Get_Space_Name :: "field_format list" where
  "M_Get_Space_Name = [FString, FU32]"

definition M_Get_Dimension_Handle :: "field_format list" where
  "M_Get_Dimension_Handle = [FString, FU32, FU32]"

definition M_Get_Dimension_Name :: "field_format list" where
  "M_Get_Dimension_Name = [FString, FU32, FU32]"

definition M_Get_Attribute_Space_Handle :: "field_format list" where
  "M_Get_Attribute_Space_Handle = [FU32, FU32, FU32]"

definition M_Get_Object_Class :: "field_format list" where
  "M_Get_Object_Class = [FU32, FU32]"

definition M_Get_Interaction_Space_Handle :: "field_format list" where
  "M_Get_Interaction_Space_Handle = [FU32, FU32]"

definition M_Get_Transportation_Handle :: "field_format list" where
  "M_Get_Transportation_Handle = [FString, FU8]"

definition M_Get_Transportation_Name :: "field_format list" where
  "M_Get_Transportation_Name = [FString, FU8]"

definition M_Get_Ordering_Handle :: "field_format list" where
  "M_Get_Ordering_Handle = [FString, FU8]"

definition M_Get_Ordering_Name :: "field_format list" where
  "M_Get_Ordering_Name = [FString, FU8]"

definition M_Tick_Request :: "field_format list" where
  "M_Tick_Request = [FBool, FU64, FU64]"

definition M_Reserve_Object_Instance_Name :: "field_format list" where
  "M_Reserve_Object_Instance_Name = [FString]"

end
