(* ===== verification/FederateWire.thy ===== *)
theory FederateWire
  imports FederateFormats Wire
begin

text \<open>
  \<open>libCERTI/Message_RW.cc\<close> and \<open>M_Factory\<close> of \<open>libCERTI/M_Classes.cc\<close>: a message between a federate and its RTIA as it is sent and
  received on their connection.
\<close>

section \<open>Types of messages\<close>

text \<open>
  The members of \<open>Message::Type\<close>, in the groups of its comments and the two of the fourth version, behind an \<open>M_\<close>. A member is sent as its place in the list
  \<open>message_types\<close>.
\<close>

datatype connexion_message =
    M_OPEN_CONNEXION | M_CLOSE_CONNEXION

datatype federation_message =
    M_CREATE_FEDERATION_EXECUTION | M_DESTROY_FEDERATION_EXECUTION | M_JOIN_FEDERATION_EXECUTION |
    M_RESIGN_FEDERATION_EXECUTION | M_REGISTER_FEDERATION_SYNCHRONIZATION_POINT | M_SYNCHRONIZATION_POINT_REGISTRATION_FAILED |
    M_SYNCHRONIZATION_POINT_REGISTRATION_SUCCEEDED | M_ANNOUNCE_SYNCHRONIZATION_POINT | M_SYNCHRONIZATION_POINT_ACHIEVED |
    M_FEDERATION_SYNCHRONIZED | M_REQUEST_FEDERATION_SAVE | M_INITIATE_FEDERATE_SAVE | M_FEDERATE_SAVE_BEGUN |
    M_FEDERATE_SAVE_COMPLETE | M_FEDERATE_SAVE_NOT_COMPLETE | M_FEDERATION_SAVED | M_FEDERATION_NOT_SAVED |
    M_REQUEST_FEDERATION_RESTORE | M_REQUEST_FEDERATION_RESTORE_FAILED | M_REQUEST_FEDERATION_RESTORE_SUCCEEDED |
    M_INITIATE_FEDERATE_RESTORE | M_FEDERATE_RESTORE_COMPLETE | M_FEDERATE_RESTORE_NOT_COMPLETE | M_FEDERATION_RESTORED |
    M_FEDERATION_NOT_RESTORED | M_FEDERATION_RESTORE_BEGUN

datatype declaration_message =
    M_PUBLISH_OBJECT_CLASS | M_UNPUBLISH_OBJECT_CLASS | M_PUBLISH_INTERACTION_CLASS | M_UNPUBLISH_INTERACTION_CLASS |
    M_SUBSCRIBE_OBJECT_CLASS_ATTRIBUTES | M_UNSUBSCRIBE_OBJECT_CLASS | M_SUBSCRIBE_INTERACTION_CLASS |
    M_UNSUBSCRIBE_INTERACTION_CLASS | M_START_REGISTRATION_FOR_OBJECT_CLASS | M_STOP_REGISTRATION_FOR_OBJECT_CLASS |
    M_TURN_INTERACTIONS_ON | M_TURN_INTERACTIONS_OFF

datatype object_message =
    M_REGISTER_OBJECT_INSTANCE | M_UPDATE_ATTRIBUTE_VALUES | M_DISCOVER_OBJECT_INSTANCE | M_REFLECT_ATTRIBUTE_VALUES |
    M_SEND_INTERACTION | M_RECEIVE_INTERACTION | M_DELETE_OBJECT_INSTANCE | M_LOCAL_DELETE_OBJECT_INSTANCE |
    M_REMOVE_OBJECT_INSTANCE | M_CHANGE_ATTRIBUTE_TRANSPORTATION_TYPE | M_CHANGE_INTERACTION_TRANSPORTATION_TYPE |
    M_REQUEST_OBJECT_ATTRIBUTE_VALUE_UPDATE | M_REQUEST_CLASS_ATTRIBUTE_VALUE_UPDATE | M_PROVIDE_ATTRIBUTE_VALUE_UPDATE |
    M_ATTRIBUTES_IN_SCOPE | M_ATTRIBUTES_OUT_OF_SCOPE | M_TURN_UPDATES_ON_FOR_OBJECT_INSTANCE |
    M_TURN_UPDATES_OFF_FOR_OBJECT_INSTANCE

datatype ownership_message =
    M_REQUEST_ATTRIBUTE_OWNERSHIP_DIVESTITURE | M_REQUEST_ATTRIBUTE_OWNERSHIP_ASSUMPTION |
    M_NEGOTIATED_ATTRIBUTE_OWNERSHIP_DIVESTITURE | M_ATTRIBUTE_OWNERSHIP_DIVESTITURE_NOTIFICATION |
    M_ATTRIBUTE_OWNERSHIP_ACQUISITION_NOTIFICATION | M_REQUEST_ATTRIBUTE_OWNERSHIP_ACQUISITION |
    M_REQUEST_ATTRIBUTE_OWNERSHIP_RELEASE | M_QUERY_ATTRIBUTE_OWNERSHIP | M_INFORM_ATTRIBUTE_OWNERSHIP |
    M_IS_ATTRIBUTE_OWNED_BY_FEDERATE | M_ATTRIBUTE_IS_NOT_OWNED | M_ATTRIBUTE_OWNED_BY_RTI |
    M_ATTRIBUTE_OWNERSHIP_ACQUISITION_IF_AVAILABLE | M_ATTRIBUTE_OWNERSHIP_UNAVAILABLE |
    M_UNCONDITIONAL_ATTRIBUTE_OWNERSHIP_DIVESTITURE | M_ATTRIBUTE_OWNERSHIP_ACQUISITION |
    M_CANCEL_NEGOTIATED_ATTRIBUTE_OWNERSHIP_DIVESTITURE | M_ATTRIBUTE_OWNERSHIP_RELEASE_RESPONSE |
    M_CANCEL_ATTRIBUTE_OWNERSHIP_ACQUISITION | M_CONFIRM_ATTRIBUTE_OWNERSHIP_ACQUISITION_CANCELLATION

datatype time_message =
    M_CHANGE_ATTRIBUTE_ORDER_TYPE | M_CHANGE_INTERACTION_ORDER_TYPE | M_ENABLE_TIME_REGULATION | M_DISABLE_TIME_REGULATION |
    M_ENABLE_TIME_CONSTRAINED | M_DISABLE_TIME_CONSTRAINED | M_QUERY_LBTS | M_QUERY_FEDERATE_TIME | M_QUERY_MIN_NEXT_EVENT_TIME |
    M_MODIFY_LOOKAHEAD | M_QUERY_LOOKAHEAD | M_RETRACT | M_REQUEST_RETRACTION | M_TIME_ADVANCE_REQUEST |
    M_TIME_ADVANCE_REQUEST_AVAILABLE | M_NEXT_EVENT_REQUEST | M_NEXT_EVENT_REQUEST_AVAILABLE | M_FLUSH_QUEUE_REQUEST |
    M_TIME_ADVANCE_GRANT | M_ENABLE_ASYNCHRONOUS_DELIVERY | M_DISABLE_ASYNCHRONOUS_DELIVERY | M_TIME_REGULATION_ENABLED |
    M_TIME_CONSTRAINED_ENABLED

datatype region_message =
    M_DDM_CREATE_REGION | M_DDM_MODIFY_REGION | M_DDM_DELETE_REGION | M_DDM_REGISTER_OBJECT | M_DDM_ASSOCIATE_REGION |
    M_DDM_UNASSOCIATE_REGION | M_DDM_SUBSCRIBE_ATTRIBUTES | M_DDM_UNSUBSCRIBE_ATTRIBUTES | M_DDM_SUBSCRIBE_INTERACTION |
    M_DDM_UNSUBSCRIBE_INTERACTION | M_DDM_REQUEST_UPDATE

datatype support_message =
    M_GET_OBJECT_CLASS_HANDLE | M_GET_OBJECT_CLASS_NAME | M_GET_ATTRIBUTE_HANDLE | M_GET_ATTRIBUTE_NAME |
    M_GET_INTERACTION_CLASS_HANDLE | M_GET_INTERACTION_CLASS_NAME | M_GET_PARAMETER_HANDLE | M_GET_PARAMETER_NAME |
    M_GET_OBJECT_INSTANCE_HANDLE | M_GET_OBJECT_INSTANCE_NAME | M_GET_SPACE_HANDLE | M_GET_SPACE_NAME | M_GET_DIMENSION_HANDLE |
    M_GET_DIMENSION_NAME | M_GET_ATTRIBUTE_SPACE_HANDLE | M_GET_OBJECT_CLASS | M_GET_INTERACTION_SPACE_HANDLE |
    M_GET_TRANSPORTATION_HANDLE | M_GET_TRANSPORTATION_NAME | M_GET_ORDERING_HANDLE | M_GET_ORDERING_NAME |
    M_ENABLE_CLASS_RELEVANCE_ADVISORY_SWITCH | M_DISABLE_CLASS_RELEVANCE_ADVISORY_SWITCH |
    M_ENABLE_ATTRIBUTE_RELEVANCE_ADVISORY_SWITCH | M_DISABLE_ATTRIBUTE_RELEVANCE_ADVISORY_SWITCH |
    M_ENABLE_ATTRIBUTE_SCOPE_ADVISORY_SWITCH | M_DISABLE_ATTRIBUTE_SCOPE_ADVISORY_SWITCH |
    M_ENABLE_INTERACTION_RELEVANCE_ADVISORY_SWITCH | M_DISABLE_INTERACTION_RELEVANCE_ADVISORY_SWITCH | M_TICK_REQUEST |
    M_TICK_REQUEST_NEXT | M_TICK_REQUEST_STOP | M_RESERVE_OBJECT_INSTANCE_NAME | M_RESERVE_OBJECT_INSTANCE_NAME_SUCCEEDED |
    M_RESERVE_OBJECT_INSTANCE_NAME_FAILED

datatype version4_message =
    M_CREATE_FEDERATION_EXECUTION_V4 | M_JOIN_FEDERATION_EXECUTION_V4

datatype message_type =
    M_NOT_USED | Connexion_message connexion_message | Federation_message federation_message | Declaration_message declaration_message
  | Object_message object_message | Ownership_message ownership_message | Time_message time_message
  | Region_message region_message | Support_message support_message | Version4_message version4_message | M_LAST

definition message_types :: "message_type list" where
  "message_types =
   [M_NOT_USED, Connexion_message M_OPEN_CONNEXION, Connexion_message M_CLOSE_CONNEXION,
   Federation_message M_CREATE_FEDERATION_EXECUTION, Federation_message M_DESTROY_FEDERATION_EXECUTION,
   Federation_message M_JOIN_FEDERATION_EXECUTION, Federation_message M_RESIGN_FEDERATION_EXECUTION,
   Federation_message M_REGISTER_FEDERATION_SYNCHRONIZATION_POINT,
   Federation_message M_SYNCHRONIZATION_POINT_REGISTRATION_FAILED,
   Federation_message M_SYNCHRONIZATION_POINT_REGISTRATION_SUCCEEDED, Federation_message M_ANNOUNCE_SYNCHRONIZATION_POINT,
   Federation_message M_SYNCHRONIZATION_POINT_ACHIEVED, Federation_message M_FEDERATION_SYNCHRONIZED,
   Federation_message M_REQUEST_FEDERATION_SAVE, Federation_message M_INITIATE_FEDERATE_SAVE,
   Federation_message M_FEDERATE_SAVE_BEGUN, Federation_message M_FEDERATE_SAVE_COMPLETE,
   Federation_message M_FEDERATE_SAVE_NOT_COMPLETE, Federation_message M_FEDERATION_SAVED,
   Federation_message M_FEDERATION_NOT_SAVED, Federation_message M_REQUEST_FEDERATION_RESTORE,
   Federation_message M_REQUEST_FEDERATION_RESTORE_FAILED, Federation_message M_REQUEST_FEDERATION_RESTORE_SUCCEEDED,
   Federation_message M_INITIATE_FEDERATE_RESTORE, Federation_message M_FEDERATE_RESTORE_COMPLETE,
   Federation_message M_FEDERATE_RESTORE_NOT_COMPLETE, Federation_message M_FEDERATION_RESTORED,
   Federation_message M_FEDERATION_NOT_RESTORED, Federation_message M_FEDERATION_RESTORE_BEGUN,
   Declaration_message M_PUBLISH_OBJECT_CLASS, Declaration_message M_UNPUBLISH_OBJECT_CLASS,
   Declaration_message M_PUBLISH_INTERACTION_CLASS, Declaration_message M_UNPUBLISH_INTERACTION_CLASS,
   Declaration_message M_SUBSCRIBE_OBJECT_CLASS_ATTRIBUTES, Declaration_message M_UNSUBSCRIBE_OBJECT_CLASS,
   Declaration_message M_SUBSCRIBE_INTERACTION_CLASS, Declaration_message M_UNSUBSCRIBE_INTERACTION_CLASS,
   Declaration_message M_START_REGISTRATION_FOR_OBJECT_CLASS, Declaration_message M_STOP_REGISTRATION_FOR_OBJECT_CLASS,
   Declaration_message M_TURN_INTERACTIONS_ON, Declaration_message M_TURN_INTERACTIONS_OFF,
   Object_message M_REGISTER_OBJECT_INSTANCE, Object_message M_UPDATE_ATTRIBUTE_VALUES,
   Object_message M_DISCOVER_OBJECT_INSTANCE, Object_message M_REFLECT_ATTRIBUTE_VALUES, Object_message M_SEND_INTERACTION,
   Object_message M_RECEIVE_INTERACTION, Object_message M_DELETE_OBJECT_INSTANCE, Object_message M_LOCAL_DELETE_OBJECT_INSTANCE,
   Object_message M_REMOVE_OBJECT_INSTANCE, Object_message M_CHANGE_ATTRIBUTE_TRANSPORTATION_TYPE,
   Object_message M_CHANGE_INTERACTION_TRANSPORTATION_TYPE, Object_message M_REQUEST_OBJECT_ATTRIBUTE_VALUE_UPDATE,
   Object_message M_REQUEST_CLASS_ATTRIBUTE_VALUE_UPDATE, Object_message M_PROVIDE_ATTRIBUTE_VALUE_UPDATE,
   Object_message M_ATTRIBUTES_IN_SCOPE, Object_message M_ATTRIBUTES_OUT_OF_SCOPE,
   Object_message M_TURN_UPDATES_ON_FOR_OBJECT_INSTANCE, Object_message M_TURN_UPDATES_OFF_FOR_OBJECT_INSTANCE,
   Ownership_message M_REQUEST_ATTRIBUTE_OWNERSHIP_DIVESTITURE, Ownership_message M_REQUEST_ATTRIBUTE_OWNERSHIP_ASSUMPTION,
   Ownership_message M_NEGOTIATED_ATTRIBUTE_OWNERSHIP_DIVESTITURE,
   Ownership_message M_ATTRIBUTE_OWNERSHIP_DIVESTITURE_NOTIFICATION,
   Ownership_message M_ATTRIBUTE_OWNERSHIP_ACQUISITION_NOTIFICATION, Ownership_message M_REQUEST_ATTRIBUTE_OWNERSHIP_ACQUISITION,
   Ownership_message M_REQUEST_ATTRIBUTE_OWNERSHIP_RELEASE, Ownership_message M_QUERY_ATTRIBUTE_OWNERSHIP,
   Ownership_message M_INFORM_ATTRIBUTE_OWNERSHIP, Ownership_message M_IS_ATTRIBUTE_OWNED_BY_FEDERATE,
   Ownership_message M_ATTRIBUTE_IS_NOT_OWNED, Ownership_message M_ATTRIBUTE_OWNED_BY_RTI,
   Ownership_message M_ATTRIBUTE_OWNERSHIP_ACQUISITION_IF_AVAILABLE, Ownership_message M_ATTRIBUTE_OWNERSHIP_UNAVAILABLE,
   Ownership_message M_UNCONDITIONAL_ATTRIBUTE_OWNERSHIP_DIVESTITURE, Ownership_message M_ATTRIBUTE_OWNERSHIP_ACQUISITION,
   Ownership_message M_CANCEL_NEGOTIATED_ATTRIBUTE_OWNERSHIP_DIVESTITURE,
   Ownership_message M_ATTRIBUTE_OWNERSHIP_RELEASE_RESPONSE, Ownership_message M_CANCEL_ATTRIBUTE_OWNERSHIP_ACQUISITION,
   Ownership_message M_CONFIRM_ATTRIBUTE_OWNERSHIP_ACQUISITION_CANCELLATION, Time_message M_CHANGE_ATTRIBUTE_ORDER_TYPE,
   Time_message M_CHANGE_INTERACTION_ORDER_TYPE, Time_message M_ENABLE_TIME_REGULATION, Time_message M_DISABLE_TIME_REGULATION,
   Time_message M_ENABLE_TIME_CONSTRAINED, Time_message M_DISABLE_TIME_CONSTRAINED, Time_message M_QUERY_LBTS,
   Time_message M_QUERY_FEDERATE_TIME, Time_message M_QUERY_MIN_NEXT_EVENT_TIME, Time_message M_MODIFY_LOOKAHEAD,
   Time_message M_QUERY_LOOKAHEAD, Time_message M_RETRACT, Time_message M_REQUEST_RETRACTION,
   Time_message M_TIME_ADVANCE_REQUEST, Time_message M_TIME_ADVANCE_REQUEST_AVAILABLE, Time_message M_NEXT_EVENT_REQUEST,
   Time_message M_NEXT_EVENT_REQUEST_AVAILABLE, Time_message M_FLUSH_QUEUE_REQUEST, Time_message M_TIME_ADVANCE_GRANT,
   Time_message M_ENABLE_ASYNCHRONOUS_DELIVERY, Time_message M_DISABLE_ASYNCHRONOUS_DELIVERY,
   Time_message M_TIME_REGULATION_ENABLED, Time_message M_TIME_CONSTRAINED_ENABLED, Region_message M_DDM_CREATE_REGION,
   Region_message M_DDM_MODIFY_REGION, Region_message M_DDM_DELETE_REGION, Region_message M_DDM_REGISTER_OBJECT,
   Region_message M_DDM_ASSOCIATE_REGION, Region_message M_DDM_UNASSOCIATE_REGION, Region_message M_DDM_SUBSCRIBE_ATTRIBUTES,
   Region_message M_DDM_UNSUBSCRIBE_ATTRIBUTES, Region_message M_DDM_SUBSCRIBE_INTERACTION,
   Region_message M_DDM_UNSUBSCRIBE_INTERACTION, Region_message M_DDM_REQUEST_UPDATE, Support_message M_GET_OBJECT_CLASS_HANDLE,
   Support_message M_GET_OBJECT_CLASS_NAME, Support_message M_GET_ATTRIBUTE_HANDLE, Support_message M_GET_ATTRIBUTE_NAME,
   Support_message M_GET_INTERACTION_CLASS_HANDLE, Support_message M_GET_INTERACTION_CLASS_NAME,
   Support_message M_GET_PARAMETER_HANDLE, Support_message M_GET_PARAMETER_NAME, Support_message M_GET_OBJECT_INSTANCE_HANDLE,
   Support_message M_GET_OBJECT_INSTANCE_NAME, Support_message M_GET_SPACE_HANDLE, Support_message M_GET_SPACE_NAME,
   Support_message M_GET_DIMENSION_HANDLE, Support_message M_GET_DIMENSION_NAME, Support_message M_GET_ATTRIBUTE_SPACE_HANDLE,
   Support_message M_GET_OBJECT_CLASS, Support_message M_GET_INTERACTION_SPACE_HANDLE,
   Support_message M_GET_TRANSPORTATION_HANDLE, Support_message M_GET_TRANSPORTATION_NAME, Support_message M_GET_ORDERING_HANDLE,
   Support_message M_GET_ORDERING_NAME, Support_message M_ENABLE_CLASS_RELEVANCE_ADVISORY_SWITCH,
   Support_message M_DISABLE_CLASS_RELEVANCE_ADVISORY_SWITCH, Support_message M_ENABLE_ATTRIBUTE_RELEVANCE_ADVISORY_SWITCH,
   Support_message M_DISABLE_ATTRIBUTE_RELEVANCE_ADVISORY_SWITCH, Support_message M_ENABLE_ATTRIBUTE_SCOPE_ADVISORY_SWITCH,
   Support_message M_DISABLE_ATTRIBUTE_SCOPE_ADVISORY_SWITCH, Support_message M_ENABLE_INTERACTION_RELEVANCE_ADVISORY_SWITCH,
   Support_message M_DISABLE_INTERACTION_RELEVANCE_ADVISORY_SWITCH, Support_message M_TICK_REQUEST,
   Support_message M_TICK_REQUEST_NEXT, Support_message M_TICK_REQUEST_STOP, Support_message M_RESERVE_OBJECT_INSTANCE_NAME,
   Support_message M_RESERVE_OBJECT_INSTANCE_NAME_SUCCEEDED, Support_message M_RESERVE_OBJECT_INSTANCE_NAME_FAILED,
   Version4_message M_CREATE_FEDERATION_EXECUTION_V4, Version4_message M_JOIN_FEDERATION_EXECUTION_V4, M_LAST]"

text \<open>The number of a type, and the type of a number that is one.\<close>

definition message_code :: "message_type \<Rightarrow> 32 word" where
  "message_code k = of_nat (place k message_types)"

definition message_of :: "32 word \<Rightarrow> message_type option" where
  "message_of n = (if unat n < length message_types then Some (message_types ! unat n) else None)"

text \<open>The class that \<open>M_Factory::create\<close> makes for a type, as the fields that it adds, those of its superclasses included.\<close>

fun connexion_fields :: "connexion_message \<Rightarrow> field_format list" where
  "connexion_fields M_OPEN_CONNEXION = M_Open_Connexion"
| "connexion_fields _ = []"

fun federation_fields :: "federation_message \<Rightarrow> field_format list" where
  "federation_fields M_CREATE_FEDERATION_EXECUTION = M_Create_Federation_Execution"
| "federation_fields M_DESTROY_FEDERATION_EXECUTION = M_Destroy_Federation_Execution"
| "federation_fields M_JOIN_FEDERATION_EXECUTION = M_Join_Federation_Execution"
| "federation_fields M_RESIGN_FEDERATION_EXECUTION = M_Resign_Federation_Execution"
| "federation_fields M_REGISTER_FEDERATION_SYNCHRONIZATION_POINT = M_Register_Federation_Synchronization_Point"
| "federation_fields M_REQUEST_FEDERATION_RESTORE_FAILED = M_Request_Federation_Restore_Failed"
| "federation_fields M_INITIATE_FEDERATE_RESTORE = M_Initiate_Federate_Restore"
| "federation_fields _ = []"

fun declaration_fields :: "declaration_message \<Rightarrow> field_format list" where
  "declaration_fields M_PUBLISH_OBJECT_CLASS = M_Publish_Object_Class"
| "declaration_fields M_UNPUBLISH_OBJECT_CLASS = M_Unpublish_Object_Class"
| "declaration_fields M_PUBLISH_INTERACTION_CLASS = M_Publish_Interaction_Class"
| "declaration_fields M_UNPUBLISH_INTERACTION_CLASS = M_Unpublish_Interaction_Class"
| "declaration_fields M_SUBSCRIBE_OBJECT_CLASS_ATTRIBUTES = M_Subscribe_Object_Class_Attributes"
| "declaration_fields M_UNSUBSCRIBE_OBJECT_CLASS = M_Unsubscribe_Object_Class"
| "declaration_fields M_SUBSCRIBE_INTERACTION_CLASS = M_Subscribe_Interaction_Class"
| "declaration_fields M_UNSUBSCRIBE_INTERACTION_CLASS = M_Unsubscribe_Interaction_Class"
| "declaration_fields M_START_REGISTRATION_FOR_OBJECT_CLASS = M_Start_Registration_For_Object_Class"
| "declaration_fields M_STOP_REGISTRATION_FOR_OBJECT_CLASS = M_Stop_Registration_For_Object_Class"
| "declaration_fields M_TURN_INTERACTIONS_ON = M_Turn_Interactions_On"
| "declaration_fields M_TURN_INTERACTIONS_OFF = M_Turn_Interactions_Off"

fun object_fields :: "object_message \<Rightarrow> field_format list" where
  "object_fields M_REGISTER_OBJECT_INSTANCE = M_Register_Object_Instance"
| "object_fields M_UPDATE_ATTRIBUTE_VALUES = M_Update_Attribute_Values"
| "object_fields M_DISCOVER_OBJECT_INSTANCE = M_Discover_Object_Instance"
| "object_fields M_REFLECT_ATTRIBUTE_VALUES = M_Reflect_Attribute_Values"
| "object_fields M_SEND_INTERACTION = M_Send_Interaction"
| "object_fields M_RECEIVE_INTERACTION = M_Receive_Interaction"
| "object_fields M_DELETE_OBJECT_INSTANCE = M_Delete_Object_Instance"
| "object_fields M_LOCAL_DELETE_OBJECT_INSTANCE = M_Local_Delete_Object_Instance"
| "object_fields M_REMOVE_OBJECT_INSTANCE = M_Remove_Object_Instance"
| "object_fields M_CHANGE_ATTRIBUTE_TRANSPORTATION_TYPE = M_Change_Attribute_Transportation_Type"
| "object_fields M_CHANGE_INTERACTION_TRANSPORTATION_TYPE = M_Change_Interaction_Transportation_Type"
| "object_fields M_REQUEST_OBJECT_ATTRIBUTE_VALUE_UPDATE = M_Request_Object_Attribute_Value_Update"
| "object_fields M_REQUEST_CLASS_ATTRIBUTE_VALUE_UPDATE = M_Request_Class_Attribute_Value_Update"
| "object_fields M_PROVIDE_ATTRIBUTE_VALUE_UPDATE = M_Provide_Attribute_Value_Update"
| "object_fields M_ATTRIBUTES_IN_SCOPE = M_Attributes_In_Scope"
| "object_fields M_ATTRIBUTES_OUT_OF_SCOPE = M_Attributes_Out_Of_Scope"
| "object_fields M_TURN_UPDATES_ON_FOR_OBJECT_INSTANCE = M_Turn_Updates_On_For_Object_Instance"
| "object_fields M_TURN_UPDATES_OFF_FOR_OBJECT_INSTANCE = M_Turn_Updates_Off_For_Object_Instance"

fun ownership_fields :: "ownership_message \<Rightarrow> field_format list" where
  "ownership_fields M_REQUEST_ATTRIBUTE_OWNERSHIP_ASSUMPTION = M_Request_Attribute_Ownership_Assumption"
| "ownership_fields M_NEGOTIATED_ATTRIBUTE_OWNERSHIP_DIVESTITURE = M_Negotiated_Attribute_Ownership_Divestiture"
| "ownership_fields M_ATTRIBUTE_OWNERSHIP_DIVESTITURE_NOTIFICATION = M_Attribute_Ownership_Divestiture_Notification"
| "ownership_fields M_ATTRIBUTE_OWNERSHIP_ACQUISITION_NOTIFICATION = M_Attribute_Ownership_Acquisition_Notification"
| "ownership_fields M_REQUEST_ATTRIBUTE_OWNERSHIP_ACQUISITION = M_Request_Attribute_Ownership_Acquisition"
| "ownership_fields M_REQUEST_ATTRIBUTE_OWNERSHIP_RELEASE = M_Request_Attribute_Ownership_Release"
| "ownership_fields M_QUERY_ATTRIBUTE_OWNERSHIP = M_Query_Attribute_Ownership"
| "ownership_fields M_INFORM_ATTRIBUTE_OWNERSHIP = M_Inform_Attribute_Ownership"
| "ownership_fields M_IS_ATTRIBUTE_OWNED_BY_FEDERATE = M_Is_Attribute_Owned_By_Federate"
| "ownership_fields M_ATTRIBUTE_IS_NOT_OWNED = M_Attribute_Is_Not_Owned"
| "ownership_fields M_ATTRIBUTE_OWNERSHIP_ACQUISITION_IF_AVAILABLE = M_Attribute_Ownership_Acquisition_If_Available"
| "ownership_fields M_ATTRIBUTE_OWNERSHIP_UNAVAILABLE = M_Attribute_Ownership_Unavailable"
| "ownership_fields M_UNCONDITIONAL_ATTRIBUTE_OWNERSHIP_DIVESTITURE = M_Unconditional_Attribute_Ownership_Divestiture"
| "ownership_fields M_ATTRIBUTE_OWNERSHIP_ACQUISITION = M_Attribute_Ownership_Acquisition"
| "ownership_fields M_CANCEL_NEGOTIATED_ATTRIBUTE_OWNERSHIP_DIVESTITURE = M_Cancel_Negotiated_Attribute_Ownership_Divestiture"
| "ownership_fields M_ATTRIBUTE_OWNERSHIP_RELEASE_RESPONSE = M_Attribute_Ownership_Release_Response"
| "ownership_fields M_CANCEL_ATTRIBUTE_OWNERSHIP_ACQUISITION = M_Cancel_Attribute_Ownership_Acquisition"
| "ownership_fields M_CONFIRM_ATTRIBUTE_OWNERSHIP_ACQUISITION_CANCELLATION = M_Confirm_Attribute_Ownership_Acquisition_Cancellation"
| "ownership_fields _ = []"

fun time_fields :: "time_message \<Rightarrow> field_format list" where
  "time_fields M_CHANGE_ATTRIBUTE_ORDER_TYPE = M_Change_Attribute_Order_Type"
| "time_fields M_CHANGE_INTERACTION_ORDER_TYPE = M_Change_Interaction_Order_Type"
| "time_fields M_ENABLE_TIME_REGULATION = M_Enable_Time_Regulation"
| "time_fields M_DISABLE_TIME_REGULATION = M_Disable_Time_Regulation"
| "time_fields M_MODIFY_LOOKAHEAD = M_Modify_Lookahead"
| "time_fields M_QUERY_LOOKAHEAD = M_Query_Lookahead"
| "time_fields M_RETRACT = M_Retract"
| "time_fields _ = []"

fun region_fields :: "region_message \<Rightarrow> field_format list" where
  "region_fields M_DDM_CREATE_REGION = M_Ddm_Create_Region"
| "region_fields M_DDM_MODIFY_REGION = M_Ddm_Modify_Region"
| "region_fields M_DDM_DELETE_REGION = M_Ddm_Delete_Region"
| "region_fields M_DDM_REGISTER_OBJECT = M_Ddm_Register_Object"
| "region_fields M_DDM_ASSOCIATE_REGION = M_Ddm_Associate_Region"
| "region_fields M_DDM_UNASSOCIATE_REGION = M_Ddm_Unassociate_Region"
| "region_fields M_DDM_SUBSCRIBE_ATTRIBUTES = M_Ddm_Subscribe_Attributes"
| "region_fields M_DDM_UNSUBSCRIBE_ATTRIBUTES = M_Ddm_Unsubscribe_Attributes"
| "region_fields M_DDM_SUBSCRIBE_INTERACTION = M_Ddm_Subscribe_Interaction"
| "region_fields M_DDM_UNSUBSCRIBE_INTERACTION = M_Ddm_Unsubscribe_Interaction"
| "region_fields M_DDM_REQUEST_UPDATE = M_Ddm_Request_Update"

fun support_fields :: "support_message \<Rightarrow> field_format list" where
  "support_fields M_GET_OBJECT_CLASS_HANDLE = M_Get_Object_Class_Handle"
| "support_fields M_GET_OBJECT_CLASS_NAME = M_Get_Object_Class_Name"
| "support_fields M_GET_ATTRIBUTE_HANDLE = M_Get_Attribute_Handle"
| "support_fields M_GET_ATTRIBUTE_NAME = M_Get_Attribute_Name"
| "support_fields M_GET_INTERACTION_CLASS_HANDLE = M_Get_Interaction_Class_Handle"
| "support_fields M_GET_INTERACTION_CLASS_NAME = M_Get_Interaction_Class_Name"
| "support_fields M_GET_PARAMETER_HANDLE = M_Get_Parameter_Handle"
| "support_fields M_GET_PARAMETER_NAME = M_Get_Parameter_Name"
| "support_fields M_GET_OBJECT_INSTANCE_HANDLE = M_Get_Object_Instance_Handle"
| "support_fields M_GET_OBJECT_INSTANCE_NAME = M_Get_Object_Instance_Name"
| "support_fields M_GET_SPACE_HANDLE = M_Get_Space_Handle"
| "support_fields M_GET_SPACE_NAME = M_Get_Space_Name"
| "support_fields M_GET_DIMENSION_HANDLE = M_Get_Dimension_Handle"
| "support_fields M_GET_DIMENSION_NAME = M_Get_Dimension_Name"
| "support_fields M_GET_ATTRIBUTE_SPACE_HANDLE = M_Get_Attribute_Space_Handle"
| "support_fields M_GET_OBJECT_CLASS = M_Get_Object_Class"
| "support_fields M_GET_INTERACTION_SPACE_HANDLE = M_Get_Interaction_Space_Handle"
| "support_fields M_GET_TRANSPORTATION_HANDLE = M_Get_Transportation_Handle"
| "support_fields M_GET_TRANSPORTATION_NAME = M_Get_Transportation_Name"
| "support_fields M_GET_ORDERING_HANDLE = M_Get_Ordering_Handle"
| "support_fields M_GET_ORDERING_NAME = M_Get_Ordering_Name"
| "support_fields M_TICK_REQUEST = M_Tick_Request"
| "support_fields M_RESERVE_OBJECT_INSTANCE_NAME = M_Reserve_Object_Instance_Name"
| "support_fields M_RESERVE_OBJECT_INSTANCE_NAME_SUCCEEDED = M_Reserve_Object_Instance_Name"
| "support_fields M_RESERVE_OBJECT_INSTANCE_NAME_FAILED = M_Reserve_Object_Instance_Name"
| "support_fields _ = []"

fun version4_fields :: "version4_message \<Rightarrow> field_format list" where
  "version4_fields M_CREATE_FEDERATION_EXECUTION_V4 = M_Create_Federation_Execution_V4"
| "version4_fields M_JOIN_FEDERATION_EXECUTION_V4 = M_Join_Federation_Execution_V4"

text \<open>A number that is not a type leaves the pointer to the message null.\<close>

definition M_Factory_create :: "32 word \<Rightarrow> exn + field_format list" where
  "M_Factory_create n = (case message_of n of
     None \<Rightarrow> Inl UndefinedBehaviour
   | Some M_NOT_USED \<Rightarrow> Inl NetworkError
   | Some M_LAST \<Rightarrow> Inl NetworkError
   | Some (Connexion_message k) \<Rightarrow> Inr (connexion_fields k)
   | Some (Federation_message k) \<Rightarrow> Inr (federation_fields k)
   | Some (Declaration_message k) \<Rightarrow> Inr (declaration_fields k)
   | Some (Object_message k) \<Rightarrow> Inr (object_fields k)
   | Some (Ownership_message k) \<Rightarrow> Inr (ownership_fields k)
   | Some (Time_message k) \<Rightarrow> Inr (time_fields k)
   | Some (Region_message k) \<Rightarrow> Inr (region_fields k)
   | Some (Support_message k) \<Rightarrow> Inr (support_fields k)
   | Some (Version4_message k) \<Rightarrow> Inr (version4_fields k))"

section \<open>Messages\<close>

text \<open>0 is \<open>NO_EXCEPTION\<close>.\<close>

record local_message = basic_message +
  lm_type :: "32 word"
  lm_exception :: "8 word"
  lm_reason :: string
  lm_fields :: "field_value list"

definition local_message_new :: "32 word \<Rightarrow> local_message" where
  "local_message_new n =
     \<lparr>bm_date = None, bm_label = None, bm_tag = None, bm_extents = [], bm_regions = [], lm_type = n, lm_exception = 0, lm_reason = [],
      lm_fields = []\<rparr>"

definition Message_serialize :: "bool \<Rightarrow> local_message \<Rightarrow> unit mb_action" where
  "Message_serialize big w =
     seq (throw_if (lm_type w = message_code M_NOT_USED \<or> lm_type w = message_code M_LAST) RTIinternalError)
     (seq (write_uint32 big (lm_type w))
     (seq (write_uint32 big (ucast (lm_exception w)))
     (if lm_exception w \<noteq> 0 then write_string big (lm_reason w) else BasicMessage_serialize big w)))"

text \<open>Reads into the message \<open>w\<close>.\<close>

definition Message_deserialize :: "bool \<Rightarrow> local_message \<Rightarrow> local_message mb_action" where
  "Message_deserialize big w =
     bind (read_uint32 big) (\<lambda>k.
     bind (read_uint32 big) (\<lambda>e.
     let w' = w\<lparr>lm_type := k, lm_exception := ucast e\<rparr> in
     if lm_exception w' \<noteq> 0 then bind (read_string big) (\<lambda>r. ret (w'\<lparr>lm_reason := r\<rparr>))
     else BasicMessage_deserialize big w'))"

text \<open>\<open>serialize\<close> and \<open>deserialize\<close> of the class with the given fields.\<close>

definition M_serialize :: "bool \<Rightarrow> field_format list \<Rightarrow> local_message \<Rightarrow> unit mb_action" where
  "M_serialize big fs w = seq (Message_serialize big w) (write_fields big fs (lm_fields w))"

definition M_deserialize :: "bool \<Rightarrow> field_format list \<Rightarrow> local_message \<Rightarrow> local_message mb_action" where
  "M_deserialize big fs w =
     bind (Message_deserialize big w) (\<lambda>w'. bind (read_fields big fs) (\<lambda>vs. ret (w'\<lparr>lm_fields := vs\<rparr>)))"

definition M_send :: "bool \<Rightarrow> field_format list \<Rightarrow> local_message \<Rightarrow> 8 word list mb_action" where
  "M_send big fs w = send_bytes big (M_serialize big fs w)"

definition M_receive :: "bool \<Rightarrow> local_message cn_action" where
  "M_receive big = receive_with big (Message_deserialize big (local_message_new (message_code M_NOT_USED)))"

definition M_Factory_receive :: "bool \<Rightarrow> local_message cn_action" where
  "M_Factory_receive big =
     factory_receive big (M_receive big) lm_type M_Factory_create (\<lambda>fs k. M_deserialize big fs (local_message_new k))"

end
