(* ===== verification/FederateRoundtrip.thy ===== *)
theory FederateRoundtrip
  imports WireLinks FederateWire
begin

text \<open>
  Messages between a federate and its RTIA: what is received is what was sent, but for what is never serialised.
\<close>

definition federate_head_bytes :: "bool \<Rightarrow> local_message \<Rightarrow> 8 word list" where
  "federate_head_bytes big w =
     memory big 4 (lm_type w) @ outcome_bytes big (lm_exception w) (lm_reason w) w"

definition federate_bytes :: "bool \<Rightarrow> field_format list \<Rightarrow> local_message \<Rightarrow> 8 word list" where
  "federate_bytes big fs w = federate_head_bytes big w @ fields_bytes big fs (lm_fields w)"

lemma length_federate_bytes: "length (federate_bytes big fs w) = length (federate_bytes True fs w)"
  using length_bytes(2) [of big fs "lm_fields w"] length_outcome_bytes [of big "lm_exception w" "lm_reason w" w]
  by (auto simp: federate_bytes_def federate_head_bytes_def)

text \<open>
  What arrives: the extents and the regions do not, and besides an exception only its text, or else no text and the date, the label and
  the tag.
\<close>

definition as_delivered :: "local_message \<Rightarrow> local_message" where
  "as_delivered w =
     (if lm_exception w = 0 then w\<lparr>lm_reason := []\<rparr> else w\<lparr>bm_date := None, bm_label := None, bm_tag := None\<rparr>)
     \<lparr>bm_extents := [], bm_regions := []\<rparr>"

text \<open>A message of a class: the type is that of the class, the fields have their types, and the texts can be counted.\<close>

definition fills :: "field_format list \<Rightarrow> local_message \<Rightarrow> bool" where
  "fills fs w \<longleftrightarrow> M_Factory_create (lm_type w) = Inr fs \<and> short_texts w \<and> length (lm_reason w) < 2 ^ 31 \<and> fits_all fs (lm_fields w)"

lemma federate_types: "M_Factory_create k = Inr fs \<Longrightarrow> k \<noteq> message_code M_NOT_USED \<and> k \<noteq> message_code M_LAST"
proof -
  have "M_Factory_create (message_code M_NOT_USED) = Inl NetworkError" "M_Factory_create (message_code M_LAST) = Inl NetworkError" by code_simp+
  then show "M_Factory_create k = Inr fs \<Longrightarrow> k \<noteq> message_code M_NOT_USED \<and> k \<noteq> message_code M_LAST" by auto
qed

lemma emits_M_serialize:
  assumes "fills fs w"
  shows "emits (M_serialize big fs w) (federate_bytes big fs w)"
proof -
  have w: "short_texts w" "length (lm_reason w) < 2 ^ 31" "fits_all fs (lm_fields w)" "lm_type w \<noteq> message_code M_NOT_USED" "lm_type w \<noteq> message_code M_LAST"
    using assms federate_types by (auto simp: fills_def)
  have check: "seq (throw_if (lm_type w = message_code M_NOT_USED \<or> lm_type w = message_code M_LAST) RTIinternalError) m = m" for m :: "unit mb_action"
    using w(4,5) by (intro ext) (simp add: seq_def bind_def throw_if_run)
  have "emits (Message_serialize big w) (federate_head_bytes big w)"
    unfolding Message_serialize_def check federate_head_bytes_def by (intro emits_seq emits_uint32 emits_outcome w)
  then show ?thesis
    unfolding M_serialize_def federate_bytes_def by (intro emits_seq emits_fields(2) w(3))
qed

lemma consumes_M_head:
  assumes "short_texts w" "length (lm_reason w) < 2 ^ 31"
  shows "consumes (sender = big) (Message_deserialize big (local_message_new k)) (federate_head_bytes sender w) ((as_delivered w)\<lparr>lm_fields := []\<rparr>)"
proof -
  let ?w = "\<lambda>e. (local_message_new k)\<lparr>lm_type := lm_type w, lm_exception := e\<rparr>"
  have "(if lm_exception w \<noteq> 0 then (?w (lm_exception w))\<lparr>lm_reason := lm_reason w\<rparr>
      else (?w (lm_exception w))\<lparr>bm_date := bm_date w, bm_label := bm_label w, bm_tag := bm_tag w\<rparr>) = (as_delivered w)\<lparr>lm_fields := []\<rparr>"
    by (simp add: as_delivered_def local_message_new_def)
  with consumes_outcome [OF assms, of sender big "\<lambda>e r. (?w e)\<lparr>lm_reason := r\<rparr>" ?w "lm_exception w"]
  have body: "consumes (sender = big) (bind (read_uint32 big) (\<lambda>k. if (ucast k :: 8 word) \<noteq> 0 then bind (read_string big) (\<lambda>r. ret ((?w (ucast k))\<lparr>lm_reason := r\<rparr>))
        else BasicMessage_deserialize big (?w (ucast k))))
      (outcome_bytes sender (lm_exception w) (lm_reason w) w) ((as_delivered w)\<lparr>lm_fields := []\<rparr>)"
    by (simp only:)
  show ?thesis
    unfolding Message_deserialize_def federate_head_bytes_def Let_def
    by (rule consumes_bind [OF consumes_uint32]) (use body in simp)
qed

lemma consumes_M_message:
  assumes "short_texts w" "length (lm_reason w) < 2 ^ 31" "fits_all fs (lm_fields w)"
  shows "consumes (sender = big) (M_deserialize big fs (local_message_new k)) (federate_bytes sender fs w) (as_delivered w)"
proof -
  have "consumes (sender = big) (bind (read_fields big fs) (\<lambda>vs. ret ((as_delivered w)\<lparr>lm_fields := []\<rparr>\<lparr>lm_fields := vs\<rparr>)))
      (fields_bytes sender fs (lm_fields w)) ((as_delivered w)\<lparr>lm_fields := []\<rparr>\<lparr>lm_fields := lm_fields w\<rparr>)"
    by (rule consumes_map [OF consumes_fields(2) [OF assms(3)]])
  moreover have "(as_delivered w)\<lparr>lm_fields := []\<rparr>\<lparr>lm_fields := lm_fields w\<rparr> = as_delivered w" by (simp add: as_delivered_def)
  ultimately show ?thesis
    unfolding M_deserialize_def federate_bytes_def by (intro consumes_bind [OF consumes_M_head [OF assms(1,2)]]) simp
qed

interpretation federate_link: message_link M_Factory_create lm_type
  "\<lambda>big. Message_deserialize big (local_message_new (message_code M_NOT_USED))" M_serialize
  "\<lambda>big fs k. M_deserialize big fs (local_message_new k)" federate_head_bytes federate_bytes fills "\<lambda>w. (as_delivered w)\<lparr>lm_fields := []\<rparr>" as_delivered
proof unfold_locales
  show "emits (M_serialize big fs w) (federate_bytes big fs w)" if "fills fs w" for big fs w using that by (rule emits_M_serialize)
  show "\<exists>ys. federate_bytes big fs w = federate_head_bytes big w @ ys" for big fs w by (auto simp: federate_bytes_def)
  show "length (federate_bytes big fs w) = length (federate_bytes True fs w)" for big fs w by (rule length_federate_bytes)
  show "consumes (sender = big) (Message_deserialize big (local_message_new (message_code M_NOT_USED))) (federate_head_bytes sender w) ((as_delivered w)\<lparr>lm_fields := []\<rparr>)" if "fills fs w" for fs w sender big
    using that by (simp add: fills_def consumes_M_head)
  show "consumes (sender = big) (M_deserialize big fs (local_message_new (lm_type w))) (federate_bytes sender fs w) (as_delivered w)" if "fills fs w" for fs w sender big
    using that by (simp add: fills_def consumes_M_message)
qed (simp_all add: fills_def as_delivered_def)

text \<open>A message that is not too long, the header and the reserve of the buffer included.\<close>

definition deliverable :: "field_format list \<Rightarrow> local_message \<Rightarrow> bool" where
  "deliverable fs w \<longleftrightarrow> fills fs w \<and> length (federate_bytes True fs w) + 260 < 2 ^ 32"

lemma federate_message_arrives:
  assumes "standing b" "standing (cn_buffer s)" "deliverable fs w"
  obtains bytes b' s' where "M_send sender fs w b = (Inr bytes, b')" "standing b'"
    "M_Factory_receive big (s\<lparr>cn_incoming := bytes @ later\<rparr>) = (Inr (as_delivered w), s')" "cn_incoming s' = later" "standing (cn_buffer s')"
  using federate_link.arrives [OF assms(1,2), of fs w sender big later] assms(3) unfolding deliverable_def M_send_def M_Factory_receive_def M_receive_def by blast

text \<open>
  C22. A message between a federate and its RTIA is received as it was sent, whatever the byte orders of the two, the contents of their buffers
  and what follows on the connection: exactly the bytes of the message are taken, the buffers are left in order for the next
  message, and the message is the one that was sent but for its extents and regions, which are not sent, and but for the date, the label and the tag of a message with an exception.
\<close>

theorem federate_message_roundtrip:
  assumes "standing b" "standing (cn_buffer s)" "deliverable fs w"
  shows "case M_send sender fs w b of
      (Inr bytes, b') \<Rightarrow> standing b' \<and>
        (case M_Factory_receive big (s\<lparr>cn_incoming := bytes @ later\<rparr>) of
           (Inr v, s') \<Rightarrow> v = as_delivered w \<and> cn_incoming s' = later \<and> standing (cn_buffer s')
         | (Inl e, s') \<Rightarrow> False)
    | (Inl e, _) \<Rightarrow> False"
proof -
  obtain bytes b' s' where "M_send sender fs w b = (Inr bytes, b')" "standing b'"
    "M_Factory_receive big (s\<lparr>cn_incoming := bytes @ later\<rparr>) = (Inr (as_delivered w), s')" "cn_incoming s' = later" "standing (cn_buffer s')"
    using federate_message_arrives [OF assms] by blast
  then show ?thesis by simp
qed

text \<open>An update of an attribute whose value has two bytes, with an event retraction; the sender is big endian, the receiver little endian.\<close>

definition demo_update :: local_message where
  "demo_update = (local_message_new (message_code (Object_message M_UPDATE_ATTRIBUTE_VALUES)))
     \<lparr>bm_date := Some 42,
        lm_fields := [VU32 2, VU32 7, VVector [[VU32 1]], VVector [[VBytes [5, 6]]], VOptional (Some [VU32 3, VU64 9])]\<rparr>"

lemma demo_update_deliverable: "deliverable M_Update_Attribute_Values demo_update"
proof -
  have "M_Factory_create (message_code (Object_message M_UPDATE_ATTRIBUTE_VALUES)) = Inr M_Update_Attribute_Values" by code_simp
  then show ?thesis
    by (simp add: deliverable_def fills_def demo_update_def local_message_new_def short_texts_def M_Update_Attribute_Values_def EventRetraction_def federate_bytes_def federate_head_bytes_def
        outcome_bytes_def basic_bytes_def option_bytes_def)
qed

theorem federate_message_roundtrip_witness:
  "case M_send True M_Update_Attribute_Values demo_update (message_buffer_new (\<lambda>_. 0)) of
      (Inr bytes, b') \<Rightarrow>
        (case M_Factory_receive False \<lparr>cn_buffer = message_buffer_new (\<lambda>_. 0), cn_incoming = bytes @ [0]\<rparr> of
           (Inr v, s') \<Rightarrow> lm_fields v = [VU32 2, VU32 7, VVector [[VU32 1]], VVector [[VBytes [5, 6]]], VOptional (Some [VU32 3, VU64 9])]
             \<and> bm_date v = Some 42 \<and> cn_incoming s' = [0]
         | (Inl e, s') \<Rightarrow> False)
    | (Inl e, b') \<Rightarrow> False"
proof -
  have r: "lm_fields (as_delivered demo_update) = [VU32 2, VU32 7, VVector [[VU32 1]], VVector [[VBytes [5, 6]]], VOptional (Some [VU32 3, VU64 9])]"
    "bm_date (as_delivered demo_update) = Some 42"
    by (simp_all add: as_delivered_def demo_update_def local_message_new_def)
  have "standing (cn_buffer \<lparr>cn_buffer = message_buffer_new (\<lambda>_. 0), cn_incoming = []\<rparr>)" by (simp add: standing_new)
  from federate_message_roundtrip [OF standing_new [of "\<lambda>_. 0"] this demo_update_deliverable, where sender = True and big = False and later = "[0]"] show ?thesis
    by (auto simp: case_prod_beta r split: sum.splits)
qed

end
