(* ===== verification/Queues.thy ===== *)
theory Queues
  imports Messages "HOL-Library.Multiset"
begin

text \<open>
  \<open>RTIA/Files.hh\<close> and \<open>RTIA/Files.cc\<close>: the queues of the messages that wait for delivery to
  the federate, in receive order, in time-stamp order, and the commands.

  The lemmas show that the time-stamp-ordered queue stays ordered, that messages with equal
  time stamps keep their receive order, that no message is lost or duplicated, and that what
  \<open>giveTsoMessage\<close> leaves behind is later than the time it was asked for.
\<close>

record queues =
  fifos :: "network_message list"
  tsos :: "network_message list"
  commands :: "network_message list"

definition queues_new :: queues where
  "queues_new = \<lparr>fifos = [], tsos = [], commands = []\<rparr>"

text \<open>
  The results of the \<open>give\<close> operations: the returned pointer, where \<open>None\<close> is \<open>nullptr\<close>, stands
  for \<open>gave_msg\<close> as well; the boolean is \<open>has_remaining_msg\<close>.
\<close>

type_synonym given = "network_message option \<times> bool"

definition insertFifoMessage :: "network_message \<Rightarrow> (queues, unit) action" where
  "insertFifoMessage m = modify (\<lambda>q. q\<lparr>fifos := fifos q @ [m]\<rparr>)"

definition giveFifoMessage :: "(queues, given) action" where
  "giveFifoMessage = bind (gets fifos) (\<lambda>l. case l of
       [] \<Rightarrow> ret (None, False)
     | m # ms \<Rightarrow> seq (modify (\<lambda>q. q\<lparr>fifos := ms\<rparr>)) (ret (Some m, ms \<noteq> [])))"

text \<open>The loop of \<open>insertTsoMessage\<close>: insert before the first message with a greater date.\<close>

fun tso_insert :: "network_message \<Rightarrow> network_message list \<Rightarrow> network_message list" where
  "tso_insert m [] = [m]"
| "tso_insert m (x # xs) = (if ft_gt (nm_date x) (nm_date m) then m # x # xs else x # tso_insert m xs)"

definition insertTsoMessage :: "network_message \<Rightarrow> (queues, unit) action" where
  "insertTsoMessage m = modify (\<lambda>q. q\<lparr>tsos := tso_insert m (tsos q)\<rparr>)"

definition giveTsoMessage :: "fed_time \<Rightarrow> (queues, given) action" where
  "giveTsoMessage t = bind (gets tsos) (\<lambda>l. case l of
       [] \<Rightarrow> ret (None, False)
     | m # ms \<Rightarrow>
         if ft_le (nm_date m) t then
           seq (modify (\<lambda>q. q\<lparr>tsos := ms\<rparr>))
               (ret (Some m, case ms of [] \<Rightarrow> False | n # _ \<Rightarrow> ft_le (nm_date n) t))
         else ret (None, False))"

text \<open>\<open>nextTsoDate\<close>: \<open>found\<close> and the date, which is \<open>-1.0\<close> for an empty queue.\<close>

definition nextTsoDate :: "queues \<Rightarrow> bool \<times> fed_time" where
  "nextTsoDate q = (case tsos q of [] \<Rightarrow> (False, Fin (- 1)) | m # _ \<Rightarrow> (True, nm_date m))"

definition insertBeginCommand :: "network_message \<Rightarrow> (queues, unit) action" where
  "insertBeginCommand m = modify (\<lambda>q. q\<lparr>commands := m # commands q\<rparr>)"

definition insertLastCommand :: "network_message \<Rightarrow> (queues, unit) action" where
  "insertLastCommand m = modify (\<lambda>q. q\<lparr>commands := commands q @ [m]\<rparr>)"

definition giveCommandMessage :: "(queues, given) action" where
  "giveCommandMessage = bind (gets commands) (\<lambda>l. case l of
       [] \<Rightarrow> ret (None, False)
     | m # ms \<Rightarrow> seq (modify (\<lambda>q. q\<lparr>commands := ms\<rparr>)) (ret (Some m, ms \<noteq> [])))"

section \<open>The contract of a priority queue over a time order\<close>

text \<open>
  The client of \<open>time_order\<close>: insertion before the first greater key keeps a list in which no
  later key is below an earlier one, and places the new element behind its equals.
\<close>

definition sorted_by :: "('t \<Rightarrow> 't \<Rightarrow> bool) \<Rightarrow> ('a \<Rightarrow> 't) \<Rightarrow> 'a list \<Rightarrow> bool" where
  "sorted_by lt key xs \<longleftrightarrow> sorted_wrt (\<lambda>a b. \<not> lt (key b) (key a)) xs"

fun insert_by :: "('t \<Rightarrow> 't \<Rightarrow> bool) \<Rightarrow> ('a \<Rightarrow> 't) \<Rightarrow> 'a \<Rightarrow> 'a list \<Rightarrow> 'a list" where
  "insert_by lt key m [] = [m]"
| "insert_by lt key m (x # xs) = (if lt (key m) (key x) then m # x # xs else x # insert_by lt key m xs)"

lemma mset_insert_by: "mset (insert_by lt key m xs) = add_mset m (mset xs)"
  by (induction xs) auto

lemma set_insert_by: "set (insert_by lt key m xs) = insert m (set xs)"
  by (induction xs) auto

lemma insert_by_split:
  "\<exists>us vs. xs = us @ vs \<and> insert_by lt key m xs = us @ m # vs \<and> (\<forall>u \<in> set us. \<not> lt (key m) (key u))
     \<and> (vs \<noteq> [] \<longrightarrow> lt (key m) (key (hd vs)))"
proof (induction xs)
  case Nil
  then show ?case by auto
next
  case (Cons x xs)
  then obtain us vs where *: "xs = us @ vs" "insert_by lt key m xs = us @ m # vs"
    "\<forall>u \<in> set us. \<not> lt (key m) (key u)" "vs \<noteq> [] \<longrightarrow> lt (key m) (key (hd vs))" by blast
  show ?case
  proof (cases "lt (key m) (key x)")
    case True
    then show ?thesis by (intro exI [of _ "[]"] exI [of _ "x # xs"]) auto
  next
    case False
    with * show ?thesis by (intro exI [of _ "x # us"] exI [of _ vs]) auto
  qed
qed

context time_order
begin

lemma sorted_by_Cons:
  "sorted_by lt key (x # xs) \<longleftrightarrow> (\<forall>y \<in> set xs. \<not> lt (key y) (key x)) \<and> sorted_by lt key xs"
  by (simp add: sorted_by_def)

lemma sorted_insert_by:
  assumes "sorted_by lt key xs" "zero \<le> key m" "\<forall>x \<in> set xs. zero \<le> key x"
  shows "sorted_by lt key (insert_by lt key m xs)"
  using assms
proof (induction xs)
  case Nil
  then show ?case by (simp add: sorted_by_def)
next
  case (Cons x xs)
  show ?case
  proof (cases "lt (key m) (key x)")
    case True
    have "\<not> lt (key y) (key m)" if y: "y \<in> set xs" for y
    proof
      assume "lt (key y) (key m)"
      then have "lt (key y) (key x)" using lt_trans [OF _ _ True] Cons.prems(3) y by simp
      then show False using Cons.prems(1) y by (simp add: sorted_by_Cons)
    qed
    then show ?thesis using True Cons.prems(1) lt_asym by (simp add: sorted_by_Cons)
  next
    case False
    then show ?thesis using Cons by (auto simp: sorted_by_Cons set_insert_by)
  qed
qed

text \<open>All keys behind a key that is strictly above \<open>t\<close> are above \<open>t\<close> in the exact order.\<close>

lemma sorted_by_above:
  assumes "sorted_by lt key (x # xs)" "zero \<le> t" "\<forall>y \<in> set (x # xs). zero \<le> key y" "lt t (key x)" "y \<in> set (x # xs)"
  shows "t < key y"
proof (cases "y = x")
  case True
  then show ?thesis using assms lt_imp_less by simp
next
  case False
  then have y: "\<not> lt (key y) (key x)" "zero \<le> key y" using assms by (auto simp: sorted_by_Cons)
  then show ?thesis using lt_mono [of "key y" t "key x"] assms(4) not_le by blast
qed

end

section \<open>The time-stamp-ordered queue\<close>

lemma tso_insert_by: "tso_insert m xs = insert_by ft_lt nm_date m xs"
  by (induction xs) (auto simp: ft_gt_iff)

definition dates_nonneg :: "network_message list \<Rightarrow> bool" where
  "dates_nonneg ms \<longleftrightarrow> (\<forall>m \<in> set ms. Fin 0 \<le> nm_date m)"

definition tso_ok :: "queues \<Rightarrow> bool" where
  "tso_ok q \<longleftrightarrow> sorted_by ft_lt nm_date (tsos q) \<and> dates_nonneg (tsos q)"

lemma tso_ok_new: "tso_ok queues_new"
  by (simp add: tso_ok_def queues_new_def sorted_by_def dates_nonneg_def)

lemma insertTso_ok: "tso_ok q \<Longrightarrow> Fin 0 \<le> nm_date m \<Longrightarrow> tso_ok (snd (insertTsoMessage m q))"
  by (auto simp: tso_ok_def insertTsoMessage_def act_simps tso_insert_by dates_nonneg_def set_insert_by
      intro!: ft.sorted_insert_by)

lemma giveTso_run:
  "giveTsoMessage t q =
     (case tsos q of [] \<Rightarrow> (Inr (None, False), q)
      | m # ms \<Rightarrow> if ft_le (nm_date m) t
          then (Inr (Some m, case ms of [] \<Rightarrow> False | n # _ \<Rightarrow> ft_le (nm_date n) t), q\<lparr>tsos := ms\<rparr>)
          else (Inr (None, False), q))"
  by (simp add: giveTsoMessage_def act_simps split: list.split)

lemma giveTso_returns: "\<exists>g rem. giveTsoMessage t q = (Inr (g, rem), snd (giveTsoMessage t q))"
  by (auto simp: giveTso_run split: list.split)

lemma giveTso_ok: "tso_ok q \<Longrightarrow> tso_ok (snd (giveTsoMessage t q))"
  by (auto simp: giveTso_run tso_ok_def dates_nonneg_def ft.sorted_by_Cons split: list.split)

lemma giveTso_SomeD:
  assumes "giveTsoMessage t q = (Inr (Some m, rem), q')"
  shows "tsos q = m # tsos q' \<and> ft_le (nm_date m) t \<and> fifos q' = fifos q \<and> commands q' = commands q
    \<and> (rem \<longleftrightarrow> (\<exists>n ns. tsos q' = n # ns \<and> ft_le (nm_date n) t))"
  using assms by (auto simp: giveTso_run split: list.splits if_splits)

lemma giveTso_NoneD:
  assumes "giveTsoMessage t q = (Inr (None, rem), q')"
  shows "q' = q \<and> \<not> rem \<and> (tsos q = [] \<or> ft_lt t (nm_date (hd (tsos q))))"
  using assms by (auto simp: giveTso_run ft_le_iff split: list.splits if_splits)

text \<open>When no message is given, every message in the queue is later than the time asked for.\<close>

lemma giveTso_none_later:
  assumes "tso_ok q" "Fin 0 \<le> t" "giveTsoMessage t q = (Inr (None, rem), q')" "m \<in> set (tsos q)"
  shows "t < nm_date m"
proof -
  obtain x xs where q: "tsos q = x # xs" using assms(4) by (cases "tsos q") auto
  have "ft_lt t (nm_date x)" using giveTso_NoneD [OF assms(3)] q by simp
  then show ?thesis
    using ft.sorted_by_above [of nm_date x xs t m] assms q by (auto simp: tso_ok_def dates_nonneg_def)
qed

text \<open>The front of the queue is a message whose date no other date is below.\<close>

lemma tso_front_least:
  assumes "tso_ok q" "tsos q = x # xs" "m \<in> set (tsos q)"
  shows "\<not> ft_lt (nm_date m) (nm_date x)"
  using assms by (auto simp: tso_ok_def ft.sorted_by_Cons ft_lt_irrefl)

text \<open>Messages with equal dates keep their receive order: the new one goes behind them.\<close>

lemma tso_insert_stable:
  assumes "sorted_by ft_lt nm_date xs" "P m" "\<forall>x \<in> set xs. P x \<longrightarrow> nm_date x = nm_date m"
  shows "filter P (tso_insert m xs) = filter P xs @ [m]"
proof -
  obtain us vs where *: "xs = us @ vs" "insert_by ft_lt nm_date m xs = us @ m # vs"
    "vs \<noteq> [] \<longrightarrow> ft_lt (nm_date m) (nm_date (hd vs))"
    using insert_by_split [of xs ft_lt nm_date m] by blast
  have "sorted_by ft_lt nm_date vs"
    using assms(1) by (simp add: sorted_by_def *(1) sorted_wrt_append)
  then have "\<not> P v" if "v \<in> set vs" for v
    using that *(3) assms(3) ft_lt_irrefl
    by (cases vs) (auto simp: *(1) ft.sorted_by_Cons)
  then have "filter P vs = []" by simp
  then show ?thesis using assms(2) unfolding tso_insert_by *(2) by (simp add: *(1))
qed

end
