(* ===== verification/TimeManagement.thy ===== *)
theory TimeManagement
  imports LBTS Queues
begin

text \<open>
  \<open>RTIA/TimeManagement.hh\<close> and \<open>RTIA/TimeManagement.cc\<close>: the local view that a federate's
  RTIA has of the logical time: time advance requests and grants, the Chandy-Misra-Bryant null
  messages, lookahead, and the delivery of queued messages by \<open>tick\<close>.

  The base class \<open>LBTS\<close> is the field \<open>tm_lbts\<close>. What the code writes to its sockets is appended
  to the logs \<open>tm_sent\<close> (to the RTIG) and \<open>tm_callbacks\<close> (to the federate); a call of a member
  function of \<open>FederationManagement\<close>, \<open>ObjectManagement\<close>, \<open>OwnershipManagement\<close> or
  \<open>DeclarationManagement\<close> for a message is the callback \<open>Deliver\<close> of this message. The output
  parameter \<open>e\<close> is the result of the actions, \<open>None\<close> for \<open>NO_EXCEPTION\<close>. The compile switch
  \<open>CERTI_USE_NULL_PRIME_MESSAGE_PROTOCOL\<close> is the field \<open>tm_nmp\<close>, the readings of
  \<open>system_clock\<close> are the function \<open>tm_clock\<close> of the number of readings before.
\<close>

datatype tick_state = NO_TICK | TICK_BLOCKING | TICK_NEXT | TICK_CALLBACK | TICK_RETURN

datatype type_avancee = PAS_D_AVANCEE | TAR | NER | TARA | NERA

datatype type_granted_state = AFTER_TAR_OR_NER | AFTER_TAR_OR_NER_WITH_ZERO_LK | AFTER_TARA_OR_NERA

datatype callback =
    Deliver network_message
  | TimeAdvanceGrant fed_time
  | TimeRegulationEnabled fed_time
  | TimeConstrainedEnabled fed_time

text \<open>\<open>tm_granted\<close> is \<open>None\<close> while the member is uninitialised: the constructor does not set it.\<close>

record time_management =
  tm_lbts :: lbts
  tm_queues :: queues
  tm_federation :: federation_handle
  tm_federate :: federate_handle
  tm_tick :: tick_state
  tm_async :: bool
  tm_lastNull :: fed_time
  tm_lastNullPrime :: fed_time
  tm_nerRequested :: fed_time
  tm_eventDates :: "fed_time list"
  tm_advance :: type_avancee
  tm_date :: fed_time
  tm_granted :: "type_granted_state option"
  tm_now :: fed_time
  tm_lookahead :: fed_time
  tm_regulating :: bool
  tm_constrained :: bool
  tm_updateRate :: int
  tm_lastState :: network_message
  tm_lastUpdate :: int
  tm_clock :: "nat \<Rightarrow> int"
  tm_readings :: nat
  tm_nmp :: bool
  tm_sent :: "network_message list"
  tm_callbacks :: "callback list"

definition time_management_new :: "bool \<Rightarrow> (nat \<Rightarrow> int) \<Rightarrow> time_management" where
  "time_management_new nmp clock =
     \<lparr>tm_lbts = lbts_new, tm_queues = queues_new, tm_federation = 0, tm_federate = 0, tm_tick = NO_TICK,
      tm_async = False, tm_lastNull = Fin 0, tm_lastNullPrime = Fin 0, tm_nerRequested = Fin 0,
      tm_eventDates = [], tm_advance = PAS_D_AVANCEE, tm_date = Fin 0, tm_granted = None,
      tm_now = Fin 0, tm_lookahead = Fin 0, tm_regulating = False, tm_constrained = False,
      tm_updateRate = 0, tm_lastState = new_message TIME_STATE_UPDATE (TimeState (Fin 0) False (Fin 0) (Fin 0)),
      tm_lastUpdate = 0, tm_clock = clock, tm_readings = 0, tm_nmp = nmp, tm_sent = [], tm_callbacks = []\<rparr>"

type_synonym 'a tm_action = "(time_management, 'a) action"

text \<open>The constant \<open>epsilon2\<close>: the \<open>double\<close> next to \<open>1.0e-4\<close>.\<close>

definition epsilon2 :: rat where
  "epsilon2 = dround (1 / 10000)"

definition with_queues :: "(queues, 'a) action \<Rightarrow> 'a tm_action" where
  "with_queues = on_field tm_queues (\<lambda>q s. s\<lparr>tm_queues := q\<rparr>)"

definition with_lbts :: "(lbts, 'a) action \<Rightarrow> 'a tm_action" where
  "with_lbts = on_field tm_lbts (\<lambda>l s. s\<lparr>tm_lbts := l\<rparr>)"

definition lbts_of :: "time_management \<Rightarrow> fed_time" where
  "lbts_of s = lbts_value (tm_lbts s)"

text \<open>\<open>comm->sendMessage\<close> and \<open>comm->requestFederateService\<close>.\<close>

definition sendMessage :: "network_message \<Rightarrow> unit tm_action" where
  "sendMessage m = modify (\<lambda>s. s\<lparr>tm_sent := tm_sent s @ [m]\<rparr>)"

definition requestFederateService :: "callback \<Rightarrow> unit tm_action" where
  "requestFederateService c = modify (\<lambda>s. s\<lparr>tm_callbacks := tm_callbacks s @ [c]\<rparr>)"

definition from_me :: "time_management \<Rightarrow> network_message \<Rightarrow> network_message" where
  "from_me s m = setFederate (tm_federate s) (setFederation (tm_federation s) m)"

section \<open>Reports on the time state\<close>

definition requestMinNextEventTime :: "time_management \<Rightarrow> fed_time" where
  "requestMinNextEventTime s =
     (case nextTsoDate (tm_queues s) of
        (found, dateTSO) \<Rightarrow>
          if \<not> found then lbts_of s
          else if ft_le (lbts_of s) dateTSO then lbts_of s else dateTSO)"

definition time_state_update :: "time_management \<Rightarrow> network_message" where
  "time_state_update s =
     setDate (tm_now s) (from_me s (new_message TIME_STATE_UPDATE
       (TimeState (tm_lookahead s) (tm_advance s = TAR) (lbts_of s) (requestMinNextEventTime s))))"

definition sendTimeStateUpdate :: "unit tm_action" where
  "sendTimeStateUpdate = (\<lambda>s.
     if tm_updateRate s = 0 then (Inr (), s)
     else
       let msg = time_state_update s
       in if ft_eq (nm_date msg) (nm_date (tm_lastState s)) \<and> nm_body msg = nm_body (tm_lastState s) then (Inr (), s)
          else
            let now = tm_clock s (tm_readings s);
                s1 = s\<lparr>tm_readings := tm_readings s + 1\<rparr>
            in if now - tm_lastUpdate s \<ge> tm_updateRate s
               then (Inr (), s1\<lparr>tm_sent := tm_sent s @ [msg], tm_lastState := msg, tm_lastUpdate := now\<rparr>)
               else (Inr (), s1))"

section \<open>Null messages\<close>

definition sendNullMessage :: "fed_time \<Rightarrow> unit tm_action" where
  "sendNullMessage t =
     bind (gets id) (\<lambda>s.
       let d = ft_add t (tm_lookahead s)
       in if ft_gt d (tm_lastNull s)
          then seq (sendMessage (setDate d (from_me s (new_message MESSAGE_NULL NoBody))))
                   (modify (\<lambda>s. s\<lparr>tm_lastNull := d\<rparr>))
          else ret ())"

definition sendNullPrimeMessage :: "fed_time \<Rightarrow> fed_time tm_action" where
  "sendNullPrimeMessage t =
     bind (gets id) (\<lambda>s.
       if \<not> tm_nmp s then ret t
       else
         let d = (case tm_eventDates s of
                    [] \<Rightarrow> t
                  | smallest # _ \<Rightarrow> if ft_gt smallest (tm_now s) \<and> ft_lt smallest t then smallest else t)
         in if ft_gt d (tm_lastNull s) \<or> ft_gt d (tm_lastNullPrime s)
            then seq (sendMessage (setDate d (from_me s (new_message MESSAGE_NULL_PRIME NoBody))))
                 (seq (modify (\<lambda>s. s\<lparr>tm_lastNullPrime := d\<rparr>)) (ret d))
            else ret d)"

section \<open>Time advance requests\<close>

text \<open>The verifications shared by the four requests: the second one overrides the first.\<close>

definition request_check :: "time_management \<Rightarrow> fed_time \<Rightarrow> exn option" where
  "request_check s t =
     (if ft_lt t (tm_now s) then Some FederationTimeAlreadyPassed
      else if tm_advance s \<noteq> PAS_D_AVANCEE then Some TimeAdvanceAlreadyInProgress
      else None)"

text \<open>A zero lookahead is replaced by \<open>epsilon2\<close> until the grant.\<close>

definition zero_lookahead_trick :: "unit tm_action" where
  "zero_lookahead_trick = modify (\<lambda>s.
     let s1 = s\<lparr>tm_granted := Some AFTER_TAR_OR_NER\<rparr>
     in if ft_eq_double (tm_lookahead s1) 0
        then s1\<lparr>tm_lookahead := Fin epsilon2, tm_granted := Some AFTER_TAR_OR_NER_WITH_ZERO_LK\<rparr>
        else s1)"

definition when_regulating :: "unit tm_action \<Rightarrow> unit tm_action" where
  "when_regulating m = bind (gets tm_regulating) (\<lambda>r. if r then m else ret ())"

definition timeAdvanceRequest :: "fed_time \<Rightarrow> exn option tm_action" where
  "timeAdvanceRequest t =
     bind (gets (\<lambda>s. request_check s t)) (\<lambda>e.
       if e \<noteq> None then ret e
       else
         seq zero_lookahead_trick
         (seq (when_regulating (sendNullMessage t))
         (seq (modify (\<lambda>s. s\<lparr>tm_advance := TAR, tm_date := t\<rparr>))
         (seq sendTimeStateUpdate (ret None)))))"

definition timeAdvanceRequestAvailable :: "fed_time \<Rightarrow> exn option tm_action" where
  "timeAdvanceRequestAvailable t =
     bind (gets (\<lambda>s. request_check s t)) (\<lambda>e.
       if e \<noteq> None then ret e
       else
         seq (modify (\<lambda>s. s\<lparr>tm_granted := Some AFTER_TARA_OR_NERA\<rparr>))
         (seq (when_regulating (sendNullMessage t))
         (seq (modify (\<lambda>s. s\<lparr>tm_advance := TARA, tm_date := t\<rparr>))
         (seq sendTimeStateUpdate (ret None)))))"

definition nextEventRequest :: "fed_time \<Rightarrow> exn option tm_action" where
  "nextEventRequest t =
     bind (gets (\<lambda>s. request_check s t)) (\<lambda>e.
       if e \<noteq> None then ret e
       else
         seq zero_lookahead_trick
         (seq (modify (\<lambda>s. s\<lparr>tm_advance := NER, tm_date := t, tm_nerRequested := t\<rparr>))
         (bind (sendNullPrimeMessage t) (\<lambda>_.
          seq sendTimeStateUpdate (ret None)))))"

text \<open>The guard of the code returns when there is \<^emph>\<open>no\<close> exception.\<close>

definition nextEventRequestAvailable :: "fed_time \<Rightarrow> exn option tm_action" where
  "nextEventRequestAvailable t =
     bind (gets (\<lambda>s. request_check s t)) (\<lambda>e.
       if e = None then ret e
       else
         seq (modify (\<lambda>s. s\<lparr>tm_granted := Some AFTER_TARA_OR_NERA, tm_advance := NERA, tm_date := t\<rparr>))
         (bind (sendNullPrimeMessage t) (\<lambda>_.
          seq sendTimeStateUpdate (ret e))))"

text \<open>\<open>flushQueueRequest\<close> is not implemented in the code: a valid request throws.\<close>

definition flushQueueRequest :: "fed_time \<Rightarrow> exn option tm_action" where
  "flushQueueRequest t =
     bind (gets id) (\<lambda>s.
       let e = (if ft_le t (tm_now s) then Some FederationTimeAlreadyPassed
                else if tm_advance s \<noteq> PAS_D_AVANCEE then Some TimeAdvanceAlreadyInProgress else None)
       in if e = None then throw RTIinternalError else ret e)"

section \<open>The federate's time state\<close>

definition testValidTime :: "fed_time \<Rightarrow> bool tm_action" where
  "testValidTime t =
     bind (gets id) (\<lambda>s.
       case tm_granted s of
         None \<Rightarrow> throw UndefinedBehaviour
       | Some g \<Rightarrow>
           let from = (if tm_advance s = PAS_D_AVANCEE then tm_now s else tm_date s)
           in if g = AFTER_TAR_OR_NER_WITH_ZERO_LK then ret (\<not> ft_le t from)
              else ret (\<not> ft_lt t (ft_add from (tm_lookahead s))))"

definition setLookahead :: "fed_time \<Rightarrow> exn option tm_action" where
  "setLookahead la =
     (let e = (if ft_eq_double la epsilon2 then Some RTIinternalError
               else if ft_lt la (Fin 0) then Some InvalidLookahead else None)
      in if e \<noteq> None then ret e
         else
           seq (modify (\<lambda>s. s\<lparr>tm_lookahead := la\<rparr>))
           (bind (gets tm_now) (\<lambda>now.
            seq (when_regulating (sendNullMessage now))
            (seq sendTimeStateUpdate (ret None)))))"

definition setTimeConstrained :: "bool \<Rightarrow> exn option tm_action" where
  "setTimeConstrained etat =
     bind (gets id) (\<lambda>s.
       if tm_constrained s = etat \<or> tm_advance s \<noteq> PAS_D_AVANCEE then ret (Some RTIinternalError)
       else
         seq (modify (\<lambda>s. s\<lparr>tm_constrained := etat\<rparr>))
         (seq (sendMessage (from_me s (new_message SET_TIME_CONSTRAINED (Constrained etat))))
          (ret None)))"

definition setTimeRegulating :: "bool \<Rightarrow> fed_time \<Rightarrow> fed_time \<Rightarrow> exn option tm_action" where
  "setTimeRegulating etat t la =
     bind (gets id) (\<lambda>s.
       if tm_regulating s = etat \<or> tm_advance s \<noteq> PAS_D_AVANCEE then ret (Some RTIinternalError)
       else
         seq (modify (\<lambda>s. s\<lparr>tm_regulating := etat, tm_lookahead := la\<rparr>))
         (seq (sendMessage (setDate (ft_add (tm_now s) la)
                 (from_me s (new_message SET_TIME_REGULATING (Regulator etat)))))
         (seq sendTimeStateUpdate (ret None))))"

definition StopperAvanceTemps :: "unit tm_action" where
  "StopperAvanceTemps =
     seq (modify (\<lambda>s. s\<lparr>tm_advance := PAS_D_AVANCEE\<rparr>)) sendTimeStateUpdate"

definition updateMinTxMessageDate :: "fed_time \<Rightarrow> unit tm_action" where
  "updateMinTxMessageDate t =
     modify (\<lambda>s. if ft_gt t (tm_now s) then s\<lparr>tm_eventDates := sort (tm_eventDates s @ [t])\<rparr> else s)"

definition setMomUpdateRate :: "int \<Rightarrow> unit tm_action" where
  "setMomUpdateRate r = modify (\<lambda>s. s\<lparr>tm_updateRate := r\<rparr>)"

section \<open>Delivery to the federate\<close>

definition timeAdvanceGrant :: "fed_time \<Rightarrow> unit tm_action" where
  "timeAdvanceGrant t =
     seq (modify (\<lambda>s. s\<lparr>tm_lookahead := (if ft_eq_double (tm_lookahead s) epsilon2 then Fin 0 else tm_lookahead s),
                        tm_tick := TICK_NEXT\<rparr>))
     (seq (requestFederateService (TimeAdvanceGrant t))
     (seq (modify (\<lambda>s. s\<lparr>tm_now := t\<rparr>)) sendTimeStateUpdate))"

text \<open>The message types that \<open>executeFederateService\<close> hands to another component.\<close>

definition delivered_types :: "nm_type list" where
  "delivered_types =
     [FEDERATION_SYNCHRONIZED, CONFIRM_SYNCHRONIZATION_POINT_REGISTRATION, ANNOUNCE_SYNCHRONIZATION_POINT,
      DISCOVER_OBJECT, REFLECT_ATTRIBUTE_VALUES, PROVIDE_ATTRIBUTE_VALUE_UPDATE, RECEIVE_INTERACTION,
      REMOVE_OBJECT, INFORM_ATTRIBUTE_OWNERSHIP, ATTRIBUTE_IS_NOT_OWNED,
      REQUEST_ATTRIBUTE_OWNERSHIP_ASSUMPTION, ATTRIBUTE_OWNERSHIP_UNAVAILABLE,
      ATTRIBUTE_OWNERSHIP_ACQUISITION_NOTIFICATION, ATTRIBUTE_OWNERSHIP_DIVESTITURE_NOTIFICATION,
      REQUEST_ATTRIBUTE_OWNERSHIP_RELEASE, CONFIRM_ATTRIBUTE_OWNERSHIP_ACQUISITION_CANCELLATION,
      INITIATE_FEDERATE_SAVE, FEDERATION_SAVED, FEDERATION_NOT_SAVED,
      REQUEST_FEDERATION_RESTORE_SUCCEEDED, REQUEST_FEDERATION_RESTORE_FAILED, FEDERATION_RESTORE_BEGUN,
      INITIATE_FEDERATE_RESTORE, FEDERATION_RESTORED, FEDERATION_NOT_RESTORED,
      START_REGISTRATION_FOR_OBJECT_CLASS,
      RESERVE_OBJECT_INSTANCE_NAME_SUCCEEDED, RESERVE_OBJECT_INSTANCE_NAME_FAILED]"

definition executeFederateService :: "network_message \<Rightarrow> unit tm_action" where
  "executeFederateService m =
     seq (modify (\<lambda>s. s\<lparr>tm_tick := TICK_NEXT\<rparr>))
     (if nm_kind m \<in> set delivered_types then requestFederateService (Deliver m)
      else if nm_kind m = TIME_REGULATION_ENABLED then requestFederateService (TimeRegulationEnabled (nm_date m))
      else if nm_kind m = TIME_CONSTRAINED_ENABLED then requestFederateService (TimeConstrainedEnabled (nm_date m))
      else throw RTIinternalError)"

text \<open>\<open>timeAdvance\<close> returns \<open>msg_restant\<close>; \<open>e\<close> is the exception set before the call.\<close>

definition grant_allowed :: "bool \<Rightarrow> type_avancee \<Rightarrow> type_avancee \<Rightarrow> fed_time \<Rightarrow> fed_time \<Rightarrow> bool" where
  "grant_allowed nmp available kind date bound =
     (if nmp then ft_le date bound
      else ft_lt date bound \<or> (ft_le date bound \<and> kind = available))"

definition grant_and_stop :: "fed_time \<Rightarrow> unit tm_action" where
  "grant_and_stop t = seq (timeAdvanceGrant t) (modify (\<lambda>s. s\<lparr>tm_advance := PAS_D_AVANCEE\<rparr>))"

definition timeAdvance :: "exn option \<Rightarrow> bool tm_action" where
  "timeAdvance e =
     bind (gets id) (\<lambda>s.
       if tm_constrained s then
         bind (with_queues (giveTsoMessage (if ft_lt (lbts_of s) (tm_date s) then lbts_of s else tm_date s)))
         (\<lambda>(msg, rest). case msg of
            None \<Rightarrow>
              if grant_allowed (tm_nmp s) TARA (tm_advance s) (tm_date s) (lbts_of s) then
                seq (timeAdvanceGrant (tm_date s))
                (if e \<noteq> None then ret rest
                 else seq (modify (\<lambda>s. s\<lparr>tm_advance := PAS_D_AVANCEE\<rparr>)) (seq sendTimeStateUpdate (ret rest)))
              else seq sendTimeStateUpdate (ret rest)
          | Some m \<Rightarrow> seq (executeFederateService m) (seq sendTimeStateUpdate (ret rest)))
       else
         seq (timeAdvanceGrant (tm_date s))
         (if e \<noteq> None then ret False
          else seq (modify (\<lambda>s. s\<lparr>tm_advance := PAS_D_AVANCEE\<rparr>)) (seq sendTimeStateUpdate (ret False))))"

text \<open>
  The events later than the last anonymous update that are kept for the null prime message.
  The subtraction is on raw doubles, where an infinite minus an infinite one is not a number and
  the comparison is false.
\<close>

fun far_from :: "fed_time \<Rightarrow> fed_time \<Rightarrow> bool" where
  "far_from (Fin a) (Fin b) = (\<bar>dround (a - b)\<bar> > epsilon2)"
| "far_from PInf PInf = False"
| "far_from _ _ = True"

definition echo_null_prime :: "unit tm_action" where
  "echo_null_prime =
     bind (gets id) (\<lambda>s.
       if lbts_anonymous (tm_lbts s) then
         let last = lbts_last_anonymous (tm_lbts s)
         in seq (modify (\<lambda>s. s\<lparr>tm_eventDates := filter (\<lambda>d. d > last \<and> far_from d last) (tm_eventDates s)\<rparr>))
            (bind (sendNullPrimeMessage (tm_nerRequested s)) (\<lambda>_.
             modify (\<lambda>s. s\<lparr>tm_lbts := lbts_resetAnonymousUpdate (tm_lbts s)\<rparr>)))
       else ret ())"

definition nextEventAdvance :: "bool tm_action" where
  "nextEventAdvance =
     bind (gets id) (\<lambda>s.
       if tm_constrained s then
         let (present, dateTSO) = nextTsoDate (tm_queues s);
             date_min = (if present \<and> ft_lt dateTSO (tm_date s) then dateTSO else tm_date s)
         in if grant_allowed (tm_nmp s) NERA (tm_advance s) date_min (lbts_of s) then
              seq (modify (\<lambda>s. s\<lparr>tm_date := date_min\<rparr>))
              (seq (if tm_nmp s then ret () else when_regulating (sendNullMessage date_min))
              (bind (with_queues (giveTsoMessage date_min)) (\<lambda>(msg, rest).
               seq (case msg of Some m \<Rightarrow> executeFederateService m | None \<Rightarrow> grant_and_stop date_min)
               (seq sendTimeStateUpdate (ret rest)))))
            else
              seq (when_regulating (if tm_nmp s then echo_null_prime else sendNullMessage (lbts_of s)))
              (seq sendTimeStateUpdate (ret False))
       else
         seq (when_regulating (sendNullMessage (tm_date s)))
         (seq (grant_and_stop (tm_date s))
         (seq sendTimeStateUpdate (ret False))))"

text \<open>\<open>advance\<close> leaves \<open>msg_restant\<close> as it is when no advance is pending.\<close>

definition advance :: "exn option \<Rightarrow> bool \<Rightarrow> bool tm_action" where
  "advance e rest =
     bind (gets tm_advance) (\<lambda>a. case a of
         TAR \<Rightarrow> timeAdvance e | TARA \<Rightarrow> timeAdvance e
       | NER \<Rightarrow> nextEventAdvance | NERA \<Rightarrow> nextEventAdvance
       | PAS_D_AVANCEE \<Rightarrow> ret rest)"

text \<open>\<open>tick\<close>: a command first, then a receive-ordered message, then an attempt to advance.\<close>

definition tick_message :: "given tm_action" where
  "tick_message =
     bind (with_queues giveCommandMessage) (\<lambda>(msg, rest). case msg of
         Some m \<Rightarrow> ret (Some m, rest)
       | None \<Rightarrow>
           bind (gets id) (\<lambda>s.
             if tm_async s \<or> tm_advance s \<noteq> PAS_D_AVANCEE \<or> \<not> tm_constrained s
             then with_queues giveFifoMessage else ret (None, rest)))"

definition tick :: "exn option \<Rightarrow> bool tm_action" where
  "tick e =
     bind tick_message (\<lambda>(msg, rest).
     bind (case msg of Some m \<Rightarrow> seq (executeFederateService m) (ret rest) | None \<Rightarrow> advance e rest) (\<lambda>rest'.
     seq sendTimeStateUpdate (ret rest')))"

end
