(* ===== verification/RtiaMessages.thy ===== *)
theory RtiaMessages
  imports MessageFields FedTime
begin

text \<open>
  The messages between a federate and its RTIA (\<open>libCERTI/M_Classes.hh\<close>): the requests of the federate, the answers
  of the RTIA, and the callbacks.
\<close>

datatype resign_action = RELEASE_ATTRIBUTES | DELETE_OBJECTS | DELETE_OBJECTS_AND_RELEASE_ATTRIBUTES | NO_ACTION

text \<open>
  The requests of the federate (\<open>libCERTI/M_Classes.hh\<close>), one constructor for each message type with the fields
  that the RTIA reads; a date that may be missing is an option, and a pair of types that differ in one choice
  is one constructor with a boolean.
\<close>

datatype (plugins only: code) federation_request =
    OpenConnexion nat nat
  | CloseConnexion
  | CreateFederation string string
  | CreateFederationV4 string "string list" string rti_version
  | DestroyFederation string
  | JoinFederation string string
  | JoinFederationV4 string string string "string list" rti_version
  | ResignFederation resign_action
  | RegisterPoint string string "federate_handle list"
  | PointAchieved string
  | RequestSave string "fed_time option"
  | SaveBegun
  | SaveComplete bool
  | RequestRestore string
  | RestoreComplete bool

datatype (plugins only: code) declaration_request =
    PublishClass object_class_handle "attribute_handle list"
  | UnpublishClass object_class_handle
  | PublishInteraction bool interaction_class_handle
  | SubscribeClass object_class_handle "attribute_handle list"
  | UnsubscribeClass object_class_handle
  | SubscribeInteraction bool interaction_class_handle
  | ClassRelevanceSwitch bool
  | InteractionRelevanceSwitch bool

datatype (plugins only: code) object_request =
    ReserveName string
  | RegisterInstance object_class_handle string
  | UpdateValues object_handle "attribute_handle list" "attribute_value list" string "fed_time option"
  | SendInteraction interaction_class_handle "parameter_handle list" "attribute_value list" string region_handle "fed_time option"
  | DeleteInstance object_handle string "fed_time option"
  | ChangeAttributeTransport object_handle "attribute_handle list" "32 word"
  | ChangeAttributeOrder object_handle "attribute_handle list" "32 word"
  | ChangeInteractionTransport interaction_class_handle "32 word"
  | ChangeInteractionOrder interaction_class_handle "32 word"
  | RequestObjectUpdate object_handle "attribute_handle list"
  | RequestClassUpdate object_class_handle "attribute_handle list"
  | Retract
  | AttributeRelevanceSwitch bool
  | AttributeScopeSwitch bool

datatype (plugins only: code) ownership_request =
    Divest object_handle "attribute_handle list"
  | NegotiateDivestiture object_handle "attribute_handle list" string
  | CancelDivestiture object_handle "attribute_handle list"
  | AcquireOwnership object_handle "attribute_handle list" string
  | AcquireIfAvailable object_handle "attribute_handle list"
  | ReleaseResponse object_handle "attribute_handle list"
  | CancelAcquisition object_handle "attribute_handle list"
  | QueryOwner object_handle attribute_handle
  | IsOwner object_handle attribute_handle

datatype (plugins only: code) time_request =
    QueryLBTS
  | AsynchronousDelivery bool
  | QueryTime
  | QueryMinNextEvent
  | ModifyLookahead fed_time
  | QueryLookahead
  | AdvanceRequest fed_time
  | AdvanceRequestAvailable fed_time
  | NextRequest fed_time
  | NextRequestAvailable fed_time
  | FlushQueue
  | Regulation bool fed_time fed_time
  | ConstrainedTime bool

datatype (plugins only: code) tick_request =
    TickRequest bool fed_time fed_time
  | TickRequestNext
  | TickRequestStop

datatype (plugins only: code) support_request =
    GetObjectClassHandle string
  | GetObjectClassName object_class_handle
  | GetObjectInstanceHandle string
  | GetObjectInstanceName object_handle
  | GetAttributeHandle string object_class_handle
  | GetAttributeName attribute_handle object_class_handle
  | GetInteractionClassHandle string
  | GetInteractionClassName interaction_class_handle
  | GetParameterHandle string interaction_class_handle
  | GetParameterName parameter_handle interaction_class_handle
  | GetSpaceHandle string
  | GetSpaceName space_handle
  | GetDimensionHandle string space_handle
  | GetDimensionName dimension_handle space_handle
  | GetAttributeSpace attribute_handle object_class_handle
  | GetInteractionSpace interaction_class_handle
  | GetObjectClass object_handle
  | GetTransportationHandle string
  | GetTransportationName "32 word"
  | GetOrderingHandle string
  | GetOrderingName "32 word"

datatype (plugins only: code) region_request =
    CreateRegion space_handle nat
  | ModifyRegion region_handle "extent list"
  | DeleteRegion region_handle
  | AssociateRegion object_handle region_handle "attribute_handle list"
  | RegisterWithRegions object_class_handle string "attribute_handle list" "region_handle list"
  | UnassociateRegion object_handle region_handle
  | SubscribeRegion object_class_handle region_handle "attribute_handle list"
  | UnsubscribeRegion object_class_handle region_handle
  | SubscribeInteractionRegion bool interaction_class_handle region_handle

datatype (plugins only: code) request =
    FederationRequest federation_request
  | DeclarationRequest declaration_request
  | ObjectRequest object_request
  | OwnershipRequest ownership_request
  | TimeRequest time_request
  | TickingRequest tick_request
  | SupportRequest support_request
  | RegionRequest region_request
  | OtherRequest

text \<open>
  The answer to a request: the exception and the fields that the service sets. The fields that were set
  before an exception was thrown are left out: the ambassador reads nothing from an answer with an exception.
\<close>

datatype answer_fields =
    NoFields
  | Version nat nat
  | Creation string "string list"
  | HandleField handle
  | JoinedField federate_handle string string
  | NameField string
  | AttributesField "attribute_handle list"
  | RegionField region_handle nat
  | TagField string
  | DateField fed_time
  | LookaheadField fed_time

record rtia_answer =
  an_exception :: "exn option"
  an_fields :: answer_fields

text \<open>What is written to the federate: answers, and the callbacks with the fields that the ambassador reads.\<close>

datatype federate_message =
    Answer request rtia_answer
  | TickReturn bool
  | FederationSynchronized string
  | PointRegistered bool string
  | PointAnnounced string string
  | DiscoverInstance object_handle object_class_handle string fed_time
  | ReflectValues object_handle "attribute_handle list" "attribute_value list" string "fed_time option"
  | ReceiveInteraction interaction_class_handle "parameter_handle list" "attribute_value list" string "fed_time option"
  | RemoveInstance object_handle string "fed_time option"
  | ProvideUpdate object_handle "attribute_handle list"
  | OwnerInformed object_handle attribute_handle federate_handle
  | NotOwned object_handle attribute_handle
  | AssumptionRequested object_handle "attribute_handle list" string
  | OwnershipUnavailable object_handle "attribute_handle list"
  | OwnershipAcquired object_handle "attribute_handle list"
  | OwnershipDivested object_handle "attribute_handle list"
  | ReleaseRequested object_handle "attribute_handle list" string
  | AcquisitionCancelled object_handle "attribute_handle list"
  | InitiateSave string
  | FederationSaved bool
  | RestoreRequested bool string string
  | RestoreBegun
  | InitiateRestore string federate_handle
  | FederationRestored bool
  | StartRegistration object_class_handle
  | NameReserved bool string
  | AdvanceGranted fed_time
  | RegulationEnabled fed_time
  | ConstraintEnabled fed_time

end
