(* ===== verification/Rtia.thy ===== *)
theory Rtia
  imports TimeManagement Fom RtiaMessages
begin

text \<open>
  \<open>RTIA/Communications.cc\<close> and \<open>RTIA/FederationManagement.cc\<close>: the state of an RTIA, the process between a
  federate and the RTIG, its connections, and the life of its federate in a federation.

  The managers of the code share one object of class \<open>Communications\<close> and one root object, so that they are
  one record here. The handles of \<open>FederationManagement\<close> are the fields \<open>tm_federation\<close> and \<open>tm_federate\<close> of the
  time management, which reads them from there; what is sent to the RTIG is the log \<open>tm_sent\<close>, so that the
  messages of all managers are in one order. The messages that the links bring are lists, which are
  consumed from the front; when a list is empty the other side has closed the connection.
\<close>

section \<open>The state\<close>

datatype connection_state = ConnectionPrelude | ConnectionReady | ConnectionEnded

record federation_management =
  fm_federation_name :: string
  fm_federate_name :: string
  fm_member :: bool
  fm_saving :: bool
  fm_restoring :: bool
  fm_labels :: "string list"
  fm_connection :: connection_state

text \<open>
  \<open>ra_waiting\<close> is \<open>waitingList\<close>; \<open>ra_tcp\<close>, \<open>ra_udp\<close> and \<open>ra_un\<close> are what the links will bring; \<open>ra_out\<close> is the log
  of what is written to the federate. \<open>ra_multiple\<close>, \<open>ra_result\<close>, \<open>ra_max_tick\<close> and \<open>ra_start\<close> are the members
  \<open>_tick_multiple\<close>, \<open>_tick_result\<close>, \<open>_tick_max_tick\<close> and \<open>_tick_clock_start\<close> of the time management, and
  \<open>ra_clock\<close> are the readings of the clock in nanoseconds. \<open>ra_axis\<close> are the bounds of the axes. \<open>ra_unset\<close> is what a member of a message reads as
  that its constructor does not initialise.
\<close>

record rtia =
  ra_tm :: time_management
  ra_fm :: federation_management
  ra_root :: root
  ra_waiting :: "network_message list"
  ra_tcp :: "network_message list"
  ra_udp :: "network_message list"
  ra_un :: "request list"
  ra_address :: "32 word"
  ra_port :: "32 word"
  ra_multiple :: bool
  ra_result :: bool
  ra_max_tick :: fed_time
  ra_start :: int
  ra_clock :: "nat \<Rightarrow> int"
  ra_readings :: nat
  ra_axis :: axis
  ra_unset :: handle
  ra_out :: "federate_message list"

type_synonym 'a rtia_action = "(rtia, 'a) action"

definition federation_management_new :: federation_management where
  "federation_management_new =
     \<lparr>fm_federation_name = [], fm_federate_name = [], fm_member = False, fm_saving = False, fm_restoring = False,
      fm_labels = [], fm_connection = ConnectionPrelude\<rparr>"

text \<open>The constructor of \<open>RTIA\<close> on links that will bring the given messages; its root object has no security server.\<close>

definition rtia_new :: "bool \<Rightarrow> (nat \<Rightarrow> int) \<Rightarrow> 32 word \<Rightarrow> 32 word \<Rightarrow> axis \<Rightarrow> handle \<Rightarrow> network_message list \<Rightarrow> network_message list \<Rightarrow> request list \<Rightarrow> rtia" where
  "rtia_new nmp clock address port axis unset tcp udp un =
     \<lparr>ra_tm = time_management_new nmp clock, ra_fm = federation_management_new, ra_root = root_new False,
      ra_waiting = [], ra_tcp = tcp, ra_udp = udp, ra_un = un, ra_address = address, ra_port = port, ra_multiple = False,
      ra_result = False, ra_max_tick = Fin 0, ra_start = 0, ra_clock = clock, ra_readings = 0, ra_axis = axis, ra_unset = unset, ra_out = []\<rparr>"

definition on_tm :: "(time_management, 'a) action \<Rightarrow> 'a rtia_action" where
  "on_tm = on_field ra_tm (\<lambda>t s. s\<lparr>ra_tm := t\<rparr>)"

definition on_fm :: "(federation_management, 'a) action \<Rightarrow> 'a rtia_action" where
  "on_fm = on_field ra_fm (\<lambda>t s. s\<lparr>ra_fm := t\<rparr>)"

definition on_object_model :: "'a root_action \<Rightarrow> 'a rtia_action" where
  "on_object_model = on_field ra_root (\<lambda>t s. s\<lparr>ra_root := t\<rparr>)"

text \<open>A call of the root object that does not change it.\<close>

definition ask_root :: "(root \<Rightarrow> exn + 'a) \<Rightarrow> 'a rtia_action" where
  "ask_root f = bind (gets (\<lambda>s. f (ra_root s))) lift_sum"

text \<open>Without a security server nothing is broadcast and no access is checked.\<close>

definition no_server :: object_env where
  "no_server = \<lparr>env_federation = 0, env_link = (\<lambda>_. Inr None), env_access = (\<lambda>_ _. Inr True)\<rparr>"

definition federate_of :: "rtia \<Rightarrow> federate_handle" where
  "federate_of s = tm_federate (ra_tm s)"

definition federation_of :: "rtia \<Rightarrow> federation_handle" where
  "federation_of s = tm_federation (ra_tm s)"

section \<open>Communications\<close>

definition send_message :: "network_message \<Rightarrow> unit rtia_action" where
  "send_message m = on_tm (sendMessage m)"

definition tell :: "federate_message \<Rightarrow> unit rtia_action" where
  "tell m = modify (\<lambda>s. s\<lparr>ra_out := ra_out s @ [m]\<rparr>)"

definition awaited :: "nm_type \<Rightarrow> federate_handle \<Rightarrow> network_message \<Rightarrow> bool" where
  "awaited k f m \<longleftrightarrow> nm_kind m = k \<and> (nm_federate m = f \<or> f = 0)"

text \<open>\<open>searchMessage\<close> takes the first such message out of the waiting list.\<close>

fun searchMessage :: "nm_type \<Rightarrow> federate_handle \<Rightarrow> network_message list \<Rightarrow> (network_message \<times> network_message list) option" where
  "searchMessage k f [] = None"
| "searchMessage k f (m # ms) =
     (if awaited k f m then Some (m, ms) else map_option (\<lambda>(x, rest). (x, m # rest)) (searchMessage k f ms))"

text \<open>The loop of \<open>waitMessage\<close>; what else arrives waits at the end of the list.\<close>

fun receive_until :: "nm_type \<Rightarrow> federate_handle \<Rightarrow> network_message list \<Rightarrow> network_message rtia_action" where
  "receive_until k f [] = seq (modify (\<lambda>s. s\<lparr>ra_tcp := []\<rparr>)) (throw NetworkError)"
| "receive_until k f (m # ms) =
     (if awaited k f m then seq (modify (\<lambda>s. s\<lparr>ra_tcp := ms\<rparr>)) (ret m)
      else seq (modify (\<lambda>s. s\<lparr>ra_waiting := ra_waiting s @ [m]\<rparr>)) (receive_until k f ms))"

definition waitMessage :: "nm_type \<Rightarrow> federate_handle \<Rightarrow> network_message rtia_action" where
  "waitMessage k f =
     bind (gets (\<lambda>s. searchMessage k f (ra_waiting s))) (\<lambda>x. case x of
         Some (m, rest) \<Rightarrow> seq (modify (\<lambda>s. s\<lparr>ra_waiting := rest\<rparr>)) (ret m)
       | None \<Rightarrow> bind (gets ra_tcp) (receive_until k f))"

text \<open>
  What \<open>isDataReady\<close> and \<open>select\<close> report when \<open>readMessage\<close> looks at the links; none of them is ready when the
  timeout of \<open>select\<close> expires.
\<close>

record links_ready =
  rd_tcp :: bool
  rd_udp :: bool
  rd_federate :: bool
  rd_signal :: bool

datatype read_result = FromNetwork network_message | FromFederate request | Timeout

definition receiveTcp :: "read_result rtia_action" where
  "receiveTcp = bind (gets ra_tcp) (\<lambda>l. case l of
       [] \<Rightarrow> throw NetworkError
     | m # ms \<Rightarrow> seq (modify (\<lambda>s. s\<lparr>ra_tcp := ms\<rparr>)) (ret (FromNetwork m)))"

definition receiveUdp :: "read_result rtia_action" where
  "receiveUdp = bind (gets ra_udp) (\<lambda>l. case l of
       [] \<Rightarrow> throw NetworkError
     | m # ms \<Rightarrow> seq (modify (\<lambda>s. s\<lparr>ra_udp := ms\<rparr>)) (ret (FromNetwork m)))"

definition receiveUN :: "read_result rtia_action" where
  "receiveUN = bind (gets ra_un) (\<lambda>l. case l of
       [] \<Rightarrow> throw NetworkError
     | m # ms \<Rightarrow> seq (modify (\<lambda>s. s\<lparr>ra_un := ms\<rparr>)) (ret (FromFederate m)))"

text \<open>\<open>readMessage\<close>; \<open>network\<close> says whether \<open>msg_reseau\<close> is not null. The federate is always listened to.\<close>

definition readMessage :: "links_ready \<Rightarrow> bool \<Rightarrow> read_result rtia_action" where
  "readMessage r network =
     bind (gets ra_waiting) (\<lambda>w.
       if network \<and> w \<noteq> [] then seq (modify (\<lambda>s. s\<lparr>ra_waiting := tl w\<rparr>)) (ret (FromNetwork (hd w)))
       else if network \<and> rd_tcp r then receiveTcp
       else if network \<and> rd_udp r then receiveUdp
       else if rd_federate r then receiveUN
       else if rd_signal r then throw NetworkSignal
       else ret Timeout)"

section \<open>Requests to the RTIG\<close>

text \<open>A message about this federate, and one that is answered by a message of its type.\<close>

definition send_mine :: "(network_message \<Rightarrow> network_message) \<Rightarrow> nm_type \<Rightarrow> msg_body \<Rightarrow> unit rtia_action" where
  "send_mine f k b = bind (gets (\<lambda>s. f (from_me (ra_tm s) (new_message k b)))) send_message"

definition ask :: "(network_message \<Rightarrow> network_message) \<Rightarrow> nm_type \<Rightarrow> msg_body \<Rightarrow> network_message rtia_action" where
  "ask f k b = seq (send_mine f k b) (bind (gets federate_of) (waitMessage k))"

text \<open>Most services return the exception of the answer and nothing else.\<close>

definition ask_plain :: "(network_message \<Rightarrow> network_message) \<Rightarrow> nm_type \<Rightarrow> msg_body \<Rightarrow> exn option rtia_action" where
  "ask_plain f k b = bind (ask f k b) (\<lambda>rep. ret (nm_exception rep))"

section \<open>Federation management\<close>

fun nm_getNumberOfRegulators :: "msg_body \<Rightarrow> nat" where
  "nm_getNumberOfRegulators (JoinReply _ n _ _ _) = n"
| "nm_getNumberOfRegulators _ = 0"

fun nm_getFom :: "msg_body \<Rightarrow> fom" where
  "nm_getFom (JoinReply _ _ _ _ m) = m"
| "nm_getFom (FomModule m) = m"
| "nm_getFom _ = \<lparr>fom_spaces = [], fom_classes = [], fom_interactions = []\<rparr>"

definition checkFederationSaving :: "unit rtia_action" where
  "checkFederationSaving = bind (gets (\<lambda>s. fm_saving (ra_fm s))) (\<lambda>b. throw_if b SaveInProgress)"

definition checkFederationRestoring :: "unit rtia_action" where
  "checkFederationRestoring = bind (gets (\<lambda>s. fm_restoring (ra_fm s))) (\<lambda>b. throw_if b RestoreInProgress)"

definition set_connection :: "connection_state \<Rightarrow> unit rtia_action" where
  "set_connection c = on_fm (modify (\<lambda>f. f\<lparr>fm_connection := c\<rparr>))"

definition set_handles :: "federation_handle \<Rightarrow> federate_handle \<Rightarrow> unit rtia_action" where
  "set_handles fn h = on_tm (modify (\<lambda>t. t\<lparr>tm_federation := fn, tm_federate := h\<rparr>))"

text \<open>The exceptions of a creation that are passed on; every other one becomes an internal error.\<close>

definition creation_exception :: "exn \<Rightarrow> exn" where
  "creation_exception e =
     (if e \<in> {CouldNotOpenFED, FederationExecutionAlreadyExists, ErrorReadingFED} then e else RTIinternalError)"

text \<open>A federate that is a member already gets an internal error in the end, but the request is sent.\<close>

definition createFederationExecution :: "string \<Rightarrow> string list \<Rightarrow> string \<Rightarrow> rti_version \<Rightarrow> exn option rtia_action" where
  "createFederationExecution name modules mim version =
     bind (gets (\<lambda>s. if fm_member (ra_fm s) then Some RTIinternalError else None)) (\<lambda>e.
     seq (send_message (new_message CREATE_FEDERATION_EXECUTION (CreationOf name modules mim version)))
     (bind (bind (gets federate_of) (waitMessage CREATE_FEDERATION_EXECUTION)) (\<lambda>rep. case nm_exception rep of
         None \<Rightarrow> seq (on_fm (modify (\<lambda>f. f\<lparr>fm_federation_name := name\<rparr>)))
                 (seq (on_tm (modify (\<lambda>t. t\<lparr>tm_federation := nm_federation rep\<rparr>))) (ret e))
       | Some x \<Rightarrow> throw (creation_exception x))))"

definition destroyFederationExecution :: "string \<Rightarrow> exn option rtia_action" where
  "destroyFederationExecution name =
     bind (ask id (Service DESTROY_FEDERATION_EXECUTION) (FederationNameOf name)) (\<lambda>rep. case nm_exception rep of
         None \<Rightarrow> seq (on_fm (modify (\<lambda>f. f\<lparr>fm_federation_name := []\<rparr>)))
                 (seq (on_tm (modify (\<lambda>t. t\<lparr>tm_federation := 0\<rparr>))) (ret None))
       | Some x \<Rightarrow> ret (Some x))"

text \<open>
  One null message for each regulating federate. The code reads the number of regulators from the reply at each turn, after the
  reply has been freed by the first one; the number here is the one that the reply held.
\<close>

primrec insert_regulators :: "nat \<Rightarrow> unit rtia_action" where
  "insert_regulators 0 = ret ()"
| "insert_regulators (Suc n) =
     bind (waitMessage MESSAGE_NULL 0) (\<lambda>m.
     seq (on_tm (with_lbts (lbts_insert (nm_federate m) (nm_date m)))) (insert_regulators n))"

definition joinFederationExecution :: "string \<Rightarrow> string \<Rightarrow> string \<Rightarrow> string list \<Rightarrow> rti_version
    \<Rightarrow> (exn option \<times> federate_handle) rtia_action" where
  "joinFederationExecution name type federation modules version =
     bind (gets (\<lambda>s. fm_member (ra_fm s))) (\<lambda>member.
       if member then ret (Some FederateAlreadyExecutionMember, 0)
       else
         seq (bind (gets (\<lambda>s. new_message JOIN_FEDERATION_EXECUTION
                (JoinRequest federation name type modules version (ra_port s) (ra_address s)))) send_message)
         (bind (waitMessage JOIN_FEDERATION_EXECUTION 0) (\<lambda>rep. case nm_exception rep of
             None \<Rightarrow>
               seq (on_object_model (rebuildFromSerializedFOM (nm_getFom (nm_body rep))))
               (seq (on_fm (modify (\<lambda>f. f\<lparr>fm_federation_name := federation, fm_federate_name := name\<rparr>)))
               (seq (set_handles (nm_federation rep) (nm_federate rep))
               (seq (on_tm (with_lbts (modify (lbts_setFederate (nm_federate rep)))))
               (seq (insert_regulators (nm_getNumberOfRegulators (nm_body rep)))
               (seq (on_fm (modify (\<lambda>f. f\<lparr>fm_member := True\<rparr>)))
                (bind (gets federate_of) (\<lambda>h. ret (None, h))))))))
           | Some x \<Rightarrow> ret (Some x, 0))))"

text \<open>The flags and the labels of the federation that is left are kept.\<close>

definition resignFederationExecution :: "exn option rtia_action" where
  "resignFederationExecution =
     bind (gets (\<lambda>s. fm_member (ra_fm s))) (\<lambda>member.
       if \<not> member then ret (Some FederateNotExecutionMember)
       else
         seq (on_tm StopperAvanceTemps)
         (seq (bind (gets (\<lambda>s. tm_regulating (ra_tm s))) (\<lambda>r.
                 if r then seq (on_tm (setTimeRegulating False (Fin 0) (Fin 0))) (ret ()) else ret ()))
         (seq (ask id RESIGN_FEDERATION_EXECUTION NoBody)
         (seq (on_fm (modify (\<lambda>f. f\<lparr>fm_member := False\<rparr>)))
         (seq (set_handles 0 0) (ret None))))))"

definition resignFederationExecutionForTermination :: "unit rtia_action" where
  "resignFederationExecutionForTermination =
     bind (gets (\<lambda>s. fm_member (ra_fm s))) (\<lambda>member. if member then seq resignFederationExecution (ret ()) else ret ())"

subsection \<open>Synchronization points\<close>

definition insert_point :: "string \<Rightarrow> unit rtia_action" where
  "insert_point l = on_fm (modify (\<lambda>f. f\<lparr>fm_labels := oset_insert l (fm_labels f)\<rparr>))"

text \<open>The last check decides, and the label is kept even when one of them fails.\<close>

definition registerSynchronization_rtia :: "string \<Rightarrow> string \<Rightarrow> msg_body \<Rightarrow> exn option rtia_action" where
  "registerSynchronization_rtia label tag federates =
     bind (gets (\<lambda>s. if \<not> fm_member (ra_fm s) then Some FederateNotExecutionMember
                     else if label \<in> set (fm_labels (ra_fm s)) then Some FederationAlreadyPaused else None)) (\<lambda>e.
     seq (insert_point label)
     (if e = None then
        seq (send_mine (\<lambda>m. setTag tag (setLabel label m)) (Service REGISTER_FEDERATION_SYNCHRONIZATION_POINT) federates) (ret e)
      else ret e))"

definition registerSynchronization_all :: "string \<Rightarrow> string \<Rightarrow> exn option rtia_action" where
  "registerSynchronization_all label tag = registerSynchronization_rtia label tag (FederatesOf False [])"

text \<open>The number of federates is an \<open>unsigned short\<close>.\<close>

definition registerSynchronization_set :: "string \<Rightarrow> string \<Rightarrow> 16 word \<Rightarrow> federate_handle list \<Rightarrow> exn option rtia_action" where
  "registerSynchronization_set label tag n hs = registerSynchronization_rtia label tag (FederatesOf True (take (unat n) hs))"

definition unregisterSynchronization_rtia :: "string \<Rightarrow> exn option rtia_action" where
  "unregisterSynchronization_rtia label =
     bind (gets (\<lambda>s. if \<not> fm_member (ra_fm s) then Some FederateNotExecutionMember
                     else if label \<notin> set (fm_labels (ra_fm s)) then Some UnknownLabel else None)) (\<lambda>e.
     seq (on_fm (modify (\<lambda>f. f\<lparr>fm_labels := oset_erase label (fm_labels f)\<rparr>)))
     (if e = None then seq (send_mine (setLabel label) (Service SYNCHRONIZATION_POINT_ACHIEVED) NoBody) (ret e) else ret e))"

definition announceSynchronizationPoint :: "string \<Rightarrow> string \<Rightarrow> unit rtia_action" where
  "announceSynchronizationPoint label tag = seq (insert_point label) (tell (PointAnnounced label tag))"

definition synchronizationPointRegistration :: "bool \<Rightarrow> string \<Rightarrow> unit rtia_action" where
  "synchronizationPointRegistration ok label = tell (PointRegistered ok label)"

definition federationSynchronized :: "string \<Rightarrow> unit rtia_action" where
  "federationSynchronized label = tell (FederationSynchronized label)"

subsection \<open>Save and restore\<close>

definition requestFederationSave_rtia :: "string \<Rightarrow> fed_time option \<Rightarrow> unit rtia_action" where
  "requestFederationSave_rtia label date =
     send_mine (\<lambda>m. setLabel label (case date of Some t \<Rightarrow> setDate t m | None \<Rightarrow> m)) (Service REQUEST_FEDERATION_SAVE) NoBody"

definition must_be_saving :: "unit rtia_action" where
  "must_be_saving = bind (gets (\<lambda>s. fm_saving (ra_fm s))) (\<lambda>b. throw_if (\<not> b) SaveNotInitiated)"

definition federateSaveBegun_rtia :: "unit rtia_action" where
  "federateSaveBegun_rtia = seq must_be_saving (send_mine id (Service FEDERATE_SAVE_BEGUN) NoBody)"

definition federateSaveStatus_rtia :: "bool \<Rightarrow> unit rtia_action" where
  "federateSaveStatus_rtia status =
     seq must_be_saving
         (send_mine id (Service (if status then FEDERATE_SAVE_COMPLETE else FEDERATE_SAVE_NOT_COMPLETE)) NoBody)"

definition initiateFederateSave :: "string \<Rightarrow> unit rtia_action" where
  "initiateFederateSave label = seq (on_fm (modify (\<lambda>f. f\<lparr>fm_saving := True\<rparr>))) (tell (InitiateSave label))"

definition federationSavedStatus :: "bool \<Rightarrow> unit rtia_action" where
  "federationSavedStatus status = seq (on_fm (modify (\<lambda>f. f\<lparr>fm_saving := False\<rparr>))) (tell (FederationSaved status))"

definition requestFederationRestore_rtia :: "string \<Rightarrow> unit rtia_action" where
  "requestFederationRestore_rtia label = send_mine (setLabel label) (Service REQUEST_FEDERATION_RESTORE) NoBody"

definition federateRestoreStatus_rtia :: "bool \<Rightarrow> unit rtia_action" where
  "federateRestoreStatus_rtia status =
     seq (bind (gets (\<lambda>s. fm_restoring (ra_fm s))) (\<lambda>b. throw_if (\<not> b) RestoreNotRequested))
         (send_mine id (Service (if status then FEDERATE_RESTORE_COMPLETE else FEDERATE_RESTORE_NOT_COMPLETE)) NoBody)"

text \<open>The reason is only set in the message of a failure.\<close>

definition requestFederationRestoreStatus :: "bool \<Rightarrow> string \<Rightarrow> string \<Rightarrow> unit rtia_action" where
  "requestFederationRestoreStatus status label reason =
     tell (RestoreRequested status label (if status then [] else reason))"

definition federationRestoreBegun :: "unit rtia_action" where
  "federationRestoreBegun = tell RestoreBegun"

definition initiateFederateRestore :: "string \<Rightarrow> federate_handle \<Rightarrow> unit rtia_action" where
  "initiateFederateRestore label h = seq (on_fm (modify (\<lambda>f. f\<lparr>fm_restoring := True\<rparr>))) (tell (InitiateRestore label h))"

definition federationRestoredStatus :: "bool \<Rightarrow> unit rtia_action" where
  "federationRestoredStatus status = seq (on_fm (modify (\<lambda>f. f\<lparr>fm_restoring := False\<rparr>))) (tell (FederationRestored status))"

end
