(* ===== verification/RtiaServices.thy ===== *)
theory RtiaServices
  imports Rtia
begin

text \<open>
  The managers of the RTIA that pass requests on to the RTIG and messages on to the federate:
  \<open>RTIA/DeclarationManagement.cc\<close>, \<open>ObjectManagement.cc\<close>, \<open>OwnershipManagement.cc\<close> and
  \<open>DataDistribution.cc\<close>. The result of a service is the exception of the answer; an exception that a service
  throws is one of the action.
\<close>

section \<open>Declaration management\<close>

definition dm_publishObjectClass :: "object_class_handle \<Rightarrow> attribute_handle list \<Rightarrow> exn option rtia_action" where
  "dm_publishObjectClass c as =
     bind (gets federate_of) (\<lambda>fed.
     seq (on_object_model (ocs_publish no_server fed c as True))
         (ask_plain id (Service PUBLISH_OBJECT_CLASS) (ClassAttributesOf c as 0)))"

definition dm_unpublishObjectClass :: "object_class_handle \<Rightarrow> exn option rtia_action" where
  "dm_unpublishObjectClass c =
     bind (gets federate_of) (\<lambda>fed.
     seq (on_object_model (ocs_publish no_server fed c [] False))
         (ask_plain id (Service UNPUBLISH_OBJECT_CLASS) (ObjectClassOf c)))"

definition dm_publishInteractionClass :: "bool \<Rightarrow> interaction_class_handle \<Rightarrow> exn option rtia_action" where
  "dm_publishInteractionClass on c =
     bind (gets federate_of) (\<lambda>fed.
     seq (on_object_model (ics_publish no_server fed c on))
         (ask_plain id (Service (if on then PUBLISH_INTERACTION_CLASS else UNPUBLISH_INTERACTION_CLASS)) (InteractionOf c)))"

definition dm_subscribeObjectClassAttribute :: "object_class_handle \<Rightarrow> attribute_handle list \<Rightarrow> exn option rtia_action" where
  "dm_subscribeObjectClassAttribute c as = ask_plain id (Service SUBSCRIBE_OBJECT_CLASS) (ClassAttributesOf c as 0)"

definition dm_unsubscribeObjectClassAttribute :: "object_class_handle \<Rightarrow> exn option rtia_action" where
  "dm_unsubscribeObjectClassAttribute c = ask_plain id (Service UNSUBSCRIBE_OBJECT_CLASS) (ObjectClassOf c)"

definition dm_subscribeInteractionClass :: "bool \<Rightarrow> interaction_class_handle \<Rightarrow> exn option rtia_action" where
  "dm_subscribeInteractionClass on c =
     bind (gets federate_of) (\<lambda>fed.
     seq (on_object_model (ics_subscribe no_server fed c None on))
         (ask_plain id (Service (if on then SUBSCRIBE_INTERACTION_CLASS else UNSUBSCRIBE_INTERACTION_CLASS)) (InteractionOf c)))"

text \<open>The four switches of declaration management and of object management.\<close>

definition send_switch :: "service \<Rightarrow> bool \<Rightarrow> unit rtia_action" where
  "send_switch k on = send_mine id (Service k) (Switch on)"

definition startRegistrationForObjectClass :: "object_class_handle \<Rightarrow> unit rtia_action" where
  "startRegistrationForObjectClass c = tell (StartRegistration c)"

section \<open>Object management\<close>

definition om_reserveObjectName :: "string \<Rightarrow> exn option rtia_action" where
  "om_reserveObjectName n =
     (if n = [] \<or> take 3 n = ''HLA'' then ret (Some IllegalName)
      else seq (send_mine id (Service RESERVE_OBJECT_INSTANCE_NAME) (ObjectNameOf n)) (ret None))"

definition om_registerObject :: "object_class_handle \<Rightarrow> string \<Rightarrow> (exn option \<times> object_handle) rtia_action" where
  "om_registerObject c n =
     bind (ask (setLabel n) (Service REGISTER_OBJECT) (ObjectClassOf c)) (\<lambda>rep. case nm_exception rep of
         None \<Rightarrow>
           bind (gets federate_of) (\<lambda>fed.
           seq (on_object_model (ro_registerObjectInstance no_server fed c (nm_getObject (nm_body rep)) (nm_label rep)))
               (ret (None, nm_getObject (nm_body rep))))
       | Some e \<Rightarrow> ret (Some e, 0))"

text \<open>Reading a value for every attribute.\<close>

definition enough_values :: "'a list \<Rightarrow> 'b list \<Rightarrow> unit rtia_action" where
  "enough_values as vs = throw_if (length vs < length as) UndefinedBehaviour"

definition dated_by :: "fed_time option \<Rightarrow> network_message \<Rightarrow> network_message" where
  "dated_by date m = (case date of Some t \<Rightarrow> setDate t m | None \<Rightarrow> m)"

text \<open>A date that is not allowed is refused without asking the RTIG.\<close>

definition valid_date :: "fed_time option \<Rightarrow> bool rtia_action" where
  "valid_date date = (case date of Some t \<Rightarrow> on_tm (testValidTime t) | None \<Rightarrow> ret True)"

text \<open>The event date for the NULL PRIME protocol, where it is compiled in.\<close>

definition event_sent :: "fed_time option \<Rightarrow> unit rtia_action" where
  "event_sent date =
     bind (gets (\<lambda>s. tm_nmp (ra_tm s))) (\<lambda>nmp. case date of
         Some t \<Rightarrow> if nmp then on_tm (updateMinTxMessageDate t) else ret ()
       | None \<Rightarrow> ret ())"

definition om_updateAttributeValues :: "object_handle \<Rightarrow> attribute_handle list \<Rightarrow> attribute_value list \<Rightarrow> string
    \<Rightarrow> fed_time option \<Rightarrow> exn option rtia_action" where
  "om_updateAttributeValues h as vs tag date =
     bind (valid_date date) (\<lambda>ok.
       if ok then
         seq (enough_values as vs)
         (bind (ask_plain (\<lambda>m. setLabel tag (dated_by date m)) (Service UPDATE_ATTRIBUTE_VALUES)
                  (ValuesOf h as (take (length as) vs))) (\<lambda>e.
          seq (event_sent date) (ret e)))
       else ret (Some InvalidFederationTime))"

definition om_sendInteraction :: "interaction_class_handle \<Rightarrow> parameter_handle list \<Rightarrow> attribute_value list \<Rightarrow> string
    \<Rightarrow> region_handle \<Rightarrow> fed_time option \<Rightarrow> exn option rtia_action" where
  "om_sendInteraction c ps vs tag r date =
     bind (valid_date date) (\<lambda>ok.
       if ok then
         bind (gets federate_of) (\<lambda>fed.
         seq (ask_root (ics_isReady fed c ps (length ps)))
         (seq (enough_values ps vs)
         (bind (ask_plain (\<lambda>m. setLabel tag (dated_by date m)) (Service SEND_INTERACTION)
                  (ParametersOf c ps (take (length ps) vs) r)) (\<lambda>e.
          seq (event_sent date) (ret e)))))
       else ret (Some InvalidFederationTime))"

definition om_deleteObject :: "object_handle \<Rightarrow> string \<Rightarrow> fed_time option \<Rightarrow> exn option rtia_action" where
  "om_deleteObject h tag date =
     bind (ask_plain (\<lambda>m. setLabel tag (dated_by date m)) (Service DELETE_OBJECT) (ObjectOf h)) (\<lambda>e.
       if e = None then
         bind (gets federate_of) (\<lambda>fed. seq (on_object_model (ro_deleteObjectInstance no_server fed h tag)) (ret None))
       else ret e)"

definition om_deleteAllObjects :: "unit rtia_action" where
  "om_deleteAllObjects =
     bind (gets (\<lambda>s. os_getAllObjectInstancesFromFederate (federate_of s) (ra_root s))) (\<lambda>hs.
     for_each (\<lambda>h. seq (om_deleteObject h [] None) (ret ())) hs)"

definition om_change :: "nm_type \<Rightarrow> handle \<Rightarrow> handle list \<Rightarrow> 32 word \<Rightarrow> exn option rtia_action" where
  "om_change k h as x = ask_plain id k (ChangeOf h as x)"

definition om_requestObjectAttributeValueUpdate :: "object_handle \<Rightarrow> attribute_handle list \<Rightarrow> exn option rtia_action" where
  "om_requestObjectAttributeValueUpdate h as = ask_plain id (Service REQUEST_OBJECT_ATTRIBUTE_VALUE_UPDATE) (AttributesOf h as)"

definition om_requestClassAttributeValueUpdate :: "object_class_handle \<Rightarrow> attribute_handle list \<Rightarrow> exn option rtia_action" where
  "om_requestClassAttributeValueUpdate c as =
     ask_plain id (Service REQUEST_CLASS_ATTRIBUTE_VALUE_UPDATE) (ClassAttributesOf c as 0)"

subsection \<open>Callbacks\<close>

definition om_discoverObject :: "object_handle \<Rightarrow> object_class_handle \<Rightarrow> string \<Rightarrow> fed_time \<Rightarrow> unit rtia_action" where
  "om_discoverObject h c n t = tell (DiscoverInstance h c n t)"

text \<open>The number of attributes or parameters is passed as a \<open>uint16_t\<close>.\<close>

definition size16 :: "'a list \<Rightarrow> nat" where
  "size16 xs = unat (of_nat (length xs) :: 16 word)"

definition om_reflectAttributeValues :: "object_handle \<Rightarrow> attribute_handle list \<Rightarrow> attribute_value list \<Rightarrow> string
    \<Rightarrow> fed_time option \<Rightarrow> unit rtia_action" where
  "om_reflectAttributeValues h as vs tag date =
     seq (throw_if (length vs < size16 as) UndefinedBehaviour)
         (tell (ReflectValues h (take (size16 as) as) (take (size16 as) vs) tag date))"

definition om_receiveInteraction :: "interaction_class_handle \<Rightarrow> parameter_handle list \<Rightarrow> attribute_value list \<Rightarrow> string
    \<Rightarrow> fed_time option \<Rightarrow> unit rtia_action" where
  "om_receiveInteraction c ps vs tag date =
     seq (throw_if (length vs < size16 ps) UndefinedBehaviour)
         (tell (ReceiveInteraction c (take (size16 ps) ps) (take (size16 ps) vs) tag date))"

text \<open>The federate is told first.\<close>

definition om_removeObject :: "object_handle \<Rightarrow> federate_handle \<Rightarrow> string \<Rightarrow> fed_time option \<Rightarrow> unit rtia_action" where
  "om_removeObject h fed tag date =
     seq (tell (RemoveInstance h tag date))
     (seq (on_object_model (case date of
             Some t \<Rightarrow> ro_deleteObjectInstanceAt no_server fed h t tag
           | None \<Rightarrow> ro_deleteObjectInstance no_server fed h tag)) (ret ()))"

definition om_provideAttributeValueUpdate :: "object_handle \<Rightarrow> attribute_handle list \<Rightarrow> unit rtia_action" where
  "om_provideAttributeValueUpdate h as = tell (ProvideUpdate h as)"

definition om_nameReservation :: "bool \<Rightarrow> string \<Rightarrow> unit rtia_action" where
  "om_nameReservation ok n = tell (NameReserved ok n)"

subsection \<open>Names and handles\<close>

definition transportTypeList :: "(string \<times> 32 word) list" where
  "transportTypeList = [(''HLAreliable'', 1), (''HLAbestEffort'', 2)]"

definition orderTypeList :: "(string \<times> 32 word) list" where
  "orderTypeList = [(''Receive'', 1), (''Timestamp'', 2)]"

definition type_handle :: "(string \<times> 32 word) list \<Rightarrow> string \<Rightarrow> exn + 32 word" where
  "type_handle l n = some_or NameNotFound (map_of l n)"

definition type_name :: "exn \<Rightarrow> (string \<times> 32 word) list \<Rightarrow> 32 word \<Rightarrow> exn + string" where
  "type_name e l t = (case find (\<lambda>x. snd x = t) l of Some x \<Rightarrow> Inr (fst x) | None \<Rightarrow> Inl e)"

definition getTransportationHandle :: "string \<Rightarrow> exn + 32 word" where
  "getTransportationHandle n = type_handle transportTypeList n"

definition getTransportationName :: "32 word \<Rightarrow> exn + string" where
  "getTransportationName t = type_name InvalidTransportationHandle transportTypeList t"

definition getOrderingHandle :: "string \<Rightarrow> exn + 32 word" where
  "getOrderingHandle n = type_handle orderTypeList n"

definition getOrderingName :: "32 word \<Rightarrow> exn + string" where
  "getOrderingName t = type_name InvalidOrderingHandle orderTypeList t"

section \<open>Ownership management\<close>

definition owm_attributeOwnedByFederate :: "object_handle \<Rightarrow> attribute_handle \<Rightarrow> (exn option \<times> string) rtia_action" where
  "owm_attributeOwnedByFederate h a =
     bind (ask id (Service IS_ATTRIBUTE_OWNED_BY_FEDERATE) (AttributeOf h a)) (\<lambda>rep.
     ret (nm_exception rep, if nm_exception rep = None then nm_label rep else []))"

definition owm_queryAttributeOwnership :: "object_handle \<Rightarrow> attribute_handle \<Rightarrow> exn option rtia_action" where
  "owm_queryAttributeOwnership h a = ask_plain id (Service QUERY_ATTRIBUTE_OWNERSHIP) (AttributeOf h a)"

text \<open>The services about a set of attributes, with a tag or without one.\<close>

definition owm_request :: "nm_type \<Rightarrow> object_handle \<Rightarrow> attribute_handle list \<Rightarrow> exn option rtia_action" where
  "owm_request k h as = ask_plain id k (AttributesOf h as)"

definition owm_tagged_request :: "nm_type \<Rightarrow> object_handle \<Rightarrow> attribute_handle list \<Rightarrow> string \<Rightarrow> exn option rtia_action" where
  "owm_tagged_request k h as tag = ask_plain (setLabel tag) k (AttributesOf h as)"

definition owm_attributeOwnershipReleaseResponse :: "object_handle \<Rightarrow> attribute_handle list
    \<Rightarrow> (exn option \<times> attribute_handle list) rtia_action" where
  "owm_attributeOwnershipReleaseResponse h as =
     bind (ask id (Service ATTRIBUTE_OWNERSHIP_RELEASE_RESPONSE) (AttributesOf h as)) (\<lambda>rep.
     ret (nm_exception rep, if nm_exception rep = None then nm_getAttributes (nm_body rep) else []))"

section \<open>Data distribution management\<close>

definition ddm_createRegion :: "space_handle \<Rightarrow> nat \<Rightarrow> (exn option \<times> region_handle) rtia_action" where
  "ddm_createRegion sp n =
     bind (ask id (Service DDM_CREATE_REGION) (SpaceOf sp n)) (\<lambda>rep. case nm_exception rep of
         None \<Rightarrow>
           bind (ask_root (getRoutingSpace sp)) (\<lambda>rs.
           bind (gets ra_axis) (\<lambda>ax.
           bind (lift_sum (rti_region_new ax (nm_getRegion (nm_body rep)) rs n)) (\<lambda>r.
           seq (on_object_model (addRegion r)) (ret (None, nm_getRegion (nm_body rep))))))
       | Some e \<Rightarrow> ret (Some e, 0))"

definition ddm_modifyRegion :: "region_handle \<Rightarrow> extent list \<Rightarrow> exn option rtia_action" where
  "ddm_modifyRegion r es =
     seq (ask_root (getRegion r))
     (bind (ask_plain id (Service DDM_MODIFY_REGION) (ExtentsOf r es)) (\<lambda>e.
       if e = None then seq (on_object_model (modifyRegion r es)) (ret None) else ret e))"

definition ddm_deleteRegion :: "region_handle \<Rightarrow> exn option rtia_action" where
  "ddm_deleteRegion r =
     seq (ask_root (getRegion r))
     (bind (ask_plain id (Service DDM_DELETE_REGION) (RegionOf r)) (\<lambda>e.
       if e = None then seq (on_object_model (deleteRegion r)) (ret None) else ret e))"

definition unassociate_local :: "object_handle \<Rightarrow> region_handle \<Rightarrow> unit rtia_action" where
  "unassociate_local h r = seq (ask_root (os_getObject h)) (on_object_model (on_object h (modify (ob_unassociate r))))"

definition associate_local :: "object_handle \<Rightarrow> attribute_handle \<Rightarrow> region_handle \<Rightarrow> unit rtia_action" where
  "associate_local h a r =
     seq (ask_root (getObjectAttribute h a)) (on_object_model (on_object h (modify (ob_update a (oa_associate (Some r))))))"

text \<open>The local association is made before the RTIG is asked, and kept when it refuses.\<close>

definition ddm_associateRegion :: "object_handle \<Rightarrow> region_handle \<Rightarrow> attribute_handle list \<Rightarrow> exn option rtia_action" where
  "ddm_associateRegion h r as =
     seq (ask_root (getRegion r))
     (seq (unassociate_local h r)
     (seq (for_each (\<lambda>a. associate_local h a r) as)
          (ask_plain id (Service DDM_ASSOCIATE_REGION) (ObjectRegionOf h as r))))"

definition ddm_unassociateRegion :: "object_handle \<Rightarrow> region_handle \<Rightarrow> exn option rtia_action" where
  "ddm_unassociateRegion h r =
     seq (ask_root (getRegion r))
     (seq (unassociate_local h r) (ask_plain id (Service DDM_UNASSOCIATE_REGION) (ObjectRegionOf h [] r)))"

text \<open>
  The name travels as the tag and the regions in the common part of the message; the region of the message and the
  object of the answer are never set.
\<close>

definition ddm_registerObject :: "object_class_handle \<Rightarrow> string \<Rightarrow> attribute_handle list \<Rightarrow> region_handle list
    \<Rightarrow> (exn option \<times> object_handle) rtia_action" where
  "ddm_registerObject c n as rs =
     bind (gets ra_unset) (\<lambda>u.
     bind (ask (setTag n) (Service DDM_REGISTER_OBJECT) (RegionRegistrationOf c as u rs)) (\<lambda>rep. case nm_exception rep of
         None \<Rightarrow>
           bind (gets federate_of) (\<lambda>fed.
           seq (on_object_model (ro_registerObjectInstance no_server fed c u (nm_label rep)))
           (seq (for_each (\<lambda>(i, a).
                   seq (ask_root (getObjectAttribute u a))
                   (seq (throw_if (length rs \<le> i) UndefinedBehaviour)
                   (seq (ask_root (getRegion (rs ! i))) (associate_local u a (rs ! i))))) (enumerate 0 as))
                (ret (None, u))))
       | Some e \<Rightarrow> ret (Some e, 0)))"

definition ddm_subscribe :: "object_class_handle \<Rightarrow> region_handle \<Rightarrow> attribute_handle list \<Rightarrow> exn option rtia_action" where
  "ddm_subscribe c r as =
     seq (ask_root (getRegion r)) (ask_plain id (Service DDM_SUBSCRIBE_ATTRIBUTES) (ClassAttributesOf c as r))"

definition ddm_unsubscribeAttributes :: "object_class_handle \<Rightarrow> region_handle \<Rightarrow> exn option rtia_action" where
  "ddm_unsubscribeAttributes c r =
     seq (ask_root (getRegion r)) (ask_plain id (Service DDM_UNSUBSCRIBE_ATTRIBUTES) (ClassAttributesOf c [] r))"

definition ddm_subscribeInteraction :: "bool \<Rightarrow> interaction_class_handle \<Rightarrow> region_handle \<Rightarrow> exn option rtia_action" where
  "ddm_subscribeInteraction on c r =
     seq (ask_root (getRegion r))
         (ask_plain id (Service (if on then DDM_SUBSCRIBE_INTERACTION else DDM_UNSUBSCRIBE_INTERACTION)) (InteractionRegionOf c r))"

definition ddm_getDimensionHandle :: "string \<Rightarrow> space_handle \<Rightarrow> root \<Rightarrow> exn + dimension_handle" where
  "ddm_getDimensionHandle n sp s = ebind (getRoutingSpace sp s) (getDimensionHandle n)"

definition ddm_getDimensionName :: "dimension_handle \<Rightarrow> space_handle \<Rightarrow> root \<Rightarrow> exn + string" where
  "ddm_getDimensionName d sp s = ebind (getRoutingSpace sp s) (getDimensionName d)"

definition ddm_getAttributeSpace :: "attribute_handle \<Rightarrow> object_class_handle \<Rightarrow> root \<Rightarrow> exn + space_handle" where
  "ddm_getAttributeSpace a c s = ebind (ocs_getObjectFromHandle c s) (\<lambda>oc. ebind (oc_getAttribute a oc) (\<lambda>x. Inr (ca_space x)))"

definition ddm_getInteractionSpace :: "interaction_class_handle \<Rightarrow> root \<Rightarrow> exn + space_handle" where
  "ddm_getInteractionSpace c s = ebind (ics_getObjectFromHandle c s) (\<lambda>i. Inr (ic_space i))"

end
