(* ===== verification/RtiaDispatch.thy ===== *)
theory RtiaDispatch
  imports RtiaServices
begin

text \<open>
  \<open>RTIA/RTIA_network.cc\<close>, \<open>RTIA/RTIA_federate.cc\<close>, \<open>RTIA/RTIA.cc\<close> and \<open>executeFederateService\<close> of
  \<open>RTIA/TimeManagement.cc\<close>: the messages of the RTIG go to the queues, the ticks of the federate take them out of
  there, and its requests go to the managers.
\<close>

section \<open>Messages of the RTIG\<close>

definition on_queues :: "(queues, unit) action \<Rightarrow> unit rtia_action" where
  "on_queues m = on_tm (with_queues m)"

text \<open>The orders of delivery.\<close>

definition RECEIVE :: "32 word" where "RECEIVE = 1"

definition TIMESTAMP :: "32 word" where "TIMESTAMP = 2"

text \<open>The loop over the attributes stops at the first one whose order is not \<open>TIMESTAMP\<close>.\<close>

fun attributes_order :: "object_class_handle \<Rightarrow> attribute_handle list \<Rightarrow> root \<Rightarrow> exn + 32 word" where
  "attributes_order c [] s = Inr TIMESTAMP"
| "attributes_order c (a # as) s =
     ebind (ocs_getObjectFromHandle c s) (\<lambda>oc. ebind (oc_getAttribute a oc) (\<lambda>x.
       if ca_order x \<noteq> TIMESTAMP then Inr RECEIVE else attributes_order c as s))"

definition update_order :: "network_message \<Rightarrow> root \<Rightarrow> exn + 32 word" where
  "update_order m s =
     (if \<not> nm_isDated m then Inr RECEIVE
      else ebind (os_getObjectClass (nm_getObject (nm_body m)) s) (\<lambda>c. attributes_order c (nm_getAttributes (nm_body m)) s))"

definition interaction_order :: "network_message \<Rightarrow> root \<Rightarrow> exn + 32 word" where
  "interaction_order m s =
     (if \<not> nm_isDated m then Inr RECEIVE
      else ebind (ics_getObjectFromHandle (nm_getInteractionClass (nm_body m)) s) (\<lambda>i. Inr (ic_order i)))"

text \<open>The choice between the two queues of messages.\<close>

definition enqueue :: "bool \<Rightarrow> network_message \<Rightarrow> unit rtia_action" where
  "enqueue timestamped m =
     bind (gets (\<lambda>s. tm_constrained (ra_tm s))) (\<lambda>constrained.
     on_queues (if timestamped \<and> constrained then insertTsoMessage m else insertFifoMessage m))"

definition last_command_types :: "nm_type list" where
  "last_command_types =
     [CONFIRM_SYNCHRONIZATION_POINT_REGISTRATION, ANNOUNCE_SYNCHRONIZATION_POINT, FEDERATION_SYNCHRONIZED,
      REQUEST_FEDERATION_RESTORE_SUCCEEDED, REQUEST_FEDERATION_RESTORE_FAILED, FEDERATION_RESTORE_BEGUN,
      INITIATE_FEDERATE_RESTORE, FEDERATION_RESTORED, FEDERATION_NOT_RESTORED, TIME_REGULATION_ENABLED,
      TIME_CONSTRAINED_ENABLED, START_REGISTRATION_FOR_OBJECT_CLASS, RESERVE_OBJECT_INSTANCE_NAME_SUCCEEDED,
      RESERVE_OBJECT_INSTANCE_NAME_FAILED]"

definition begin_command_types :: "nm_type list" where
  "begin_command_types = [INITIATE_FEDERATE_SAVE, FEDERATION_SAVED, FEDERATION_NOT_SAVED]"

definition fifo_types :: "nm_type list" where
  "fifo_types =
     [INFORM_ATTRIBUTE_OWNERSHIP, ATTRIBUTE_IS_NOT_OWNED, REQUEST_ATTRIBUTE_OWNERSHIP_ASSUMPTION,
      ATTRIBUTE_OWNERSHIP_UNAVAILABLE, ATTRIBUTE_OWNERSHIP_ACQUISITION_NOTIFICATION,
      ATTRIBUTE_OWNERSHIP_DIVESTITURE_NOTIFICATION, REQUEST_ATTRIBUTE_OWNERSHIP_RELEASE,
      CONFIRM_ATTRIBUTE_OWNERSHIP_ACQUISITION_CANCELLATION, PROVIDE_ATTRIBUTE_VALUE_UPDATE]"

definition switch_types :: "nm_type list" where
  "switch_types = map Service
     [SET_CLASS_RELEVANCE_ADVISORY_SWITCH, SET_INTERACTION_RELEVANCE_ADVISORY_SWITCH,
      SET_ATTRIBUTE_RELEVANCE_ADVISORY_SWITCH, SET_ATTRIBUTE_SCOPE_ADVISORY_SWITCH]"

fun nm_getMomPeriod :: "msg_body \<Rightarrow> int" where
  "nm_getMomPeriod (MomStatus on period) = (if on then uint period else 0)"
| "nm_getMomPeriod _ = 0"

text \<open>A request that the RTIG makes in the name of the management object model; its exception is dropped.\<close>

definition forced :: "exn option tm_action \<Rightarrow> unit rtia_action" where
  "forced m = seq (on_tm m) (ret ())"

definition process_discover :: "network_message \<Rightarrow> unit rtia_action" where
  "process_discover m =
     seq (on_queues (insertFifoMessage m))
     (bind (gets federate_of) (\<lambda>fed.
      catch (seq (on_object_model (ro_registerObjectInstance no_server fed (nm_getObjectClass (nm_body m))
                (nm_getObject (nm_body m)) (nm_label m))) (ret ()))
        (\<lambda>e. e = ObjectAlreadyRegistered) (\<lambda>_. ret ())))"

definition processNetworkMessage :: "network_message \<Rightarrow> unit rtia_action" where
  "processNetworkMessage m =
     (if nm_kind m \<in> set last_command_types then on_queues (insertLastCommand m)
      else if nm_kind m \<in> set begin_command_types then on_queues (insertBeginCommand m)
      else if nm_kind m \<in> set fifo_types then on_queues (insertFifoMessage m)
      else if nm_kind m \<in> set switch_types then ret ()
      else case nm_kind m of
        ADDITIONAL_FOM_MODULE \<Rightarrow> on_object_model (rebuild_additional (nm_getFom (nm_body m)))
      | MESSAGE_NULL \<Rightarrow> on_tm (with_lbts (lbts_update (nm_federate m) (nm_date m)))
      | SET_TIME_REGULATING \<Rightarrow>
          on_tm (with_lbts (if nm_isSwitchOn (nm_body m) then lbts_insert (nm_federate m) (nm_date m)
                            else lbts_remove (nm_federate m)))
      | DISCOVER_OBJECT \<Rightarrow> process_discover m
      | REFLECT_ATTRIBUTE_VALUES \<Rightarrow> bind (ask_root (update_order m)) (\<lambda>ord. enqueue (ord = TIMESTAMP) m)
      | RECEIVE_INTERACTION \<Rightarrow> bind (ask_root (interaction_order m)) (\<lambda>ord. enqueue (ord = TIMESTAMP) m)
      | REMOVE_OBJECT \<Rightarrow> enqueue (nm_isDated m) m
      | TIME_ADVANCE_REQUEST \<Rightarrow> forced (timeAdvanceRequest (nm_date m))
      | TIME_ADVANCE_REQUEST_AVAILABLE \<Rightarrow> forced (timeAdvanceRequestAvailable (nm_date m))
      | NEXT_MESSAGE_REQUEST \<Rightarrow> forced (nextEventRequest (nm_date m))
      | NEXT_MESSAGE_REQUEST_AVAILABLE \<Rightarrow> forced (nextEventRequestAvailable (nm_date m))
      | MOM_STATUS \<Rightarrow> on_tm (setMomUpdateRate (nm_getMomPeriod (nm_body m)))
      | _ \<Rightarrow> throw RTIinternalError)"

section \<open>Delivery\<close>

fun nm_getSuccessIndicator :: "msg_body \<Rightarrow> bool" where
  "nm_getSuccessIndicator (Success b) = b"
| "nm_getSuccessIndicator _ = False"

definition date_of :: "network_message \<Rightarrow> fed_time option" where
  "date_of m = (if nm_isDated m then Some (nm_date m) else None)"

text \<open>The call of a manager that \<open>executeFederateService\<close> makes for a message.\<close>

definition deliver :: "network_message \<Rightarrow> unit rtia_action" where
  "deliver m =
     (let b = nm_body m; h = nm_getObject b; as = nm_getAttributes b in case nm_kind m of
        FEDERATION_SYNCHRONIZED \<Rightarrow> federationSynchronized (nm_label m)
      | CONFIRM_SYNCHRONIZATION_POINT_REGISTRATION \<Rightarrow>
          synchronizationPointRegistration (nm_getSuccessIndicator b) (nm_label m)
      | ANNOUNCE_SYNCHRONIZATION_POINT \<Rightarrow> announceSynchronizationPoint (nm_label m) (nm_tag m)
      | DISCOVER_OBJECT \<Rightarrow> om_discoverObject h (nm_getObjectClass b) (nm_label m) (nm_date m)
      | REFLECT_ATTRIBUTE_VALUES \<Rightarrow> om_reflectAttributeValues h as (nm_getValues b) (nm_label m) (date_of m)
      | PROVIDE_ATTRIBUTE_VALUE_UPDATE \<Rightarrow> om_provideAttributeValueUpdate h as
      | RECEIVE_INTERACTION \<Rightarrow>
          om_receiveInteraction (nm_getInteractionClass b) (nm_getParameters b) (nm_getValues b) (nm_label m) (date_of m)
      | REMOVE_OBJECT \<Rightarrow> om_removeObject h (nm_federate m) (nm_label m) (date_of m)
      | INFORM_ATTRIBUTE_OWNERSHIP \<Rightarrow> tell (OwnerInformed h (nm_getAttribute b) (nm_federate m))
      | ATTRIBUTE_IS_NOT_OWNED \<Rightarrow> tell (NotOwned h (nm_getAttribute b))
      | REQUEST_ATTRIBUTE_OWNERSHIP_ASSUMPTION \<Rightarrow> tell (AssumptionRequested h as (nm_label m))
      | ATTRIBUTE_OWNERSHIP_UNAVAILABLE \<Rightarrow> tell (OwnershipUnavailable h as)
      | ATTRIBUTE_OWNERSHIP_ACQUISITION_NOTIFICATION \<Rightarrow> tell (OwnershipAcquired h as)
      | ATTRIBUTE_OWNERSHIP_DIVESTITURE_NOTIFICATION \<Rightarrow> tell (OwnershipDivested h as)
      | REQUEST_ATTRIBUTE_OWNERSHIP_RELEASE \<Rightarrow> tell (ReleaseRequested h as (nm_label m))
      | CONFIRM_ATTRIBUTE_OWNERSHIP_ACQUISITION_CANCELLATION \<Rightarrow> tell (AcquisitionCancelled h as)
      | INITIATE_FEDERATE_SAVE \<Rightarrow> initiateFederateSave (nm_label m)
      | FEDERATION_SAVED \<Rightarrow> federationSavedStatus True
      | FEDERATION_NOT_SAVED \<Rightarrow> federationSavedStatus False
      | REQUEST_FEDERATION_RESTORE_SUCCEEDED \<Rightarrow> requestFederationRestoreStatus True (nm_label m) (nm_tag m)
      | REQUEST_FEDERATION_RESTORE_FAILED \<Rightarrow> requestFederationRestoreStatus False (nm_label m) (nm_tag m)
      | FEDERATION_RESTORE_BEGUN \<Rightarrow> federationRestoreBegun
      | INITIATE_FEDERATE_RESTORE \<Rightarrow> initiateFederateRestore (nm_label m) (nm_federate m)
      | FEDERATION_RESTORED \<Rightarrow> federationRestoredStatus True
      | FEDERATION_NOT_RESTORED \<Rightarrow> federationRestoredStatus False
      | START_REGISTRATION_FOR_OBJECT_CLASS \<Rightarrow> startRegistrationForObjectClass (nm_getObjectClass b)
      | RESERVE_OBJECT_INSTANCE_NAME_SUCCEEDED \<Rightarrow> om_nameReservation True (nm_getName b)
      | RESERVE_OBJECT_INSTANCE_NAME_FAILED \<Rightarrow> om_nameReservation False (nm_getName b)
      | _ \<Rightarrow> throw RTIinternalError)"

fun forward :: "callback \<Rightarrow> unit rtia_action" where
  "forward (Deliver m) = deliver m"
| "forward (TimeAdvanceGrant t) = tell (AdvanceGranted t)"
| "forward (TimeRegulationEnabled t) = tell (RegulationEnabled t)"
| "forward (TimeConstrainedEnabled t) = tell (ConstraintEnabled t)"

text \<open>
  \<open>tick\<close> with the calls of the managers. The call for a message is the last step of \<open>tick\<close> but for the report on
  the time state, which is not sent when the manager throws: then the result is that of a tick without
  a report.
\<close>

definition rtia_tick :: "bool rtia_action" where
  "rtia_tick = (\<lambda>s.
     let t0 = (ra_tm s)\<lparr>tm_callbacks := []\<rparr>;
         silent = snd (tick None (t0\<lparr>tm_updateRate := 0\<rparr>))
     in case for_each forward (tm_callbacks silent)
              (s\<lparr>ra_tm := silent\<lparr>tm_updateRate := tm_updateRate t0, tm_callbacks := []\<rparr>\<rparr>) of
          (Inl e, u) \<Rightarrow> (Inl e, u)
        | (Inr _, u) \<Rightarrow> (case tick None t0 of (r, t) \<Rightarrow> (r, u\<lparr>ra_tm := t\<lparr>tm_callbacks := []\<rparr>\<rparr>)))"

definition set_tick :: "tick_state \<Rightarrow> unit rtia_action" where
  "set_tick x = on_tm (modify (\<lambda>t. t\<lparr>tm_tick := x\<rparr>))"

definition get_tick :: "tick_state rtia_action" where
  "get_tick = gets (\<lambda>s. tm_tick (ra_tm s))"

definition read_clock :: "int rtia_action" where
  "read_clock = bind (gets (\<lambda>s. ra_clock s (ra_readings s))) (\<lambda>t.
     seq (modify (\<lambda>s. s\<lparr>ra_readings := ra_readings s + 1\<rparr>)) (ret t))"

text \<open>\<open>1e-9 * getDeltaNanoSecond(start) < max\<close>.\<close>

definition in_time :: "int \<Rightarrow> fed_time \<Rightarrow> bool" where
  "in_time elapsed limit = (case limit of PInf \<Rightarrow> True | Fin m \<Rightarrow> dround (dround (1 / 1000000000) * dround (of_int elapsed)) < m)"

definition continue_tick :: "bool rtia_action" where
  "continue_tick =
     bind (gets id) (\<lambda>s.
       if ra_result s \<and> ra_multiple s then bind read_clock (\<lambda>t. ret (in_time (t - ra_start s) (ra_max_tick s)))
       else ret False)"

text \<open>The states \<open>TICK_NEXT\<close> and \<open>TICK_RETURN\<close> of \<open>processOngoingTick\<close>.\<close>

definition tick_next :: "unit rtia_action" where
  "tick_next = bind continue_tick (\<lambda>more. set_tick (if more then TICK_CALLBACK else TICK_RETURN))"

definition tick_return :: "unit rtia_action" where
  "tick_return = seq (bind (gets ra_result) (\<lambda>r. tell (TickReturn r))) (set_tick NO_TICK)"

definition tick_attempt :: "unit rtia_action \<Rightarrow> unit rtia_action" where
  "tick_attempt otherwise =
     bind rtia_tick (\<lambda>r.
     seq (modify (\<lambda>s. s\<lparr>ra_result := r\<rparr>))
     (bind get_tick (\<lambda>x. if x = TICK_NEXT then tick_next else otherwise)))"

text \<open>The loop goes round at most once more, to \<open>TICK_NEXT\<close>.\<close>

definition processOngoingTick :: "unit rtia_action" where
  "processOngoingTick =
     bind get_tick (\<lambda>x. case x of
         TICK_BLOCKING \<Rightarrow> tick_attempt (ret ())
       | TICK_NEXT \<Rightarrow> tick_next
       | TICK_CALLBACK \<Rightarrow> tick_attempt tick_return
       | TICK_RETURN \<Rightarrow> tick_return
       | NO_TICK \<Rightarrow> throw UndefinedBehaviour)"

end
