(* ===== verification/RtiaFederate.thy ===== *)
theory RtiaFederate
  imports RtiaDispatch
begin

text \<open>
  \<open>RTIA/RTIA_federate.cc\<close>, \<open>RTIA/RTIA.cc\<close> and \<open>RTIA/main.cc\<close>: the requests of the federate, their answers, and the
  life of the process. An answer is a message of the type of the request; the exception that a service
  returns in its last argument and the exception that is set in the answer at once are kept apart, as the
  code treats them differently.
\<close>

section \<open>Requests while the federation is saved or restored\<close>

datatype guard = Unguarded | UnlessRestoring | UnlessSaving | Guarded

fun federation_guard :: "federation_request \<Rightarrow> guard" where
  "federation_guard (OpenConnexion _ _) = Unguarded"
| "federation_guard CloseConnexion = Unguarded"
| "federation_guard (ResignFederation _) = Unguarded"
| "federation_guard SaveBegun = UnlessRestoring"
| "federation_guard (SaveComplete _) = UnlessRestoring"
| "federation_guard (RestoreComplete _) = UnlessSaving"
| "federation_guard _ = Guarded"

fun guard_of :: "request \<Rightarrow> guard" where
  "guard_of (FederationRequest q) = federation_guard q"
| "guard_of (TickingRequest _) = Unguarded"
| "guard_of (SupportRequest _) = Unguarded"
| "guard_of _ = Guarded"

definition saveAndRestoreStatus :: "request \<Rightarrow> unit rtia_action" where
  "saveAndRestoreStatus q =
     (case guard_of q of
        Unguarded \<Rightarrow> ret ()
      | UnlessRestoring \<Rightarrow> checkFederationRestoring
      | UnlessSaving \<Rightarrow> checkFederationSaving
      | Guarded \<Rightarrow> seq checkFederationSaving checkFederationRestoring)"

section \<open>The services\<close>

text \<open>The exception that is set in the answer, the fields, and the exception that the service returns.\<close>

type_synonym outcome_of = "exn option \<times> answer_fields \<times> exn option"

definition result :: "exn option rtia_action \<Rightarrow> outcome_of rtia_action" where
  "result m = bind m (\<lambda>e. ret (None, NoFields, e))"

definition done_with :: "answer_fields \<Rightarrow> unit rtia_action \<Rightarrow> outcome_of rtia_action" where
  "done_with x m = seq m (ret (None, x, None))"

text \<open>Creation and destruction set an internal error themselves.\<close>

definition internal_error_set :: "answer_fields \<Rightarrow> exn option rtia_action \<Rightarrow> outcome_of rtia_action" where
  "internal_error_set x m =
     bind m (\<lambda>e. ret (if e = Some RTIinternalError then e else None, x, e))"

text \<open>The exceptions of a failed join that are passed on.\<close>

definition join_exception :: "exn \<Rightarrow> exn" where
  "join_exception e =
     (if e \<in> {FederateAlreadyExecutionMember, FederationExecutionDoesNotExist, SaveInProgress, RestoreInProgress}
      then e else RTIinternalError)"

definition choose_join :: "string \<Rightarrow> string \<Rightarrow> string \<Rightarrow> string list \<Rightarrow> rti_version \<Rightarrow> outcome_of rtia_action" where
  "choose_join name type federation modules version =
     bind (joinFederationExecution name type federation modules version) (\<lambda>(e, h). case e of
         None \<Rightarrow> ret (None, JoinedField h federation name, None)
       | Some x \<Rightarrow> throw (join_exception x))"

definition choose_resign :: "resign_action \<Rightarrow> outcome_of rtia_action" where
  "choose_resign a =
     seq (if a = DELETE_OBJECTS \<or> a = DELETE_OBJECTS_AND_RELEASE_ATTRIBUTES then om_deleteAllObjects else ret ())
         (result resignFederationExecution)"

definition choose_register_point :: "string \<Rightarrow> string \<Rightarrow> federate_handle list \<Rightarrow> exn option rtia_action" where
  "choose_register_point label tag hs =
     (if hs \<noteq> [] then registerSynchronization_set label tag (of_nat (length hs)) hs
      else registerSynchronization_all label tag)"

fun choose_federation :: "federation_request \<Rightarrow> outcome_of rtia_action" where
  "choose_federation CloseConnexion = done_with NoFields (set_connection ConnectionEnded)"
| "choose_federation (CreateFederation name fed) =
     internal_error_set (Creation name [fed]) (createFederationExecution name [fed] [] HLA_1_3)"
| "choose_federation (CreateFederationV4 name modules mim version) =
     internal_error_set (Creation name modules) (createFederationExecution name modules mim version)"
| "choose_federation (DestroyFederation name) =
     internal_error_set (NameField name) (destroyFederationExecution name)"
| "choose_federation (JoinFederation name federation) = choose_join name name federation [] HLA_1_3"
| "choose_federation (JoinFederationV4 name type federation modules version) = choose_join name type federation modules version"
| "choose_federation (ResignFederation a) = choose_resign a"
| "choose_federation (RegisterPoint label tag hs) = result (choose_register_point label tag hs)"
| "choose_federation (PointAchieved label) = result (unregisterSynchronization_rtia label)"
| "choose_federation (RequestSave label date) =
     done_with (case date of Some t \<Rightarrow> DateField t | None \<Rightarrow> NoFields) (requestFederationSave_rtia label date)"
| "choose_federation SaveBegun = done_with NoFields federateSaveBegun_rtia"
| "choose_federation (SaveComplete ok) = done_with NoFields (federateSaveStatus_rtia ok)"
| "choose_federation (RequestRestore label) = done_with NoFields (requestFederationRestore_rtia label)"
| "choose_federation (RestoreComplete ok) = done_with NoFields (federateRestoreStatus_rtia ok)"
| "choose_federation (OpenConnexion _ _) = throw RTIinternalError"

fun choose_declaration :: "declaration_request \<Rightarrow> outcome_of rtia_action" where
  "choose_declaration (PublishClass c as) = result (dm_publishObjectClass c as)"
| "choose_declaration (UnpublishClass c) = result (dm_unpublishObjectClass c)"
| "choose_declaration (PublishInteraction on c) = result (dm_publishInteractionClass on c)"
| "choose_declaration (SubscribeClass c as) = result (dm_subscribeObjectClassAttribute c as)"
| "choose_declaration (UnsubscribeClass c) = result (dm_unsubscribeObjectClassAttribute c)"
| "choose_declaration (SubscribeInteraction on c) = result (dm_subscribeInteractionClass on c)"
| "choose_declaration (ClassRelevanceSwitch on) = done_with NoFields (send_switch SET_CLASS_RELEVANCE_ADVISORY_SWITCH on)"
| "choose_declaration (InteractionRelevanceSwitch on) =
     done_with NoFields (send_switch SET_INTERACTION_RELEVANCE_ADVISORY_SWITCH on)"

text \<open>The event retraction of an answer is never set to a number and is left out.\<close>

fun choose_object :: "object_request \<Rightarrow> outcome_of rtia_action" where
  "choose_object (ReserveName n) = bind (om_reserveObjectName n) (\<lambda>e. ret (None, NameField n, e))"
| "choose_object (RegisterInstance c n) = bind (om_registerObject c n) (\<lambda>(e, h). ret (None, HandleField h, e))"
| "choose_object (UpdateValues h as vs tag date) =
     bind (om_updateAttributeValues h as vs tag date) (\<lambda>e.
     ret (None, case date of Some t \<Rightarrow> DateField t | None \<Rightarrow> NoFields, e))"
| "choose_object (SendInteraction c ps vs tag r date) = result (om_sendInteraction c ps vs tag r date)"
| "choose_object (DeleteInstance h tag date) = result (om_deleteObject h tag date)"
| "choose_object (ChangeAttributeTransport h as t) = result (om_change CHANGE_ATTRIBUTE_TRANSPORT_TYPE h as t)"
| "choose_object (ChangeAttributeOrder h as t) = result (om_change CHANGE_ATTRIBUTE_ORDER_TYPE h as t)"
| "choose_object (ChangeInteractionTransport c t) = result (om_change CHANGE_INTERACTION_TRANSPORT_TYPE c [] t)"
| "choose_object (ChangeInteractionOrder c t) = result (om_change CHANGE_INTERACTION_ORDER_TYPE c [] t)"
| "choose_object (RequestObjectUpdate h as) = result (om_requestObjectAttributeValueUpdate h as)"
| "choose_object (RequestClassUpdate c as) = result (om_requestClassAttributeValueUpdate c as)"
| "choose_object Retract = ret (None, NoFields, Some UnimplementedService)"
| "choose_object (AttributeRelevanceSwitch on) =
     done_with NoFields (send_switch SET_ATTRIBUTE_RELEVANCE_ADVISORY_SWITCH on)"
| "choose_object (AttributeScopeSwitch on) = done_with NoFields (send_switch SET_ATTRIBUTE_SCOPE_ADVISORY_SWITCH on)"

fun choose_ownership :: "ownership_request \<Rightarrow> outcome_of rtia_action" where
  "choose_ownership (Divest h as) = result (owm_request (UNCONDITIONAL_ATTRIBUTE_OWNERSHIP_DIVESTITURE) h as)"
| "choose_ownership (NegotiateDivestiture h as tag) =
     result (owm_tagged_request (Service NEGOTIATED_ATTRIBUTE_OWNERSHIP_DIVESTITURE) h as tag)"
| "choose_ownership (CancelDivestiture h as) =
     result (owm_request (Service CANCEL_NEGOTIATED_ATTRIBUTE_OWNERSHIP_DIVESTITURE) h as)"
| "choose_ownership (AcquireOwnership h as tag) =
     result (owm_tagged_request (Service ATTRIBUTE_OWNERSHIP_ACQUISITION) h as tag)"
| "choose_ownership (AcquireIfAvailable h as) =
     result (owm_request (Service ATTRIBUTE_OWNERSHIP_ACQUISITION_IF_AVAILABLE) h as)"
| "choose_ownership (ReleaseResponse h as) =
     bind (owm_attributeOwnershipReleaseResponse h as) (\<lambda>(e, xs). ret (None, AttributesField xs, e))"
| "choose_ownership (CancelAcquisition h as) = result (owm_request (Service CANCEL_ATTRIBUTE_OWNERSHIP_ACQUISITION) h as)"
| "choose_ownership (QueryOwner h a) = result (owm_queryAttributeOwnership h a)"
| "choose_ownership (IsOwner h a) = bind (owm_attributeOwnedByFederate h a) (\<lambda>(e, tag). ret (None, TagField tag, e))"

text \<open>The asynchronous delivery is switched in the RTIA, and the RTIG is told.\<close>

definition choose_asynchronous :: "bool \<Rightarrow> outcome_of rtia_action" where
  "choose_asynchronous on =
     bind (gets (\<lambda>s. tm_async (ra_tm s))) (\<lambda>was.
       if was = on then
         ret (None, NoFields,
              Some (if on then AsynchronousDeliveryAlreadyEnabled else AsynchronousDeliveryAlreadyDisabled))
       else
         done_with NoFields (seq (on_tm (modify (\<lambda>t. t\<lparr>tm_async := on\<rparr>)))
           (send_mine id (Service (if on then ENABLE_ASYNCHRONOUS_DELIVERY else DISABLE_ASYNCHRONOUS_DELIVERY)) NoBody)))"

definition answer_with :: "(time_management \<Rightarrow> answer_fields) \<Rightarrow> outcome_of rtia_action" where
  "answer_with f = bind (gets (\<lambda>s. f (ra_tm s))) (\<lambda>x. ret (None, x, None))"

fun choose_time :: "time_request \<Rightarrow> outcome_of rtia_action" where
  "choose_time QueryLBTS = answer_with (\<lambda>t. DateField (lbts_of t))"
| "choose_time (AsynchronousDelivery on) = choose_asynchronous on"
| "choose_time QueryTime = answer_with (\<lambda>t. DateField (tm_now t))"
| "choose_time QueryMinNextEvent = answer_with (\<lambda>t. DateField (requestMinNextEventTime t))"
| "choose_time (ModifyLookahead la) = bind (on_tm (setLookahead la)) (\<lambda>e. ret (None, LookaheadField la, e))"
| "choose_time QueryLookahead = answer_with (\<lambda>t. LookaheadField (tm_lookahead t))"
| "choose_time (AdvanceRequest t) = result (on_tm (timeAdvanceRequest t))"
| "choose_time (AdvanceRequestAvailable t) = result (on_tm (timeAdvanceRequestAvailable t))"
| "choose_time (NextRequest t) = result (on_tm (nextEventRequest t))"
| "choose_time (NextRequestAvailable t) = result (on_tm (nextEventRequestAvailable t))"
| "choose_time FlushQueue = ret (None, NoFields, Some UnimplementedService)"
| "choose_time (Regulation on t la) = result (on_tm (setTimeRegulating on t la))"
| "choose_time (ConstrainedTime on) = result (on_tm (setTimeConstrained on))"

text \<open>\<open>TRq->getMinTickTime() >= 0.0\<close>, on doubles.\<close>

definition is_blocking :: "fed_time \<Rightarrow> bool" where
  "is_blocking t = (case t of PInf \<Rightarrow> True | Fin x \<Rightarrow> 0 \<le> x)"

fun choose_tick :: "tick_request \<Rightarrow> unit rtia_action" where
  "choose_tick (TickRequest multiple min_time max_time) =
     bind get_tick (\<lambda>x.
     seq (throw_if (x \<noteq> NO_TICK) RTIinternalError)
     (seq (modify (\<lambda>s. s\<lparr>ra_multiple := multiple, ra_result := False\<rparr>))
     (seq (if is_blocking min_time then
             bind read_clock (\<lambda>t. seq (modify (\<lambda>s. s\<lparr>ra_max_tick := max_time, ra_start := t\<rparr>)) (set_tick TICK_BLOCKING))
           else set_tick TICK_CALLBACK)
          processOngoingTick)))"
| "choose_tick TickRequestNext =
     bind get_tick (\<lambda>x.
     seq (throw_if (x \<noteq> TICK_CALLBACK \<and> x \<noteq> TICK_RETURN) RTIinternalError) processOngoingTick)"
| "choose_tick TickRequestStop = seq (set_tick TICK_RETURN) processOngoingTick"

text \<open>A question to the root object, whose exceptions are thrown.\<close>

definition lookup :: "('a \<Rightarrow> answer_fields) \<Rightarrow> (root \<Rightarrow> exn + 'a) \<Rightarrow> outcome_of rtia_action" where
  "lookup f q = bind (ask_root q) (\<lambda>x. ret (None, f x, None))"

text \<open>A question whose exceptions are set in the answer.\<close>

definition lookup_set :: "(exn \<Rightarrow> bool) \<Rightarrow> ('a \<Rightarrow> answer_fields) \<Rightarrow> (root \<Rightarrow> exn + 'a) \<Rightarrow> outcome_of rtia_action" where
  "lookup_set caught f q = catch (lookup f q) caught (\<lambda>e. ret (Some e, NoFields, None))"

fun choose_support :: "support_request \<Rightarrow> outcome_of rtia_action" where
  "choose_support (GetObjectClassHandle n) = lookup_set is_certi_exception HandleField (ocs_getObjectClassHandle n)"
| "choose_support (GetObjectClassName c) =
     lookup_set (\<lambda>e. e = ObjectClassNotDefined \<or> e = RTIinternalError) NameField (ocs_getObjectClassName c)"
| "choose_support (GetObjectInstanceHandle n) = lookup HandleField (os_getObjectInstanceHandle n)"
| "choose_support (GetObjectInstanceName h) = lookup NameField (os_getObjectInstanceName h)"
| "choose_support (GetAttributeHandle n c) = lookup_set is_certi_exception HandleField (ocs_getAttributeHandle n c)"
| "choose_support (GetAttributeName a c) = lookup NameField (ocs_getAttributeName a c)"
| "choose_support (GetInteractionClassHandle n) = lookup HandleField (getInteractionClassHandle n)"
| "choose_support (GetInteractionClassName c) = lookup NameField (getInteractionClassName c)"
| "choose_support (GetParameterHandle n c) = lookup HandleField (ics_getParameterHandle n c)"
| "choose_support (GetParameterName p c) = lookup NameField (ics_getParameterName p c)"
| "choose_support (GetSpaceHandle n) = lookup HandleField (getRoutingSpaceHandle n)"
| "choose_support (GetSpaceName sp) = lookup NameField (getRoutingSpaceName sp)"
| "choose_support (GetDimensionHandle n sp) = lookup HandleField (ddm_getDimensionHandle n sp)"
| "choose_support (GetDimensionName d sp) = lookup NameField (ddm_getDimensionName d sp)"
| "choose_support (GetAttributeSpace a c) = lookup HandleField (ddm_getAttributeSpace a c)"
| "choose_support (GetInteractionSpace c) = lookup HandleField (ddm_getInteractionSpace c)"
| "choose_support (GetObjectClass h) = lookup HandleField (os_getObjectClass h)"
| "choose_support (GetTransportationHandle n) = lookup HandleField (\<lambda>_. getTransportationHandle n)"
| "choose_support (GetTransportationName t) = lookup NameField (\<lambda>_. getTransportationName t)"
| "choose_support (GetOrderingHandle n) = lookup HandleField (\<lambda>_. getOrderingHandle n)"
| "choose_support (GetOrderingName t) = lookup NameField (\<lambda>_. getOrderingName t)"

fun choose_region :: "region_request \<Rightarrow> outcome_of rtia_action" where
  "choose_region (CreateRegion sp n) =
     bind (ddm_createRegion sp n) (\<lambda>(e, r).
     bind (ask_root (getRoutingSpace sp)) (\<lambda>rs. ret (None, RegionField r (length (rs_dimensions rs)), e)))"
| "choose_region (ModifyRegion r es) = result (ddm_modifyRegion r es)"
| "choose_region (DeleteRegion r) = result (ddm_deleteRegion r)"
| "choose_region (AssociateRegion h r as) = result (ddm_associateRegion h r as)"
| "choose_region (RegisterWithRegions c n as rs) =
     bind (ddm_registerObject c n as rs) (\<lambda>(e, h). ret (None, HandleField h, e))"
| "choose_region (UnassociateRegion h r) = result (ddm_unassociateRegion h r)"
| "choose_region (SubscribeRegion c r as) = result (ddm_subscribe c r as)"
| "choose_region (UnsubscribeRegion c r) = result (ddm_unsubscribeAttributes c r)"
| "choose_region (SubscribeInteractionRegion on c r) = result (ddm_subscribeInteraction on c r)"

definition chooseFederateProcessing :: "request \<Rightarrow> outcome_of rtia_action" where
  "chooseFederateProcessing q =
     seq (saveAndRestoreStatus q)
     (case q of
        FederationRequest x \<Rightarrow> choose_federation x
      | DeclarationRequest x \<Rightarrow> choose_declaration x
      | ObjectRequest x \<Rightarrow> choose_object x
      | OwnershipRequest x \<Rightarrow> choose_ownership x
      | TimeRequest x \<Rightarrow> choose_time x
      | TickingRequest x \<Rightarrow> done_with NoFields (choose_tick x)
      | SupportRequest x \<Rightarrow> choose_support x
      | RegionRequest x \<Rightarrow> choose_region x
      | OtherRequest \<Rightarrow> throw RTIinternalError)"

section \<open>Answers\<close>

text \<open>The versions of the protocol (\<open>libCERTI/M_Classes.hh\<close>).\<close>

definition versionMajor :: nat where "versionMajor = 1"

definition versionMinor :: nat where "versionMinor = 0"

definition initFederateProcessing :: "request \<Rightarrow> rtia_answer rtia_action" where
  "initFederateProcessing q =
     (case q of
        FederationRequest (OpenConnexion major minor) \<Rightarrow>
          if major = versionMajor
          then seq (set_connection ConnectionReady)
                   (ret \<lparr>an_exception = None, an_fields = Version versionMajor (min minor versionMinor)\<rparr>)
          else ret \<lparr>an_exception = Some RTIinternalError, an_fields = NoFields\<rparr>
      | _ \<Rightarrow> ret \<lparr>an_exception = Some RTIinternalError, an_fields = NoFields\<rparr>)"

text \<open>An internal error that a service returns is not set in the answer.\<close>

definition answer_of :: "outcome_of \<Rightarrow> rtia_answer" where
  "answer_of x =
     (case x of (set_before, fs, e) \<Rightarrow>
       \<lparr>an_exception = (if e = None \<or> e = Some RTIinternalError then set_before else e), an_fields = fs\<rparr>)"

text \<open>The exceptions that have no handler of their own.\<close>

definition unlisted :: "exn list" where
  "unlisted =
     [DimensionNotDefined, InvalidLookahead, NetworkError, SecurityError, AsynchronousDeliveryAlreadyDisabled,
      AsynchronousDeliveryAlreadyEnabled, IllegalName, NetworkSignal]"

definition caught_as :: "exn \<Rightarrow> exn" where
  "caught_as e = (if e \<in> set unlisted then RTIinternalError else e)"

fun is_tick :: "request \<Rightarrow> bool" where
  "is_tick (TickingRequest _) = True"
| "is_tick _ = False"

definition make_answer :: "request \<Rightarrow> rtia_answer rtia_action" where
  "make_answer q =
     catch (bind (gets (\<lambda>s. fm_connection (ra_fm s))) (\<lambda>c. case c of
              ConnectionPrelude \<Rightarrow> initFederateProcessing q
            | ConnectionReady \<Rightarrow> bind (chooseFederateProcessing q) (\<lambda>x. ret (answer_of x))
            | ConnectionEnded \<Rightarrow> ret \<lparr>an_exception = Some RTIinternalError, an_fields = NoFields\<rparr>))
       is_certi_exception (\<lambda>e. ret \<lparr>an_exception = Some (caught_as e), an_fields = NoFields\<rparr>)"

definition processFederateRequest :: "request \<Rightarrow> unit rtia_action" where
  "processFederateRequest q =
     bind (make_answer q) (\<lambda>a. if is_tick q then ret () else tell (Answer q a))"

section \<open>The process\<close>

text \<open>
  One turn of the loop of \<open>execute\<close>. The RTIG is not listened to while the federate works on a callback, and a
  tick cannot be in \<open>TICK_NEXT\<close> here: the code asserts that.
\<close>

definition read_turn :: "links_ready \<Rightarrow> read_result option rtia_action" where
  "read_turn r =
     bind get_tick (\<lambda>x.
     catch (bind (case x of
                NO_TICK \<Rightarrow> readMessage r True
              | TICK_BLOCKING \<Rightarrow> readMessage r True
              | TICK_CALLBACK \<Rightarrow> readMessage r False
              | TICK_RETURN \<Rightarrow> readMessage r False
              | TICK_NEXT \<Rightarrow> throw UndefinedBehaviour) (\<lambda>m. ret (Some m)))
       (\<lambda>e. e = NetworkSignal) (\<lambda>_. seq (set_connection ConnectionEnded) (ret None)))"

definition if_blocking :: "unit rtia_action \<Rightarrow> unit rtia_action" where
  "if_blocking m = bind get_tick (\<lambda>x. if x = TICK_BLOCKING then m else ret ())"

definition turn :: "links_ready \<Rightarrow> unit rtia_action" where
  "turn r =
     bind (read_turn r) (\<lambda>x. case x of
         None \<Rightarrow> ret ()
       | Some (FromNetwork m) \<Rightarrow> seq (processNetworkMessage m) (if_blocking processOngoingTick)
       | Some (FromFederate q) \<Rightarrow> processFederateRequest q
       | Some Timeout \<Rightarrow> if_blocking (seq (set_tick TICK_RETURN) processOngoingTick))"

text \<open>The list says what is ready at each turn; the loop ends with the connection, or with the list.\<close>

fun rtia_execute :: "links_ready list \<Rightarrow> unit rtia_action" where
  "rtia_execute [] = ret ()"
| "rtia_execute (r # rs) =
     bind (gets (\<lambda>s. fm_connection (ra_fm s))) (\<lambda>c.
       if c = ConnectionEnded then ret () else seq (turn r) (rtia_execute rs))"

text \<open>The destructors of \<open>RTIA\<close> and of its \<open>Communications\<close>.\<close>

definition rtia_destroy :: "unit rtia_action" where
  "rtia_destroy =
     noexcept (seq resignFederationExecutionForTermination (send_message (new_message (Service CLOSE_CONNEXION) NoBody)))"

text \<open>\<open>main\<close>: an exception that leaves the loop ends the process, after the destructors.\<close>

definition rtia_main :: "links_ready list \<Rightarrow> unit rtia_action" where
  "rtia_main rs = seq (catch (rtia_execute rs) is_certi_exception (\<lambda>_. ret ())) rtia_destroy"

end
