(* ===== verification/RtiaLinks.thy ===== *)
theory RtiaLinks
  imports RtiaFederate
begin

text \<open>
  What \<open>waitMessage\<close> takes from the links of an RTIA, and how an RTIA joins a federation.
\<close>

named_theorems rtia_simps "what the state changes of an RTIA do"

lemma on_tm_run [rtia_simps]: "on_tm m s = (case m (ra_tm s) of (r, t) \<Rightarrow> (r, s\<lparr>ra_tm := t\<rparr>))"
  by (simp add: on_tm_def on_field_run)

lemma on_fm_run [rtia_simps]: "on_fm m s = (case m (ra_fm s) of (r, t) \<Rightarrow> (r, s\<lparr>ra_fm := t\<rparr>))"
  by (simp add: on_fm_def on_field_run)

lemma on_object_model_run [rtia_simps]: "on_object_model m s = (case m (ra_root s) of (r, t) \<Rightarrow> (r, s\<lparr>ra_root := t\<rparr>))"
  by (simp add: on_object_model_def on_field_run)

lemma send_message_run [rtia_simps]:
  "send_message m s = (Inr (), s\<lparr>ra_tm := (ra_tm s)\<lparr>tm_sent := tm_sent (ra_tm s) @ [m]\<rparr>\<rparr>)"
  by (simp add: send_message_def on_tm_run sendMessage_def modify_run)

lemma tell_run [rtia_simps]: "tell m s = (Inr (), s\<lparr>ra_out := ra_out s @ [m]\<rparr>)"
  by (simp add: tell_def modify_run)

section \<open>Waiting for a message\<close>

text \<open>The first message that is awaited, and the others in their order.\<close>

fun take_first :: "('m \<Rightarrow> bool) \<Rightarrow> 'm list \<Rightarrow> ('m \<times> 'm list) option" where
  "take_first p [] = None"
| "take_first p (m # ms) = (if p m then Some (m, ms) else map_option (\<lambda>(x, rest). (x, m # rest)) (take_first p ms))"

lemma take_first_None: "take_first p ms = None \<longleftrightarrow> (\<forall>m \<in> set ms. \<not> p m)"
  by (induction ms) auto

lemma take_first_append:
  "take_first p (ms @ ns) = (case take_first p ms of
      Some (m, rest) \<Rightarrow> Some (m, rest @ ns)
    | None \<Rightarrow> map_option (\<lambda>(m, rest). (m, ms @ rest)) (take_first p ns))"
  by (induction ms) (auto split: option.splits simp: option.map_comp comp_def case_prod_beta option.map_id0 map_option_case)

lemma take_first_parts:
  "take_first p ms = Some (m, rest) \<Longrightarrow> takeWhile (\<lambda>x. \<not> p x) ms @ tl (dropWhile (\<lambda>x. \<not> p x) ms) = rest"
  by (induction ms arbitrary: rest) (auto split: if_splits)

lemma take_first_split:
  "take_first p ms = Some (m, rest) \<Longrightarrow> \<exists>xs ys. ms = xs @ m # ys \<and> p m \<and> (\<forall>x \<in> set xs. \<not> p x) \<and> rest = xs @ ys"
proof (induction ms arbitrary: rest)
  case Nil
  then show ?case by simp
next
  case (Cons x ms)
  show ?case
  proof (cases "p x")
    case True
    then show ?thesis using Cons.prems by (intro exI [of _ "[]"] exI [of _ ms]) auto
  next
    case False
    then obtain r where r: "take_first p ms = Some (m, r)" "rest = x # r" using Cons.prems by auto
    obtain xs ys where "ms = xs @ m # ys" "p m" "\<forall>x \<in> set xs. \<not> p x" "r = xs @ ys" using Cons.IH [OF r(1)] by blast
    then show ?thesis using False r(2) by (intro exI [of _ "x # xs"] exI [of _ ys]) auto
  qed
qed

lemma searchMessage_first: "searchMessage k f ms = take_first (awaited k f) ms"
  by (induction ms) auto

lemma receive_until_run:
  "receive_until k f ms s = (case take_first (awaited k f) ms of
      Some (m, _) \<Rightarrow>
        (Inr m, s\<lparr>ra_waiting := ra_waiting s @ takeWhile (\<lambda>x. \<not> awaited k f x) ms,
                  ra_tcp := tl (dropWhile (\<lambda>x. \<not> awaited k f x) ms)\<rparr>)
    | None \<Rightarrow> (Inl NetworkError, s\<lparr>ra_waiting := ra_waiting s @ ms, ra_tcp := []\<rparr>))"
proof (induction ms arbitrary: s)
  case Nil
  then show ?case by (simp add: act_simps)
next
  case (Cons m ms)
  show ?case
  proof (cases "awaited k f m")
    case True
    then show ?thesis by (simp add: act_simps)
  next
    case False
    then show ?thesis
      by (cases "take_first (awaited k f) ms") (auto simp: act_simps Cons.IH)
  qed
qed

text \<open>
  The messages of the connection are the waiting list followed by what the link will bring. Waiting takes the first
  awaited one out of them, and the next reads see the others in their order.
\<close>

definition incoming :: "rtia \<Rightarrow> network_message list" where
  "incoming s = ra_waiting s @ ra_tcp s"

lemma waitMessage_run:
  "waitMessage k f s = (case take_first (awaited k f) (ra_waiting s) of
      Some (m, rest) \<Rightarrow> (Inr m, s\<lparr>ra_waiting := rest\<rparr>)
    | None \<Rightarrow> receive_until k f (ra_tcp s) s)"
  by (simp add: waitMessage_def bind_run gets_run searchMessage_first seq_run modify_run ret_run split: option.split prod.split)

lemma waitMessage_take:
  "case take_first (awaited k f) (incoming s) of
     Some (m, rest) \<Rightarrow> \<exists>w l. waitMessage k f s = (Inr m, s\<lparr>ra_waiting := w, ra_tcp := l\<rparr>) \<and> w @ l = rest
   | None \<Rightarrow> waitMessage k f s = (Inl NetworkError, s\<lparr>ra_waiting := incoming s, ra_tcp := []\<rparr>)"
proof (cases "take_first (awaited k f) (ra_waiting s)")
  case (Some x)
  obtain m rest where x: "x = (m, rest)" by (cases x)
  have "waitMessage k f s = (Inr m, s\<lparr>ra_waiting := rest, ra_tcp := ra_tcp s\<rparr>)"
    using Some x by (simp add: waitMessage_run)
  moreover have "take_first (awaited k f) (incoming s) = Some (m, rest @ ra_tcp s)"
    using Some x by (simp add: incoming_def take_first_append)
  ultimately show ?thesis by (simp only: option.case prod.case) blast
next
  case None
  show ?thesis
  proof (cases "take_first (awaited k f) (ra_tcp s)")
    case None': None
    then show ?thesis using None by (simp add: waitMessage_run receive_until_run incoming_def take_first_append)
  next
    case (Some x)
    obtain m rest where x: "x = (m, rest)" by (cases x)
    let ?w = "ra_waiting s @ takeWhile (\<lambda>x. \<not> awaited k f x) (ra_tcp s)"
      and ?l = "tl (dropWhile (\<lambda>x. \<not> awaited k f x) (ra_tcp s))"
    have "waitMessage k f s = (Inr m, s\<lparr>ra_waiting := ?w, ra_tcp := ?l\<rparr>)"
      using None Some x by (simp add: waitMessage_run receive_until_run)
    moreover have "?w @ ?l = ra_waiting s @ rest" using take_first_parts [of "awaited k f"] Some x by simp
    moreover have "take_first (awaited k f) (incoming s) = Some (m, ra_waiting s @ rest)"
      using None Some x by (simp add: incoming_def take_first_append)
    ultimately show ?thesis by (simp only: option.case prod.case) blast
  qed
qed

text \<open>
  C15. Waiting for a message of a type and a federate returns the first such message among those that wait and
  those that the connection brings, and leaves the others in their order; it changes nothing else. If there
  is none, it reads to the end of the connection, keeps every message and throws a network error.
\<close>

theorem waitMessage_first:
  "if \<exists>m \<in> set (incoming s). awaited k f m
   then \<exists>xs m ys w l. incoming s = xs @ m # ys \<and> awaited k f m \<and> (\<forall>x \<in> set xs. \<not> awaited k f x)
     \<and> waitMessage k f s = (Inr m, s\<lparr>ra_waiting := w, ra_tcp := l\<rparr>) \<and> w @ l = xs @ ys
   else waitMessage k f s = (Inl NetworkError, s\<lparr>ra_waiting := incoming s, ra_tcp := []\<rparr>)"
proof (cases "take_first (awaited k f) (incoming s)")
  case None
  then have "waitMessage k f s = (Inl NetworkError, s\<lparr>ra_waiting := incoming s, ra_tcp := []\<rparr>)"
    using waitMessage_take [of k f s] by (simp only: option.case)
  then show ?thesis using None by (simp add: take_first_None)
next
  case (Some x)
  obtain m rest where x: "x = (m, rest)" by (cases x)
  obtain xs ys where p: "incoming s = xs @ m # ys" "awaited k f m" "\<forall>x \<in> set xs. \<not> awaited k f x" "rest = xs @ ys"
    using take_first_split Some x by metis
  moreover obtain w l where "waitMessage k f s = (Inr m, s\<lparr>ra_waiting := w, ra_tcp := l\<rparr>)" "w @ l = rest"
    using waitMessage_take [of k f s] Some x by (simp only: option.case prod.case) blast
  ultimately have "\<exists>xs m ys w l. incoming s = xs @ m # ys \<and> awaited k f m \<and> (\<forall>x \<in> set xs. \<not> awaited k f x)
     \<and> waitMessage k f s = (Inr m, s\<lparr>ra_waiting := w, ra_tcp := l\<rparr>) \<and> w @ l = xs @ ys" by blast
  moreover have "\<exists>m \<in> set (incoming s). awaited k f m" using p by auto
  ultimately show ?thesis by simp
qed

text \<open>A null message that comes before the awaited reply is kept.\<close>

definition demo_reply_late :: "network_message list" where
  "demo_reply_late = [new_message MESSAGE_NULL NoBody, setFederate 3 (new_message CREATE_FEDERATION_EXECUTION NoBody)]"

definition demo_waiting :: rtia where
  "demo_waiting = rtia_new False (\<lambda>n. int n) 0 0 axis_initial 0 demo_reply_late [] []"

theorem waitMessage_first_witness:
  "case waitMessage CREATE_FEDERATION_EXECUTION 3 demo_waiting of
      (Inr m, t) \<Rightarrow> nm_kind m = CREATE_FEDERATION_EXECUTION \<and> ra_waiting t @ ra_tcp t = [new_message MESSAGE_NULL NoBody]
    | (Inl e, t) \<Rightarrow> False"
proof -
  have "incoming demo_waiting = demo_reply_late" by (simp add: demo_waiting_def incoming_def rtia_new_def)
  then show ?thesis
    using waitMessage_first [where s = demo_waiting and k = CREATE_FEDERATION_EXECUTION and f = 3]
    by (auto simp: demo_reply_late_def awaited_def new_message_def setFederate_def Cons_eq_append_conv split: prod.splits sum.splits)
qed

end
