(* ===== verification/Countdown.thy ===== *)
theory Countdown
  imports FederationLemmas
begin

text \<open>
  The interface of the operations of \<open>Federation\<close> that wait for every federate: achieving a
  synchronization point, reporting the end of a save, reporting the end of a restore. A federate
  reports; while others are pending the report is noted and nothing is sent; the last report
  sends the announcement.
\<close>

lemma without:
  "a \<notin> B \<Longrightarrow> insert a B = P \<Longrightarrow> B = P - {a}" "a \<notin> B \<Longrightarrow> B \<subseteq> P \<Longrightarrow> B \<subseteq> P - {a}"
  by auto

lemma butlast_facts:
  assumes "distinct (map r xs)" "r ` set xs = A" "xs \<noteq> []"
  shows "distinct (map r (butlast xs))" "r ` set (butlast xs) = A - {r (last xs)}"
proof -
  obtain ys y where "xs = ys @ [y]" using assms(3) by (cases xs rule: rev_cases) auto
  then show "distinct (map r (butlast xs))" "r ` set (butlast xs) = A - {r (last xs)}"
    using assms without(1) [of "r y" "r ` set ys" A] by simp_all
qed

locale countdown =
  fixes pending :: "'s \<Rightarrow> federate_handle set"
    and report :: "'x \<Rightarrow> ('s, responses) action"
    and reporter :: "'x \<Rightarrow> federate_handle"
    and ok :: "'s \<Rightarrow> bool"
    and mark :: "'x \<Rightarrow> 's \<Rightarrow> 's"
    and announce :: "'x \<Rightarrow> 's \<Rightarrow> responses"
    and finish :: "'x \<Rightarrow> 's \<Rightarrow> 's"
  assumes not_last: "ok s \<Longrightarrow> reporter x \<in> pending s \<Longrightarrow> pending s \<noteq> {reporter x} \<Longrightarrow> report x s = (Inr [], mark x s)"
    and is_last: "ok s \<Longrightarrow> pending s = {reporter x} \<Longrightarrow> report x s = (Inr (announce x s), finish x s)"
    and mark_ok: "ok s \<Longrightarrow> reporter x \<in> pending s \<Longrightarrow> ok (mark x s)"
    and mark_pending: "ok s \<Longrightarrow> reporter x \<in> pending s \<Longrightarrow> pending (mark x s) = pending s - {reporter x}"
begin

lemma all_report:
  assumes "ok s" "distinct (map reporter xs)" "reporter ` set xs = pending s" "xs \<noteq> []"
  shows "collect report xs s
    = (Inr (replicate (length xs - 1) [] @ [announce (last xs) (fold mark (butlast xs) s)]),
       finish (last xs) (fold mark (butlast xs) s))"
  using assms
proof (induction xs arbitrary: s)
  case Nil
  then show ?case by simp
next
  case (Cons x xs)
  have x: "reporter x \<in> pending s" using Cons.prems(3) by auto
  show ?case
  proof (cases xs)
    case Nil
    then have "pending s = {reporter x}" using Cons.prems(3) by auto
    then show ?thesis using Nil is_last [OF Cons.prems(1)] by (simp add: bind_run ret_run)
  next
    case (Cons y ys)
    have "reporter y \<in> pending s" "reporter y \<noteq> reporter x" using Cons.prems(2,3) Cons by auto
    then have ne: "pending s \<noteq> {reporter x}" by auto
    have "reporter x \<notin> reporter ` set xs" using Cons.prems(2) by simp
    then have set: "reporter ` set xs = pending (mark x s)"
      using Cons.prems(3) mark_pending [OF Cons.prems(1) x] without(1) [of "reporter x" "reporter ` set xs"] by simp
    have d: "distinct (map reporter xs)" using Cons.prems(2) by simp
    show ?thesis
      using Cons.IH [OF mark_ok [OF Cons.prems(1) x] d set] not_last [OF Cons.prems(1) x ne] Cons
      by (simp add: bind_run ret_run)
  qed
qed

lemma marks_ok:
  "ok s \<Longrightarrow> distinct (map reporter xs) \<Longrightarrow> reporter ` set xs \<subseteq> pending s
    \<Longrightarrow> ok (fold mark xs s) \<and> pending (fold mark xs s) = pending s - reporter ` set xs"
proof (induction xs arbitrary: s)
  case Nil
  then show ?case by simp
next
  case (Cons x xs)
  have x: "reporter x \<in> pending s" using Cons.prems(3) by auto
  have "reporter x \<notin> reporter ` set xs" using Cons.prems(2) by simp
  then have "reporter ` set xs \<subseteq> pending (mark x s)"
    using Cons.prems(3) mark_pending [OF Cons.prems(1) x] without(2) [of "reporter x" "reporter ` set xs"] by simp
  then have "ok (fold mark xs (mark x s)) \<and> pending (fold mark xs (mark x s)) = pending (mark x s) - reporter ` set xs"
    using Cons.IH [OF mark_ok [OF Cons.prems(1) x]] Cons.prems(2) by simp
  then show ?case using mark_pending [OF Cons.prems(1) x] by auto
qed

text \<open>What every report keeps is still there when the last one is made.\<close>

lemma marks_keep:
  assumes "ok s" "distinct (map reporter xs)" "reporter ` set xs \<subseteq> pending s"
    and keep: "\<And>s x. ok s \<Longrightarrow> reporter x \<in> pending s \<Longrightarrow> g (mark x s) = g s"
  shows "g (fold mark xs s) = g s"
  using assms(1-3)
proof (induction xs arbitrary: s)
  case Nil
  then show ?case by simp
next
  case (Cons x xs)
  have x: "reporter x \<in> pending s" using Cons.prems(3) by auto
  have "reporter x \<notin> reporter ` set xs" using Cons.prems(2) by simp
  then have "reporter ` set xs \<subseteq> pending (mark x s)"
    using Cons.prems(3) mark_pending [OF Cons.prems(1) x] without(2) [of "reporter x" "reporter ` set xs"] by simp
  then show ?case using Cons.IH [OF mark_ok [OF Cons.prems(1) x]] Cons.prems(2) keep [OF Cons.prems(1) x] by simp
qed

lemma before_last:
  assumes "ok s" "distinct (map reporter xs)" "reporter ` set xs = pending s" "xs \<noteq> []"
  shows "ok (fold mark (butlast xs) s)" "pending (fold mark (butlast xs) s) = {reporter (last xs)}"
proof -
  note b = butlast_facts [OF assms(2,3,4)]
  have "reporter (last xs) \<in> pending s" using assms(3,4) by auto
  then show "ok (fold mark (butlast xs) s)" "pending (fold mark (butlast xs) s) = {reporter (last xs)}"
    using marks_ok [OF assms(1) b(1)] b(2) by auto
qed

lemma before_last_keep:
  assumes "ok s" "distinct (map reporter xs)" "reporter ` set xs = pending s" "xs \<noteq> []"
    and "\<And>s x. ok s \<Longrightarrow> reporter x \<in> pending s \<Longrightarrow> g (mark x s) = g s"
  shows "g (fold mark (butlast xs) s) = g s"
  using butlast_facts [OF assms(2,3,4)] assms(5) by (intro marks_keep [OF assms(1)]) auto

end

end
