(* ===== verification/Synchronization.thy ===== *)
theory Synchronization
  imports Countdown
begin

text \<open>
  The synchronization points of \<open>Federation\<close>: the protocol from the registration of a label to
  the announcement that the federation is synchronized, and what a resignation does to it.
\<close>

text \<open>The federates that have not yet achieved the synchronization point.\<close>

definition holders :: "'r federation \<Rightarrow> string \<Rightarrow> federate_handle set" where
  "holders s l = {h. \<exists>f. (h, f) \<in> set (fd_federates s) \<and> hasSynchronizationLabel l f}"

definition synchronized_event :: "'r federation \<Rightarrow> federate_handle \<Rightarrow> string \<Rightarrow> message_event" where
  "synchronized_event s h l =
     event (map (the_link s) (handles_of s)) (setLabel l (fed_message s h FEDERATION_SYNCHRONIZED NoBody))"

lemma synchronized_event_cong: "same_links s s' \<Longrightarrow> synchronized_event s' h l = synchronized_event s h l"
  by (simp add: synchronized_event_def fed_message_def same_linksD [of s s'])

lemma om_map_holds: "(\<exists>f. (k, f) \<in> set (fd_federates (s\<lparr>fd_federates := om_map g (fd_federates s)\<rparr>)) \<and> P f)
    \<longleftrightarrow> (\<exists>f. (k, f) \<in> set (fd_federates s) \<and> P (g k f))"
  by (force simp: om_map_def)

definition drop_label :: "federate_handle \<Rightarrow> string \<Rightarrow> 'r federation \<Rightarrow> 'r federation" where
  "drop_label h l s = s\<lparr>fd_federates := om_map (\<lambda>k f. if k = h
     then f\<lparr>f_labels := filter (\<lambda>x. x \<noteq> l) (f_labels f)\<rparr> else f) (fd_federates s)\<rparr>"

lemma drop_label_put:
  assumes "fed_ok s" "map_of (fd_federates s) h = Some f"
  shows "s\<lparr>fd_federates := om_put h (f\<lparr>f_labels := filter (\<lambda>x. x \<noteq> l) (f_labels f)\<rparr>) (fd_federates s)\<rparr> = drop_label h l s"
proof -
  have ok: "om_ok (fd_federates s)" using assms(1) by (simp add: fed_ok_def)
  have f: "(h, f') \<in> set (fd_federates s) \<Longrightarrow> f' = f" for f'
    using om_ok_map_of [OF ok, of h f'] assms(2) by simp
  have "h \<in> fst ` set (fd_federates s)" using map_of_SomeD [OF assms(2)] by (auto intro: rev_image_eqI)
  then have "om_put h (f\<lparr>f_labels := filter (\<lambda>x. x \<noteq> l) (f_labels f)\<rparr>) (fd_federates s)
      = om_map (\<lambda>k g. if k = h then f\<lparr>f_labels := filter (\<lambda>x. x \<noteq> l) (f_labels f)\<rparr> else g) (fd_federates s)"
    by (rule om_put_present [OF ok])
  also have "\<dots> = om_map (\<lambda>k f. if k = h then f\<lparr>f_labels := filter (\<lambda>x. x \<noteq> l) (f_labels f)\<rparr> else f) (fd_federates s)"
    by (rule om_map_cong) (auto dest: f)
  finally show ?thesis by (simp add: drop_label_def)
qed

lemma drop_label_facts:
  "fed_ok s \<Longrightarrow> fed_ok (drop_label h l s)" "same_links s (drop_label h l s)"
  "fd_labels (drop_label h l s) = fd_labels s" "holders (drop_label h l s) l = holders s l - {h}"
proof -
  show "fed_ok s \<Longrightarrow> fed_ok (drop_label h l s)"
    unfolding drop_label_def by (rule fed_ok_om_map) simp_all
  show "same_links s (drop_label h l s)" by (simp add: same_links_def drop_label_def handles_of_update)
  show "fd_labels (drop_label h l s) = fd_labels s" by (simp add: drop_label_def)
  show "holders (drop_label h l s) l = holders s l - {h}"
    unfolding holders_def drop_label_def om_map_holds hasSynchronizationLabel_def by (auto split: if_splits)
qed

lemma erase_label_facts:
  "same_links s (s\<lparr>fd_labels := ls\<rparr>)" "holders (s\<lparr>fd_labels := ls\<rparr>) l = holders s l"
  "connected (s\<lparr>fd_labels := ls\<rparr>) = connected s" "the_link (s\<lparr>fd_labels := ls\<rparr>) = the_link s"
  by (simp_all add: same_links_def handles_of_def holders_def connected_def link_of_def the_link_def fun_eq_iff)

lemma unregister_run:
  assumes "fed_ok s" "connected s" "h \<in> holders s l" "l \<noteq> []"
  shows "unregisterSynchronization h l s =
    (if holders s l = {h}
     then (Inr [synchronized_event s h l], (drop_label h l s)\<lparr>fd_labels := om_erase l (fd_labels s)\<rparr>)
     else (Inr [], drop_label h l s))"
proof -
  obtain f where hf: "(h, f) \<in> set (fd_federates s)" "hasSynchronizationLabel l f"
    using assms(3) by (auto simp: holders_def)
  then have f: "map_of (fd_federates s) h = Some f"
    using assms(1) om_ok_map_of [of "fd_federates s" h f] by (simp add: fed_ok_def)
  let ?d = "drop_label h l s"
  let ?e = "?d\<lparr>fd_labels := om_erase l (fd_labels s)\<rparr>"
  have on: "on_federate h (removeSynchronizationLabel l) s = (Inr (), ?d)"
    using f hf(2) drop_label_put [OF assms(1) f] by (simp add: on_federate_run label_runs)
  have more: "(\<exists>e \<in> set (fd_federates ?d). hasSynchronizationLabel l (snd e)) \<longleftrightarrow> holders ?d l \<noteq> {}"
    by (force simp: holders_def)
  have empty: "holders ?d l \<noteq> {} \<longleftrightarrow> holders s l \<noteq> {h}"
    using assms(3) drop_label_facts(4) [of h l s] by auto
  have l: "fd_labels ?d = fd_labels s" by (rule drop_label_facts)
  have s: "same_links s ?e" using drop_label_facts(2) erase_label_facts(1) by (rule same_links_trans)
  have c: "connected ?e" by (rule same_links_connected [OF s assms(2)])
  have h: "handles_of ?e = handles_of s" "the_link ?e = the_link s" "fd_handle ?e = fd_handle s"
    using same_linksD [OF s] by simp_all
  have "respondToAll (setLabel l (fed_message ?e h FEDERATION_SYNCHRONIZED NoBody)) 0 ?e = (Inr [synchronized_event s h l], ?e)"
    using respondToAll_connected [OF c] no_zero_handle [OF assms(1)] h
    by (simp add: synchronized_event_def fed_message_def)
  then show ?thesis
    using f assms(4) on more empty l
    by (simp add: unregisterSynchronization_def seq_run check_run throw_if_run bind_run gets_run ret_run modify_run)
qed

text \<open>All holders achieve the point, in any order: only the last one triggers the announcement.\<close>

definition forget_label :: "federate_handle \<Rightarrow> string \<Rightarrow> 'r federation \<Rightarrow> 'r federation" where
  "forget_label h l s = (drop_label h l s)\<lparr>fd_labels := om_erase l (fd_labels s)\<rparr>"

interpretation sync: countdown "\<lambda>s. holders s l" "\<lambda>h. unregisterSynchronization h l" "\<lambda>h. h"
    "\<lambda>s :: 'r federation. fed_ok s \<and> connected s \<and> l \<noteq> []"
    "\<lambda>h. drop_label h l" "\<lambda>h s. [synchronized_event s h l]" "\<lambda>h. forget_label h l" for l
proof unfold_locales
  fix s :: "'r federation" and h
  assume ok: "fed_ok s \<and> connected s \<and> l \<noteq> []"
  show "holders s l = {h} \<Longrightarrow> unregisterSynchronization h l s = (Inr [synchronized_event s h l], forget_label h l s)"
    using unregister_run [of s h l] ok by (simp add: forget_label_def)
  assume h: "h \<in> holders s l"
  show "holders s l \<noteq> {h} \<Longrightarrow> unregisterSynchronization h l s = (Inr [], drop_label h l s)"
    using unregister_run [of s h l] ok h by simp
  show "fed_ok (drop_label h l s) \<and> connected (drop_label h l s) \<and> l \<noteq> []"
    using ok drop_label_facts(1,2) same_links_connected by blast
  show "holders (drop_label h l s) l = holders s l - {h}" by (rule drop_label_facts)
qed

lemma unregister_all:
  assumes "fed_ok s" "connected s" "l \<noteq> []" "distinct hs" "set hs = holders s l" "hs \<noteq> []"
  shows "\<exists>s'. collect (\<lambda>h. unregisterSynchronization h l) hs s
      = (Inr (replicate (length hs - 1) [] @ [[synchronized_event s (last hs) l]]), s')
    \<and> holders s' l = {} \<and> fd_labels s' = om_erase l (fd_labels s)"
proof -
  let ?s = "fold (\<lambda>h. drop_label h l) (butlast hs) s"
  have ok: "fed_ok s \<and> connected s \<and> l \<noteq> []" using assms by simp
  have d: "distinct (map (\<lambda>h. h) hs)" "(\<lambda>h. h) ` set hs = holders s l" using assms by simp_all
  have keep1: "fd_labels ?s = fd_labels s"
    by (rule sync.before_last_keep [OF ok d assms(6)]) (rule drop_label_facts)
  have keep2: "synchronized_event ?s k l = synchronized_event s k l" for k
    by (rule sync.before_last_keep [OF ok d assms(6)]) (rule synchronized_event_cong [OF drop_label_facts(2)])
  have "holders ?s l = {last hs}" using sync.before_last(2) [OF ok d assms(6)] by simp
  then have "holders (forget_label (last hs) l ?s) l = {}"
    using drop_label_facts(4) [of "last hs" l ?s] by (simp add: forget_label_def erase_label_facts)
  then show ?thesis
    using sync.all_report [OF ok d assms(6)] keep1 keep2 drop_label_facts(3) by (simp add: forget_label_def)
qed

section \<open>Registration\<close>

lemma register_run:
  assumes "fed_ok s" "map_of (fd_federates s) h \<noteq> None" "l \<noteq> []" "map_of (fd_labels s) l = None" "holders s l = {}"
  shows "registerSynchronization h l tag s =
    (Inr (), s\<lparr>fd_labels := om_put l tag (fd_labels s),
               fd_federates := om_map (\<lambda>k f. f\<lparr>f_labels := l # f_labels f\<rparr>) (fd_federates s)\<rparr>)"
proof -
  let ?s = "s\<lparr>fd_labels := om_put l tag (fd_labels s)\<rparr>"
  have no: "\<not> hasSynchronizationLabel l f" if "(k, f) \<in> set (fd_federates s)" for k f
    using assms(5) that by (auto simp: holders_def)
  have "for_federates (addSynchronizationLabel l) ?s
      = (Inr (), ?s\<lparr>fd_federates := om_map (\<lambda>h f. snd (addSynchronizationLabel l f)) (fd_federates ?s)\<rparr>)"
    by (rule for_federates_run) (use assms(1) no in \<open>auto simp: fed_ok_def label_runs\<close>)
  also have "om_map (\<lambda>h f. snd (addSynchronizationLabel l f)) (fd_federates ?s)
      = om_map (\<lambda>k f. f\<lparr>f_labels := l # f_labels f\<rparr>) (fd_federates s)"
    by (rule trans [OF om_map_cong [where g = "\<lambda>k f. f\<lparr>f_labels := l # f_labels f\<rparr>"]])
      (use no in \<open>auto simp: label_runs\<close>)
  finally show ?thesis
    using assms by (simp add: registerSynchronization_def insert_label_def seq_run check_run throw_if_run bind_run gets_run modify_run)
qed

lemma register_facts:
  fixes s :: "'r federation" and l tag :: string
  assumes "fed_ok s"
  defines "s' \<equiv> s\<lparr>fd_labels := om_put l tag (fd_labels s),
               fd_federates := om_map (\<lambda>k f. f\<lparr>f_labels := l # f_labels f\<rparr>) (fd_federates s)\<rparr>"
  shows "fed_ok s'" "same_links s s'" "holders s' l = set (handles_of s)"
proof -
  have "fed_ok (s\<lparr>fd_labels := om_put l tag (fd_labels s)\<rparr>)"
    using assms(1) by (auto simp: fed_ok_def)
  then have "fed_ok (s\<lparr>fd_labels := om_put l tag (fd_labels s)\<rparr>\<lparr>fd_federates :=
      om_map (\<lambda>k f. f\<lparr>f_labels := l # f_labels f\<rparr>) (fd_federates (s\<lparr>fd_labels := om_put l tag (fd_labels s)\<rparr>))\<rparr>)"
    by (rule fed_ok_om_map) simp
  then show "fed_ok s'" by (simp add: s'_def)
  show "same_links s s'" by (simp add: same_links_def s'_def handles_of_def om_simps)
  show "holders s' l = set (handles_of s)"
    by (force simp: holders_def s'_def handles_of_def om_map_def hasSynchronizationLabel_def image_iff)
qed

section \<open>Properties\<close>

text \<open>
  C3. The synchronization protocol: after a federate has registered a label for the whole
  federation, the federates may achieve the point in any order. No announcement is made until the
  last of them has done so; then exactly one is made, to the links of all federates, and the label
  is pending no more.
\<close>

theorem synchronization_protocol:
  assumes "fed_ok s" "connected s" "map_of (fd_federates s) h \<noteq> None" "l \<noteq> []"
    and "map_of (fd_labels s) l = None" "holders s l = {}"
    and "distinct hs" "set hs = set (handles_of s)"
  shows "\<exists>s1 s2. registerSynchronization h l tag s = (Inr (), s1)
    \<and> map_of (fd_labels s1) l = Some tag
    \<and> collect (\<lambda>h. unregisterSynchronization h l) hs s1
        = (Inr (replicate (length hs - 1) [] @ [[synchronized_event s (last hs) l]]), s2)
    \<and> holders s2 l = {} \<and> fd_labels s2 = fd_labels s"
proof -
  let ?s1 = "s\<lparr>fd_labels := om_put l tag (fd_labels s),
               fd_federates := om_map (\<lambda>k f. f\<lparr>f_labels := l # f_labels f\<rparr>) (fd_federates s)\<rparr>"
  note r = register_run [OF assms(1,3,4,5,6)]
  note f = register_facts [OF assms(1), of l tag]
  have "hs \<noteq> []" using assms(3,8) by (auto simp: handles_of_def)
  then obtain s2 where s2: "collect (\<lambda>h. unregisterSynchronization h l) hs ?s1
      = (Inr (replicate (length hs - 1) [] @ [[synchronized_event ?s1 (last hs) l]]), s2)"
    "holders s2 l = {}" "fd_labels s2 = om_erase l (fd_labels ?s1)"
    using unregister_all [OF f(1) same_links_connected [OF f(2) assms(2)] assms(4,7)] assms(8) f(3) by blast
  have "om_erase l (om_put l tag (fd_labels s)) = fd_labels s"
    using assms(5) by (intro om_erase_put_fresh) (simp add: map_of_None_keys)
  then show ?thesis
    using r s2 synchronized_event_cong [OF f(2)] by (simp add: om_simps)
qed

theorem synchronization_protocol_witness:
  "\<exists>s1 s2. registerSynchronization 1 ''ready'' [] demo_federation = (Inr (), s1)
    \<and> collect (\<lambda>h. unregisterSynchronization h ''ready'') [2, 1] s1
        = (Inr [[], [synchronized_event demo_federation 1 ''ready'']], s2)"
proof -
  have "map_of (fd_federates demo_federation) 1 \<noteq> None" "map_of (fd_labels demo_federation) ''ready'' = None"
    "holders demo_federation ''ready'' = {}" "set [2, 1] = set (handles_of demo_federation)"
    by (auto simp: demo_federation_def holders_def hasSynchronizationLabel_def demo_federate_def handles_of_def)
  then show ?thesis
    using synchronization_protocol [OF demo_federation_ok, of 1 "''ready''" "[2, 1]" "[]"] by auto
qed

end
