(* ===== verification/Joining.thy ===== *)
theory Joining
  imports Synchronization
begin

text \<open>
  A federate joins a federation (\<open>Federation::add\<close>) or resigns from it (\<open>Federation::remove\<close>): what it
  is sent, what it becomes, and what becomes of the synchronization points it had to achieve.
\<close>

section \<open>Joining\<close>

lemma add_labels_run:
  assumes "map_of (fd_federates s) h = Some f" "om_ok (fd_federates s)" "distinct (map fst lts)"
    and "\<forall>l \<in> fst ` set lts. \<not> hasSynchronizationLabel l f"
  shows "for_each (\<lambda>lt. on_federate h (addSynchronizationLabel (fst lt))) lts s
    = (Inr (), s\<lparr>fd_federates := om_put h (f\<lparr>f_labels := rev (map fst lts) @ f_labels f\<rparr>) (fd_federates s)\<rparr>)"
  using assms
proof (induction lts arbitrary: s f)
  case Nil
  then show ?case by (simp add: ret_run om_put_same)
next
  case (Cons lt lts)
  let ?g = "f\<lparr>f_labels := fst lt # f_labels f\<rparr>"
  let ?s = "s\<lparr>fd_federates := om_put h ?g (fd_federates s)\<rparr>"
  have "on_federate h (addSynchronizationLabel (fst lt)) s = (Inr (), ?s)"
    using Cons.prems(1,4) by (simp add: on_federate_run label_runs)
  moreover have "for_each (\<lambda>lt. on_federate h (addSynchronizationLabel (fst lt))) lts ?s
    = (Inr (), ?s\<lparr>fd_federates := om_put h (?g\<lparr>f_labels := rev (map fst lts) @ f_labels ?g\<rparr>) (fd_federates ?s)\<rparr>)"
  proof (rule Cons.IH)
    have "fst lt \<notin> fst ` set lts" using Cons.prems(3) by simp
    then have "\<forall>l \<in> fst ` set lts. l \<noteq> fst lt" by metis
    then show "\<forall>l \<in> fst ` set lts. \<not> hasSynchronizationLabel l ?g"
      using Cons.prems(4) by (simp add: hasSynchronizationLabel_def)
  qed (use Cons.prems in \<open>simp_all add: om_simps\<close>)
  ultimately show ?case by (simp add: seq_run om_put_put)
qed

text \<open>The federate that \<open>add\<close> makes, with the pending labels.\<close>

definition joined :: "string \<Rightarrow> string \<Rightarrow> rti_version \<Rightarrow> federate_handle \<Rightarrow> string list \<Rightarrow> federate" where
  "joined n t v h ls = \<lparr>f_handle = h, f_name = n, f_type = t, f_version = v, f_regulator = False, f_constrained = False,
     f_usingNERx = False, f_lastNERx = Fin 0, f_cras = True, f_iras = True, f_aras = False, f_asas = False,
     f_regionSets = False, f_producing = False, f_serviceReporting = False, f_exceptionReporting = False,
     f_saving = False, f_restoring = False, f_labels = ls\<rparr>"

definition joined_state :: "string \<Rightarrow> string \<Rightarrow> rti_version \<Rightarrow> 'r federation \<Rightarrow> socket_server \<Rightarrow> 'r federation" where
  "joined_state n t v s ss = s\<lparr>
     fd_handles := (fd_handles s)\<lparr>highest := highest (fd_handles s) + 1\<rparr>,
     fd_federates := fd_federates s @ [(highest (fd_handles s),
       joined n t v (highest (fd_handles s)) (rev (map fst (fd_labels s))))],
     fd_sockets := ss\<rparr>"

definition join_responses :: "socket \<Rightarrow> 32 word \<Rightarrow> 32 word \<Rightarrow> fom \<Rightarrow> 'r federation \<Rightarrow> responses" where
  "join_responses link peer address fom s = null_events link s
     @ map (announce_event link s (highest (fd_handles s))) (fd_labels s)
     @ [to_all s (new_message ADDITIONAL_FOM_MODULE (FomModule fom)),
        event [Some link] (fed_message s (highest (fd_handles s)) JOIN_FEDERATION_EXECUTION
          (JoinReply (fd_name s) (getNbRegulators s) peer address fom))]"

lemma fed_ok_handles:
  assumes "fed_ok s"
  shows "\<forall>k \<in> fst ` set (fd_federates s). k < highest (fd_handles s)" "highest (fd_handles s) \<noteq> 0"
    "maximum (fd_handles s) = - 1" "available (fd_handles s) = []"
  using assms by (auto simp: fed_ok_def hm_ok_def)

lemma om_put_at_end: "\<forall>x \<in> fst ` set m. x < k \<Longrightarrow> om_put k v m = m @ [(k, v)]"
  by (induction m) auto

lemma fed_ok_joined_state:
  assumes "fed_ok s" "n \<notin> (\<lambda>e. f_name (snd e)) ` set (fd_federates s)" "highest (fd_handles s) \<noteq> - 1"
  shows "fed_ok (joined_state n t v s ss)"
proof -
  let ?h = "highest (fd_handles s)"
  note h = fed_ok_handles [OF assms(1)]
  have lt: "?h < ?h + 1" by (rule word_less_plus_one [OF assms(3)])
  have o: "om_ok (fd_federates s @ [(?h, x)])" for x
    using assms(1) h(1) om_put_ok [of "fd_federates s" ?h x] om_put_at_end [OF h(1), of x] by (simp add: fed_ok_def)
  have inj: "inj_on (\<lambda>e. f_name (snd e)) (insert (?h, joined n t v ?h ls) (set (fd_federates s)))" for ls
    using assms(1,2) by (auto simp: fed_ok_def inj_on_insert joined_def)
  have "1 \<le> ?h" using assms(1) by (simp add: fed_ok_def hm_ok_def)
  moreover have "1 \<le> k \<and> k < ?h + 1" if "(k, f) \<in> set (fd_federates s)" for k f
    using assms(1) that lt by (fastforce simp: fed_ok_def)
  ultimately show ?thesis
    using assms(1) o inj lt by (auto simp: fed_ok_def joined_state_def hm_ok_def)
qed

lemma add_run:
  assumes "fed_ok s" "connected s" "n \<notin> (\<lambda>e. f_name (snd e)) ` set (fd_federates s)" "highest (fd_handles s) \<noteq> - 1"
    and "ss_setReferences link (fd_handle s) (highest (fd_handles s)) (fd_sockets s) = (Inr (), ss)"
    and fom: "getFOM (fd_root s) = Inr fom"
  shows "add (ret ()) getFOM n t v link peer address s
    = (Inr (highest (fd_handles s), join_responses link peer address fom s), joined_state n t v s ss)"
proof -
  let ?h = "highest (fd_handles s)"
  note h = fed_ok_handles [OF assms(1)]
  let ?s1 = "s\<lparr>fd_handles := (fd_handles s)\<lparr>highest := ?h + 1\<rparr>\<rparr>"
  let ?s2 = "?s1\<lparr>fd_federates := fd_federates s @ [(?h, joined n t v ?h [])]\<rparr>"
  let ?s3 = "?s1\<lparr>fd_federates := fd_federates s @ [(?h, joined n t v ?h (rev (map fst (fd_labels s))))]\<rparr>"
  have name: "getFederateByName n s = Inl FederateNotExecutionMember"
  proof -
    have "find (\<lambda>e. f_name (snd e) = n) (fd_federates s) = None"
      using assms(3) by (force simp: find_None_iff)
    then show ?thesis by (simp add: getFederateByName_def)
  qed
  have prov: "with_handles provide s = (Inr ?h, ?s1)"
    using h assms(4) by (simp add: with_handles_def on_field_run provide_run)
  have new: "federate_new n t v ?h = Inr (joined n t v ?h [])"
    using h(2) by (simp add: federate_new_def joined_def)
  have "?h \<notin> fst ` set (fd_federates s)" using h(1) by auto
  then have fresh: "map_of (fd_federates s) ?h = None" by (simp add: map_of_None_keys)
  have ok: "om_ok (fd_federates s)" "om_ok (fd_labels s)" using assms(1) by (simp_all add: fed_ok_def)
  have put: "om_put ?h x (fd_federates s) = fd_federates s @ [(?h, x)]" for x
    by (rule om_put_at_end [OF h(1)])
  have lab: "for_each (\<lambda>lt. on_federate ?h (addSynchronizationLabel (fst lt))) (fd_labels s) ?s2 = (Inr (), ?s3)"
  proof -
    let ?t = "?s1\<lparr>fd_federates := om_put ?h (joined n t v ?h []) (fd_federates s)\<rparr>"
    have "for_each (\<lambda>lt. on_federate ?h (addSynchronizationLabel (fst lt))) (fd_labels s) ?t
      = (Inr (), ?t\<lparr>fd_federates := om_put ?h ((joined n t v ?h [])\<lparr>f_labels := rev (map fst (fd_labels s)) @
          f_labels (joined n t v ?h [])\<rparr>) (fd_federates ?t)\<rparr>)"
      by (rule add_labels_run)
        (use ok in \<open>auto simp: om_simps om_ok_distinct hasSynchronizationLabel_def joined_def\<close>)
    moreover have "om_put ?h x (fd_federates s @ [(?h, y)]) = fd_federates s @ [(?h, x)]" for x y
      using om_put_put [of ?h x y "fd_federates s"] put by simp
    moreover have "(joined n t v ?h [])\<lparr>f_labels := ls @ f_labels (joined n t v ?h [])\<rparr> = joined n t v ?h ls" for ls
      by (simp add: joined_def)
    ultimately show ?thesis by (simp add: put)
  qed
  have hs: "filter (\<lambda>k. k \<noteq> ?h) (handles_of ?s3) = handles_of s"
    using h(1) by (auto simp: handles_of_def filter_id_conv)
  have lk: "links_of ?s3 (handles_of s) = Inr (map (the_link s) (handles_of s))"
    using links_of_connected [OF assms(2), of "handles_of s"] links_of_cong [of ?s3 s "handles_of s"]
    by (simp add: handles_of_def)
  have all: "respondToAll (new_message ADDITIONAL_FOM_MODULE (FomModule fom)) ?h ?s3
      = (Inr [to_all s (new_message ADDITIONAL_FOM_MODULE (FomModule fom))], ?s3)"
    unfolding respondToAll_run hs lk by (simp add: to_all_def)
  have sock: "with_sockets (ss_setReferences link (fd_handle s) ?h) ?s3 = (Inr (), joined_state n t v s ss)"
    using assms(5) by (simp add: with_sockets_def on_field_run joined_state_def)
  have ev: "null_events link ?s2 = null_events link s" "announce_event link ?s3 = announce_event link s"
    "fed_message ?s3 = fed_message s" "getNbRegulators ?s3 = getNbRegulators s"
    by (simp_all add: null_events_def announce_event_def fed_message_def getNbRegulators_def fun_eq_iff)
  show ?thesis
    using name prov new fresh put lab all sock ev fom
    by (simp add: add_def seq_run bind_run gets_run ret_run lift_sum_run throw_if_run modify_run catch_run join_responses_def)
qed

section \<open>Properties\<close>


text \<open>The demonstration federation with a third connection, on socket 9.\<close>

definition demo_connected :: "unit federation" where
  "demo_connected = demo_federation\<lparr>fd_sockets := snd (ss_open 9 None (fd_sockets demo_federation))\<rparr>"

lemma demo_connected_ok: "fed_ok demo_connected" "connected demo_connected"
proof -
  show "fed_ok demo_connected" using demo_federation_ok(1) by (simp add: fed_ok_def demo_connected_def)
  show "connected demo_connected"
    by (simp add: connected_def demo_connected_def demo_federation_def link_of_def sec_getSocketLink_def getSocketLink_def
        getWithReferences_def refers_def demo_tuple_def ss_open_def modify_run)
qed


section \<open>Resigning\<close>

lemma remove_run:
  assumes "connected s" "h \<in> set (handles_of s)"
  shows "remove h s = (Inr [event [the_link s h] (fed_message s h RESIGN_FEDERATION_EXECUTION NoBody)],
    s\<lparr>fd_federates := om_erase h (fd_federates s)\<rparr>)"
proof -
  have "map_of (fd_federates s) h \<noteq> None" using assms(2) by (simp add: handles_of_def map_of_None_keys)
  moreover have "link_of s h = Inr (the_link s h)" using assms by (auto simp: connected_def the_link_def handles_of_def)
  ultimately show ?thesis
    by (simp add: remove_def seq_run bind_run gets_run ret_run check_run modify_run with_handles_def on_field_run free_run
        respondTo_run fed_message_def link_of_def)
qed



end
