(* ===== verification/RtiaJoining.thy ===== *)
theory RtiaJoining
  imports RtiaLinks Joining
begin

text \<open>
  How an RTIA joins a federation: the responses of \<open>Federation::add\<close> are what \<open>joinFederationExecution\<close> of the RTIA
  reads from its connection.
\<close>

section \<open>The clocks of the regulators\<close>

text \<open>A lower bound on time stamps that has been computed from its clocks.\<close>

definition lbts_at :: "(federate_handle \<times> fed_time) list \<Rightarrow> lbts \<Rightarrow> lbts" where
  "lbts_at cs l = l\<lparr>lbts_clocks := cs, lbts_value := fold (compute_step (lbts_me l)) cs PInf\<rparr>"

lemma om_put_last: "om_ok (cs @ [(h, t)]) \<Longrightarrow> om_put h t cs = cs @ [(h, t)]"
  by (induction cs) (auto simp: om_ok_Cons)

lemma om_ok_last_fresh: "om_ok (cs @ (h, t) # ds) \<Longrightarrow> map_of cs h = None"
  by (induction cs) (auto simp: om_ok_Cons)

lemma om_ok_prefix: "om_ok (cs @ ds) \<Longrightarrow> om_ok cs"
  by (auto simp: om_ok_def sorted_wrt_append)

lemma lbts_insert_last:
  assumes "om_ok (cs @ [(h, t)])"
  shows "lbts_insert h t (lbts_at cs l) = (Inr (), lbts_at (cs @ [(h, t)]) l)"
  using om_put_last [OF assms] om_ok_last_fresh [OF assms]
  by (simp add: lbts_insert_def lbts_exists_def lbts_at_def lbts_compute_def act_simps)

definition is_null :: "network_message \<Rightarrow> federate_handle \<times> fed_time \<Rightarrow> bool" where
  "is_null m c \<longleftrightarrow> nm_kind m = MESSAGE_NULL \<and> nm_federate m = fst c \<and> nm_date m = snd c"

lemma insert_regulators_run:
  assumes "list_all2 is_null ns ds" "om_ok (cs @ ds)" "ra_waiting s = ns @ ps"
    and "tm_lbts (ra_tm s) = lbts_at cs l"
  shows "insert_regulators (length ds) s
    = (Inr (), s\<lparr>ra_waiting := ps, ra_tm := (ra_tm s)\<lparr>tm_lbts := lbts_at (cs @ ds) l\<rparr>\<rparr>)"
  using assms
proof (induction ns ds arbitrary: cs s rule: list_all2_induct)
  case Nil
  have "(ra_tm s)\<lparr>tm_lbts := lbts_at cs l\<rparr> = ra_tm s" using Nil.prems(3) by simp
  then show ?case using Nil.prems(2) by (simp add: act_simps)
next
  case (Cons m ns d ds)
  obtain h t where d: "d = (h, t)" by (cases d)
  let ?s1 = "s\<lparr>ra_waiting := ns @ ps\<rparr>"
  let ?s2 = "?s1\<lparr>ra_tm := (ra_tm s)\<lparr>tm_lbts := lbts_at (cs @ [d]) l\<rparr>\<rparr>"
  have ok: "om_ok ((cs @ [d]) @ ds)" using Cons.prems(1) by simp
  have one: "om_ok (cs @ [(h, t)])" using om_ok_prefix [OF ok] d by simp
  have "waitMessage MESSAGE_NULL 0 s = (Inr m, ?s1)"
    using Cons.hyps(1) Cons.prems(2) by (simp add: waitMessage_run awaited_def is_null_def)
  moreover have "on_tm (with_lbts (lbts_insert (nm_federate m) (nm_date m))) ?s1 = (Inr (), ?s2)"
    using Cons.hyps(1) Cons.prems(3) lbts_insert_last [OF one]
    by (simp add: on_tm_run with_lbts_def on_field_run is_null_def d)
  moreover have "insert_regulators (length ds) ?s2
    = (Inr (), ?s2\<lparr>ra_waiting := ps, ra_tm := (ra_tm ?s2)\<lparr>tm_lbts := lbts_at ((cs @ [d]) @ ds) l\<rparr>\<rparr>)"
    by (rule Cons.IH) (use ok in \<open>simp_all\<close>)
  ultimately show ?case by (simp add: bind_run seq_run)
qed

section \<open>Joining\<close>

text \<open>A reply that is preceded by the null messages and by messages of other types.\<close>

lemma join_run:
  assumes "\<not> fm_member (ra_fm r)" "ra_waiting r = []" "ra_tcp r = ns @ ps @ reply # rest"
    and "list_all2 is_null ns cs" "om_ok cs"
    and "\<forall>m \<in> set ps. nm_kind m \<noteq> JOIN_FEDERATION_EXECUTION"
    and "nm_kind reply = JOIN_FEDERATION_EXECUTION" "nm_exception reply = None"
    and "nm_getNumberOfRegulators (nm_body reply) = length cs"
    and "rebuildFromSerializedFOM (nm_getFom (nm_body reply)) (ra_root r) = (Inr (), root')"
    and "tm_lbts (ra_tm r) = lbts_at [] l"
  shows "joinFederationExecution name type federation modules version r = (Inr (None, nm_federate reply),
    r\<lparr>ra_tm := (ra_tm r)\<lparr>tm_federation := nm_federation reply, tm_federate := nm_federate reply,
           tm_lbts := lbts_at cs (l\<lparr>lbts_me := nm_federate reply\<rparr>),
           tm_sent := tm_sent (ra_tm r) @ [new_message JOIN_FEDERATION_EXECUTION
             (JoinRequest federation name type modules version (ra_port r) (ra_address r))]\<rparr>,
       ra_fm := (ra_fm r)\<lparr>fm_federation_name := federation, fm_federate_name := name, fm_member := True\<rparr>,
       ra_root := root', ra_waiting := ps, ra_tcp := rest\<rparr>)"
proof -
  let ?q = "new_message JOIN_FEDERATION_EXECUTION (JoinRequest federation name type modules version (ra_port r) (ra_address r))"
  let ?r1 = "r\<lparr>ra_tm := (ra_tm r)\<lparr>tm_sent := tm_sent (ra_tm r) @ [?q]\<rparr>\<rparr>"
  let ?r2 = "?r1\<lparr>ra_waiting := ns @ ps, ra_tcp := rest\<rparr>"
  let ?l = "l\<lparr>lbts_me := nm_federate reply\<rparr>"
  let ?r3 = "?r2\<lparr>ra_root := root', ra_fm := (ra_fm r)\<lparr>fm_federation_name := federation, fm_federate_name := name\<rparr>,
      ra_tm := (ra_tm ?r1)\<lparr>tm_federation := nm_federation reply, tm_federate := nm_federate reply, tm_lbts := lbts_at [] ?l\<rparr>\<rparr>"
  have ns: "\<not> awaited JOIN_FEDERATION_EXECUTION 0 m" if "m \<in> set ns" for m
    using that assms(4) by (auto simp: in_set_conv_nth list_all2_conv_all_nth is_null_def awaited_def)
  have first: "take_first (awaited JOIN_FEDERATION_EXECUTION 0) (ra_tcp r) = Some (reply, ns @ ps @ rest)"
  proof -
    have "take_first (awaited JOIN_FEDERATION_EXECUTION 0) (ns @ ps) = None"
      using ns assms(6) by (auto simp: take_first_None awaited_def)
    moreover have "awaited JOIN_FEDERATION_EXECUTION 0 reply" using assms(7) by (simp add: awaited_def)
    ultimately show ?thesis
      using take_first_append [of _ "ns @ ps" "reply # rest"] assms(3) by simp
  qed
  have before: "takeWhile (\<lambda>x. \<not> awaited JOIN_FEDERATION_EXECUTION 0 x) (ra_tcp r) = ns @ ps"
    "dropWhile (\<lambda>x. \<not> awaited JOIN_FEDERATION_EXECUTION 0 x) (ra_tcp r) = reply # rest"
    using ns assms(3,6,7) by (auto simp: awaited_def takeWhile_append dropWhile_append)
  have wait: "waitMessage JOIN_FEDERATION_EXECUTION 0 ?r1 = (Inr reply, ?r2)"
    using first before assms(2) by (simp add: waitMessage_run receive_until_run)
  have me: "lbts_setFederate (nm_federate reply) (lbts_at [] l) = lbts_at [] ?l"
    by (simp add: lbts_setFederate_def lbts_at_def)
  have ins: "insert_regulators (length cs) ?r3
    = (Inr (), ?r3\<lparr>ra_waiting := ps, ra_tm := (ra_tm ?r3)\<lparr>tm_lbts := lbts_at ([] @ cs) ?l\<rparr>\<rparr>)"
    by (rule insert_regulators_run [OF assms(4)]) (use assms(5) in simp_all)
  have send: "bind (gets (\<lambda>s. new_message JOIN_FEDERATION_EXECUTION
      (JoinRequest federation name type modules version (ra_port s) (ra_address s)))) send_message r = (Inr (), ?r1)"
    by (simp add: bind_run gets_run send_message_run)
  show ?thesis
    using wait ins assms(1,8,9,10,11) send me
    by (simp add: joinFederationExecution_def bind_run gets_run seq_run ret_run modify_run rtia_simps set_handles_def
        with_lbts_def on_field_run federate_of_def)
qed

text \<open>What the RTIG writes to a connection, in the order of the responses.\<close>

definition delivered :: "socket \<Rightarrow> responses \<Rightarrow> network_message list" where
  "delivered l rs = concat (map (\<lambda>e. case ev_message e of None \<Rightarrow> []
     | Some m \<Rightarrow> map snd (filter (\<lambda>x. fst x = l) (transmit (ev_sockets e) m))) rs)"

lemma delivered_append: "delivered l (rs @ rs') = delivered l rs @ delivered l rs'"
  by (simp add: delivered_def)

lemma delivered_event: "delivered l [event [Some l] m] = [m]"
  by (simp add: delivered_def event_def transmit_def List.map_filter_def)

lemma delivered_events: "delivered l (map (\<lambda>x. event [Some l] (f x)) xs) = map f xs"
  using delivered_event by (induction xs) (simp_all add: delivered_def)

lemma set_delivered_event: "set (delivered l [event ls m]) \<subseteq> {m}"
  by (auto simp: delivered_def event_def transmit_def)

definition is_pending :: "network_message \<Rightarrow> bool" where
  "is_pending m \<longleftrightarrow> nm_kind m \<notin> {MESSAGE_NULL, JOIN_FEDERATION_EXECUTION}"

text \<open>The three parts of what the joining federate is sent.\<close>

lemma delivered_join:
  assumes "d = delivered link (join_responses link peer address fom s)"
  shows "\<exists>ns ps. d = ns @ ps @ [fed_message s (highest (fd_handles s)) JOIN_FEDERATION_EXECUTION
      (JoinReply (fd_name s) (getNbRegulators s) peer address fom)]
    \<and> list_all2 is_null ns (lbts_clocks (fd_regulators s)) \<and> filter is_pending ns = [] \<and> filter is_pending ps = ps"
proof -
  let ?f = "\<lambda>(h, t). setDate t (fed_message s h MESSAGE_NULL NoBody)"
  let ?g = "\<lambda>lt. setTag (snd lt) (setLabel (fst lt) (fed_message s (highest (fd_handles s)) ANNOUNCE_SYNCHRONIZATION_POINT NoBody))"
  let ?fom = "delivered link [to_all s (new_message ADDITIONAL_FOM_MODULE (FomModule fom))]"
  let ?ns = "map ?f (lbts_clocks (fd_regulators s))" and ?ps = "map ?g (fd_labels s) @ ?fom"
  have ns: "delivered link (null_events link s) = ?ns"
    using delivered_events [of link "\<lambda>x. setDate (snd x) (fed_message s (fst x) MESSAGE_NULL NoBody)" "lbts_clocks (fd_regulators s)"]
    by (simp add: null_events_def lbts_get_def case_prod_unfold)
  have ps: "delivered link (map (announce_event link s (highest (fd_handles s))) (fd_labels s)) = map ?g (fd_labels s)"
    unfolding announce_event_def by (rule delivered_events)
  have split: "delivered l (e # e' # []) = delivered l [e] @ delivered l [e']" for l e e'
    by (simp add: delivered_def)
  have d: "d = ?ns @ ?ps @ [fed_message s (highest (fd_handles s)) JOIN_FEDERATION_EXECUTION
      (JoinReply (fd_name s) (getNbRegulators s) peer address fom)]"
    unfolding assms join_responses_def delivered_append ns ps split delivered_event by simp
  have kind: "nm_kind (setDate t m) = nm_kind m" "nm_kind (setTag x m) = nm_kind m" "nm_kind (setLabel x m) = nm_kind m"
    "nm_kind (fed_message s h k b) = k" "nm_kind (new_message k b) = k" for t m x h k b
    by (simp_all add: setDate_def setTag_def setLabel_def fed_message_def setFederate_def setFederation_def new_message_def)
  have "list_all2 is_null ?ns (lbts_clocks (fd_regulators s))"
    by (auto simp: list_all2_map1 is_null_def list_all2_same case_prod_beta setDate_def fed_message_def setFederate_def
        setFederation_def new_message_def)
  moreover have "filter is_pending ?ns = []"
    by (auto simp: filter_empty_conv is_pending_def kind)
  moreover have "filter is_pending ?fom = ?fom"
    using set_delivered_event by (force simp: filter_id_conv is_pending_def to_all_def kind)
  then have "filter is_pending ?ps = ?ps"
    by (simp add: filter_id_conv is_pending_def kind)
  ultimately show ?thesis using d by blast
qed


text \<open>A federation with a regulating federate and a pending point, and a new RTIA.\<close>

definition demo_pending :: "unit federation" where
  "demo_pending = demo_connected\<lparr>fd_regulators := lbts_at [(1, Fin 2)] lbts_new, fd_labels := [(''p'', ''tag'')]\<rparr>"

definition demo_rtia :: "network_message list \<Rightarrow> rtia" where
  "demo_rtia tcp = rtia_new False (\<lambda>n. int n) 0 0 axis_initial 0 tcp [] []"

lemma demo_pending_ok: "fed_ok demo_pending" "connected demo_pending"
proof -
  show "fed_ok demo_pending" using demo_connected_ok(1) by (simp add: fed_ok_def demo_pending_def om_ok_def)
  show "connected demo_pending"
    using demo_connected_ok(2) by (simp add: connected_def demo_pending_def link_of_def)
qed


section \<open>Joining again\<close>

lemma rebuild_spaces_again:
  "for_each rebuild_space rs s = (Inr (), t) \<Longrightarrow> \<exists>v. for_each rebuild_space rs u = (Inr (), v) \<and> ro_class_names v = ro_class_names u"
proof (induction rs arbitrary: s u)
  case Nil
  then show ?case by (simp add: act_simps)
next
  case (Cons r rs)
  obtain s1 where "rebuild_space r s = (Inr (), s1)" and rest: "for_each rebuild_space rs s1 = (Inr (), t)"
    using seq_InrD [OF Cons.prems [unfolded for_each.simps]] by auto
  then obtain u1 where u1: "rebuild_space r u = (Inr (), u1)" "ro_class_names u1 = ro_class_names u"
    by (auto simp: rebuild_space_def addRoutingSpace_def act_simps split: sum.splits)
  with Cons.IH [OF rest, of u1] show ?case by (auto simp: act_simps)
qed

lemma keeps_loop: "(\<And>x. keeps I (f x)) \<Longrightarrow> for_each f xs s = (r, t) \<Longrightarrow> I s \<Longrightarrow> I t"
  by (rule keepsD [OF keeps_for_each])

text \<open>The name of a class is never removed from the names.\<close>

definition has_class_name :: "string \<Rightarrow> root \<Rightarrow> bool" where
  "has_class_name n s \<longleftrightarrow> map_of (ro_class_names s) n \<noteq> None"

lemma keeps_class_name_on_class: "keeps (has_class_name n) (on_class c m)"
  by (auto intro!: keepsI simp: on_class_def has_class_name_def split: option.splits prod.splits)

lemma keeps_class_name_on_interaction: "keeps (has_class_name n) (on_interaction c m)"
  by (auto intro!: keepsI simp: on_interaction_def has_class_name_def split: option.splits prod.splits)

lemma keeps_class_name_modify: "(\<And>s. ro_class_names (f s) = ro_class_names s) \<Longrightarrow> keeps (has_class_name n) (modify f)"
  by (rule keeps_modify) (simp add: has_class_name_def)

lemma keeps_class_name_case:
  "(\<And>e. keeps I (f e)) \<Longrightarrow> (\<And>a. keeps I (g a)) \<Longrightarrow> keeps I (case x of (Inl e, _) \<Rightarrow> f e | (Inr _, a) \<Rightarrow> g a)"
  by (cases x; cases "fst x") (auto split: prod.splits sum.splits)

lemma keeps_class_name_add: "keeps (has_class_name n) (ocs_addClass c p)"
  unfolding ocs_addClass_def addSubClass_def
  by (intro keeps_intros keeps_class_name_on_class keeps_class_name_case)
     (auto intro!: keeps_modify simp: has_class_name_def om_simps)

lemma keeps_class_name_rebuild:
  "keeps (has_class_name n) (rebuild_class c)" "keeps (has_class_name n) (rebuild_interaction i)"
proof -
  show "keeps (has_class_name n) (rebuild_class c)"
    unfolding rebuild_class_def addObjectClass_def by (intro keeps_intros keeps_class_name_add keeps_class_name_on_class)
  show "keeps (has_class_name n) (rebuild_interaction i)"
    unfolding rebuild_interaction_def addInteractionClass_def ics_addClass_def ic_addSubClass_def
    by (intro keeps_intros keeps_class_name_on_interaction keeps_class_name_case keeps_class_name_modify) simp
qed

lemma rebuild_class_named: "fc_super c = 0 \<Longrightarrow> rebuild_class c s = (Inr (), t) \<Longrightarrow> has_class_name (fc_name c) t"
proof -
  assume top: "fc_super c = 0" and run: "rebuild_class c s = (Inr (), t)"
  let ?add = "addObjectClass (object_class_new (fc_name c) (fc_handle c)) None"
  obtain u where u: "?add s = (Inr (), u)"
    and rest: "for_each (\<lambda>a. on_class (fc_handle c) (seq (oc_addAttribute (attribute_of_fom a) False) (ret ()))) (fc_attributes c) u = (Inr (), t)"
    using run top seq_InrD [of ?add] by (force simp: rebuild_class_def bind_run gets_run lift_sum_run)
  have "has_class_name (fc_name c) u"
    using u by (auto simp: addObjectClass_def ocs_addClass_def act_simps has_class_name_def om_simps object_class_new_def split: if_splits)
  then show ?thesis
    by (rule keeps_loop [OF keeps_class_name_on_class rest])
qed

lemma rebuild_class_twice:
  "fc_super c = 0 \<Longrightarrow> has_class_name (fc_name c) s \<Longrightarrow> rebuild_class c s = (Inl RTIinternalError, s)"
  by (simp add: rebuild_class_def addObjectClass_def ocs_addClass_def act_simps has_class_name_def object_class_new_def)

lemma rebuild_twice:
  assumes "rebuildFromSerializedFOM fom r0 = (Inr (), r1)" "ro_class_names r2 = ro_class_names r1"
    and "fom_classes fom = c # cs" "fc_super c = 0"
  shows "\<exists>r3. rebuildFromSerializedFOM fom r2 = (Inl RTIinternalError, r3)"
proof -
  obtain a b where a: "for_each rebuild_space (fom_spaces fom) r0 = (Inr (), a)"
    and b: "for_each rebuild_class (fom_classes fom) a = (Inr (), b)"
    and i: "for_each rebuild_interaction (fom_interactions fom) b = (Inr (), r1)"
    using assms(1) unfolding rebuildFromSerializedFOM_def by (force dest!: seq_InrD)
  obtain d where d: "rebuild_class c a = (Inr (), d)" and cs: "for_each rebuild_class cs d = (Inr (), b)"
    using seq_InrD [OF b [unfolded assms(3) for_each.simps]] by auto
  have "has_class_name (fc_name c) d" by (rule rebuild_class_named [OF assms(4) d])
  then have "has_class_name (fc_name c) b" by (rule keeps_loop [OF keeps_class_name_rebuild(1) cs])
  then have "has_class_name (fc_name c) r1" by (rule keeps_loop [OF keeps_class_name_rebuild(2) i])
  then have known: "has_class_name (fc_name c) r2" using assms(2) by (simp add: has_class_name_def)
  obtain v where v: "for_each rebuild_space (fom_spaces fom) r2 = (Inr (), v)" "ro_class_names v = ro_class_names r2"
    using rebuild_spaces_again [OF a] by blast
  then have "rebuild_class c v = (Inl RTIinternalError, v)"
    using known rebuild_class_twice [OF assms(4)] by (simp add: has_class_name_def)
  then show ?thesis using v(1) by (simp add: rebuildFromSerializedFOM_def assms(3) seq_run)
qed


text \<open>An RTIA that has joined and resigned; the acceptance of the second join is on its way.\<close>

definition demo_reply :: "federate_handle \<Rightarrow> network_message" where
  "demo_reply h = setFederate h (setFederation 1 (new_message JOIN_FEDERATION_EXECUTION (JoinReply ''demo'' 0 0 0
     \<lparr>fom_spaces = [], fom_classes = [\<lparr>fc_handle = 1, fc_super = 0, fc_name = ''C'', fc_attributes = []\<rparr>], fom_interactions = []\<rparr>)))"

definition demo_left :: rtia where
  "demo_left = snd (seq (set_connection ConnectionReady)
     (seq (joinFederationExecution ''c'' ''t'' ''demo'' [] HLA_1_3) resignFederationExecution)
     (demo_rtia [demo_reply 3, setFederate 3 (new_message RESIGN_FEDERATION_EXECUTION NoBody), demo_reply 4]))"


end
