(* ===== verification/RtiaAnswers.thy ===== *)
theory RtiaAnswers
  imports RtiaLinks
begin

text \<open>
  The answers of an RTIA to its federate: every request is answered once, what the answer says of an exception, and what
  the federate is told while it ticks.
\<close>

section \<open>Services that write nothing to the federate\<close>

named_theorems silent_intros "actions that write nothing to the federate"

definition silent :: "federate_message list \<Rightarrow> rtia \<Rightarrow> bool" where
  "silent x s \<longleftrightarrow> ra_out s = x"

lemma silent_on_tm [silent_intros]: "keeps (silent x) (on_tm m)"
  unfolding on_tm_def by (rule keeps_on_field) (simp add: silent_def)

lemma silent_on_fm [silent_intros]: "keeps (silent x) (on_fm m)"
  unfolding on_fm_def by (rule keeps_on_field) (simp add: silent_def)

lemma silent_on_object_model [silent_intros]: "keeps (silent x) (on_object_model m)"
  unfolding on_object_model_def by (rule keeps_on_field) (simp add: silent_def)

lemma silent_modify: "(\<And>s. ra_out (f s) = ra_out s) \<Longrightarrow> keeps (silent x) (modify f)"
  by (rule keeps_modify) (simp add: silent_def)

lemma silent_ask_root [silent_intros]: "keeps (silent x) (ask_root q)"
  unfolding ask_root_def by (intro keeps_intros)

lemma silent_send [silent_intros]: "keeps (silent x) (send_message m)"
  unfolding send_message_def by (rule silent_on_tm)

lemma silent_receive: "keeps (silent x) (receive_until k f ms)"
  by (induction ms) (simp_all, (intro keeps_intros silent_modify conjI impI; simp)+)

lemma silent_wait [silent_intros]: "keeps (silent x) (waitMessage k f)"
  unfolding waitMessage_def by (intro keeps_intros silent_receive silent_modify) simp

lemma silent_send_mine [silent_intros]: "keeps (silent x) (send_mine f k b)"
  unfolding send_mine_def by (intro keeps_intros silent_intros)

lemma silent_ask [silent_intros]: "keeps (silent x) (ask f k b)"
  unfolding ask_def by (intro keeps_intros silent_intros)

lemma silent_ask_plain [silent_intros]: "keeps (silent x) (ask_plain f k b)"
  unfolding ask_plain_def by (intro keeps_intros silent_intros)

lemma silent_regulators [silent_intros]: "keeps (silent x) (insert_regulators n)"
  by (induction n) (simp_all add: keeps_intros silent_intros)

lemma silent_helpers [silent_intros]:
  "keeps (silent x) (set_handles fn h)" "keeps (silent x) (enough_values as vs)" "keeps (silent x) (event_sent date)"
  "keeps (silent x) (associate_local h a r)"
  unfolding set_handles_def enough_values_def event_sent_def associate_local_def by (intro keeps_intros silent_intros)+

lemma silent_done_with [silent_intros]: "keeps (silent x) m \<Longrightarrow> keeps (silent x) (done_with fs m)"
  unfolding done_with_def by (intro keeps_intros)

lemmas federation_services =
  createFederationExecution_def destroyFederationExecution_def joinFederationExecution_def resignFederationExecution_def
  registerSynchronization_all_def registerSynchronization_set_def registerSynchronization_rtia_def
  unregisterSynchronization_rtia_def insert_point_def requestFederationSave_rtia_def must_be_saving_def
  federateSaveBegun_rtia_def federateSaveStatus_rtia_def requestFederationRestore_rtia_def federateRestoreStatus_rtia_def
  set_connection_def set_handles_def checkFederationSaving_def checkFederationRestoring_def

lemmas object_services =
  om_reserveObjectName_def om_registerObject_def enough_values_def valid_date_def event_sent_def om_updateAttributeValues_def
  om_sendInteraction_def om_deleteObject_def om_deleteAllObjects_def om_change_def om_requestObjectAttributeValueUpdate_def
  om_requestClassAttributeValueUpdate_def

lemmas declaration_services =
  dm_publishObjectClass_def dm_unpublishObjectClass_def dm_publishInteractionClass_def dm_subscribeObjectClassAttribute_def
  dm_unsubscribeObjectClassAttribute_def dm_subscribeInteractionClass_def send_switch_def

lemmas ownership_services =
  owm_attributeOwnedByFederate_def owm_queryAttributeOwnership_def owm_request_def owm_tagged_request_def
  owm_attributeOwnershipReleaseResponse_def

lemmas region_services =
  ddm_createRegion_def ddm_modifyRegion_def ddm_deleteRegion_def unassociate_local_def associate_local_def ddm_associateRegion_def
  ddm_unassociateRegion_def ddm_registerObject_def ddm_subscribe_def ddm_unsubscribeAttributes_def ddm_subscribeInteraction_def

lemmas outcomes = result_def done_with_def internal_error_set_def lookup_def lookup_set_def answer_with_def

lemma silent_federation: "keeps (silent x) (choose_federation q)"
  by (cases q; simp add: choose_join_def choose_resign_def choose_register_point_def outcomes federation_services object_services; (intro conjI impI keeps_intros silent_intros)?)

lemma silent_declaration: "keeps (silent x) (choose_declaration q)"
  by (cases q; simp add: outcomes declaration_services; (intro conjI impI keeps_intros silent_intros)?)

lemma silent_object: "keeps (silent x) (choose_object q)"
  by (cases q; simp add: outcomes object_services declaration_services; (intro conjI impI keeps_intros silent_intros)?)

lemma silent_ownership: "keeps (silent x) (choose_ownership q)"
  by (cases q; simp add: outcomes ownership_services; (intro conjI impI keeps_intros silent_intros)?)

lemma silent_time: "keeps (silent x) (choose_time q)"
  by (cases q; simp add: outcomes choose_asynchronous_def; (intro conjI impI keeps_intros silent_intros)?)

lemma silent_support: "keeps (silent x) (choose_support q)"
  by (cases q; simp add: outcomes; (intro conjI impI keeps_intros silent_intros)?)

lemma silent_region: "keeps (silent x) (choose_region q)"
  by (cases q; simp add: outcomes region_services; (intro conjI impI keeps_intros silent_intros)?)

lemma silent_guard: "keeps (silent x) (saveAndRestoreStatus q)"
  unfolding saveAndRestoreStatus_def
  by (cases "guard_of q"; simp add: federation_services; intro keeps_intros silent_intros)

lemma silent_request: "\<not> is_tick q \<Longrightarrow> keeps (silent x) (chooseFederateProcessing q)"
  unfolding chooseFederateProcessing_def
  by (cases q) (simp_all add: keeps_intros silent_guard silent_federation silent_declaration silent_object silent_ownership
      silent_time silent_support silent_region)

lemma silent_init: "keeps (silent x) (initFederateProcessing q)"
  by (auto simp: initFederateProcessing_def set_connection_def intro!: keeps_intros silent_intros
      split: request.splits federation_request.splits)

lemma silent_answer: "\<not> is_tick q \<Longrightarrow> keeps (silent x) (make_answer q)"
  unfolding make_answer_def
  by (intro keeps_intros) (auto split: connection_state.splits intro!: keeps_intros silent_init silent_request)

text \<open>
  C7. Every request of a federate that is not a tick is answered exactly once, whatever the state of the RTIA and of the
  connection, and nothing else is written to the federate while it is processed. No exception of the library escapes:
  the process can only end in undefined behaviour or by an exception of the language.
\<close>

theorem federate_answered:
  assumes "\<not> is_tick q"
  shows "case processFederateRequest q s of
      (Inr _, t) \<Rightarrow> \<exists>a. ra_out t = ra_out s @ [Answer q a]
    | (Inl e, t) \<Rightarrow> ra_out t = ra_out s \<and> \<not> is_certi_exception e"
proof -
  obtain r u where run: "make_answer q s = (r, u)" by (cases "make_answer q s")
  have out: "ra_out u = ra_out s"
    using keepsD [OF silent_answer [OF assms] _ run, of "ra_out s"] by (simp add: silent_def)
  show ?thesis
  proof (cases r)
    case (Inl e)
    then have "\<not> is_certi_exception e"
      using run by (auto simp: make_answer_def catch_run ret_run split: prod.splits sum.splits if_splits)
    then show ?thesis using run out Inl by (simp add: processFederateRequest_def bind_run)
  next
    case (Inr a)
    then show ?thesis using run out assms by (auto simp: processFederateRequest_def bind_run tell_run)
  qed
qed

text \<open>An RTIA whose connection to the federate is open, outside of saves and restores.\<close>

definition serving :: "rtia \<Rightarrow> bool" where
  "serving s \<longleftrightarrow> fm_connection (ra_fm s) = ConnectionReady \<and> \<not> fm_saving (ra_fm s) \<and> \<not> fm_restoring (ra_fm s)"

definition demo_member :: "network_message list \<Rightarrow> rtia" where
  "demo_member tcp = (rtia_new False (\<lambda>n. int n) 0 0 axis_initial 0 tcp [] [])
     \<lparr>ra_fm := federation_management_new\<lparr>fm_member := True, fm_connection := ConnectionReady\<rparr>,
      ra_tm := (time_management_new False (\<lambda>n. int n))\<lparr>tm_federation := 1, tm_federate := 3\<rparr>\<rparr>"

lemma demo_member_simps:
  "fm_member (ra_fm (demo_member l))" "fm_connection (ra_fm (demo_member l)) = ConnectionReady"
  "\<not> fm_saving (ra_fm (demo_member l))" "\<not> fm_restoring (ra_fm (demo_member l))" "serving (demo_member l)"
  "federate_of (demo_member l) = 3" "federation_of (demo_member l) = 1" "incoming (demo_member l) = l" "ra_waiting (demo_member l) = []"
  "ra_tcp (demo_member l) = l" "tm_tick (ra_tm (demo_member l)) = NO_TICK" "ra_out (demo_member l) = []"
  "fm_labels (ra_fm (demo_member l)) = []"
  by (simp_all add: demo_member_def rtia_new_def federation_management_new_def time_management_new_def serving_def incoming_def
      federate_of_def federation_of_def)

theorem federate_answered_witness:
  "case processFederateRequest (FederationRequest SaveBegun) (demo_member []) of
      (Inr _, t) \<Rightarrow> \<exists>a. ra_out t = [Answer (FederationRequest SaveBegun) a]
    | (Inl e, t) \<Rightarrow> \<not> is_certi_exception e"
  using federate_answered [of "FederationRequest SaveBegun" "demo_member []"]
  by (auto simp: demo_member_simps split: prod.splits sum.splits)

section \<open>Exceptions in answers\<close>

lemma choose_serving:
  "serving s \<Longrightarrow> chooseFederateProcessing (DeclarationRequest d) s = choose_declaration d s"
  "serving s \<Longrightarrow> chooseFederateProcessing (OwnershipRequest w) s = choose_ownership w s"
  "serving s \<Longrightarrow> chooseFederateProcessing (FederationRequest q) s = choose_federation q s"
  by (cases "federation_guard q"; simp add: chooseFederateProcessing_def saveAndRestoreStatus_def checkFederationSaving_def
      checkFederationRestoring_def act_simps serving_def)+

lemma ask_plain_run:
  assumes "take_first (awaited k (federate_of s)) (incoming s) = Some (reply, rest)"
  shows "\<exists>t. ask_plain f k b s = (Inr (nm_exception reply), t) \<and> incoming t = rest \<and> ra_fm t = ra_fm s \<and> ra_out t = ra_out s"
proof -
  let ?s = "s\<lparr>ra_tm := (ra_tm s)\<lparr>tm_sent := tm_sent (ra_tm s) @ [f (from_me (ra_tm s) (new_message k b))]\<rparr>\<rparr>"
  have send: "send_mine f k b s = (Inr (), ?s)" by (simp add: send_mine_def bind_run gets_run send_message_run)
  have "federate_of ?s = federate_of s" "incoming ?s = incoming s" by (simp_all add: federate_of_def incoming_def)
  then obtain w l where "waitMessage k (federate_of s) ?s = (Inr reply, ?s\<lparr>ra_waiting := w, ra_tcp := l\<rparr>)" "w @ l = rest"
    using waitMessage_take [of k "federate_of s" ?s] assms by auto
  then show ?thesis
    using send by (simp add: ask_plain_def ask_def seq_run bind_run gets_run ret_run federate_of_def incoming_def)
qed


definition demo_refusal :: network_message where
  "demo_refusal = setException RTIinternalError (setFederate 3 (new_message UNCONDITIONAL_ATTRIBUTE_OWNERSHIP_DIVESTITURE NoBody))"


text \<open>
  A member that asks for the creation of another federation is told of an internal error, but the request has been
  sent: when the RTIG creates the federation, the RTIA takes its handle for the one of its own federation, and names the
  wrong federation in every message that it sends from then on.
\<close>

theorem member_loses_federation:
  assumes "serving s" "fm_member (ra_fm s)"
    and "take_first (awaited CREATE_FEDERATION_EXECUTION (federate_of s)) (incoming s) = Some (reply, rest)"
    and "nm_exception reply = None"
  shows "case make_answer (FederationRequest (CreateFederationV4 name modules mim version)) s of
      (Inr a, t) \<Rightarrow> an_exception a = Some RTIinternalError \<and> fm_member (ra_fm t)
        \<and> nm_federation (from_me (ra_tm t) m) = nm_federation reply
    | (Inl e, t) \<Rightarrow> False"
proof -
  let ?s = "s\<lparr>ra_tm := (ra_tm s)\<lparr>tm_sent := tm_sent (ra_tm s) @ [new_message CREATE_FEDERATION_EXECUTION (CreationOf name modules mim version)]\<rparr>\<rparr>"
  have "federate_of ?s = federate_of s" "incoming ?s = incoming s" by (simp_all add: federate_of_def incoming_def)
  then obtain w l where w: "waitMessage CREATE_FEDERATION_EXECUTION (federate_of s) ?s = (Inr reply, ?s\<lparr>ra_waiting := w, ra_tcp := l\<rparr>)"
    using waitMessage_take [of CREATE_FEDERATION_EXECUTION "federate_of s" ?s] assms(3) by auto
  let ?u = "?s\<lparr>ra_waiting := w, ra_tcp := l, ra_fm := (ra_fm s)\<lparr>fm_federation_name := name\<rparr>,
      ra_tm := (ra_tm ?s)\<lparr>tm_federation := nm_federation reply\<rparr>\<rparr>"
  have "createFederationExecution name modules mim version s = (Inr (Some RTIinternalError), ?u)"
    using w assms(2,4) \<open>federate_of ?s = federate_of s\<close>
    by (simp add: createFederationExecution_def act_simps rtia_simps)
  then have "chooseFederateProcessing (FederationRequest (CreateFederationV4 name modules mim version)) s
      = (Inr (Some RTIinternalError, Creation name modules, Some RTIinternalError), ?u)"
    using assms(1) by (simp add: choose_serving internal_error_set_def bind_run ret_run)
  then show ?thesis
    using assms(1,2) by (simp add: make_answer_def catch_run bind_run gets_run ret_run serving_def answer_of_def from_me_def
        setFederate_def setFederation_def)
qed

theorem member_loses_federation_witness:
  "case make_answer (FederationRequest (CreateFederationV4 ''other'' [] [] HLA_1_3))
          (demo_member [setFederation 9 (setFederate 3 (new_message CREATE_FEDERATION_EXECUTION NoBody))]) of
      (Inr a, t) \<Rightarrow> an_exception a = Some RTIinternalError
        \<and> nm_federation (from_me (ra_tm t) (new_message RESIGN_FEDERATION_EXECUTION NoBody)) = 9
    | (Inl e, t) \<Rightarrow> False"
proof -
  let ?m = "setFederation 9 (setFederate 3 (new_message CREATE_FEDERATION_EXECUTION NoBody))"
  have "take_first (awaited CREATE_FEDERATION_EXECUTION (federate_of (demo_member [?m]))) (incoming (demo_member [?m])) = Some (?m, [])"
    by (simp add: demo_member_simps awaited_def setFederation_def setFederate_def new_message_def)
  note first = this
  have fields: "nm_exception ?m = None" "nm_federation ?m = 9"
    by (simp_all add: setFederation_def setFederate_def new_message_def)
  show ?thesis
    using member_loses_federation [OF demo_member_simps(5) demo_member_simps(1) first fields(1), where name = "''other''"
        and modules = "[]" and mim = "[]" and version = HLA_1_3 and m = "new_message RESIGN_FEDERATION_EXECUTION NoBody"] fields(2)
    by (auto split: prod.splits sum.splits)
qed

end
