(* ===== verification/RtiaTicks.thy ===== *)
theory RtiaTicks
  imports RtiaAnswers
begin

text \<open>
  A tick of the federate: \<open>processOngoingTick\<close> of the RTIA over \<open>tick\<close> of its time management. The reports on the time state
  do not matter for what the federate is told, and a tick makes at most one callback.
\<close>

section \<open>The reports do not matter\<close>

named_theorems agree_intros "actions that do not depend on the reports on the time state"

definition blind :: "time_management \<Rightarrow> time_management" where
  "blind s = s\<lparr>tm_updateRate := 0, tm_lastState := new_message TIME_STATE_UPDATE NoBody, tm_lastUpdate := 0,
     tm_readings := 0, tm_sent := []\<rparr>"

definition agree :: "'a tm_action \<Rightarrow> bool" where
  "agree m \<longleftrightarrow> (\<forall>s t. blind s = blind t \<longrightarrow> fst (m s) = fst (m t) \<and> blind (snd (m s)) = blind (snd (m t)))"

lemma blind_blind [simp]: "blind (blind s) = blind s"
  by (simp add: blind_def)

lemma agreeI:
  "(\<And>s. fst (m s) = fst (m (blind s))) \<Longrightarrow> (\<And>s. blind (snd (m s)) = blind (snd (m (blind s)))) \<Longrightarrow> agree m"
  unfolding agree_def by metis

lemma agree_ret [agree_intros]: "agree (ret a)"
  by (simp add: agree_def ret_def)

lemma agree_throw [agree_intros]: "agree (throw e)"
  by (simp add: agree_def throw_def)

lemma agree_gets: "(\<And>s. f s = f (blind s)) \<Longrightarrow> agree (gets f)"
  unfolding agree_def gets_def by (metis fst_conv snd_conv)

lemma agree_modify: "(\<And>s. blind (f s) = blind (f (blind s))) \<Longrightarrow> agree (modify f)"
  by (rule agreeI) (simp_all add: modify_def)

lemma agree_bind [agree_intros]:
  assumes "agree m" "\<And>a. agree (k a)"
  shows "agree (bind m k)"
  unfolding agree_def
proof (intro allI impI)
  fix s t :: time_management
  assume st: "blind s = blind t"
  obtain r s1 where s1: "m s = (r, s1)" by (cases "m s")
  obtain q t1 where t1: "m t = (q, t1)" by (cases "m t")
  have "fst (m s) = fst (m t)" "blind (snd (m s)) = blind (snd (m t))" using assms(1) st unfolding agree_def by blast+
  then have q: "q = r" and b: "blind s1 = blind t1" using s1 t1 by simp_all
  have "fst (k a s1) = fst (k a t1) \<and> blind (snd (k a s1)) = blind (snd (k a t1))" for a
    using assms(2) [of a] b unfolding agree_def by blast
  then show "fst (bind m k s) = fst (bind m k t) \<and> blind (snd (bind m k s)) = blind (snd (bind m k t))"
    using b by (cases r) (simp_all add: bind_def s1 t1 q)
qed

lemma agree_seq [agree_intros]: "agree m \<Longrightarrow> agree n \<Longrightarrow> agree (seq m n)"
  unfolding seq_def by (rule agree_bind)

lemma agree_read:
  assumes "\<And>s. k s = k (blind s)" "\<And>a. agree (k a)"
  shows "agree (bind (gets id) k)"
  unfolding agree_def
proof (intro allI impI)
  fix s t :: time_management
  assume st: "blind s = blind t"
  have "k s = k t" using assms(1) [of s] assms(1) [of t] st by simp
  moreover have "fst (k s s) = fst (k s t) \<and> blind (snd (k s s)) = blind (snd (k s t))"
    using assms(2) [of s] st unfolding agree_def by blast
  ultimately show "fst (bind (gets id) k s) = fst (bind (gets id) k t) \<and> blind (snd (bind (gets id) k s)) = blind (snd (bind (gets id) k t))"
    by (simp add: bind_def gets_def)
qed

lemma agree_if [agree_intros]: "agree m \<Longrightarrow> agree n \<Longrightarrow> agree (if b then m else n)"
  by simp

lemma agree_option [agree_intros]: "agree m \<Longrightarrow> (\<And>a. agree (k a)) \<Longrightarrow> agree (case x of None \<Rightarrow> m | Some a \<Rightarrow> k a)"
  by (cases x) auto

lemma agree_prod [agree_intros]: "(\<And>a b. agree (f a b)) \<Longrightarrow> agree (case p of (a, b) \<Rightarrow> f a b)"
  by (cases p) simp

lemma agree_let [agree_intros]: "agree (k x) \<Longrightarrow> agree (let a = x in k a)"
  by simp

lemma agree_queues [agree_intros]: "agree (with_queues m)"
  by (rule agreeI) (simp_all add: with_queues_def on_field_def blind_def split: prod.split)

lemma agree_send [agree_intros]: "agree (sendMessage m)"
  unfolding sendMessage_def by (rule agree_modify) (simp add: blind_def)

lemma agree_request [agree_intros]: "agree (requestFederateService c)"
  unfolding requestFederateService_def by (rule agree_modify) (simp add: blind_def)

lemma report_run: "fst (sendTimeStateUpdate s) = Inr () \<and> blind (snd (sendTimeStateUpdate s)) = blind s"
  by (simp add: sendTimeStateUpdate_def blind_def Let_def)

lemma agree_report [agree_intros]: "agree sendTimeStateUpdate"
  by (rule agreeI) (simp_all add: report_run)

lemma blind_fields:
  "tm_lbts (blind s) = tm_lbts s" "tm_queues (blind s) = tm_queues s" "tm_federation (blind s) = tm_federation s"
  "tm_federate (blind s) = tm_federate s" "tm_async (blind s) = tm_async s" "tm_lastNull (blind s) = tm_lastNull s"
  "tm_lastNullPrime (blind s) = tm_lastNullPrime s" "tm_nerRequested (blind s) = tm_nerRequested s"
  "tm_eventDates (blind s) = tm_eventDates s" "tm_advance (blind s) = tm_advance s" "tm_date (blind s) = tm_date s"
  "tm_now (blind s) = tm_now s" "tm_lookahead (blind s) = tm_lookahead s" "tm_regulating (blind s) = tm_regulating s"
  "tm_constrained (blind s) = tm_constrained s" "tm_nmp (blind s) = tm_nmp s" "tm_tick (blind s) = tm_tick s"
  "tm_callbacks (blind s) = tm_callbacks s" "lbts_of (blind s) = lbts_of s" "from_me (blind s) m = from_me s m"
  by (simp_all add: blind_def lbts_of_def from_me_def)

lemma agree_null [agree_intros]: "agree (sendNullMessage t)"
  unfolding sendNullMessage_def Let_def
  by (rule agree_read; (unfold blind_fields, rule refl; fail)?; (intro agree_intros agree_modify; simp add: blind_def)?)

lemma agree_null_prime [agree_intros]: "agree (sendNullPrimeMessage t)"
  unfolding sendNullPrimeMessage_def Let_def
  by (rule agree_read; (unfold blind_fields, rule refl; fail)?; (intro agree_intros agree_modify; simp add: blind_def)?)

lemma agree_when_regulating [agree_intros]: "agree m \<Longrightarrow> agree (when_regulating m)"
  unfolding when_regulating_def by (intro agree_intros agree_gets) (simp add: blind_fields)

lemma agree_echo [agree_intros]: "agree echo_null_prime"
  unfolding echo_null_prime_def Let_def
  by (rule agree_read; (unfold blind_fields, rule refl; fail)?; (intro agree_intros agree_modify; simp add: blind_def)?)

lemma agree_grant [agree_intros]: "agree (timeAdvanceGrant t)"
  unfolding timeAdvanceGrant_def by (intro agree_intros agree_modify; simp add: blind_def)

lemma agree_grant_and_stop [agree_intros]: "agree (grant_and_stop t)"
  unfolding grant_and_stop_def by (intro agree_intros agree_modify) (simp add: blind_def)

lemma agree_execute [agree_intros]: "agree (executeFederateService m)"
  unfolding executeFederateService_def by (intro agree_intros agree_modify) (simp add: blind_def)

lemma agree_timeAdvance [agree_intros]: "agree (timeAdvance e)"
  unfolding timeAdvance_def
  by (rule agree_read; (unfold blind_fields, rule refl; fail)?; (intro agree_intros agree_modify; simp add: blind_def)?)

lemma agree_nextEventAdvance [agree_intros]: "agree nextEventAdvance"
  unfolding nextEventAdvance_def Let_def
  by (rule agree_read; (unfold blind_fields, rule refl; fail)?; (intro agree_intros agree_modify; simp add: blind_def)?)

lemma agree_advance [agree_intros]: "agree (advance e r)"
  unfolding advance_def
  by (rule agree_bind [OF agree_gets]) (simp_all add: blind_fields agree_intros split: type_avancee.split)

lemma agree_tick_message [agree_intros]: "agree tick_message"
proof -
  have "agree (bind (gets id) (\<lambda>s. if tm_async s \<or> tm_advance s \<noteq> PAS_D_AVANCEE \<or> \<not> tm_constrained s
      then with_queues giveFifoMessage else ret (None, r)))" for r
    by (rule agree_read; (unfold blind_fields, rule refl; fail)?; (intro agree_intros)?)
  note async = this
  show ?thesis
    unfolding tick_message_def by (rule agree_bind [OF agree_queues], rule agree_prod, rule agree_option [OF async], rule agree_ret)
qed

lemma agree_tick: "agree (tick e)"
  unfolding tick_def by (intro agree_intros)

lemma tick_reports:
  "fst (tick e (s\<lparr>tm_updateRate := 0\<rparr>)) = fst (tick e s)"
  "tm_callbacks (snd (tick e (s\<lparr>tm_updateRate := 0\<rparr>))) = tm_callbacks (snd (tick e s))"
  "tm_tick (snd (tick e (s\<lparr>tm_updateRate := 0\<rparr>))) = tm_tick (snd (tick e s))"
proof -
  have "blind (s\<lparr>tm_updateRate := 0\<rparr>) = blind s" by (simp add: blind_def)
  then have a: "fst (tick e (s\<lparr>tm_updateRate := 0\<rparr>)) = fst (tick e s)"
    and b: "blind (snd (tick e (s\<lparr>tm_updateRate := 0\<rparr>))) = blind (snd (tick e s))"
    using agree_tick [of e] unfolding agree_def by blast+
  show "fst (tick e (s\<lparr>tm_updateRate := 0\<rparr>)) = fst (tick e s)" by (rule a)
  show "tm_callbacks (snd (tick e (s\<lparr>tm_updateRate := 0\<rparr>))) = tm_callbacks (snd (tick e s))"
    "tm_tick (snd (tick e (s\<lparr>tm_updateRate := 0\<rparr>))) = tm_tick (snd (tick e s))"
    using b blind_fields(17,18) by metis+
qed

section \<open>At most one callback\<close>

text \<open>The callbacks and the state of the tick.\<close>

definition steady :: "callback list \<times> tick_state \<Rightarrow> time_management \<Rightarrow> bool" where
  "steady p s \<longleftrightarrow> (tm_callbacks s, tm_tick s) = p"

definition called :: "time_management \<Rightarrow> bool" where
  "called s \<longleftrightarrow> (\<exists>c. steady ([c], TICK_NEXT) s)"

text \<open>The state in which an action that starts in \<open>P\<close> returns.\<close>

definition yields :: "('s \<Rightarrow> bool) \<Rightarrow> ('s, 'a) action \<Rightarrow> ('s \<Rightarrow> bool) \<Rightarrow> bool" where
  "yields P m Q \<longleftrightarrow> (\<forall>s a t. P s \<longrightarrow> m s = (Inr a, t) \<longrightarrow> Q t)"

lemma yields_bind: "yields P m Q \<Longrightarrow> (\<And>a. yields Q (k a) R) \<Longrightarrow> yields P (bind m k) R"
  unfolding yields_def by (metis bind_InrD)

lemma yields_seq: "yields P m Q \<Longrightarrow> yields Q n R \<Longrightarrow> yields P (seq m n) R"
  unfolding seq_def by (rule yields_bind)

lemma yields_keeps: "keeps I m \<Longrightarrow> yields I m I"
  unfolding yields_def by (blast dest: keepsD)

lemma yields_weaken: "yields P m Q \<Longrightarrow> (\<And>s. Q s \<Longrightarrow> R s) \<Longrightarrow> yields P m R"
  unfolding yields_def by blast

lemma yields_throw: "yields P (throw e) Q"
  by (simp add: yields_def throw_def)

lemma steady_modify: "(\<And>s. tm_callbacks (f s) = tm_callbacks s) \<Longrightarrow> (\<And>s. tm_tick (f s) = tm_tick s) \<Longrightarrow> keeps (steady p) (modify f)"
  by (rule keeps_modify) (simp add: steady_def)

lemma steady_queues: "keeps (steady p) (with_queues m)"
  unfolding with_queues_def by (rule keeps_on_field) (simp add: steady_def)

lemma steady_report: "keeps (steady p) sendTimeStateUpdate"
  by (rule keepsI) (simp add: sendTimeStateUpdate_def steady_def Let_def)

lemma steady_send: "keeps (steady p) (sendMessage m)"
  unfolding sendMessage_def by (rule steady_modify) simp_all

lemma steady_null: "keeps (steady p) (sendNullMessage t)" "keeps (steady p) (sendNullPrimeMessage t)"
  unfolding sendNullMessage_def sendNullPrimeMessage_def Let_def by (intro keeps_intros steady_modify steady_send; simp)+

lemma steady_when_regulating: "keeps (steady p) m \<Longrightarrow> keeps (steady p) (when_regulating m)"
  unfolding when_regulating_def by (intro keeps_intros)

lemma steady_echo: "keeps (steady p) echo_null_prime"
  unfolding echo_null_prime_def Let_def by (intro keeps_intros steady_modify steady_null; simp)

lemma steady_called: "(\<And>p. keeps (steady p) m) \<Longrightarrow> keeps called m"
  unfolding keeps_def called_def by blast

lemma yields_execute: "yields (steady ([], x)) (executeFederateService m) called"
  by (auto simp: yields_def steady_def called_def executeFederateService_def requestFederateService_def act_simps split: if_splits)

lemma yields_grant: "yields (steady ([], x)) (timeAdvanceGrant t) called"
proof -
  let ?set = "modify (\<lambda>s. s\<lparr>tm_lookahead := (if ft_eq_double (tm_lookahead s) epsilon2 then Fin 0 else tm_lookahead s), tm_tick := TICK_NEXT\<rparr>)"
  have "yields (steady ([], x)) ?set (steady ([], TICK_NEXT))" by (simp add: yields_def modify_def steady_def)
  moreover have "yields (steady ([], TICK_NEXT)) (requestFederateService (TimeAdvanceGrant t)) called"
    by (simp add: yields_def requestFederateService_def modify_def steady_def called_def)
  moreover have "yields called (seq (modify (\<lambda>s. s\<lparr>tm_now := t\<rparr>)) sendTimeStateUpdate) called"
    by (rule yields_keeps, rule steady_called) (intro keeps_intros steady_modify steady_report; simp)
  ultimately show ?thesis unfolding timeAdvanceGrant_def by (meson yields_seq)
qed

definition settled :: "tick_state \<Rightarrow> time_management \<Rightarrow> bool" where
  "settled x s \<longleftrightarrow> steady ([], x) s \<or> called s"

named_theorems yields_intros "the steps of a tick"

lemma yields_if [yields_intros]: "yields P m Q \<Longrightarrow> yields P n Q \<Longrightarrow> yields P (if b then m else n) Q"
  by simp

lemma yields_option: "yields P m Q \<Longrightarrow> (\<And>a. yields P (k a) Q) \<Longrightarrow> yields P (case x of None \<Rightarrow> m | Some a \<Rightarrow> k a) Q"
  by (cases x) auto

lemma yields_prod [yields_intros]: "(\<And>a b. yields P (f a b) Q) \<Longrightarrow> yields P (case p of (a, b) \<Rightarrow> f a b) Q"
  by (cases p) simp

text \<open>A step that leaves callbacks and tick state as they are, before the rest.\<close>

lemma yields_pass: "(\<And>p. keeps (steady p) m) \<Longrightarrow> (\<And>a. yields (steady p) (k a) Q) \<Longrightarrow> yields (steady p) (bind m k) Q"
  by (rule yields_bind, rule yields_keeps)

lemma yields_pass_seq: "(\<And>p. keeps (steady p) m) \<Longrightarrow> yields (steady p) n Q \<Longrightarrow> yields (steady p) (seq m n) Q"
  unfolding seq_def by (rule yields_pass)

lemma yields_idle: "(\<And>p. keeps (steady p) m) \<Longrightarrow> yields (steady ([], x)) m (settled x)"
  by (rule yields_weaken [OF yields_keeps]) (simp_all add: settled_def)

lemma yields_rest: "(\<And>p. keeps (steady p) m) \<Longrightarrow> yields called m (settled x)"
  by (rule yields_weaken [OF yields_keeps [OF steady_called]]) (simp_all add: settled_def)

lemma yields_settled: "yields P m called \<Longrightarrow> yields P m (settled x)"
  unfolding settled_def yields_def by blast

lemma settled_keeps: "(\<And>p. keeps (steady p) m) \<Longrightarrow> yields (settled x) m (settled x)"
  using yields_idle [of m x] yields_rest [of m x] unfolding yields_def settled_def by metis

lemma yields_call: "yields (steady ([], x)) m called \<Longrightarrow> (\<And>p. keeps (steady p) n) \<Longrightarrow> yields (steady ([], x)) (seq m n) (settled x)"
  by (rule yields_seq [OF _ yields_rest])

lemma yields_grant_and_stop: "yields (steady ([], x)) (grant_and_stop t) called"
  unfolding grant_and_stop_def
  by (rule yields_seq [OF yields_grant], rule yields_keeps, rule steady_called, rule steady_modify) simp_all

lemma steady_tail: "keeps (steady p) (seq sendTimeStateUpdate (ret a))"
  by (intro keeps_intros steady_report)

lemma steady_stop: "keeps (steady p) (if b then ret a else seq (modify (\<lambda>s. s\<lparr>tm_advance := PAS_D_AVANCEE\<rparr>)) (seq sendTimeStateUpdate (ret a)))"
  by (intro keeps_intros steady_modify steady_report; simp)

lemma steady_gets: "keeps (steady p) (gets f)"
  by (rule keeps_gets)

lemma yields_timeAdvance: "yields (steady ([], x)) (timeAdvance e) (settled x)"
  unfolding timeAdvance_def
  by (rule yields_pass [OF steady_gets], rule yields_if)
    (intro yields_pass [OF steady_queues] yields_prod yields_option yields_if yields_call [OF yields_grant] yields_call [OF yields_execute]
       yields_idle steady_tail steady_stop)+

lemma steady_allowed: "keeps (steady p) (if b then ret () else when_regulating (sendNullMessage t))"
  by (intro keeps_intros steady_when_regulating steady_null)

lemma steady_refused: "keeps (steady p) (when_regulating (if b then echo_null_prime else sendNullMessage t))"
  by (intro keeps_intros steady_when_regulating steady_echo steady_null)

lemma steady_date: "keeps (steady p) (modify (\<lambda>s. s\<lparr>tm_date := t\<rparr>))"
  by (rule steady_modify) simp_all

lemma yields_deliver: "yields (steady ([], x)) (case msg of Some m \<Rightarrow> executeFederateService m | None \<Rightarrow> grant_and_stop t) called"
  by (intro yields_option yields_execute yields_grant_and_stop)

lemma steady_echoed: "keeps (steady p) (seq (when_regulating (if b then echo_null_prime else sendNullMessage t)) (seq sendTimeStateUpdate (ret a)))"
  by (rule keeps_seq [OF steady_refused steady_tail])

lemma yields_nextEventAdvance: "yields (steady ([], x)) nextEventAdvance (settled x)"
  unfolding nextEventAdvance_def Let_def
  by (rule yields_pass [OF steady_gets], rule yields_if)
    (intro yields_prod yields_if yields_pass_seq [OF steady_date] yields_pass_seq [OF steady_allowed] yields_pass [OF steady_queues]
       yields_call [OF yields_deliver] yields_idle [OF steady_echoed] steady_tail
       yields_pass_seq [OF steady_when_regulating [OF steady_null(1)]] yields_call [OF yields_grant_and_stop])+

lemma yields_advance: "yields (steady ([], x)) (advance e r) (settled x)"
  unfolding advance_def
  by (rule yields_pass [OF steady_gets])
    (simp add: yields_timeAdvance yields_nextEventAdvance yields_idle [OF keeps_ret] split: type_avancee.split)

lemma yields_tick: "yields (steady ([], x)) (tick e) (settled x)"
proof -
  have message: "keeps (steady p) tick_message" for p
    unfolding tick_message_def by (intro keeps_intros steady_queues)
  have body: "yields (steady ([], x)) (case msg of Some m \<Rightarrow> seq (executeFederateService m) (ret r) | None \<Rightarrow> advance e r) (settled x)" for msg r
    by (intro yields_option yields_advance yields_call [OF yields_execute] keeps_ret)
  show ?thesis
    unfolding tick_def
    by (rule yields_pass [OF message], rule yields_prod, rule yields_bind [OF body], rule settled_keeps, rule steady_tail)
qed

section \<open>The steps of a tick\<close>

text \<open>What an action adds to the messages for the federate.\<close>

definition adds :: "federate_message list \<Rightarrow> rtia \<Rightarrow> rtia \<Rightarrow> bool" where
  "adds ms s t \<longleftrightarrow> ra_out t = ra_out s @ ms"

abbreviation tick_of :: "rtia \<Rightarrow> tick_state" where
  "tick_of s \<equiv> tm_tick (ra_tm s)"

text \<open>A callback: a message for the federate that neither answers a request nor ends a tick.\<close>

fun calls_back :: "federate_message \<Rightarrow> bool" where
  "calls_back (Answer _ _) = False"
| "calls_back (TickReturn _) = False"
| "calls_back _ = True"

definition one_call :: "unit rtia_action \<Rightarrow> bool" where
  "one_call m \<longleftrightarrow> (\<forall>s t. m s = (Inr (), t) \<longrightarrow> (\<exists>c. calls_back c \<and> adds [c] s t))"

lemma one_call_tell: "calls_back c \<Longrightarrow> one_call (tell c)"
  by (auto simp: one_call_def adds_def rtia_simps)

lemma one_call_after: "(\<And>s. ra_out (snd (m s)) = ra_out s) \<Longrightarrow> one_call n \<Longrightarrow> one_call (seq m n)"
  unfolding one_call_def adds_def by (auto simp: seq_def bind_def split: prod.splits sum.splits) (metis snd_conv)

lemma one_call_before: "one_call n \<Longrightarrow> (\<And>s. ra_out (snd (m s)) = ra_out s) \<Longrightarrow> one_call (seq n m)"
  unfolding one_call_def adds_def by (auto simp: seq_def bind_def split: prod.splits sum.splits) (metis snd_conv)

lemma out_on_fm: "ra_out (snd (on_fm m s)) = ra_out s"
  by (simp add: rtia_simps split: prod.split)

lemma out_on_object_model: "ra_out (snd (seq (on_object_model m) (ret ()) s)) = ra_out s"
  by (simp add: seq_def bind_def ret_def rtia_simps split: prod.split sum.split)

lemma one_call_managers:
  "one_call (announceSynchronizationPoint l g)" "one_call (synchronizationPointRegistration b l)"
  "one_call (federationSynchronized l)" "one_call (initiateFederateSave l)" "one_call (federationSavedStatus b)"
  "one_call (federationRestoredStatus b)" "one_call (initiateFederateRestore l f)"
  "one_call (requestFederationRestoreStatus b l g)" "one_call federationRestoreBegun" "one_call (startRegistrationForObjectClass c)"
  "one_call (om_nameReservation b n)" "one_call (om_discoverObject h c n d)" "one_call (om_provideAttributeValueUpdate h as)"
  unfolding announceSynchronizationPoint_def synchronizationPointRegistration_def federationSynchronized_def
    initiateFederateSave_def federationSavedStatus_def federationRestoredStatus_def initiateFederateRestore_def
    requestFederationRestoreStatus_def federationRestoreBegun_def startRegistrationForObjectClass_def om_nameReservation_def
    om_discoverObject_def om_provideAttributeValueUpdate_def insert_point_def
  by (intro one_call_after one_call_tell out_on_fm; simp)+

lemma one_call_objects:
  "one_call (om_reflectAttributeValues h as vs g d)" "one_call (om_receiveInteraction i as vs g d)" "one_call (om_removeObject h f g d)"
  unfolding om_reflectAttributeValues_def om_receiveInteraction_def om_removeObject_def
  by (intro one_call_after one_call_before one_call_tell out_on_object_model; simp add: throw_if_run)+

lemma one_call_deliver: "one_call (deliver m)"
proof -
  have fail: "one_call (throw e)" for e by (simp add: one_call_def throw_def)
  show ?thesis
    unfolding deliver_def Let_def
    by (cases "nm_kind m") (simp_all add: one_call_managers one_call_objects one_call_tell fail)
qed

lemma one_call_forward: "one_call (forward c)"
  by (cases c) (simp_all add: one_call_deliver one_call_tell)

lemma tick_of_silent:
  assumes "tick None (u\<lparr>tm_callbacks := []\<rparr>) = (Inr r, t)" "tm_tick u \<noteq> TICK_NEXT"
  shows "(tm_callbacks t = [] \<and> tm_tick t = tm_tick u) \<or> (\<exists>c. tm_callbacks t = [c] \<and> tm_tick t = TICK_NEXT)"
proof -
  have "steady ([], tm_tick u) (u\<lparr>tm_callbacks := []\<rparr>)" by (simp add: steady_def)
  then have "settled (tm_tick u) t" using yields_tick assms(1) unfolding yields_def by blast
  then show ?thesis by (simp add: settled_def called_def steady_def)
qed

lemma rtia_tick_step:
  assumes run: "rtia_tick s = (Inr r, t)" and idle: "tick_of s \<noteq> TICK_NEXT"
  shows "(adds [] s t \<and> tick_of t = tick_of s) \<or> (\<exists>c. calls_back c \<and> adds [c] s t \<and> tick_of t = TICK_NEXT)"
proof -
  let ?t0 = "(ra_tm s)\<lparr>tm_callbacks := []\<rparr>"
  let ?quiet = "snd (tick None (?t0\<lparr>tm_updateRate := 0\<rparr>))"
  let ?s0 = "s\<lparr>ra_tm := ?quiet\<lparr>tm_updateRate := tm_updateRate ?t0, tm_callbacks := []\<rparr>\<rparr>"
  obtain q u where fw: "for_each forward (tm_callbacks ?quiet) ?s0 = (q, u)" by (cases "for_each forward (tm_callbacks ?quiet) ?s0")
  obtain r1 t1 where t1: "tick None ?t0 = (r1, t1)" by (cases "tick None ?t0")
  have q: "q = Inr ()" and r1: "r1 = Inr r" and t: "t = u\<lparr>ra_tm := t1\<lparr>tm_callbacks := []\<rparr>\<rparr>"
    using run fw t1 by (auto simp: rtia_tick_def Let_def split: sum.splits)
  have same: "tm_callbacks ?quiet = tm_callbacks t1" by (simp add: tick_reports(2) t1)
  consider "tm_callbacks t1 = []" "tm_tick t1 = tick_of s" | c where "tm_callbacks t1 = [c]" "tm_tick t1 = TICK_NEXT"
    using tick_of_silent [OF t1 [unfolded r1] idle] by blast
  then show ?thesis
  proof cases
    case 1
    then have "u = ?s0" using fw unfolding same by (simp add: ret_def)
    then show ?thesis using 1 t by (simp add: adds_def)
  next
    case 2
    then have "forward c ?s0 = (Inr (), u)" using fw q unfolding same by (auto simp: seq_def bind_def ret_def split: prod.splits sum.splits)
    then obtain m where "calls_back m" "adds [m] ?s0 u" using one_call_forward [of c] unfolding one_call_def by blast
    then show ?thesis using 2 t by (auto simp: adds_def)
  qed
qed

lemma tick_next_step:
  assumes "tick_next s = (Inr (), t)"
  shows "adds [] s t \<and> tick_of t \<in> {TICK_CALLBACK, TICK_RETURN}"
  using assms
  by (auto simp: tick_next_def continue_tick_def read_clock_def set_tick_def adds_def act_simps rtia_simps split: if_splits)

lemma tick_return_run:
  "tick_return s = (Inr (), s\<lparr>ra_out := ra_out s @ [TickReturn (ra_result s)], ra_tm := (ra_tm s)\<lparr>tm_tick := NO_TICK\<rparr>\<rparr>)"
  by (simp add: tick_return_def set_tick_def act_simps rtia_simps)

lemma tick_attempt_step:
  assumes run: "tick_attempt n s = (Inr (), t)" and idle: "tick_of s \<noteq> TICK_NEXT"
  shows "(\<exists>c. calls_back c \<and> adds [c] s t \<and> tick_of t \<in> {TICK_CALLBACK, TICK_RETURN})
    \<or> (\<exists>u. adds [] s u \<and> tick_of u = tick_of s \<and> n u = (Inr (), t))"
proof -
  obtain r u where u: "rtia_tick s = (Inr r, u)" using run unfolding tick_attempt_def by (blast dest: bind_InrD)
  let ?v = "u\<lparr>ra_result := r\<rparr>"
  have rest: "(if tick_of u = TICK_NEXT then tick_next ?v else n ?v) = (Inr (), t)"
    using run u by (simp add: tick_attempt_def get_tick_def act_simps split: if_splits)
  from rtia_tick_step [OF u idle] show ?thesis
  proof
    assume "adds [] s u \<and> tick_of u = tick_of s"
    then show ?thesis using rest idle by (intro disjI2 exI [of _ ?v]) (simp add: adds_def)
  next
    assume "\<exists>c. calls_back c \<and> adds [c] s u \<and> tick_of u = TICK_NEXT"
    then show ?thesis using rest tick_next_step [of ?v t] by (auto simp: adds_def)
  qed
qed

text \<open>
  C2. A step of \<open>processOngoingTick\<close> that returns makes at most one callback, and every state but \<open>TICK_BLOCKING\<close> without
  a message moves on. While the tick blocks, either nothing is written and it goes on blocking or one callback is written
  and the next state is \<open>TICK_CALLBACK\<close> or \<open>TICK_RETURN\<close>. In \<open>TICK_CALLBACK\<close> either one callback is written, or the
  tick ends: the answer of the tick is written and the state is \<open>NO_TICK\<close>. \<open>TICK_NEXT\<close> writes nothing, and \<open>TICK_RETURN\<close>
  writes the answer, with the result of the last try, and ends the tick. Without a tick the function does not return.
\<close>

theorem tick_step:
  assumes "processOngoingTick s = (Inr (), t)"
  shows "(case tick_of s of
      NO_TICK \<Rightarrow> False
    | TICK_BLOCKING \<Rightarrow> (adds [] s t \<and> tick_of t = TICK_BLOCKING)
        \<or> (\<exists>c. calls_back c \<and> adds [c] s t \<and> tick_of t \<in> {TICK_CALLBACK, TICK_RETURN})
    | TICK_NEXT \<Rightarrow> adds [] s t \<and> tick_of t \<in> {TICK_CALLBACK, TICK_RETURN}
    | TICK_CALLBACK \<Rightarrow> (\<exists>r. adds [TickReturn r] s t \<and> tick_of t = NO_TICK)
        \<or> (\<exists>c. calls_back c \<and> adds [c] s t \<and> tick_of t \<in> {TICK_CALLBACK, TICK_RETURN})
    | TICK_RETURN \<Rightarrow> adds [TickReturn (ra_result s)] s t \<and> tick_of t = NO_TICK)"
proof (cases "tick_of s")
  case NO_TICK
  then show ?thesis using assms by (simp add: processOngoingTick_def get_tick_def act_simps)
next
  case TICK_BLOCKING
  then have "tick_attempt (ret ()) s = (Inr (), t)" using assms by (simp add: processOngoingTick_def get_tick_def act_simps)
  then show ?thesis using tick_attempt_step [of "ret ()" s t] TICK_BLOCKING by (auto simp: ret_def)
next
  case TICK_NEXT
  then show ?thesis using assms tick_next_step [of s t] by (simp add: processOngoingTick_def get_tick_def act_simps)
next
  case TICK_CALLBACK
  then have "tick_attempt tick_return s = (Inr (), t)" using assms by (simp add: processOngoingTick_def get_tick_def act_simps)
  then show ?thesis using tick_attempt_step [of tick_return s t] TICK_CALLBACK by (auto simp: tick_return_run adds_def)
next
  case TICK_RETURN
  then show ?thesis using assms by (auto simp: processOngoingTick_def get_tick_def act_simps tick_return_run adds_def)
qed

text \<open>A blocking tick with a refused point among the commands, and the same tick without a command.\<close>

definition demo_ticking :: "network_message list \<Rightarrow> rtia" where
  "demo_ticking cs = (demo_member [])\<lparr>ra_tm := (ra_tm (demo_member []))\<lparr>tm_tick := TICK_BLOCKING,
     tm_queues := (tm_queues (ra_tm (demo_member [])))\<lparr>commands := cs\<rparr>\<rparr>\<rparr>"

definition demo_point :: network_message where
  "demo_point = (new_message CONFIRM_SYNCHRONIZATION_POINT_REGISTRATION (Success False))\<lparr>nm_label := ''p''\<rparr>"

theorem tick_step_witness:
  "(case processOngoingTick (demo_ticking [demo_point]) of
      (Inr _, t) \<Rightarrow> \<exists>c. calls_back c \<and> ra_out t = [c] \<and> tick_of t = TICK_RETURN
    | (Inl _, t) \<Rightarrow> False)"
proof -
  have run: "processOngoingTick (demo_ticking [demo_point]) = (Inr (), snd (processOngoingTick (demo_ticking [demo_point])))"
    by (rule prod_eqI) (code_simp, simp)
  have start: "tick_of (demo_ticking [demo_point]) = TICK_BLOCKING" "ra_out (demo_ticking [demo_point]) = []"
    by code_simp+
  have last: "tick_of (snd (processOngoingTick (demo_ticking [demo_point]))) = TICK_RETURN" by code_simp
  show ?thesis using tick_step [OF run] run start last by (auto simp: adds_def split: prod.splits sum.splits)
qed

end
