(* ===== verification/RtiaProperties.thy ===== *)
theory RtiaProperties
  imports RtiaAnswers Rtig
begin

text \<open>
  What the RTIA does with the messages of the RTIG: the answer to a request that it does not wait for, and
  the number of attributes of a callback.
\<close>

section \<open>Refused requests\<close>

text \<open>The requests of the federate that the RTIA sends without waiting for an answer.\<close>

definition unawaited :: "nm_type list" where
  "unawaited = map Service
     [SYNCHRONIZATION_POINT_ACHIEVED, REQUEST_FEDERATION_SAVE, FEDERATE_SAVE_BEGUN, FEDERATE_SAVE_COMPLETE,
      FEDERATE_SAVE_NOT_COMPLETE, REQUEST_FEDERATION_RESTORE, FEDERATE_RESTORE_COMPLETE, FEDERATE_RESTORE_NOT_COMPLETE,
      RESERVE_OBJECT_INSTANCE_NAME]"

lemma process_service:
  "nm_kind m = Service k \<Longrightarrow> Service k \<notin> set switch_types \<Longrightarrow> processNetworkMessage m s = (Inl RTIinternalError, s)"
  by (simp add: processNetworkMessage_def last_command_types_def begin_command_types_def fifo_types_def throw_def)

lemma unawaited_service: "k \<in> set unawaited \<Longrightarrow> \<exists>x. k = Service x \<and> Service x \<notin> set switch_types"
  by (auto simp: unawaited_def switch_types_def)

lemma process_unawaited: "nm_kind m \<in> set unawaited \<Longrightarrow> processNetworkMessage m s = (Inl RTIinternalError, s)"
  using unawaited_service process_service by blast

text \<open>The message is the next that the RTIA reads when nothing waits and the connection to the RTIG is ready.\<close>

lemma turn_tcp:
  assumes "tm_tick (ra_tm s) \<in> {NO_TICK, TICK_BLOCKING}" "ra_waiting s = []" "ra_tcp s = m # ms" "rd_tcp r"
  shows "turn r s = seq (processNetworkMessage m) (if_blocking processOngoingTick) (s\<lparr>ra_tcp := ms\<rparr>)"
proof -
  have "readMessage r True s = (Inr (FromNetwork m), s\<lparr>ra_tcp := ms\<rparr>)"
    using assms by (simp add: readMessage_def receiveTcp_def act_simps)
  then have "read_turn r s = (Inr (Some (FromNetwork m)), s\<lparr>ra_tcp := ms\<rparr>)"
    using assms(1) by (auto simp: read_turn_def get_tick_def catch_run act_simps)
  then show ?thesis by (simp add: turn_def bind_def)
qed


text \<open>A federate reports a synchronization point for which it was not asked, and the RTIG refuses.\<close>

definition demo_achieved :: network_message where
  "demo_achieved = setLabel ''p'' (setFederate 3 (setFederation 1 (new_message (Service SYNCHRONIZATION_POINT_ACHIEVED) NoBody)))"

definition demo_refused :: "network_message list" where
  "demo_refused = [exception_answer demo_achieved RTIinternalError]"


section \<open>Sizes of callbacks\<close>

lemma size16_mod: "size16 xs = length xs mod 65536"
  by (simp add: size16_def unat_of_nat)

text \<open>
  The attributes of a callback are counted with 16 bits. The federate is given a first part of the attributes of the
  message with their values, at most 65535 of them, and all of them exactly if there are fewer than 65536: of
  65536 attributes it sees none.
\<close>

theorem reflected_attributes:
  assumes "length vs = length as"
  shows "\<exists>as' vs'. om_reflectAttributeValues h as vs tag date s = (Inr (), s\<lparr>ra_out := ra_out s @ [ReflectValues h as' vs' tag date]\<rparr>)
    \<and> as' = take (length as') as \<and> vs' = take (length as') vs
    \<and> length as' \<le> 65535 \<and> (as' = as \<longleftrightarrow> length as \<le> 65535) \<and> (length as = 65536 \<longrightarrow> as' = [])"
proof -
  have le: "length as mod 65536 \<le> length as" by simp
  have all: "take (length as mod 65536) as = as \<longleftrightarrow> length as \<le> 65535"
  proof
    assume "take (length as mod 65536) as = as"
    then have "length (take (length as mod 65536) as) = length as" by (rule arg_cong)
    then have "length as mod 65536 = length as" by simp
    then show "length as \<le> 65535" using mod_less_divisor [of 65536 "length as"] by linarith
  qed simp
  show ?thesis
    using assms le all
    by (intro exI [of _ "take (length as mod 65536) as"] exI [of _ "take (length as mod 65536) vs"])
      (auto simp: om_reflectAttributeValues_def size16_mod act_simps tell_run min_def less_Suc_eq_le [symmetric])
qed

theorem reflected_attributes_witness:
  "\<exists>as' vs'. om_reflectAttributeValues 5 [1, 2] [[1], [2, 3]] ''t'' None (demo_member [])
       = (Inr (), (demo_member [])\<lparr>ra_out := [ReflectValues 5 as' vs' ''t'' None]\<rparr>) \<and> as' = [1, 2]"
  using reflected_attributes [of "[[1], [2, 3]]" "[1, 2]" 5 "''t''" None "demo_member []"]
  by (auto simp: demo_member_simps)

end
