(* ===== verification/CoreProperties.thy ===== *)
theory CoreProperties
  imports HandleManager LBTS Queues
begin

text \<open>
  Properties of the three components that the RTIG and the RTIA rest on: the time-stamp-ordered
  queue, the lower bound on time stamps, and the handle generator.
\<close>

section \<open>The time-stamp-ordered queue\<close>

text \<open>Messages are taken while there is one that is not later than \<open>t\<close>, at most \<open>n\<close> of them.\<close>

primrec give_all :: "nat \<Rightarrow> fed_time \<Rightarrow> (queues, network_message list) action" where
  "give_all 0 t = ret []"
| "give_all (Suc n) t = bind (giveTsoMessage t) (\<lambda>g. case fst g of
     None \<Rightarrow> ret [] | Some m \<Rightarrow> bind (give_all n t) (\<lambda>ms. ret (m # ms)))"

lemma insert_all_run:
  "for_each insertTsoMessage ms q = (Inr (), q\<lparr>tsos := fold tso_insert ms (tsos q)\<rparr>)"
  by (induction ms arbitrary: q) (simp_all add: ret_run seq_run insertTsoMessage_def modify_run)

lemma insert_all_ok:
  assumes "sorted_by ft_lt nm_date xs" "dates_nonneg xs" "dates_nonneg ms"
  shows "sorted_by ft_lt nm_date (fold tso_insert ms xs) \<and> dates_nonneg (fold tso_insert ms xs)
    \<and> mset (fold tso_insert ms xs) = mset xs + mset ms"
  using assms
proof (induction ms arbitrary: xs)
  case Nil
  then show ?case by simp
next
  case (Cons m ms)
  have m: "Fin 0 \<le> nm_date m" "dates_nonneg ms" using Cons.prems(3) by (simp_all add: dates_nonneg_def)
  have "sorted_by ft_lt nm_date (tso_insert m xs)" "dates_nonneg (tso_insert m xs)"
    using Cons.prems(1,2) m(1)
    by (auto simp: tso_insert_by dates_nonneg_def set_insert_by intro!: ft.sorted_insert_by)
  then show ?case using Cons.IH [of "tso_insert m xs"] m(2) by (simp add: tso_insert_by mset_insert_by)
qed

lemma tso_insert_other: "\<not> P m \<Longrightarrow> filter P (tso_insert m xs) = filter P xs"
  by (induction xs) auto

lemma insert_all_stable:
  assumes "sorted_by ft_lt nm_date xs" "dates_nonneg xs" "dates_nonneg ms"
  shows "filter (\<lambda>m. nm_date m = d) (fold tso_insert ms xs)
    = filter (\<lambda>m. nm_date m = d) xs @ filter (\<lambda>m. nm_date m = d) ms"
  using assms
proof (induction ms arbitrary: xs)
  case Nil
  then show ?case by simp
next
  case (Cons m ms)
  have m: "dates_nonneg [m]" "dates_nonneg ms" using Cons.prems(3) by (simp_all add: dates_nonneg_def)
  have ok: "sorted_by ft_lt nm_date (tso_insert m xs)" "dates_nonneg (tso_insert m xs)"
    using insert_all_ok [OF Cons.prems(1,2) m(1)] by simp_all
  have "filter (\<lambda>m. nm_date m = d) (tso_insert m xs)
      = filter (\<lambda>m. nm_date m = d) xs @ filter (\<lambda>m. nm_date m = d) [m]"
    using tso_insert_stable [OF Cons.prems(1), of "\<lambda>x. nm_date x = d" m] tso_insert_other [of "\<lambda>x. nm_date x = d" m xs]
    by (cases "nm_date m = d") auto
  then show ?case using Cons.IH [OF ok m(2)] by simp
qed

lemma give_all_run:
  "length (tsos q) < n \<Longrightarrow> give_all n t q
    = (Inr (takeWhile (\<lambda>m. ft_le (nm_date m) t) (tsos q)), q\<lparr>tsos := dropWhile (\<lambda>m. ft_le (nm_date m) t) (tsos q)\<rparr>)"
proof (induction n arbitrary: q)
  case 0
  then show ?case by simp
next
  case (Suc n)
  show ?case
  proof (cases "tsos q")
    case Nil
    then show ?thesis by (simp add: bind_run ret_run giveTso_run)
  next
    case (Cons m ms)
    then show ?thesis using Suc.IH [of "q\<lparr>tsos := ms\<rparr>"] Suc.prems by (simp add: bind_run ret_run giveTso_run)
  qed
qed

text \<open>
  C14. Any messages with non-negative dates, received in any order and then asked for up to a time:
  what is delivered and what stays in the queue is together what was received, in the order of the
  dates, and messages of the same date in the order they were received. Everything delivered is not
  later than the time, everything left behind is later.
\<close>

theorem tso_delivery:
  assumes "dates_nonneg ms" "Fin 0 \<le> t"
  shows "\<exists>q out q'. for_each insertTsoMessage ms queues_new = (Inr (), q)
    \<and> give_all (Suc (length ms)) t q = (Inr out, q')
    \<and> mset (out @ tsos q') = mset ms
    \<and> sorted_wrt (\<lambda>a b. \<not> ft_lt (nm_date b) (nm_date a)) (out @ tsos q')
    \<and> (\<forall>d. filter (\<lambda>m. nm_date m = d) (out @ tsos q') = filter (\<lambda>m. nm_date m = d) ms)
    \<and> (\<forall>m \<in> set out. ft_le (nm_date m) t) \<and> (\<forall>m \<in> set (tsos q'). t < nm_date m)"
proof -
  let ?l = "fold tso_insert ms []" and ?p = "\<lambda>m. ft_le (nm_date m) t"
  have e: "sorted_by ft_lt nm_date []" "dates_nonneg []" by (simp_all add: sorted_by_def dates_nonneg_def)
  note ok = insert_all_ok [OF e assms(1)]
  have len: "length ?l = length ms" using ok by (metis add.left_neutral mset.simps(1) size_mset)
  have later: "t < nm_date m" if m: "m \<in> set (dropWhile ?p ?l)" for m
  proof (cases "dropWhile ?p ?l")
    case Nil
    show ?thesis using m unfolding Nil by simp
  next
    case (Cons x xs)
    have app: "?l = takeWhile ?p ?l @ x # xs" using Cons takeWhile_dropWhile_id [of ?p ?l] by simp
    have "sorted_by ft_lt nm_date (takeWhile ?p ?l @ x # xs)" "dates_nonneg (takeWhile ?p ?l @ x # xs)"
      using ok app by simp_all
    then have "sorted_by ft_lt nm_date (x # xs)" "\<forall>y \<in> set (x # xs). Fin 0 \<le> nm_date y"
      by (simp_all add: sorted_by_def sorted_wrt_append dates_nonneg_def)
    moreover have "\<not> ?p x" using hd_dropWhile [of ?p ?l] Cons by simp
    ultimately show ?thesis using ft.sorted_by_above [of nm_date x xs t m] assms(2) m Cons
      by (simp add: ft_le_iff)
  qed
  let ?q = "queues_new\<lparr>tsos := ?l\<rparr>" and ?o = "takeWhile ?p ?l" and ?r = "queues_new\<lparr>tsos := dropWhile ?p ?l\<rparr>"
  have eq: "?o @ tsos ?r = ?l" by simp
  show ?thesis
  proof (intro exI conjI)
    show "for_each insertTsoMessage ms queues_new = (Inr (), ?q)"
      by (simp add: insert_all_run queues_new_def)
    show "give_all (Suc (length ms)) t ?q = (Inr ?o, ?r)"
      using give_all_run [of ?q "Suc (length ms)" t] len by simp
    show "mset (?o @ tsos ?r) = mset ms" unfolding eq using ok by simp
    show "sorted_wrt (\<lambda>a b. \<not> ft_lt (nm_date b) (nm_date a)) (?o @ tsos ?r)"
      unfolding eq using ok by (simp add: sorted_by_def)
    show "\<forall>d. filter (\<lambda>m. nm_date m = d) (?o @ tsos ?r) = filter (\<lambda>m. nm_date m = d) ms"
      unfolding eq using insert_all_stable [OF e assms(1)] by simp
    show "\<forall>m \<in> set ?o. ft_le (nm_date m) t" using set_takeWhileD by fast
    show "\<forall>m \<in> set (tsos ?r). t < nm_date m" using later by simp
  qed
qed

definition demo_message :: "rat \<Rightarrow> network_message" where
  "demo_message t = setDate (Fin t) (new_message RECEIVE_INTERACTION NoBody)"

theorem tso_delivery_witness:
  "\<exists>q out q'. for_each insertTsoMessage [demo_message 3, demo_message 1] queues_new = (Inr (), q)
    \<and> give_all 3 (Fin 2) q = (Inr out, q') \<and> mset (out @ tsos q') = mset [demo_message 3, demo_message 1]"
proof -
  have "dates_nonneg [demo_message 3, demo_message 1]"
    by (simp add: dates_nonneg_def demo_message_def setDate_def)
  then show ?thesis
    using tso_delivery [of "[demo_message 3, demo_message 1]" "Fin 2"] by (simp add: numeral_3_eq_3) blast
qed

section \<open>The lower bound on time stamps\<close>

text \<open>The calls that the owner of an \<open>LBTS\<close> makes, with times that are not negative.\<close>

inductive lbts_reachable :: "federate_handle \<Rightarrow> lbts \<Rightarrow> bool" for me :: federate_handle where
  start: "lbts_reachable me (lbts_setFederate me lbts_new)"
| insert: "lbts_reachable me l \<Longrightarrow> Fin 0 \<le> t \<Longrightarrow> lbts_reachable me (snd (lbts_insert h t l))"
| update: "lbts_reachable me l \<Longrightarrow> Fin 0 \<le> t \<Longrightarrow> lbts_reachable me (snd (lbts_update h t l))"
| remove: "lbts_reachable me l \<Longrightarrow> lbts_reachable me (snd (lbts_remove h l))"
| reset: "lbts_reachable me l \<Longrightarrow> lbts_reachable me (lbts_resetAnonymousUpdate l)"

lemma lbts_reachable_inv: "lbts_reachable me l \<Longrightarrow> lbts_ok l \<and> nonneg_clocks l \<and> lbts_me l = me"
proof (induction rule: lbts_reachable.induct)
  case start
  then show ?case
    by (simp add: lbts_ok_def lbts_setFederate_def lbts_new_def others_def running_min_def nonneg_clocks_def)
next
  case (insert l t h)
  have "nonneg_clocks (snd (lbts_insert h t l))" using insert by (simp add: lbts_insert_run Let_def nonneg_put)
  moreover have "lbts_me (snd (lbts_insert h t l)) = lbts_me l" by (simp add: lbts_insert_run Let_def)
  ultimately show ?case using insert lbts_insert_ok [of h t] by (simp add: keeps_def)
next
  case (update l t h)
  then show ?case using lbts_update_ok [of h t] lbts_update_nonneg [of l t h] lbts_update_me [of h t l]
    by (simp add: keeps_def)
next
  case (remove l h)
  have "nonneg_clocks (snd (lbts_remove h l))" "lbts_me (snd (lbts_remove h l)) = lbts_me l"
    using remove by (auto simp: lbts_remove_run Let_def nonneg_clocks_def om_erase_def)
  then show ?case using remove lbts_remove_ok [of h] by (simp add: keeps_def)
next
  case (reset l)
  then show ?case by (simp add: lbts_resetAnonymousUpdate_def lbts_ok_def nonneg_clocks_def others_def)
qed

text \<open>
  C24. Whatever calls are made, the value of the \<open>LBTS\<close> is the clock of a regulating federate other
  than the own one, or infinite, and no clock of another federate is below it.
\<close>

theorem lbts_is_lower_bound:
  assumes "lbts_reachable me l"
  shows "(lbts_value l = PInf \<or> (\<exists>h. h \<noteq> me \<and> map_of (lbts_clocks l) h = Some (lbts_value l)))
    \<and> (\<forall>h t. h \<noteq> me \<longrightarrow> map_of (lbts_clocks l) h = Some t \<longrightarrow> \<not> ft_lt t (lbts_value l))"
  using lbts_reachable_inv [OF assms] lbts_value_attained [of l] lbts_value_lower [of l] by blast

lemma one_neq_two: "(2 :: federate_handle) \<noteq> 1"
  by simp

theorem lbts_is_lower_bound_witness:
  "\<not> ft_lt (Fin 4) (lbts_value (snd (lbts_insert 2 (Fin 4) (lbts_setFederate 1 lbts_new))))"
proof -
  let ?l = "snd (lbts_insert 2 (Fin 4) (lbts_setFederate 1 lbts_new))"
  have r: "lbts_reachable 1 ?l" by (intro lbts_reachable.intros) simp
  have "map_of (lbts_clocks ?l) 2 = Some (Fin 4)"
    by (simp add: lbts_insert_run Let_def lbts_setFederate_def lbts_new_def lbts_exists_def)
  then show ?thesis using lbts_is_lower_bound [OF r] one_neq_two by blast
qed

section \<open>Handles\<close>

text \<open>
  The handles that a generator provides are all different, increasing and not below its initial
  value; it fails only when the greatest handle has been reached, and then leaves its state alone.
\<close>

theorem handles_unique:
  assumes "hm_ok init m" "provide_many n m = (Inr hs, m')"
  shows "length hs = n \<and> distinct hs \<and> sorted_wrt (<) hs \<and> (\<forall>h \<in> set hs. init \<le> h)
    \<and> provide m' = (if highest m' = - 1 then (Inl RTIinternalError, m') else (Inr (highest m'), m'\<lparr>highest := highest m' + 1\<rparr>))
    \<and> highest m' \<notin> set hs"
proof -
  note p = provide_many_ok [OF assms]
  have "init \<le> highest m" using assms(1) by (simp add: hm_ok_def)
  moreover have "available m' = []" "maximum m' = - 1" using p by (simp_all add: hm_ok_def)
  ultimately show ?thesis using p by (auto simp: provide_run strict_sorted_iff)
qed

theorem handles_unique_witness:
  "\<exists>m'. provide_many 3 (handle_manager_new 1) = (Inr [1, 2, 3], m') \<and> highest m' \<notin> set [1, 2, 3]"
proof -
  have "provide_many 3 (handle_manager_new 1) = (Inr [1, 2, 3], (handle_manager_new 1)\<lparr>highest := 4\<rparr>)"
    by (simp add: numeral_3_eq_3 act_simps provide_run handle_manager_new_def)
  then show ?thesis using handles_unique [OF hm_ok_new] by blast
qed

end
