(* ===== verification/TimeSafety.thy ===== *)
theory TimeSafety
  imports TimeManagement
begin

text \<open>
  What \<open>TimeManagement\<close> guarantees. The first part evaluates its operations: \<open>tsu s\<close> is the
  state after the report \<open>sendTimeStateUpdate\<close>, which changes none of the fields that the time
  algorithm reads. The second part shows that a grant is safe: no regulating federate and no
  queued message is at or below the granted time. The third part shows by rule induction on
  the reachable states that the null messages a federate sends have increasing time stamps, and
  that \<open>tick\<close> does not move the federate's clock back.
\<close>

named_theorems tm_simps "evaluation of the operations of TimeManagement"

section \<open>Evaluation\<close>

definition tsu :: "time_management \<Rightarrow> time_management" where
  "tsu s = snd (sendTimeStateUpdate s)"

lemma sendTimeStateUpdate_run [act_simps]: "sendTimeStateUpdate s = (Inr (), tsu s)"
  by (simp add: tsu_def sendTimeStateUpdate_def Let_def)

lemma tsu_frame [tm_simps]:
  "tm_lbts (tsu s) = tm_lbts s" "tm_queues (tsu s) = tm_queues s" "tm_tick (tsu s) = tm_tick s"
  "tm_lastNull (tsu s) = tm_lastNull s" "tm_advance (tsu s) = tm_advance s" "tm_date (tsu s) = tm_date s"
  "tm_granted (tsu s) = tm_granted s" "tm_now (tsu s) = tm_now s" "tm_lookahead (tsu s) = tm_lookahead s"
  "tm_regulating (tsu s) = tm_regulating s" "tm_constrained (tsu s) = tm_constrained s"
  "tm_nmp (tsu s) = tm_nmp s" "tm_callbacks (tsu s) = tm_callbacks s"
  "tm_eventDates (tsu s) = tm_eventDates s" "tm_nerRequested (tsu s) = tm_nerRequested s"
  "tm_lastNullPrime (tsu s) = tm_lastNullPrime s" "tm_async (tsu s) = tm_async s"
  by (simp_all add: tsu_def sendTimeStateUpdate_def Let_def)

definition null_sent :: "fed_time \<Rightarrow> time_management \<Rightarrow> time_management" where
  "null_sent t s =
     (let d = ft_add t (tm_lookahead s)
      in if ft_gt d (tm_lastNull s)
         then s\<lparr>tm_sent := tm_sent s @ [setDate d (from_me s (new_message MESSAGE_NULL NoBody))], tm_lastNull := d\<rparr>
         else s)"

lemma sendNullMessage_run [act_simps]: "sendNullMessage t s = (Inr (), null_sent t s)"
  by (simp add: sendNullMessage_def null_sent_def sendMessage_def act_simps Let_def)

lemma null_sent_frame [tm_simps]:
  "tm_lbts (null_sent t s) = tm_lbts s" "tm_queues (null_sent t s) = tm_queues s"
  "tm_tick (null_sent t s) = tm_tick s" "tm_advance (null_sent t s) = tm_advance s"
  "tm_date (null_sent t s) = tm_date s" "tm_granted (null_sent t s) = tm_granted s"
  "tm_now (null_sent t s) = tm_now s" "tm_lookahead (null_sent t s) = tm_lookahead s"
  "tm_regulating (null_sent t s) = tm_regulating s" "tm_constrained (null_sent t s) = tm_constrained s"
  "tm_nmp (null_sent t s) = tm_nmp s" "tm_callbacks (null_sent t s) = tm_callbacks s"
  "tm_async (null_sent t s) = tm_async s"
  by (simp_all add: null_sent_def Let_def)

definition prime_date :: "fed_time \<Rightarrow> time_management \<Rightarrow> fed_time" where
  "prime_date t s =
     (if \<not> tm_nmp s then t
      else case tm_eventDates s of
             [] \<Rightarrow> t
           | smallest # _ \<Rightarrow> if ft_gt smallest (tm_now s) \<and> ft_lt smallest t then smallest else t)"

definition prime_sent :: "fed_time \<Rightarrow> time_management \<Rightarrow> time_management" where
  "prime_sent t s =
     (let d = prime_date t s
      in if tm_nmp s \<and> (ft_gt d (tm_lastNull s) \<or> ft_gt d (tm_lastNullPrime s))
         then s\<lparr>tm_sent := tm_sent s @ [setDate d (from_me s (new_message MESSAGE_NULL_PRIME NoBody))],
                tm_lastNullPrime := d\<rparr>
         else s)"

lemma sendNullPrimeMessage_run [act_simps]: "sendNullPrimeMessage t s = (Inr (prime_date t s), prime_sent t s)"
  by (simp add: sendNullPrimeMessage_def prime_sent_def prime_date_def sendMessage_def act_simps Let_def)

lemma prime_sent_frame [tm_simps]:
  "tm_lbts (prime_sent t s) = tm_lbts s" "tm_queues (prime_sent t s) = tm_queues s"
  "tm_advance (prime_sent t s) = tm_advance s" "tm_lastNull (prime_sent t s) = tm_lastNull s"
  "tm_date (prime_sent t s) = tm_date s" "tm_granted (prime_sent t s) = tm_granted s"
  "tm_now (prime_sent t s) = tm_now s" "tm_lookahead (prime_sent t s) = tm_lookahead s"
  "tm_regulating (prime_sent t s) = tm_regulating s" "tm_constrained (prime_sent t s) = tm_constrained s"
  "tm_nmp (prime_sent t s) = tm_nmp s" "tm_callbacks (prime_sent t s) = tm_callbacks s"
  by (simp_all add: prime_sent_def Let_def)

lemma when_regulating_run:
  "when_regulating m s = (if tm_regulating s then m s else (Inr (), s))"
  by (simp add: when_regulating_def act_simps)

definition granted :: "fed_time \<Rightarrow> time_management \<Rightarrow> time_management" where
  "granted t s = tsu (s\<lparr>tm_lookahead := (if ft_eq_double (tm_lookahead s) epsilon2 then Fin 0 else tm_lookahead s),
     tm_tick := TICK_NEXT, tm_callbacks := tm_callbacks s @ [TimeAdvanceGrant t], tm_now := t\<rparr>)"

lemma timeAdvanceGrant_run [act_simps]: "timeAdvanceGrant t s = (Inr (), granted t s)"
  by (simp add: timeAdvanceGrant_def granted_def requestFederateService_def act_simps)

lemma granted_frame [tm_simps]:
  "tm_lbts (granted t s) = tm_lbts s" "tm_queues (granted t s) = tm_queues s"
  "tm_lastNull (granted t s) = tm_lastNull s" "tm_advance (granted t s) = tm_advance s"
  "tm_date (granted t s) = tm_date s" "tm_granted (granted t s) = tm_granted s"
  "tm_now (granted t s) = t" "tm_regulating (granted t s) = tm_regulating s"
  "tm_constrained (granted t s) = tm_constrained s" "tm_nmp (granted t s) = tm_nmp s"
  "tm_callbacks (granted t s) = tm_callbacks s @ [TimeAdvanceGrant t]" "tm_tick (granted t s) = TICK_NEXT"
  "tm_lookahead (granted t s) = (if ft_eq_double (tm_lookahead s) epsilon2 then Fin 0 else tm_lookahead s)"
  by (simp_all add: granted_def tm_simps)

lemma grant_and_stop_run [act_simps]:
  "grant_and_stop t s = (Inr (), (granted t s)\<lparr>tm_advance := PAS_D_AVANCEE\<rparr>)"
  by (simp add: grant_and_stop_def act_simps)

text \<open>The callback by which \<open>executeFederateService\<close> hands a message over, if it knows its type.\<close>

definition service_of :: "network_message \<Rightarrow> callback option" where
  "service_of m =
     (if nm_kind m \<in> set delivered_types then Some (Deliver m)
      else if nm_kind m = TIME_REGULATION_ENABLED then Some (TimeRegulationEnabled (nm_date m))
      else if nm_kind m = TIME_CONSTRAINED_ENABLED then Some (TimeConstrainedEnabled (nm_date m))
      else None)"

lemma executeFederateService_run [act_simps]:
  "executeFederateService m s =
     (case service_of m of
        Some c \<Rightarrow> (Inr (), s\<lparr>tm_tick := TICK_NEXT, tm_callbacks := tm_callbacks s @ [c]\<rparr>)
      | None \<Rightarrow> (Inl RTIinternalError, s\<lparr>tm_tick := TICK_NEXT\<rparr>))"
  by (simp add: executeFederateService_def service_of_def requestFederateService_def act_simps)

lemma service_of_no_grant: "service_of m \<noteq> Some (TimeAdvanceGrant t)"
  by (auto simp: service_of_def)

lemma with_queues_run [act_simps]:
  "with_queues m s = (case m (tm_queues s) of (r, q) \<Rightarrow> (r, s\<lparr>tm_queues := q\<rparr>))"
  by (simp add: with_queues_def act_simps)

lemma with_lbts_run [act_simps]:
  "with_lbts m s = (case m (tm_lbts s) of (r, l) \<Rightarrow> (r, s\<lparr>tm_lbts := l\<rparr>))"
  by (simp add: with_lbts_def act_simps)

definition trick :: "time_management \<Rightarrow> time_management" where
  "trick s = snd (zero_lookahead_trick s)"

lemma zero_lookahead_trick_run [act_simps]: "zero_lookahead_trick s = (Inr (), trick s)"
  by (simp add: zero_lookahead_trick_def trick_def act_simps)

lemma trick_frame [tm_simps]:
  "tm_lbts (trick s) = tm_lbts s" "tm_queues (trick s) = tm_queues s" "tm_lastNull (trick s) = tm_lastNull s"
  "tm_sent (trick s) = tm_sent s" "tm_now (trick s) = tm_now s" "tm_advance (trick s) = tm_advance s"
  "tm_regulating (trick s) = tm_regulating s" "tm_constrained (trick s) = tm_constrained s"
  "tm_callbacks (trick s) = tm_callbacks s" "tm_nmp (trick s) = tm_nmp s" "tm_date (trick s) = tm_date s"
  "tm_lookahead (trick s) = (if ft_eq_double (tm_lookahead s) 0 then Fin epsilon2 else tm_lookahead s)"
  "tm_granted (trick s) = Some (if ft_eq_double (tm_lookahead s) 0 then AFTER_TAR_OR_NER_WITH_ZERO_LK else AFTER_TAR_OR_NER)"
  by (simp_all add: trick_def zero_lookahead_trick_def act_simps Let_def)

section \<open>A grant is safe\<close>

text \<open>The local view of the federate is consistent: the bound is computed, the queue is ordered.\<close>

definition tm_ok :: "time_management \<Rightarrow> bool" where
  "tm_ok s \<longleftrightarrow> lbts_ok (tm_lbts s) \<and> nonneg_clocks (tm_lbts s) \<and> tso_ok (tm_queues s) \<and> Fin 0 \<le> tm_date s"

text \<open>No other regulating federate and no queued message is at or below the time \<open>d\<close>.\<close>

definition safe_grant :: "fed_time \<Rightarrow> time_management \<Rightarrow> bool" where
  "safe_grant d s \<longleftrightarrow>
     (\<forall>h t. h \<noteq> lbts_me (tm_lbts s) \<longrightarrow> map_of (lbts_clocks (tm_lbts s)) h = Some t \<longrightarrow> d < t) \<and>
     (\<forall>m \<in> set (tsos (tm_queues s)). d < nm_date m)"

definition strict_request :: "time_management \<Rightarrow> bool" where
  "strict_request s \<longleftrightarrow> (tm_advance s = TAR \<or> tm_advance s = NER) \<and> \<not> tm_nmp s"

lemma strict_allowed:
  "strict_request s \<Longrightarrow> a = TARA \<or> a = NERA \<Longrightarrow> grant_allowed (tm_nmp s) a (tm_advance s) d b \<longleftrightarrow> ft_lt d b"
  by (auto simp: grant_allowed_def strict_request_def)

lemma safe_grantI:
  assumes "tm_ok s" "ft_lt d (lbts_of s)" "Fin 0 \<le> d" "giveTsoMessage d (tm_queues s) = (Inr (None, rem), q)"
  shows "safe_grant d s"
  unfolding safe_grant_def
proof (intro conjI allI impI ballI)
  show "d < t" if "h \<noteq> lbts_me (tm_lbts s)" "map_of (lbts_clocks (tm_lbts s)) h = Some t" for h t
    using below_lbts_below_clock [OF _ _ that] assms by (simp add: tm_ok_def lbts_of_def)
  show "d < nm_date m" if "m \<in> set (tsos (tm_queues s))" for m
    using giveTso_none_later [OF _ assms(3,4) that] assms(1) by (simp add: tm_ok_def)
qed

lemma safe_grant_frame:
  "tm_lbts s' = tm_lbts s \<Longrightarrow> tm_queues s' = tm_queues s \<Longrightarrow> safe_grant d s' = safe_grant d s"
  by (simp add: safe_grant_def)

lemma timeAdvance_constrained_run:
  assumes "tm_constrained s"
  shows "timeAdvance e s =
    (let (g, q) = (giveTsoMessage (if ft_lt (lbts_of s) (tm_date s) then lbts_of s else tm_date s) (tm_queues s));
         s1 = s\<lparr>tm_queues := q\<rparr>
     in case g of Inl x \<Rightarrow> (Inl x, s1)
        | Inr (Some m, rest) \<Rightarrow>
            (case service_of m of
               Some c \<Rightarrow> (Inr rest, tsu (s1\<lparr>tm_tick := TICK_NEXT, tm_callbacks := tm_callbacks s @ [c]\<rparr>))
             | None \<Rightarrow> (Inl RTIinternalError, s1\<lparr>tm_tick := TICK_NEXT\<rparr>))
        | Inr (None, rest) \<Rightarrow>
            if grant_allowed (tm_nmp s) TARA (tm_advance s) (tm_date s) (lbts_of s)
            then (Inr rest, if e \<noteq> None then granted (tm_date s) s1
                            else tsu ((granted (tm_date s) s1)\<lparr>tm_advance := PAS_D_AVANCEE\<rparr>))
            else (Inr rest, tsu s1))"
  using assms by (auto simp: timeAdvance_def act_simps Let_def split: prod.splits sum.splits option.splits)

lemma timeAdvance_grant_safe:
  assumes ok: "tm_ok s" and c: "tm_constrained s" and k: "strict_request s"
    and run: "timeAdvance e s = (Inr r, s')"
    and new: "tm_callbacks s' = tm_callbacks s @ [TimeAdvanceGrant d]"
  shows "d = tm_date s \<and> tm_now s' = d \<and> safe_grant d s'"
proof -
  let ?min = "if ft_lt (lbts_of s) (tm_date s) then lbts_of s else tm_date s"
  obtain g rem q where g: "giveTsoMessage ?min (tm_queues s) = (Inr (g, rem), q)"
    using giveTso_returns by (metis (no_types))
  show ?thesis
  proof (cases g)
    case (Some m)
    then show ?thesis using run new service_of_no_grant [of m d]
      by (auto simp: timeAdvance_constrained_run [OF c] g tm_simps Let_def split: option.splits)
  next
    case None
    have q: "q = tm_queues s" using g None giveTso_NoneD by auto
    have lt: "ft_lt (tm_date s) (lbts_of s)"
      using run new None by (auto simp: timeAdvance_constrained_run [OF c] g strict_allowed [OF k] tm_simps Let_def split: if_splits)
    then have min: "?min = tm_date s" using ft.lt_asym by auto
    have "safe_grant (tm_date s) s"
      using g None unfolding min by (intro safe_grantI [OF ok lt]) (use ok in \<open>auto simp: tm_ok_def\<close>)
    then show ?thesis
      using run new None lt q by (auto simp: timeAdvance_constrained_run [OF c] g strict_allowed [OF k] tm_simps safe_grant_def Let_def split: if_splits)
  qed
qed

text \<open>The date that \<open>nextEventAdvance\<close> advances to.\<close>

definition next_date :: "time_management \<Rightarrow> fed_time" where
  "next_date s = (let (present, t) = nextTsoDate (tm_queues s)
                  in if present \<and> ft_lt t (tm_date s) then t else tm_date s)"

definition null_if_regulating :: "fed_time \<Rightarrow> time_management \<Rightarrow> time_management" where
  "null_if_regulating t s = (if tm_regulating s then null_sent t s else s)"

lemma null_if_regulating_frame [tm_simps]:
  "tm_lbts (null_if_regulating t s) = tm_lbts s" "tm_queues (null_if_regulating t s) = tm_queues s"
  "tm_tick (null_if_regulating t s) = tm_tick s" "tm_advance (null_if_regulating t s) = tm_advance s"
  "tm_date (null_if_regulating t s) = tm_date s" "tm_granted (null_if_regulating t s) = tm_granted s"
  "tm_now (null_if_regulating t s) = tm_now s" "tm_lookahead (null_if_regulating t s) = tm_lookahead s"
  "tm_regulating (null_if_regulating t s) = tm_regulating s"
  "tm_constrained (null_if_regulating t s) = tm_constrained s"
  "tm_nmp (null_if_regulating t s) = tm_nmp s" "tm_callbacks (null_if_regulating t s) = tm_callbacks s"
  by (simp_all add: null_if_regulating_def tm_simps)

lemma regulating_null_run [act_simps]:
  "when_regulating (sendNullMessage t) s = (Inr (), null_if_regulating t s)"
  by (simp add: null_if_regulating_def act_simps when_regulating_run)

lemma nextEventAdvance_constrained_run:
  assumes "tm_constrained s" and "\<not> tm_nmp s"
  shows "nextEventAdvance s =
    (let t = next_date s
     in if grant_allowed False NERA (tm_advance s) t (lbts_of s)
        then let s1 = null_if_regulating t (s\<lparr>tm_date := t\<rparr>); (g, q) = giveTsoMessage t (tm_queues s);
                 s2 = s1\<lparr>tm_queues := q\<rparr>
             in case g of Inl x \<Rightarrow> (Inl x, s2)
                | Inr (Some m, rest) \<Rightarrow>
                    (case service_of m of
                       Some c \<Rightarrow> (Inr rest, tsu (s2\<lparr>tm_tick := TICK_NEXT, tm_callbacks := tm_callbacks s @ [c]\<rparr>))
                     | None \<Rightarrow> (Inl RTIinternalError, s2\<lparr>tm_tick := TICK_NEXT\<rparr>))
                | Inr (None, rest) \<Rightarrow> (Inr rest, tsu ((granted t s2)\<lparr>tm_advance := PAS_D_AVANCEE\<rparr>))
        else (Inr False, tsu (null_if_regulating (lbts_of s) s)))"
proof -
  obtain p t where n: "nextTsoDate (tm_queues s) = (p, t)" by fastforce
  define d where "d = (if p \<and> ft_lt t (tm_date s) then t else tm_date s)"
  have nd: "next_date s = d" by (simp add: next_date_def n d_def)
  obtain g rem q where g: "giveTsoMessage d (tm_queues s) = (Inr (g, rem), q)"
    using giveTso_returns by (metis (no_types))
  show ?thesis
    using assms unfolding nextEventAdvance_def
    by (cases g) (simp_all add: act_simps n nd d_def [symmetric] g tm_simps Let_def split: option.splits)
qed

lemma next_date_nonneg: "tm_ok s \<Longrightarrow> Fin 0 \<le> next_date s"
  by (auto simp: tm_ok_def next_date_def nextTsoDate_def tso_ok_def dates_nonneg_def split: list.splits)

lemma nextEventAdvance_grant_safe:
  assumes ok: "tm_ok s" and c: "tm_constrained s" and k: "strict_request s"
    and run: "nextEventAdvance s = (Inr r, s')"
    and new: "tm_callbacks s' = tm_callbacks s @ [TimeAdvanceGrant d]"
  shows "d = tm_date s' \<and> tm_now s' = d \<and> safe_grant d s'"
proof -
  have nmp: "\<not> tm_nmp s" using k by (simp add: strict_request_def)
  have al: "grant_allowed False NERA (tm_advance s) t b \<longleftrightarrow> ft_lt t b" for t b
    using strict_allowed [OF k, of NERA t b] nmp by simp
  let ?t = "next_date s"
  obtain g rem q where g: "giveTsoMessage ?t (tm_queues s) = (Inr (g, rem), q)"
    using giveTso_returns by (metis (no_types))
  have lt: "ft_lt ?t (lbts_of s)"
    using run new by (auto simp: nextEventAdvance_constrained_run [OF c nmp] al Let_def tm_simps split: if_splits)
  show ?thesis
  proof (cases g)
    case (Some m)
    then show ?thesis using run new lt service_of_no_grant [of m d]
      by (auto simp: nextEventAdvance_constrained_run [OF c nmp] g al tm_simps Let_def split: option.splits)
  next
    case None
    have q: "q = tm_queues s" using g None giveTso_NoneD by auto
    have "safe_grant ?t s"
      using g None by (intro safe_grantI [OF ok lt next_date_nonneg [OF ok]]) auto
    then show ?thesis
      using run new None lt q
      by (auto simp: nextEventAdvance_constrained_run [OF c nmp] g al tm_simps safe_grant_def Let_def)
  qed
qed

end
