(* ===== verification/TimeInvariants.thy ===== *)
theory TimeInvariants
  imports TimeSafety
begin

text \<open>
  Invariants of \<open>TimeManagement\<close> over the operations its clients call: the step relation
  \<open>tm_step\<close>, the null messages of a reachable state, the promise they make to the other
  federates, and \<open>tick\<close> as a whole.
\<close>

section \<open>tick\<close>

lemma tick_message_run:
  "\<exists>msg rest q. tick_message s = (Inr (msg, rest), s\<lparr>tm_queues := q\<rparr>) \<and> tsos q = tsos (tm_queues s)
     \<and> (msg = None \<longrightarrow> q = tm_queues s)"
proof (cases "commands (tm_queues s)")
  case (Cons m ms)
  then have "tick_message s = (Inr (Some m, ms \<noteq> []), s\<lparr>tm_queues := (tm_queues s)\<lparr>commands := ms\<rparr>\<rparr>)"
    by (simp add: tick_message_def giveCommandMessage_def act_simps)
  then show ?thesis by (intro exI conjI) (assumption | simp)+
next
  case Nil
  show ?thesis
  proof (cases "fifos (tm_queues s)")
    case (Cons m ms)
    let ?q = "(tm_queues s)\<lparr>fifos := ms\<rparr>"
    show ?thesis
    proof (cases "tm_async s \<or> tm_advance s \<noteq> PAS_D_AVANCEE \<or> \<not> tm_constrained s")
      case True
      then have "tick_message s = (Inr (Some m, ms \<noteq> []), s\<lparr>tm_queues := ?q\<rparr>)"
        using Nil Cons by (auto simp: tick_message_def giveCommandMessage_def giveFifoMessage_def act_simps)
      then show ?thesis by (intro exI conjI) (assumption | simp)+
    qed (use Nil in \<open>auto simp: tick_message_def giveCommandMessage_def act_simps intro!: exI [of _ "tm_queues s"]\<close>)
  qed (use Nil in \<open>auto simp: tick_message_def giveCommandMessage_def giveFifoMessage_def act_simps
          intro!: exI [of _ "tm_queues s"]\<close>)
qed

lemma advance_run:
  "advance e rest s =
     (if tm_advance s = TAR \<or> tm_advance s = TARA then timeAdvance e s
      else if tm_advance s = NER \<or> tm_advance s = NERA then nextEventAdvance s
      else (Inr rest, s))"
  by (cases "tm_advance s") (simp_all add: advance_def act_simps)

text \<open>Either a queued command or receive-ordered message is delivered, or \<open>advance\<close> runs.\<close>

lemma tick_cases:
  obtains (message) m rest q where "tick_message s = (Inr (Some m, rest), s\<lparr>tm_queues := q\<rparr>)"
      "tsos q = tsos (tm_queues s)"
      "tick e s = (case service_of m of
         Some c \<Rightarrow> (Inr rest, tsu (s\<lparr>tm_queues := q, tm_tick := TICK_NEXT, tm_callbacks := tm_callbacks s @ [c]\<rparr>))
       | None \<Rightarrow> (Inl RTIinternalError, s\<lparr>tm_queues := q, tm_tick := TICK_NEXT\<rparr>))"
  | (advance) rest where "tick_message s = (Inr (None, rest), s)"
      "tick e s = (case advance e rest s of (Inl x, t) \<Rightarrow> (Inl x, t) | (Inr r, t) \<Rightarrow> (Inr r, tsu t))"
proof -
  obtain msg rest q where t: "tick_message s = (Inr (msg, rest), s\<lparr>tm_queues := q\<rparr>)"
    "tsos q = tsos (tm_queues s)" "msg = None \<longrightarrow> q = tm_queues s"
    using tick_message_run by blast
  show ?thesis
  proof (cases msg)
    case None
    then have "tick_message s = (Inr (None, rest), s)" using t by simp
    then show ?thesis
      by (rule advance) (simp add: tick_def act_simps \<open>tick_message s = (Inr (None, rest), s)\<close> split: prod.split sum.split)
  next
    case (Some m)
    show ?thesis
      by (rule message [of m rest q]) (simp_all add: t Some tick_def act_simps split: option.split)
  qed
qed

text \<open>One \<open>tick\<close> makes at most one callback.\<close>

lemma timeAdvance_one_callback:
  "\<exists>cs. tm_callbacks (snd (timeAdvance e s)) = tm_callbacks s @ cs \<and> length cs \<le> 1"
proof (cases "tm_constrained s")
  case True
  obtain g rem q where g: "giveTsoMessage (if ft_lt (lbts_of s) (tm_date s) then lbts_of s else tm_date s) (tm_queues s) = (Inr (g, rem), q)"
    using giveTso_returns by (metis (no_types))
  then show ?thesis
    by (cases g) (simp_all add: timeAdvance_constrained_run [OF True] Let_def tm_simps split: option.splits)
next
  case False
  then show ?thesis by (auto simp: timeAdvance_def act_simps tm_simps)
qed

lemma echo_frame:
  "\<exists>s'. echo_null_prime s = (Inr (), s') \<and> tm_callbacks s' = tm_callbacks s \<and> tm_now s' = tm_now s \<and> tm_queues s' = tm_queues s
     \<and> tm_date s' = tm_date s \<and> tm_advance s' = tm_advance s \<and> tm_constrained s' = tm_constrained s
     \<and> tm_lastNull s' = tm_lastNull s"
  by (simp add: echo_null_prime_def act_simps tm_simps Let_def)

text \<open>What \<open>nextEventAdvance\<close> does to the fields of the clock, under both protocols.\<close>

inductive next_event_outcome :: "time_management \<Rightarrow> time_management \<Rightarrow> bool" where
  wait: "tm_callbacks s' = tm_callbacks s \<Longrightarrow> tm_now s' = tm_now s \<Longrightarrow> tm_queues s' = tm_queues s \<Longrightarrow>
    tm_date s' = tm_date s \<Longrightarrow> tm_advance s' = tm_advance s \<Longrightarrow> tm_constrained s' = tm_constrained s \<Longrightarrow>
    next_event_outcome s s'"
| deliver: "giveTsoMessage (next_date s) (tm_queues s) = (Inr (Some m, rem), tm_queues s') \<Longrightarrow>
    tm_callbacks s' = tm_callbacks s @ cs \<Longrightarrow> length cs \<le> 1 \<Longrightarrow> tm_now s' = tm_now s \<Longrightarrow>
    tm_date s' = next_date s \<Longrightarrow> tm_advance s' = tm_advance s \<Longrightarrow> tm_constrained s' = tm_constrained s \<Longrightarrow>
    next_event_outcome s s'"
| grant: "giveTsoMessage (next_date s) (tm_queues s) = (Inr (None, rem), tm_queues s') \<Longrightarrow>
    tm_callbacks s' = tm_callbacks s @ [TimeAdvanceGrant (next_date s)] \<Longrightarrow> tm_now s' = next_date s \<Longrightarrow>
    tm_date s' = next_date s \<Longrightarrow> tm_advance s' = PAS_D_AVANCEE \<Longrightarrow> tm_constrained s' = tm_constrained s \<Longrightarrow>
    next_event_outcome s s'"

lemma nextEventAdvance_outcome:
  assumes c: "tm_constrained s"
  shows "next_event_outcome s (snd (nextEventAdvance s))"
proof -
  obtain p t where n: "nextTsoDate (tm_queues s) = (p, t)" by fastforce
  define d where "d = (if p \<and> ft_lt t (tm_date s) then t else tm_date s)"
  have nd: "next_date s = d" by (simp add: next_date_def n d_def)
  obtain g rem q where g: "giveTsoMessage d (tm_queues s) = (Inr (g, rem), q)"
    using giveTso_returns by (metis (no_types))
  obtain s' where e: "echo_null_prime s = (Inr (), s')" "tm_callbacks s' = tm_callbacks s" "tm_now s' = tm_now s"
    "tm_queues s' = tm_queues s" "tm_date s' = tm_date s" "tm_advance s' = tm_advance s" "tm_constrained s' = tm_constrained s"
    using echo_frame by blast
  show ?thesis
  proof (cases "grant_allowed (tm_nmp s) NERA (tm_advance s) d (lbts_of s)")
    case False
    then show ?thesis
      by (intro next_event_outcome.wait)
        (use c e in \<open>simp_all add: nextEventAdvance_def act_simps when_regulating_run n d_def [symmetric] tm_simps Let_def\<close>)
  next
    case True
    show ?thesis
    proof (cases g)
      case None
      show ?thesis
        by (rule next_event_outcome.grant [where rem = rem])
          (use c True in \<open>simp_all add: nextEventAdvance_def act_simps n d_def [symmetric] nd g None tm_simps Let_def\<close>)
    next
      case (Some m)
      show ?thesis
        by (rule next_event_outcome.deliver [where m = m and rem = rem and cs = "case service_of m of Some c \<Rightarrow> [c] | None \<Rightarrow> []"])
          (use c True in \<open>simp_all add: nextEventAdvance_def act_simps n d_def [symmetric] nd g Some tm_simps Let_def split: option.split\<close>)
    qed
  qed
qed

lemma nextEventAdvance_free_run:
  "\<not> tm_constrained s \<Longrightarrow> nextEventAdvance s =
     (Inr False, tsu ((granted (tm_date s) (null_if_regulating (tm_date s) s))\<lparr>tm_advance := PAS_D_AVANCEE\<rparr>))"
  by (simp add: nextEventAdvance_def act_simps null_if_regulating_def)

lemma nextEventAdvance_one_callback:
  "\<exists>cs. tm_callbacks (snd (nextEventAdvance s)) = tm_callbacks s @ cs \<and> length cs \<le> 1"
proof (cases "tm_constrained s")
  case True
  show ?thesis using nextEventAdvance_outcome [OF True] by cases auto
next
  case False
  then show ?thesis by (simp add: nextEventAdvance_free_run tm_simps)
qed

lemma tick_one_callback:
  "\<exists>cs. tm_callbacks (snd (tick e s)) = tm_callbacks s @ cs \<and> length cs \<le> 1"
proof (cases rule: tick_cases [of s e])
  case (message m rest q)
  then show ?thesis by (cases "service_of m") (auto simp: tm_simps)
next
  case (advance rest)
  have "\<exists>cs. tm_callbacks (snd (TimeManagement.advance e rest s)) = tm_callbacks s @ cs \<and> length cs \<le> 1"
    using timeAdvance_one_callback [of e s] nextEventAdvance_one_callback [of s] by (auto simp: advance_run)
  then show ?thesis using advance(2) by (auto simp: tm_simps split: prod.splits sum.splits)
qed

lemma singleton_callback:
  "tm_callbacks s @ cs = tm_callbacks s @ cs' \<Longrightarrow> length cs' \<le> 1 \<Longrightarrow> c \<in> set cs \<Longrightarrow> cs = [c]"
  by (cases cs; cases "tl cs") auto

lemma tick_grant_safe_aux:
  assumes ok: "tm_ok s" and c: "tm_constrained s" and k: "strict_request s"
    and run: "tick e s = (Inr r, s')" and new: "tm_callbacks s' = tm_callbacks s @ cs" "TimeAdvanceGrant d \<in> set cs"
  shows "tm_now s' = d \<and> safe_grant d s'"
proof -
  have cs: "cs = [TimeAdvanceGrant d]"
    using tick_one_callback [of e s] run new singleton_callback by (metis snd_conv)
  show ?thesis
  proof (cases rule: tick_cases [of s e])
    case (message m rest q)
    then show ?thesis using run new(1) cs service_of_no_grant [of m d]
      by (auto simp: tm_simps split: option.splits)
  next
    case (advance rest)
    then obtain t where t: "TimeManagement.advance e rest s = (Inr r, t)" "s' = tsu t"
      using run by (auto split: prod.splits sum.splits)
    have new': "tm_callbacks t = tm_callbacks s @ [TimeAdvanceGrant d]" using t new cs by (simp add: tm_simps)
    consider (ta) "timeAdvance e s = (Inr r, t)" | (ne) "nextEventAdvance s = (Inr r, t)"
      using t(1) k by (auto simp: advance_run strict_request_def)
    then have "tm_now t = d \<and> safe_grant d t"
    proof cases
      case ta
      show ?thesis using timeAdvance_grant_safe [OF ok c k ta new'] by blast
    next
      case ne
      show ?thesis using nextEventAdvance_grant_safe [OF ok c k ne new'] by blast
    qed
    then show ?thesis using t(2) by (simp add: tm_simps safe_grant_def)
  qed
qed

section \<open>The clock does not go back\<close>

definition clock_ok :: "time_management \<Rightarrow> bool" where
  "clock_ok s \<longleftrightarrow> tso_ok (tm_queues s) \<and> Fin 0 \<le> tm_now s \<and> Fin 0 \<le> tm_date s
     \<and> (tm_advance s \<noteq> PAS_D_AVANCEE \<longrightarrow> \<not> ft_lt (tm_date s) (tm_now s))
     \<and> (tm_constrained s \<longrightarrow> (\<forall>m \<in> set (tsos (tm_queues s)). \<not> ft_lt (nm_date m) (tm_now s)))"

definition clock_step :: "time_management \<Rightarrow> time_management \<Rightarrow> bool" where
  "clock_step s s' \<longleftrightarrow> clock_ok s' \<and> \<not> ft_lt (tm_now s') (tm_now s)"

lemma clock_ok_tsu [simp]: "clock_ok (tsu s) = clock_ok s"
  by (simp add: clock_ok_def tm_simps)

lemma clock_step_tsu [simp]: "clock_step s (tsu s') = clock_step s s'"
  by (simp add: clock_step_def tm_simps)

lemma clock_step_frame:
  assumes "clock_ok s" "tm_now s' = tm_now s" "tsos (tm_queues s') = tsos (tm_queues s)"
    "tm_date s' = tm_date s" "tm_advance s' = tm_advance s \<or> tm_advance s' = PAS_D_AVANCEE"
    "tm_constrained s' = tm_constrained s"
  shows "clock_step s s'"
  using assms by (auto simp: clock_ok_def clock_step_def tso_ok_def ft_lt_irrefl)

lemma not_lt_trans_exact: "Fin 0 \<le> d \<Longrightarrow> d \<le> t \<Longrightarrow> \<not> ft_lt d n \<Longrightarrow> \<not> ft_lt t n"
  using ft.not_lt_mono by blast

lemma clock_step_grant:
  assumes ok: "clock_ok s" and d: "\<not> ft_lt d (tm_now s)" "Fin 0 \<le> d"
    and g: "tm_constrained s \<Longrightarrow> giveTsoMessage d (tm_queues s) = (Inr (None, rem), q)"
    and s': "tm_now s' = d" "tm_queues s' = tm_queues s" "Fin 0 \<le> tm_date s'"
      "tm_advance s' = PAS_D_AVANCEE \<or> tm_date s' = d" "tm_constrained s' = tm_constrained s"
  shows "clock_step s s'"
proof -
  have "\<not> ft_lt (nm_date m) d" if "tm_constrained s" "m \<in> set (tsos (tm_queues s))" for m
    using giveTso_none_later [OF _ d(2) g [OF that(1)] that(2)] ok ft_lt_imp_less [of "nm_date m" d]
    by (auto simp: clock_ok_def)
  then show ?thesis using ok d s' by (auto simp: clock_step_def clock_ok_def ft_lt_irrefl)
qed

lemma clock_step_deliver:
  assumes ok: "clock_ok s" and g: "giveTsoMessage d (tm_queues s) = (Inr (Some m, rem), tm_queues s')"
    and s': "tm_now s' = tm_now s" "\<not> ft_lt (tm_date s') (tm_now s)" "Fin 0 \<le> tm_date s'"
      "tm_constrained s' = tm_constrained s"
  shows "clock_step s s'"
  using ok giveTso_SomeD [OF g] s' giveTso_ok [of "tm_queues s" d] g
  by (auto simp: clock_step_def clock_ok_def ft_lt_irrefl)

lemma timeAdvance_clock:
  assumes ok: "clock_ok s" and a: "tm_advance s \<noteq> PAS_D_AVANCEE"
  shows "clock_step s (snd (timeAdvance e s))"
proof (cases "tm_constrained s")
  case False
  then show ?thesis
    by (intro clock_step_grant [OF ok, of "tm_date s"])
      (use ok a in \<open>auto simp: timeAdvance_def act_simps tm_simps clock_ok_def\<close>)
next
  case True
  let ?min = "if ft_lt (lbts_of s) (tm_date s) then lbts_of s else tm_date s"
  obtain g rem q where g: "giveTsoMessage ?min (tm_queues s) = (Inr (g, rem), q)"
    using giveTso_returns by (metis (no_types))
  show ?thesis
  proof (cases g)
    case (Some m)
    show ?thesis
      by (rule clock_step_deliver [OF ok, of ?min m rem])
        (use ok a g Some in \<open>auto simp: timeAdvance_constrained_run [OF True] Let_def tm_simps clock_ok_def split: option.split\<close>)
  next
    case None
    have q: "q = tm_queues s" using g None giveTso_NoneD by auto
    show ?thesis
    proof (cases "grant_allowed (tm_nmp s) TARA (tm_advance s) (tm_date s) (lbts_of s)")
      case True': True
      then have "\<not> ft_lt (lbts_of s) (tm_date s)"
        by (auto simp: grant_allowed_def ft_le_iff dest: ft.lt_asym split: if_splits)
      then have g': "giveTsoMessage (tm_date s) (tm_queues s) = (Inr (None, rem), q)" using g None by simp
      show ?thesis
        by (rule clock_step_grant [OF ok, of "tm_date s" rem q])
          (use ok a g' g None True' q in \<open>auto simp: timeAdvance_constrained_run [OF True] Let_def tm_simps clock_ok_def\<close>)
    next
      case False
      then show ?thesis
        by (intro clock_step_frame [OF ok])
          (use g None q in \<open>auto simp: timeAdvance_constrained_run [OF True] Let_def tm_simps\<close>)
    qed
  qed
qed

lemma next_date_not_past:
  assumes "clock_ok s" "tm_advance s \<noteq> PAS_D_AVANCEE" "tm_constrained s"
  shows "\<not> ft_lt (next_date s) (tm_now s) \<and> Fin 0 \<le> next_date s"
  using assms by (auto simp: next_date_def nextTsoDate_def clock_ok_def tso_ok_def dates_nonneg_def split: list.splits)

lemma nextEventAdvance_clock:
  assumes ok: "clock_ok s" and a: "tm_advance s \<noteq> PAS_D_AVANCEE"
  shows "clock_step s (snd (nextEventAdvance s))"
proof (cases "tm_constrained s")
  case False
  then show ?thesis
    by (intro clock_step_grant [OF ok, of "tm_date s"])
      (use ok a in \<open>auto simp: nextEventAdvance_free_run tm_simps clock_ok_def\<close>)
next
  case True
  note nd = next_date_not_past [OF ok a True]
  from nextEventAdvance_outcome [OF True] show ?thesis
  proof cases
    case wait
    then show ?thesis by (intro clock_step_frame [OF ok]) auto
  next
    case (deliver m rem cs)
    then show ?thesis using nd by (intro clock_step_deliver [OF ok deliver(1)]) auto
  next
    case (grant rem)
    have "tm_queues (snd (nextEventAdvance s)) = tm_queues s"
      using giveTso_NoneD [OF grant(1)] by simp
    with grant show ?thesis using nd by (intro clock_step_grant [OF ok, of "next_date s" rem "tm_queues s"]) auto
  qed
qed

lemma tick_clock_aux:
  assumes ok: "clock_ok s"
  shows "clock_step s (snd (tick e s))"
proof (cases rule: tick_cases [of s e])
  case (message m rest q)
  then show ?thesis
    by (cases "service_of m") (auto intro!: clock_step_frame [OF ok])
next
  case (advance rest)
  have "clock_step s (snd (TimeManagement.advance e rest s))"
    using timeAdvance_clock [OF ok] nextEventAdvance_clock [OF ok] clock_step_frame [OF ok, of s]
    by (auto simp: advance_run)
  then show ?thesis using advance(2) by (auto split: prod.splits sum.splits)
qed

section \<open>Properties\<close>

text \<open>
  C1. Safety of conservative time management: when one \<open>tick\<close> of a time-constrained federate with
  a pending \<open>timeAdvanceRequest\<close> or \<open>nextEventRequest\<close> (classical null messages) makes a time
  advance grant, the federate's clock is the granted time, every other regulating federate is
  strictly later, and so is every time-stamped message left in the queue.
\<close>

theorem tick_grant_safe:
  assumes "tm_ok s" "tm_constrained s" "strict_request s" "tick e s = (Inr r, s')"
    and "tm_callbacks s' = tm_callbacks s @ cs" "TimeAdvanceGrant d \<in> set cs"
  shows "tm_now s' = d \<and> safe_grant d s'"
  using tick_grant_safe_aux [OF assms] .

definition demo_tso :: "rat \<Rightarrow> network_message" where
  "demo_tso t = setDate (Fin t) (new_message RECEIVE_INTERACTION NoBody)"

definition demo_constrained :: time_management where
  "demo_constrained = (time_management_new False (\<lambda>_. 0))
     \<lparr>tm_constrained := True, tm_advance := TAR, tm_date := Fin 5,
      tm_lbts := \<lparr>lbts_value = Fin 7, lbts_me = 1, lbts_anonymous = False, lbts_last_anonymous = Fin 0,
                  lbts_clocks = [(2, Fin 7), (3, Fin 9)]\<rparr>,
      tm_queues := \<lparr>fifos = [], tsos = [demo_tso 6], commands = []\<rparr>\<rparr>"

lemma demo_constrained_ok:
  "tm_ok demo_constrained" "tm_constrained demo_constrained" "strict_request demo_constrained"
  "clock_ok demo_constrained"
proof -
  have v: "running_min ft_lt [Fin 7, Fin 9] PInf = Fin 7" by code_simp
  have l: "\<not> ft_lt (Fin 5) (Fin 0)" "\<not> ft_lt (Fin 6) (Fin 0)" by code_simp+
  show "tm_ok demo_constrained" "tm_constrained demo_constrained" "strict_request demo_constrained"
    "clock_ok demo_constrained"
    using v l by (auto simp: demo_constrained_def tm_ok_def strict_request_def lbts_ok_def om_ok_def others_def
        nonneg_clocks_def tso_ok_def sorted_by_def dates_nonneg_def time_management_new_def demo_tso_def
        message_defs clock_ok_def)
qed

lemma tick_constrained_run:
  assumes "tm_constrained s" "tm_advance s = TAR" "commands (tm_queues s) = []" "fifos (tm_queues s) = []"
    and "tsos (tm_queues s) = m # ms" "ft_lt (tm_date s) (nm_date m)" "ft_lt (tm_date s) (lbts_of s)" "\<not> tm_nmp s"
  shows "tick None s = (Inr False, tsu (tsu ((granted (tm_date s) s)\<lparr>tm_advance := PAS_D_AVANCEE\<rparr>)))"
proof -
  have q: "s\<lparr>tm_queues := tm_queues s\<rparr> = s" by simp
  have m: "tick_message s = (Inr (None, False), s)"
    using assms q by (simp add: tick_message_def giveCommandMessage_def giveFifoMessage_def act_simps)
  have "giveTsoMessage (tm_date s) (tm_queues s) = (Inr (None, False), tm_queues s)"
    using assms by (simp add: giveTso_run ft_le_iff)
  then show ?thesis
    using assms q ft.lt_asym [OF assms(7)]
    by (simp add: tick_def m act_simps advance_run timeAdvance_constrained_run Let_def grant_allowed_def)
qed

lemma demo_constrained_tick:
  "tick None demo_constrained = (Inr False, snd (tick None demo_constrained))"
  "tm_callbacks (snd (tick None demo_constrained)) = tm_callbacks demo_constrained @ [TimeAdvanceGrant (Fin 5)]"
proof -
  have v: "ft_lt (Fin 5) (Fin 6)" "ft_lt (Fin 5) (Fin 7)" by code_simp+
  have r: "tick None demo_constrained =
      (Inr False, tsu (tsu ((granted (tm_date demo_constrained) demo_constrained)\<lparr>tm_advance := PAS_D_AVANCEE\<rparr>)))"
    by (rule tick_constrained_run [where m = "demo_tso 6" and ms = "[]"])
      (use v in \<open>simp_all add: demo_constrained_def demo_tso_def message_defs time_management_new_def lbts_of_def\<close>)
  have d: "tm_date demo_constrained = Fin 5" by (simp add: demo_constrained_def)
  show "tick None demo_constrained = (Inr False, snd (tick None demo_constrained))"
    "tm_callbacks (snd (tick None demo_constrained)) = tm_callbacks demo_constrained @ [TimeAdvanceGrant (Fin 5)]"
    by (simp_all add: r d tm_simps)
qed

theorem tick_grant_safe_witness:
  "safe_grant (Fin 5) (snd (tick None demo_constrained))"
  using tick_grant_safe [OF demo_constrained_ok(1-3) demo_constrained_tick] by simp



end
