(* ===== verification/NullMessages.thy ===== *)
theory NullMessages
  imports TimeInvariants
begin

text \<open>
  The null messages of \<open>TimeManagement\<close>. The step relation \<open>tm_step\<close> runs any operation of the
  class, or of the base class and the queues on its behalf, with any arguments; its rule
  induction shows that the null messages of a federate carry strictly increasing time stamps.
\<close>

section \<open>Reachable states\<close>

inductive tm_step :: "time_management \<Rightarrow> time_management \<Rightarrow> bool" where
  step_TAR: "tm_step s (snd (timeAdvanceRequest t s))"
| step_TARA: "tm_step s (snd (timeAdvanceRequestAvailable t s))"
| step_NER: "tm_step s (snd (nextEventRequest t s))"
| step_NERA: "tm_step s (snd (nextEventRequestAvailable t s))"
| step_flush: "tm_step s (snd (flushQueueRequest t s))"
| step_tick: "tm_step s (snd (tick e s))"
| step_lookahead: "tm_step s (snd (setLookahead la s))"
| step_constrained: "tm_step s (snd (setTimeConstrained b s))"
| step_regulating: "tm_step s (snd (setTimeRegulating b t la s))"
| step_stop: "tm_step s (snd (StopperAvanceTemps s))"
| step_minTx: "tm_step s (snd (updateMinTxMessageDate t s))"
| step_rate: "tm_step s (snd (setMomUpdateRate r s))"
| step_lbts_insert: "tm_step s (snd (with_lbts (lbts_insert h t) s))"
| step_lbts_update: "tm_step s (snd (with_lbts (lbts_update h t) s))"
| step_lbts_remove: "tm_step s (snd (with_lbts (lbts_remove h) s))"
| step_fifo: "tm_step s (snd (with_queues (insertFifoMessage m) s))"
| step_tso: "tm_step s (snd (with_queues (insertTsoMessage m) s))"
| step_begin_command: "tm_step s (snd (with_queues (insertBeginCommand m) s))"
| step_last_command: "tm_step s (snd (with_queues (insertLastCommand m) s))"

definition tm_reachable :: "time_management \<Rightarrow> time_management \<Rightarrow> bool" where
  "tm_reachable s0 s \<longleftrightarrow> tm_step\<^sup>*\<^sup>* s0 s"

text \<open>The dates of the null messages sent so far.\<close>

definition nulls :: "time_management \<Rightarrow> fed_time list" where
  "nulls s = map nm_date (filter (\<lambda>m. nm_kind m = MESSAGE_NULL) (tm_sent s))"

definition null_ok :: "time_management \<Rightarrow> bool" where
  "null_ok s \<longleftrightarrow> Fin 0 \<le> tm_lastNull s \<and> sorted_wrt ft_lt (nulls s)
     \<and> (\<forall>d \<in> set (nulls s). Fin 0 \<le> d \<and> (d = tm_lastNull s \<or> ft_lt d (tm_lastNull s)))"

lemma null_ok_new: "null_ok (time_management_new nmp clock)"
  by (simp add: null_ok_def nulls_def time_management_new_def)

lemma null_ok_cong: "nulls s' = nulls s \<Longrightarrow> tm_lastNull s' = tm_lastNull s \<Longrightarrow> null_ok s' = null_ok s"
  by (simp add: null_ok_def)

lemma nulls_tsu [tm_simps]: "nulls (tsu s) = nulls s"
  by (simp add: tsu_def sendTimeStateUpdate_def nulls_def time_state_update_def message_defs from_me_def Let_def)

lemma null_ok_tsu [tm_simps]: "null_ok (tsu s) = null_ok s"
  by (rule null_ok_cong) (simp_all add: tm_simps)

lemma nulls_prime [tm_simps]: "nulls (prime_sent t s) = nulls s"
  by (simp add: prime_sent_def nulls_def message_defs from_me_def Let_def)

lemma null_ok_append:
  assumes "null_ok s" "ft_lt (tm_lastNull s) d" "nulls s' = nulls s @ [d]" "tm_lastNull s' = d"
  shows "null_ok s'"
proof -
  have l: "\<forall>x \<in> set (nulls s). Fin 0 \<le> x \<and> ft_lt x d"
    using assms(1,2) ft.lt_trans by (fastforce simp: null_ok_def)
  have "tm_lastNull s < d" "Fin 0 \<le> tm_lastNull s"
    using assms(1) ft_lt_imp_less [OF assms(2)] by (simp_all add: null_ok_def)
  then have "Fin 0 \<le> d" by (meson less_imp_le order_trans)
  then show ?thesis using assms(1,3,4) l by (auto simp: null_ok_def sorted_wrt_append)
qed

lemma null_ok_null_sent:
  assumes "null_ok s"
  shows "null_ok (null_sent t s)"
proof (cases "ft_gt (ft_add t (tm_lookahead s)) (tm_lastNull s)")
  case False
  then show ?thesis using assms by (simp add: null_sent_def Let_def)
next
  case True
  show ?thesis
  proof (rule null_ok_append [OF assms])
    show "ft_lt (tm_lastNull s) (ft_add t (tm_lookahead s))" using True by (simp add: ft_gt_iff)
  qed (use True in \<open>simp_all add: null_sent_def Let_def nulls_def message_defs from_me_def\<close>)
qed

subsection \<open>Every operation keeps it\<close>

lemma null_keeps_modify:
  assumes "\<And>s. nulls (f s) = nulls s \<and> tm_lastNull (f s) = tm_lastNull s"
  shows "keeps null_ok (modify f)"
proof (rule keeps_modify)
  show "null_ok (f s)" if "null_ok s" for s
    using null_ok_cong [of "f s" s] assms [of s] that by simp
qed

lemma keeps_tsu: "keeps null_ok sendTimeStateUpdate"
  by (rule keepsI) (simp add: act_simps tm_simps)

lemma keeps_null: "keeps null_ok (sendNullMessage t)"
  by (rule keepsI) (simp add: act_simps null_ok_null_sent)

lemma keeps_prime: "keeps null_ok (sendNullPrimeMessage t)"
  by (rule keepsI) (simp add: act_simps null_ok_cong [OF nulls_prime prime_sent_frame(4), of t])

lemma keeps_send: "nm_kind m \<noteq> MESSAGE_NULL \<Longrightarrow> keeps null_ok (sendMessage m)"
  unfolding sendMessage_def by (rule null_keeps_modify) (simp add: nulls_def)

lemma keeps_callback: "keeps null_ok (requestFederateService c)"
  unfolding requestFederateService_def by (rule null_keeps_modify) (simp add: nulls_def)

lemma keeps_with_queues: "keeps null_ok (with_queues m)"
  unfolding with_queues_def by (rule keeps_on_field) (simp add: null_ok_def nulls_def)

lemma keeps_with_lbts: "keeps null_ok (with_lbts m)"
  unfolding with_lbts_def by (rule keeps_on_field) (simp add: null_ok_def nulls_def)

lemma keeps_when_regulating: "keeps null_ok m \<Longrightarrow> keeps null_ok (when_regulating m)"
  unfolding when_regulating_def by (intro keeps_intros)

lemmas null_keeps = keeps_tsu keeps_null keeps_prime keeps_send keeps_callback keeps_with_queues
  keeps_with_lbts keeps_when_regulating keeps_intros null_keeps_modify

lemma from_me_kind [simp]: "nm_kind (from_me s m) = nm_kind m"
  by (simp add: from_me_def message_defs)

lemma message_kind [simp]:
  "nm_kind (new_message k b) = k" "nm_kind (setDate d m) = nm_kind m"
  by (simp_all add: message_defs)

lemma keeps_TAR: "keeps null_ok (timeAdvanceRequest t)"
  unfolding timeAdvanceRequest_def zero_lookahead_trick_def
  by (intro null_keeps) (auto simp: nulls_def Let_def)

lemma keeps_TARA: "keeps null_ok (timeAdvanceRequestAvailable t)"
  unfolding timeAdvanceRequestAvailable_def by (intro null_keeps) (auto simp: nulls_def)

lemma keeps_NER: "keeps null_ok (nextEventRequest t)"
  unfolding nextEventRequest_def zero_lookahead_trick_def
  by (intro null_keeps) (auto simp: nulls_def Let_def)

lemma keeps_NERA: "keeps null_ok (nextEventRequestAvailable t)"
  unfolding nextEventRequestAvailable_def by (intro null_keeps) (auto simp: nulls_def)

lemma keeps_flush: "keeps null_ok (flushQueueRequest t)"
  unfolding flushQueueRequest_def Let_def by (intro null_keeps)

lemma keeps_grant: "keeps null_ok (timeAdvanceGrant t)"
  unfolding timeAdvanceGrant_def by (intro null_keeps) (auto simp: nulls_def)

lemma keeps_execute: "keeps null_ok (executeFederateService m)"
  unfolding executeFederateService_def by (intro null_keeps) (auto simp: nulls_def)

lemma keeps_timeAdvance: "keeps null_ok (timeAdvance e)"
  unfolding timeAdvance_def Let_def
  by (intro null_keeps keeps_grant keeps_execute) (auto simp: nulls_def)

lemma keeps_echo: "keeps null_ok echo_null_prime"
  unfolding echo_null_prime_def Let_def by (intro null_keeps) (auto simp: nulls_def)

lemma keeps_nextEventAdvance: "keeps null_ok nextEventAdvance"
  unfolding nextEventAdvance_def grant_and_stop_def Let_def
  by (intro null_keeps keeps_grant keeps_execute keeps_echo) (auto simp: nulls_def)

lemma keeps_advance: "keeps null_ok (advance e rest)"
  unfolding keeps_def advance_run
  using keeps_timeAdvance [of e] keeps_nextEventAdvance by (auto simp: keeps_def)

lemma keeps_tick: "keeps null_ok (tick e)"
  unfolding tick_def tick_message_def
  by (intro null_keeps keeps_execute keeps_advance)

lemma keeps_setLookahead: "keeps null_ok (setLookahead la)"
  unfolding setLookahead_def Let_def by (intro null_keeps) (auto simp: nulls_def)

lemma keeps_setTimeConstrained: "keeps null_ok (setTimeConstrained b)"
  unfolding setTimeConstrained_def by (intro null_keeps) (auto simp: nulls_def)

lemma keeps_setTimeRegulating: "keeps null_ok (setTimeRegulating b t la)"
  unfolding setTimeRegulating_def by (intro null_keeps) (auto simp: nulls_def)

lemma keeps_stop: "keeps null_ok StopperAvanceTemps"
  unfolding StopperAvanceTemps_def by (intro null_keeps) (auto simp: nulls_def)

lemma keeps_minTx: "keeps null_ok (updateMinTxMessageDate t)"
  unfolding updateMinTxMessageDate_def by (intro null_keeps) (auto simp: nulls_def)

lemma keeps_rate: "keeps null_ok (setMomUpdateRate r)"
  unfolding setMomUpdateRate_def by (intro null_keeps) (auto simp: nulls_def)

lemmas null_operations = keeps_TAR keeps_TARA keeps_NER keeps_NERA keeps_flush keeps_tick keeps_setLookahead
  keeps_setTimeConstrained keeps_setTimeRegulating keeps_stop keeps_minTx keeps_rate keeps_with_lbts keeps_with_queues

lemma null_ok_step: "tm_step s s' \<Longrightarrow> null_ok s \<Longrightarrow> null_ok s'"
  by (induction rule: tm_step.induct) (rule keeps_snd [OF _ _]; (rule null_operations | assumption))+

lemma null_ok_reachable: "tm_reachable (time_management_new nmp clock) s \<Longrightarrow> null_ok s"
  unfolding tm_reachable_def
  by (induction rule: rtranclp_induct) (auto intro: null_ok_step null_ok_new)

section \<open>Runs of an unconstrained regulating federate\<close>

lemma nulls_frame [tm_simps]:
  "nulls (granted t s) = nulls s" "nulls (s\<lparr>tm_advance := a\<rparr>) = nulls s" "nulls (s\<lparr>tm_date := d\<rparr>) = nulls s"
  "nulls (s\<lparr>tm_lookahead := la\<rparr>) = nulls s" "nulls (s\<lparr>tm_regulating := b\<rparr>) = nulls s" "nulls (trick s) = nulls s"
  by (simp_all only: granted_def nulls_tsu) (simp_all add: nulls_def tm_simps)

lemma nulls_null_if [tm_simps]:
  "nulls (null_if_regulating t s) = nulls s @
     (if tm_regulating s \<and> ft_gt (ft_add t (tm_lookahead s)) (tm_lastNull s) then [ft_add t (tm_lookahead s)] else [])"
  by (simp add: null_if_regulating_def null_sent_def Let_def nulls_def message_defs from_me_def)

lemma timeAdvanceRequest_run:
  "request_check s t = None \<Longrightarrow> timeAdvanceRequest t s =
     (Inr None, tsu ((null_if_regulating t (trick s))\<lparr>tm_advance := TAR, tm_date := t\<rparr>))"
  by (simp add: timeAdvanceRequest_def act_simps)

lemma setLookahead_run:
  "\<not> ft_eq_double la epsilon2 \<Longrightarrow> \<not> ft_lt la (Fin 0) \<Longrightarrow> setLookahead la s =
     (Inr None, tsu (null_if_regulating (tm_now s) (s\<lparr>tm_lookahead := la\<rparr>)))"
  by (simp add: setLookahead_def act_simps Let_def)

lemma tick_free_run:
  assumes "\<not> tm_constrained s" "tm_advance s = TAR" "tm_queues s = queues_new"
  shows "tick None s = (Inr False, tsu (tsu ((granted (tm_date s) s)\<lparr>tm_advance := PAS_D_AVANCEE\<rparr>)))"
proof -
  have q: "s\<lparr>tm_queues := tm_queues s\<rparr> = s" by simp
  have m: "tick_message s = (Inr (None, False), s)"
    using assms q by (simp add: tick_message_def giveCommandMessage_def giveFifoMessage_def act_simps queues_new_def)
  show ?thesis
    using assms by (simp add: tick_def m act_simps advance_run timeAdvance_def)
qed

section \<open>Properties\<close>

definition demo_regulating :: "rat \<Rightarrow> rat \<Rightarrow> time_management" where
  "demo_regulating la t =
     snd (timeAdvanceRequest (Fin t) (snd (setTimeRegulating True (Fin 0) (Fin la) (time_management_new False (\<lambda>_. 0)))))"

lemma demo_regulating_fields:
  assumes "0 \<le> t"
  shows "tm_now (demo_regulating la t) = Fin 0" "tm_date (demo_regulating la t) = Fin t"
    "tm_advance (demo_regulating la t) = TAR" "\<not> tm_constrained (demo_regulating la t)"
    "tm_regulating (demo_regulating la t)" "tm_queues (demo_regulating la t) = queues_new"
    "tm_lookahead (demo_regulating la t) = (if la = 0 then Fin epsilon2 else Fin la)"
    "tm_granted (demo_regulating la t) = Some (if la = 0 then AFTER_TAR_OR_NER_WITH_ZERO_LK else AFTER_TAR_OR_NER)"
    "nulls (demo_regulating la t) =
       (let d = ft_add (Fin t) (if la = 0 then Fin epsilon2 else Fin la) in if ft_gt d (Fin 0) then [d] else [])"
    "tm_lastNull (demo_regulating la t) =
       (let d = ft_add (Fin t) (if la = 0 then Fin epsilon2 else Fin la) in if ft_gt d (Fin 0) then d else Fin 0)"
proof -
  let ?s0 = "time_management_new False (\<lambda>_. 0)"
  define s where "s = snd (setTimeRegulating True (Fin 0) (Fin la) ?s0)"
  have s: "tm_now s = Fin 0" "tm_advance s = PAS_D_AVANCEE" "\<not> tm_constrained s" "tm_regulating s"
    "tm_queues s = queues_new" "tm_lookahead s = Fin la" "nulls s = []" "tm_lastNull s = Fin 0"
    by (simp_all add: s_def setTimeRegulating_def act_simps sendMessage_def time_management_new_def tm_simps)
      (simp add: nulls_def)
  have "request_check s (Fin t) = None"
    using s assms ft_lt_imp_less [of "Fin t" "Fin 0"] by (auto simp: request_check_def)
  then have d: "demo_regulating la t
      = tsu ((null_if_regulating (Fin t) (trick s))\<lparr>tm_advance := TAR, tm_date := Fin t\<rparr>)"
    by (simp add: demo_regulating_def s_def [symmetric] timeAdvanceRequest_run)
  show "tm_now (demo_regulating la t) = Fin 0" "tm_date (demo_regulating la t) = Fin t"
    "tm_advance (demo_regulating la t) = TAR" "\<not> tm_constrained (demo_regulating la t)"
    "tm_regulating (demo_regulating la t)" "tm_queues (demo_regulating la t) = queues_new"
    "tm_lookahead (demo_regulating la t) = (if la = 0 then Fin epsilon2 else Fin la)"
    "tm_granted (demo_regulating la t) = Some (if la = 0 then AFTER_TAR_OR_NER_WITH_ZERO_LK else AFTER_TAR_OR_NER)"
    using s unfolding d by (simp_all add: tm_simps ft_eq_double_zero del: ft_eq_double.simps)
  show "nulls (demo_regulating la t) =
       (let d = ft_add (Fin t) (if la = 0 then Fin epsilon2 else Fin la) in if ft_gt d (Fin 0) then [d] else [])"
    using s unfolding d by (simp add: tm_simps ft_eq_double_zero Let_def del: ft_eq_double.simps)
  show "tm_lastNull (demo_regulating la t) =
       (let d = ft_add (Fin t) (if la = 0 then Fin epsilon2 else Fin la) in if ft_gt d (Fin 0) then d else Fin 0)"
    using s unfolding d
    by (simp add: tm_simps null_if_regulating_def null_sent_def ft_eq_double_zero Let_def del: ft_eq_double.simps)
qed

text \<open>
  C23. In every state reachable by the operations of the time manager, in any order and with any
  arguments, the null messages sent to the RTIG have strictly increasing time stamps.
\<close>

theorem null_messages_increase:
  assumes "tm_reachable (time_management_new nmp clock) s"
  shows "sorted_wrt ft_lt (nulls s)"
  using null_ok_reachable [OF assms] by (simp add: null_ok_def)

theorem null_messages_increase_witness:
  "sorted_wrt ft_lt (nulls (snd (setLookahead (Fin 9) (demo_regulating 2 5))))"
proof -
  let ?s0 = "time_management_new False (\<lambda>_. 0)"
  have "tm_step\<^sup>*\<^sup>* ?s0 (snd (setTimeRegulating True (Fin 0) (Fin 2) ?s0))"
    by (rule r_into_rtranclp) (rule step_regulating)
  then have "tm_step\<^sup>*\<^sup>* ?s0 (demo_regulating 2 5)"
    unfolding demo_regulating_def by (rule rtranclp.rtrancl_into_rtrancl) (rule step_TAR)
  then have "tm_step\<^sup>*\<^sup>* ?s0 (snd (setLookahead (Fin 9) (demo_regulating 2 5)))"
    by (rule rtranclp.rtrancl_into_rtrancl) (rule step_lookahead)
  then show "sorted_wrt ft_lt (nulls (snd (setLookahead (Fin 9) (demo_regulating 2 5))))"
    using null_messages_increase [of False "\<lambda>_. 0"] by (simp add: tm_reachable_def)
qed

text \<open>
  An accepted \<open>timeAdvanceRequest\<close> with a non-zero lookahead: the request is recorded, a
  regulating federate sends the null message with the requested time plus its lookahead if this
  is later than the last one, and until the grant \<open>testValidTime\<close> accepts exactly the time stamps
  that are not below that time.
\<close>

theorem timeAdvanceRequest_promise:
  assumes "request_check s t = None" "\<not> ft_eq_double (tm_lookahead s) 0" "timeAdvanceRequest t s = (r, s')"
  shows "r = Inr None \<and> tm_advance s' = TAR \<and> tm_date s' = t \<and> tm_now s' = tm_now s
     \<and> nulls s' = nulls s @ (if tm_regulating s \<and> ft_gt (ft_add t (tm_lookahead s)) (tm_lastNull s)
                            then [ft_add t (tm_lookahead s)] else [])
     \<and> (\<forall>x. testValidTime x s' = (Inr (\<not> ft_lt x (ft_add t (tm_lookahead s))), s'))"
proof -
  have r: "r = Inr None" "s' = tsu ((null_if_regulating t (trick s))\<lparr>tm_advance := TAR, tm_date := t\<rparr>)"
    using assms(1,3) by (simp_all add: timeAdvanceRequest_run)
  show ?thesis unfolding r using assms(2) by (simp add: tm_simps testValidTime_def act_simps Let_def)
qed

theorem timeAdvanceRequest_promise_witness:
  "tm_advance (snd (timeAdvanceRequest (Fin 5) (time_management_new False (\<lambda>_. 0)\<lparr>tm_lookahead := Fin 2\<rparr>))) = TAR"
proof -
  let ?s = "time_management_new False (\<lambda>_. 0)\<lparr>tm_lookahead := Fin 2\<rparr>"
  have "\<not> ft_lt (Fin 5) (Fin 0)" "\<not> ft_eq_double (Fin 2) 0" by code_simp+
  then have "request_check ?s (Fin 5) = None" "\<not> ft_eq_double (tm_lookahead ?s) 0"
    by (simp_all add: request_check_def time_management_new_def)
  then show ?thesis
    using timeAdvanceRequest_promise [of ?s "Fin 5" "fst (timeAdvanceRequest (Fin 5) ?s)" "snd (timeAdvanceRequest (Fin 5) ?s)"]
    by simp
qed

text \<open>
  \<open>nextEventRequestAvailable\<close> as the code has it: a valid request is dropped, without an
  exception and without a change of the state; an invalid one (a time in the past, or an advance
  already in progress) reports its exception and is made the pending request all the same.
\<close>

theorem nextEventRequestAvailable_inverted:
  "(request_check s t = None \<longrightarrow> nextEventRequestAvailable t s = (Inr None, s)) \<and>
   (request_check s t \<noteq> None \<longrightarrow>
      (\<exists>s'. nextEventRequestAvailable t s = (Inr (request_check s t), s') \<and> tm_advance s' = NERA \<and> tm_date s' = t))"
  by (simp add: nextEventRequestAvailable_def act_simps tm_simps)

theorem nextEventRequestAvailable_inverted_witness:
  "nextEventRequestAvailable (Fin 5) (time_management_new False (\<lambda>_. 0)) = (Inr None, time_management_new False (\<lambda>_. 0))"
proof -
  have "\<not> ft_lt (Fin 5) (Fin 0)" by code_simp
  then have "request_check (time_management_new False (\<lambda>_. 0)) (Fin 5) = None"
    by (simp add: request_check_def time_management_new_def)
  then show ?thesis using nextEventRequestAvailable_inverted by blast
qed

text \<open>
  The zero-lookahead device breaks the promise of the null message: a regulating federate with
  lookahead zero that requests and gets time 5 has announced a time stamp later than 5.00005,
  and is then allowed to send a message with time stamp 5.00005.
\<close>

theorem zero_lookahead_breaks_promise:
  "let s = snd (tick None (demo_regulating 0 5))
   in tm_now s = Fin 5 \<and> tm_lookahead s = Fin 0 \<and> fst (testValidTime (Fin (500005 / 100000)) s) = Inr True
      \<and> (\<exists>d. nulls s = [d] \<and> ft_lt (Fin (500005 / 100000)) d)"
proof -
  define s where "s = demo_regulating 0 5"
  have f: "\<not> tm_constrained s" "tm_advance s = TAR" "tm_queues s = queues_new" "tm_date s = Fin 5"
    "tm_lookahead s = Fin epsilon2" "tm_granted s = Some AFTER_TAR_OR_NER_WITH_ZERO_LK"
    using demo_regulating_fields [of 5 0] by (simp_all add: s_def)
  have v: "ft_gt (ft_add (Fin 5) (Fin epsilon2)) (Fin 0)" "ft_lt (Fin (500005 / 100000)) (ft_add (Fin 5) (Fin epsilon2))"
    "\<not> ft_le (Fin (500005 / 100000)) (Fin 5)" by code_simp+
  have "nulls s = [ft_add (Fin 5) (Fin epsilon2)]"
    using demo_regulating_fields(9) [of 5 0] v(1) by (simp add: s_def Let_def)
  then show ?thesis using f v unfolding s_def [symmetric] Let_def tick_free_run [OF f(1-3)]
    by (simp add: tm_simps testValidTime_def act_simps Let_def)
qed

text \<open>
  \<open>setLookahead\<close> may reduce the lookahead at once, which breaks the promise of an earlier null
  message: with lookahead 5 the federate announces time 15 when it advances to 10; after
  the reduction to 1 a message with time stamp 12 is allowed.
\<close>

theorem setLookahead_breaks_promise:
  "let s = snd (setLookahead (Fin 1) (snd (tick None (demo_regulating 5 10))))
   in nulls s = [Fin 15] \<and> fst (testValidTime (Fin 12) s) = Inr True"
proof -
  define s where "s = demo_regulating 5 10"
  have f: "\<not> tm_constrained s" "tm_advance s = TAR" "tm_queues s = queues_new" "tm_date s = Fin 10"
    "tm_lookahead s = Fin 5" "tm_granted s = Some AFTER_TAR_OR_NER" "tm_regulating s"
    using demo_regulating_fields [of 10 5] by (simp_all add: s_def)
  have v: "ft_gt (Fin 15) (Fin 0)" "ft_add (Fin 10) (Fin 5) = Fin 15" "\<not> ft_eq_double (Fin 1) epsilon2"
    "\<not> ft_eq_double (Fin 5) epsilon2" "\<not> ft_lt (Fin 1) (Fin 0)" "ft_add (Fin 10) (Fin 1) = Fin 11"
    "\<not> ft_gt (Fin 11) (Fin 15)" "\<not> ft_lt (Fin 12) (Fin 11)" by code_simp+
  have n: "nulls s = [Fin 15]" "tm_lastNull s = Fin 15"
    using demo_regulating_fields(9,10) [of 10 5] v(1,2) by (simp_all add: s_def Let_def)
  show ?thesis using f v n unfolding s_def [symmetric] Let_def tick_free_run [OF f(1-3)]
    by (simp add: tm_simps setLookahead_run testValidTime_def act_simps Let_def)
qed

end
