(* ===== verification/Regulators.thy ===== *)
theory Regulators
  imports FederationLemmas
begin

text \<open>
  The regulating federates of \<open>Federation\<close>: the clocks in \<open>my_regulators\<close> and the flags of the
  federates agree under every operation of time management; what the federates are told when a
  regulating federate joins, advances, stops regulating or crashes; and the date \<open>computeMinNERx\<close>.
\<close>

section \<open>The flags and the clocks agree\<close>

definition has_clock :: "'r federation \<Rightarrow> federate_handle \<Rightarrow> bool" where
  "has_clock s h \<longleftrightarrow> map_of (lbts_clocks (fd_regulators s)) h \<noteq> None"

definition regulates :: "'r federation \<Rightarrow> federate_handle \<Rightarrow> bool" where
  "regulates s h \<longleftrightarrow> (\<exists>f. map_of (fd_federates s) h = Some f \<and> f_regulator f)"

definition reg_inv :: "'r federation \<Rightarrow> bool" where
  "reg_inv s \<longleftrightarrow> om_ok (fd_federates s) \<and> lbts_ok (fd_regulators s) \<and> (\<forall>h. has_clock s h = regulates s h)"

lemma reg_invD:
  assumes "reg_inv s" "map_of (fd_federates s) h = Some f"
  shows "f_regulator f \<longleftrightarrow> lbts_exists h (fd_regulators s)"
  using assms by (auto simp: reg_inv_def has_clock_def regulates_def lbts_exists_def)

lemma lbts_ok_om_ok: "lbts_ok l \<Longrightarrow> om_ok (lbts_clocks l)"
  by (simp add: lbts_ok_def)

text \<open>What \<open>insert\<close> and \<open>remove\<close> leave, with the new flag of the federate.\<close>

definition regulating :: "federate_handle \<Rightarrow> fed_time \<Rightarrow> federate \<Rightarrow> 'r federation \<Rightarrow> 'r federation" where
  "regulating h t f s = s\<lparr>fd_regulators := snd (lbts_insert h t (fd_regulators s)),
     fd_federates := om_put h (f\<lparr>f_regulator := True\<rparr>) (fd_federates s)\<rparr>"

definition not_regulating :: "federate_handle \<Rightarrow> federate \<Rightarrow> 'r federation \<Rightarrow> 'r federation" where
  "not_regulating h f s = s\<lparr>fd_regulators := snd (lbts_remove h (fd_regulators s)),
     fd_federates := om_put h (f\<lparr>f_regulator := False\<rparr>) (fd_federates s)\<rparr>"

lemma reg_inv_regulating:
  assumes "reg_inv s" "map_of (fd_federates s) h = Some f" "\<not> lbts_exists h (fd_regulators s)"
  shows "reg_inv (regulating h t f s)"
proof -
  have "lbts_ok (snd (lbts_insert h t (fd_regulators s)))"
    using lbts_insert_ok [of h t] assms(1) by (auto simp: keeps_def reg_inv_def)
  then show ?thesis using assms
    by (auto simp: reg_inv_def regulating_def has_clock_def regulates_def lbts_insert_run Let_def om_simps)
qed

lemma reg_inv_not_regulating:
  assumes "reg_inv s" "map_of (fd_federates s) h = Some f" "lbts_exists h (fd_regulators s)"
  shows "reg_inv (not_regulating h f s)"
proof -
  have "lbts_ok (snd (lbts_remove h (fd_regulators s)))"
    using lbts_remove_ok [of h] assms(1) by (auto simp: keeps_def reg_inv_def)
  moreover have "om_ok (lbts_clocks (fd_regulators s))" using assms(1) by (simp add: reg_inv_def lbts_ok_om_ok)
  ultimately show ?thesis using assms
    by (auto simp: reg_inv_def not_regulating_def has_clock_def regulates_def lbts_remove_run Let_def om_simps)
qed

lemma put_federate_links:
  assumes "reg_inv s" "connected s" "map_of (fd_federates s) h = Some f"
    and "fd_server s' = fd_server s" "fd_sockets s' = fd_sockets s" "fd_federates s' = om_put h g (fd_federates s)"
  shows "connected s'" "handles_of s' = handles_of s" "link_of s' h = Inr (the_link s h)"
proof -
  have ok: "om_ok (fd_federates s)" using assms(1) by (simp add: reg_inv_def)
  show hs: "handles_of s' = handles_of s"
    using assms(3,6) om_put_keys [of "fd_federates s" h] ok by (simp add: handles_of_def)
  then have fs: "fst ` set (fd_federates s') = fst ` set (fd_federates s)"
    by (metis handles_of_def list.set_map)
  then show "connected s'" using assms(2,4,5) by (intro connected_cong [of s' s]) simp_all
  have "h \<in> fst ` set (fd_federates s)" using assms(3) by (metis map_of_eq_None_iff option.distinct(1))
  then have "link_of s h = Inr (the_link s h)"
    using assms(2) by (auto simp: connected_def the_link_def)
  then show "link_of s' h = Inr (the_link s h)" using assms(4,5) by (simp add: link_of_def)
qed

lemma addRegulator_run:
  assumes "reg_inv s" "connected s"
  shows "addRegulator h t s =
    (case map_of (fd_federates s) h of None \<Rightarrow> (Inl FederateNotExecutionMember, s)
     | Some f \<Rightarrow> if f_regulator f then (Inl RTIinternalError, s)
       else (Inr [event (map (the_link s) (filter (\<lambda>k. k \<noteq> 0) (handles_of s)))
                    (setDate t (fed_message s h SET_TIME_REGULATING (Regulator True))),
                  event [the_link s h] (setDate t (fed_message s h TIME_REGULATION_ENABLED NoBody))],
             regulating h t f s))"
proof (cases "map_of (fd_federates s) h")
  case None
  then show ?thesis by (simp add: addRegulator_def act_simps getFederate_def)
next
  case (Some f)
  note ex = reg_invD [OF assms(1) Some]
  let ?s = "regulating h t f s"
  have l: "the_link ?s = the_link s" by (rule the_link_cong) (simp_all add: regulating_def)
  have hd: "fd_handle ?s = fd_handle s" by (simp add: regulating_def)
  have c: "connected ?s" "handles_of ?s = handles_of s" "link_of ?s h = Inr (the_link s h)"
    using put_federate_links [OF assms(1,2) Some, of ?s] by (simp_all add: regulating_def)
  have 1: "with_regulators (lbts_insert h t) s = (if f_regulator f then (Inl RTIinternalError, s)
      else (Inr (), s\<lparr>fd_regulators := snd (lbts_insert h t (fd_regulators s))\<rparr>))"
    using ex by (simp add: with_regulators_def on_field_run lbts_insert_run Let_def)
  have 2: "\<not> f_regulator f \<Longrightarrow> on_federate h (setRegulator True)
      (s\<lparr>fd_regulators := snd (lbts_insert h t (fd_regulators s))\<rparr>) = (Inr (), ?s)"
    using Some by (simp add: on_federate_run setRegulator_def set_switch_run regulating_def)
  show ?thesis
    using Some 1 2 c l hd respondToAll_connected [OF c(1)]
    by (simp add: addRegulator_def seq_run bind_run gets_run ret_run lift_sum_run getFederate_def respondTo_run fed_message_def)
qed

lemma removeRegulator_run:
  assumes "reg_inv s" "connected s"
  shows "removeRegulator h s =
    (case map_of (fd_federates s) h of None \<Rightarrow> (Inl FederateNotExecutionMember, s)
     | Some f \<Rightarrow> if \<not> f_regulator f then (Inl RTIinternalError, s)
       else (Inr [event (map (the_link s) (filter (\<lambda>k. k \<noteq> 0) (handles_of s)))
                    (fed_message s h SET_TIME_REGULATING (Regulator False))], not_regulating h f s))"
proof (cases "map_of (fd_federates s) h")
  case None
  then show ?thesis by (simp add: removeRegulator_def act_simps getFederate_def)
next
  case (Some f)
  note ex = reg_invD [OF assms(1) Some]
  let ?s = "not_regulating h f s"
  have l: "the_link ?s = the_link s" by (rule the_link_cong) (simp_all add: not_regulating_def)
  have hd: "fd_handle ?s = fd_handle s" by (simp add: not_regulating_def)
  have c: "connected ?s" "handles_of ?s = handles_of s"
    using put_federate_links [OF assms(1,2) Some, of ?s] by (simp_all add: not_regulating_def)
  have 1: "with_regulators (lbts_remove h) s = (if \<not> f_regulator f then (Inl RTIinternalError, s)
      else (Inr (), s\<lparr>fd_regulators := snd (lbts_remove h (fd_regulators s))\<rparr>))"
    using ex by (simp add: with_regulators_def on_field_run lbts_remove_run Let_def)
  have 2: "f_regulator f \<Longrightarrow> on_federate h (setRegulator False)
      (s\<lparr>fd_regulators := snd (lbts_remove h (fd_regulators s))\<rparr>) = (Inr (), ?s)"
    using Some by (simp add: on_federate_run setRegulator_def set_switch_run not_regulating_def)
  show ?thesis
    using Some 1 2 c l hd respondToAll_connected [OF c(1)]
    by (simp add: removeRegulator_def seq_run bind_run gets_run ret_run lift_sum_run getFederate_def fed_message_def)
qed

text \<open>What an update of a regulating federate's clock leaves.\<close>

definition advanced :: "federate_handle \<Rightarrow> fed_time \<Rightarrow> 'r federation \<Rightarrow> 'r federation" where
  "advanced h t s = s\<lparr>fd_regulators := snd (lbts_update h t (fd_regulators s))\<rparr>"

lemma updateRegulator_run:
  assumes "reg_inv s" "connected s" "h \<noteq> 0"
  shows "updateRegulator h t False s =
    (case map_of (fd_federates s) h of None \<Rightarrow> (Inl FederateNotExecutionMember, s)
     | Some f \<Rightarrow> if \<not> f_regulator f then (Inl RTIinternalError, s)
       else (Inr [event (map (the_link s) (filter (\<lambda>k. k \<noteq> h) (handles_of s)))
                    (setDate t (fed_message s h MESSAGE_NULL NoBody))], advanced h t s))"
proof (cases "map_of (fd_federates s) h")
  case None
  then show ?thesis by (simp add: updateRegulator_def seq_run bind_run gets_run lift_sum_run getFederate_def)
next
  case (Some f)
  let ?s = "advanced h t s"
  have l: "the_link ?s = the_link s" by (rule the_link_cong) (simp_all add: advanced_def)
  have hd: "fd_handle ?s = fd_handle s" "handles_of ?s = handles_of s"
    by (simp_all add: advanced_def handles_of_def)
  have c: "connected ?s" using assms(2) by (intro connected_cong [of ?s s]) (simp_all add: advanced_def)
  have 1: "f_regulator f \<Longrightarrow> with_regulators (lbts_update h t) s = (Inr (), ?s)"
    using reg_invD [OF assms(1) Some] assms(3)
    by (auto simp: with_regulators_def on_field_run lbts_update_run Let_def advanced_def lbts_exists_def)
  show ?thesis
    using Some 1 c l hd respondToAll_connected [OF c]
    by (simp add: updateRegulator_def seq_run bind_run gets_run ret_run lift_sum_run throw_if_run getFederate_def fed_message_def)
qed

lemma reg_inv_advanced: "reg_inv s \<Longrightarrow> h \<noteq> 0 \<Longrightarrow> reg_inv (advanced h t s)"
  using lbts_update_ok [of h t]
  by (auto simp: reg_inv_def advanced_def keeps_def has_clock_def regulates_def lbts_update_run Let_def om_simps
      split: option.split)

text \<open>The requests of the federates about time, as the RTIG processes them one after the other.\<close>

inductive time_step :: "'r federation \<Rightarrow> 'r federation \<Rightarrow> bool" where
  start: "time_step s (snd (addRegulator h t s))"
| advance: "h \<noteq> 0 \<Longrightarrow> time_step s (snd (updateRegulator h t False s))"
| relay: "time_step s (snd (updateRegulator h t True s))"
| stop: "time_step s (snd (removeRegulator h s))"
| constrain: "time_step s (snd (setConstrained h b t s))"

lemma setConstrained_state:
  "snd (setConstrained h b t s) = s \<or> (\<exists>f g. map_of (fd_federates s) h = Some f \<and> f_regulator g = f_regulator f
     \<and> snd (setConstrained h b t s) = s\<lparr>fd_federates := om_put h g (fd_federates s)\<rparr>)"
proof (cases "map_of (fd_federates s) h")
  case None
  then show ?thesis by (simp add: setConstrained_def act_simps)
next
  case (Some f)
  let ?g = "snd (setConstrained_f b f)"
  have "f_regulator ?g = f_regulator f" by (simp add: setConstrained_f_def set_switch_run)
  moreover have "snd (setConstrained h b t s) = s\<lparr>fd_federates := om_put h ?g (fd_federates s)\<rparr>"
    using Some by (simp add: setConstrained_def act_simps split: sum.split)
  ultimately show ?thesis using Some by blast
qed

lemma flag_kept:
  assumes "reg_inv s" "connected s" "map_of (fd_federates s) h = Some f" "f_regulator g = f_regulator f"
  shows "reg_inv (s\<lparr>fd_federates := om_put h g (fd_federates s)\<rparr>)"
    "connected (s\<lparr>fd_federates := om_put h g (fd_federates s)\<rparr>)"
proof -
  show "reg_inv (s\<lparr>fd_federates := om_put h g (fd_federates s)\<rparr>)"
    using assms by (auto simp: reg_inv_def has_clock_def regulates_def om_simps)
  show "connected (s\<lparr>fd_federates := om_put h g (fd_federates s)\<rparr>)"
    by (rule put_federate_links(1) [OF assms(1-3)]) simp_all
qed

lemma updateRegulator_anonymous: "snd (updateRegulator h t True s) = s"
  by (simp add: updateRegulator_def act_simps split: sum.split)

lemma time_step_inv:
  assumes "time_step s s'" "reg_inv s" "connected s"
  shows "reg_inv s' \<and> connected s'"
  using assms(1)
proof (cases rule: time_step.cases)
  case (start h t)
  show ?thesis
  proof (cases "map_of (fd_federates s) h")
    case (Some f)
    then have "\<not> f_regulator f \<Longrightarrow> reg_inv (regulating h t f s) \<and> connected (regulating h t f s)"
      using assms(2,3) reg_invD [OF assms(2) Some] reg_inv_regulating [OF assms(2) Some]
        put_federate_links(1) [OF assms(2,3) Some, of "regulating h t f s"] by (simp add: regulating_def)
    then show ?thesis using start Some assms by (simp add: addRegulator_run)
  qed (use start assms in \<open>simp add: addRegulator_run\<close>)
next
  case (advance h t)
  have "reg_inv (advanced h t s) \<and> connected (advanced h t s)"
    using reg_inv_advanced [OF assms(2) advance(2)] assms(3) connected_cong [of "advanced h t s" s]
    by (simp add: advanced_def)
  then show ?thesis using advance assms by (simp add: updateRegulator_run split: option.split)
next
  case (relay h t)
  then show ?thesis using assms by (simp add: updateRegulator_anonymous)
next
  case (stop h)
  show ?thesis
  proof (cases "map_of (fd_federates s) h")
    case (Some f)
    then have "f_regulator f \<Longrightarrow> reg_inv (not_regulating h f s) \<and> connected (not_regulating h f s)"
      using assms(2,3) reg_invD [OF assms(2) Some] reg_inv_not_regulating [OF assms(2) Some]
        put_federate_links(1) [OF assms(2,3) Some, of "not_regulating h f s"] by (simp add: not_regulating_def)
    then show ?thesis using stop Some assms by (simp add: removeRegulator_run)
  qed (use stop assms in \<open>simp add: removeRegulator_run\<close>)
next
  case (constrain h b t)
  then show ?thesis using setConstrained_state [of h b t s] assms flag_kept [OF assms(2,3)] by metis
qed

lemma time_steps_inv: "time_step\<^sup>*\<^sup>* s s' \<Longrightarrow> reg_inv s \<Longrightarrow> connected s \<Longrightarrow> reg_inv s' \<and> connected s'"
  by (induction rule: rtranclp_induct) (auto dest: time_step_inv)

lemma reg_inv_count:
  assumes "reg_inv s"
  shows "getNbRegulators s = card {h. regulates s h}"
proof -
  let ?cs = "lbts_clocks (fd_regulators s)"
  have "distinct (map fst ?cs)" using assms by (simp add: reg_inv_def lbts_ok_om_ok om_ok_distinct)
  then have "card (fst ` set ?cs) = length ?cs"
    by (metis distinct_card length_map list.set_map)
  moreover have "{h. regulates s h} = fst ` set ?cs"
    using assms by (auto simp: reg_inv_def has_clock_def map_of_None_keys)
  ultimately show ?thesis by (simp add: getNbRegulators_def lbts_size_def)
qed

section \<open>Properties\<close>

text \<open>
  C27. Whatever requests about time the federates make, and whether they are granted or refused, a
  federate is flagged as regulating exactly if its clock is in the RTIG's list of regulators, so the
  number of regulators that a joining federate is told is that of the regulating federates.
\<close>

theorem regulators_agree:
  assumes "reg_inv s" "connected s" "time_step\<^sup>*\<^sup>* s s'"
  shows "has_clock s' h = regulates s' h \<and> getNbRegulators s' = card {h. regulates s' h}"
proof -
  have i: "reg_inv s'" using time_steps_inv [OF assms(3,1,2)] ..
  then show ?thesis using reg_inv_count by (auto simp: reg_inv_def)
qed

lemma demo_reg_inv: "reg_inv demo_federation"
  using lbts_ok_new by (simp add: reg_inv_def demo_federation_def has_clock_def regulates_def demo_federate_def
      lbts_new_def om_ok_def)

definition demo_regulated :: "unit federation" where
  "demo_regulated = snd (addRegulator 1 (Fin 5) demo_federation)"

lemma demo_regulated_step: "time_step\<^sup>*\<^sup>* demo_federation demo_regulated"
  unfolding demo_regulated_def by (rule r_into_rtranclp) (rule time_step.start)

theorem regulators_agree_witness:
  "has_clock demo_regulated 1 = regulates demo_regulated 1
    \<and> getNbRegulators demo_regulated = card {h. regulates demo_regulated h}"
  by (rule regulators_agree [OF demo_reg_inv demo_federation_ok(2) demo_regulated_step])

text \<open>Starting and stopping to regulate, with what the federates are told.\<close>

lemma erase_inserted:
  assumes "reg_inv s" "map_of (fd_federates s) h = Some f" "\<not> f_regulator f"
  shows "lbts_clocks (fd_regulators (regulating h t f s)) = om_put h t (lbts_clocks (fd_regulators s))"
    "om_erase h (om_put h t (lbts_clocks (fd_regulators s))) = lbts_clocks (fd_regulators s)"
proof -
  have n: "\<not> lbts_exists h (fd_regulators s)" using reg_invD [OF assms(1,2)] assms(3) by simp
  then show "lbts_clocks (fd_regulators (regulating h t f s)) = om_put h t (lbts_clocks (fd_regulators s))"
    by (simp add: regulating_def lbts_insert_run Let_def)
  show "om_erase h (om_put h t (lbts_clocks (fd_regulators s))) = lbts_clocks (fd_regulators s)"
    using n by (intro om_erase_put_fresh) (simp add: lbts_exists_def map_of_None_keys)
qed

text \<open>
  A federate that does not regulate can start to: its clock is the time it gave, every
  federate is told of the regulator and of its time, and it gets the confirmation. If it then
  stops, every federate is told so, and the clocks are what they were before.
\<close>

theorem regulation_announced:
  assumes "fed_ok s" "reg_inv s" "connected s" "map_of (fd_federates s) h = Some f" "\<not> f_regulator f"
  shows "\<exists>s1 s2. addRegulator h t s
      = (Inr [event (map (the_link s) (handles_of s)) (setDate t (fed_message s h SET_TIME_REGULATING (Regulator True))),
              event [the_link s h] (setDate t (fed_message s h TIME_REGULATION_ENABLED NoBody))], s1)
    \<and> map_of (lbts_clocks (fd_regulators s1)) h = Some t
    \<and> removeRegulator h s1
      = (Inr [event (map (the_link s) (handles_of s)) (fed_message s h SET_TIME_REGULATING (Regulator False))], s2)
    \<and> lbts_clocks (fd_regulators s2) = lbts_clocks (fd_regulators s)"
proof -
  let ?s1 = "regulating h t f s" and ?g = "f\<lparr>f_regulator := True\<rparr>"
  let ?s2 = "not_regulating h ?g ?s1"
  have inv: "reg_inv ?s1" using reg_inv_regulating [OF assms(2,4)] reg_invD [OF assms(2,4)] assms(5) by simp
  have c: "connected ?s1" "handles_of ?s1 = handles_of s"
    using put_federate_links [OF assms(2,3,4), of ?s1] by (simp_all add: regulating_def)
  have g: "map_of (fd_federates ?s1) h = Some ?g" by (simp add: regulating_def om_simps)
  have l: "the_link ?s1 = the_link s" by (rule the_link_cong) (simp_all add: regulating_def)
  have m: "fed_message ?s1 = fed_message s" by (simp add: fun_eq_iff fed_message_def regulating_def)
  have "lbts_clocks (fd_regulators ?s2) = lbts_clocks (fd_regulators s)"
    using erase_inserted [OF assms(2,4,5)]
    by (simp add: not_regulating_def lbts_remove_run Let_def lbts_exists_def om_simps)
  moreover have "map_of (lbts_clocks (fd_regulators ?s1)) h = Some t"
    using erase_inserted [OF assms(2,4,5)] by (simp add: om_simps)
  ultimately show ?thesis
    using addRegulator_run [OF assms(2,3)] removeRegulator_run [OF inv c(1)] assms(4,5) no_zero_handle [OF assms(1)]
      c(2) g l m by auto
qed

theorem regulation_announced_witness:
  "\<exists>(s1 :: unit federation) s2. removeRegulator 2 s1
      = (Inr [event (map (the_link demo_federation) [1, 2]) (fed_message demo_federation 2 SET_TIME_REGULATING (Regulator False))], s2)
    \<and> lbts_clocks (fd_regulators s2) = []"
proof -
  have "map_of (fd_federates demo_federation) 2 = Some (demo_federate 2 ''b'')" "handles_of demo_federation = [1, 2]"
    "lbts_clocks (fd_regulators demo_federation) = []"
    by (simp_all add: demo_federation_def handles_of_def lbts_new_def)
  then show ?thesis
    using regulation_announced [OF demo_federation_ok(1) demo_reg_inv demo_federation_ok(2), of 2 "demo_federate 2 ''b''" "Fin 3"]
    by (simp add: demo_federate_def) blast
qed

lemma kill_regulator_run:
  assumes "fed_ok s" "reg_inv s" "connected s" "map_of (fd_federates s) h = Some f" "f_regulator f"
    and "rootKill h (fd_root s) = (Inr rs, r)"
  shows "kill rootKill h s = (Inr (rs @ [event [the_link s h] (fed_message s h RESIGN_FEDERATION_EXECUTION NoBody)]),
    (not_regulating h f s)\<lparr>fd_federates := om_erase h (fd_federates s), fd_root := r\<rparr>)"
proof -
  let ?g = "f\<lparr>f_regulator := False\<rparr>" and ?l = "snd (lbts_remove h (fd_regulators s))"
  let ?s1 = "not_regulating h f s" and ?g' = "snd (setConstrained_f False (f\<lparr>f_regulator := False\<rparr>))"
  let ?s2 = "s\<lparr>fd_regulators := ?l, fd_federates := om_put h ?g' (fd_federates s)\<rparr>"
  have 1: "catch (seq (removeRegulator h) (ret ())) is_certi_exception (\<lambda>_. ret ()) s = (Inr (), ?s1)"
    using removeRegulator_run [OF assms(2,3), of h] assms(4,5) by (simp add: catch_run seq_run ret_run)
  have g: "map_of (fd_federates ?s1) h = Some ?g" by (simp add: not_regulating_def om_simps)
  have 2: "catch (on_federate h (setConstrained_f False)) is_certi_exception (\<lambda>_. ret ()) ?s1 = (Inr (), ?s2)"
    using g by (simp add: catch_run on_federate_run ret_run setConstrained_f_def set_switch_run is_certi_exception_def
        not_regulating_def om_put_put)
  have 3: "with_root (rootKill h) ?s2 = (Inr rs, ?s2\<lparr>fd_root := r\<rparr>)"
    using assms(6) by (simp add: with_root_def on_field_run)
  have lk: "link_of s h = Inr (the_link s h)"
    using put_federate_links(3) [OF assms(2,3,4), of s f] om_put_same [of "fd_federates s" h f] assms(1,4)
    by (simp add: fed_ok_def)
  then have lk': "link_of (s\<lparr>fd_regulators := ?l, fd_federates := x, fd_root := r, fd_handles := y\<rparr>) h
      = Inr (the_link s h)" for x y
    by (simp add: link_of_def)
  have 4: "remove h (?s2\<lparr>fd_root := r\<rparr>)
      = (Inr [event [the_link s h] (fed_message s h RESIGN_FEDERATION_EXECUTION NoBody)],
         ?s1\<lparr>fd_federates := om_erase h (fd_federates s), fd_root := r\<rparr>)"
    using lk' by (simp add: om_erase_put remove_def seq_run bind_run gets_run ret_run check_run modify_run with_handles_def
        on_field_run free_run respondTo_run om_simps fed_message_def not_regulating_def link_of_def)
  show ?thesis
    using assms(4) 1 2 3 4
    by (simp add: kill_def noexcept_def catch_run bind_run gets_run lift_sum_run ret_run seq_run getFederate_def)
qed

text \<open>
  When a regulating federate crashes, \<open>kill\<close> takes its clock and the federate away, but its
  responses are those of the root object and the resignation: the message that tells the other
  federates that it does not regulate any more, which \<open>removeRegulator\<close> has made, is dropped.
\<close>

theorem kill_regulator_silent:
  assumes "fed_ok s" "reg_inv s" "connected s" "map_of (fd_federates s) h = Some f" "f_regulator f"
    and "rootKill h (fd_root s) = (Inr rs, r)"
  shows "\<exists>s1 s2. kill rootKill h s
      = (Inr (rs @ [event [the_link s h] (fed_message s h RESIGN_FEDERATION_EXECUTION NoBody)]), s1)
    \<and> \<not> has_clock s1 h \<and> h \<notin> set (handles_of s1)
    \<and> removeRegulator h s
      = (Inr [event (map (the_link s) (handles_of s)) (fed_message s h SET_TIME_REGULATING (Regulator False))], s2)"
proof -
  have o: "om_ok (lbts_clocks (fd_regulators s))" using assms(2) by (simp add: reg_inv_def lbts_ok_om_ok)
  have "\<not> has_clock (not_regulating h f s) h" using reg_invD [OF assms(2,4)] assms(5)
    by (simp add: has_clock_def not_regulating_def lbts_remove_run Let_def om_simps)
  then have "\<not> has_clock (not_regulating h f s\<lparr>fd_federates := om_erase h (fd_federates s), fd_root := r\<rparr>) h"
    by (simp add: has_clock_def)
  moreover have "h \<notin> set (handles_of (not_regulating h f s\<lparr>fd_federates := om_erase h (fd_federates s), fd_root := r\<rparr>))"
    by (simp add: handles_of_def om_simps)
  ultimately show ?thesis
    using kill_regulator_run [where rootKill = rootKill, OF assms] removeRegulator_run [OF assms(2,3), of h] assms(4,5) no_zero_handle [OF assms(1)]
    by simp
qed

lemma demo_regulated_facts:
  "fed_ok demo_regulated" "reg_inv demo_regulated" "connected demo_regulated"
  "map_of (fd_federates demo_regulated) 1 = Some (demo_federate 1 ''a''\<lparr>f_regulator := True\<rparr>)"
  and demo_regulated_clocks: "lbts_clocks (fd_regulators demo_regulated) = [(1, Fin 5)]"
proof -
  show r: "reg_inv demo_regulated" "connected demo_regulated"
    using time_steps_inv [OF demo_regulated_step demo_reg_inv demo_federation_ok(2)] by auto
  have m: "map_of (fd_federates demo_federation) 1 = Some (demo_federate 1 ''a'')" by (simp add: demo_federation_def)
  then have d: "demo_regulated = regulating 1 (Fin 5) (demo_federate 1 ''a'') demo_federation"
    using addRegulator_run [OF demo_reg_inv demo_federation_ok(2)] by (simp add: demo_regulated_def demo_federate_def)
  show "map_of (fd_federates demo_regulated) 1 = Some (demo_federate 1 ''a''\<lparr>f_regulator := True\<rparr>)"
    by (simp add: d regulating_def om_simps)
  show "lbts_clocks (fd_regulators demo_regulated) = [(1, Fin 5)]"
    by (simp add: d regulating_def lbts_insert_run Let_def demo_federation_def lbts_new_def lbts_exists_def)
  show "fed_ok demo_regulated"
    by (auto simp: d fed_ok_def regulating_def demo_federation_def om_ok_def hm_ok_def handle_manager_new_def demo_federate_def)
qed

theorem kill_regulator_silent_witness:
  "\<exists>s1. kill (\<lambda>_. ret []) 1 demo_regulated
      = (Inr [event [the_link demo_regulated 1] (fed_message demo_regulated 1 RESIGN_FEDERATION_EXECUTION NoBody)], s1)
    \<and> \<not> has_clock s1 1"
  using kill_regulator_silent [OF demo_regulated_facts, of "\<lambda>_. ret []" "[]" "()"] by (auto simp: ret_run)

text \<open>
  C29. The null message of a regulating federate goes to every federate but the sender, once and
  unchanged; it advances the RTIG's clock of the sender, which never goes back by more than the
  tolerance of the comparison, and no other clock.
\<close>

theorem null_message_relayed:
  assumes "fed_ok s" "reg_inv s" "connected s" "regulates s h"
  shows "\<exists>s1 old. updateRegulator h t False s
      = (Inr [event (map (the_link s) (filter (\<lambda>k. k \<noteq> h) (handles_of s))) (setDate t (fed_message s h MESSAGE_NULL NoBody))], s1)
    \<and> map_of (lbts_clocks (fd_regulators s)) h = Some old
    \<and> map_of (lbts_clocks (fd_regulators s1)) h = Some (if ft_lt t old then old else t)
    \<and> (\<forall>k. k \<noteq> h \<longrightarrow> map_of (lbts_clocks (fd_regulators s1)) k = map_of (lbts_clocks (fd_regulators s)) k)"
proof -
  obtain f where f: "map_of (fd_federates s) h = Some f" "f_regulator f" using assms(4) by (auto simp: regulates_def)
  then have "(h, f) \<in> set (fd_federates s)" by (intro map_of_SomeD)
  then have h: "h \<noteq> 0" using assms(1) by (force simp: fed_ok_def)
  obtain old where old: "map_of (lbts_clocks (fd_regulators s)) h = Some old"
    using reg_invD [OF assms(2) f(1)] f(2) by (auto simp: lbts_exists_def)
  have u: "lbts_update h t (fd_regulators s) = (Inr (), snd (lbts_update h t (fd_regulators s)))"
    using h old by (simp add: lbts_update_run Let_def)
  note c = lbts_update_clock [OF u]
  have "map_of (lbts_clocks (fd_regulators (advanced h t s))) h = Some (if ft_lt t old then old else t)"
    using c [of h] old by (simp add: advanced_def advance_clock_def ft_gt_iff)
  moreover have "\<forall>k. k \<noteq> h \<longrightarrow> map_of (lbts_clocks (fd_regulators (advanced h t s))) k = map_of (lbts_clocks (fd_regulators s)) k"
    using c h by (auto simp: advanced_def)
  ultimately show ?thesis using updateRegulator_run [OF assms(2,3) h] f old by auto
qed

theorem null_message_relayed_witness:
  "\<exists>s1 old. updateRegulator 1 (Fin 6) False demo_regulated
      = (Inr [event (map (the_link demo_regulated) (filter (\<lambda>k. k \<noteq> 1) (handles_of demo_regulated)))
          (setDate (Fin 6) (fed_message demo_regulated 1 MESSAGE_NULL NoBody))], s1)
    \<and> map_of (lbts_clocks (fd_regulators demo_regulated)) 1 = Some old"
proof -
  have "regulates demo_regulated 1" using demo_regulated_facts(4) by (simp add: regulates_def)
  then show ?thesis using null_message_relayed [OF demo_regulated_facts(1-3), of 1 "Fin 6"] by blast
qed

end
