(* ===== verification/NullPrime.thy ===== *)
theory NullPrime
  imports Regulators
begin

text \<open>
  The part of the NULL PRIME protocol that \<open>Federation\<close> carries: \<open>computeMinNERx\<close> and
  \<open>updateLastNERxForFederate\<close>. The bound is compared with its description: the least of the clocks
  of the regulating federates, where a federate in a next event request counts with the date it
  has asked for.
\<close>

definition ner_date :: "'r federation \<Rightarrow> federate_handle \<times> fed_time \<Rightarrow> fed_time" where
  "ner_date s e = (case map_of (fd_federates s) (fst e) of
     Some f \<Rightarrow> if f_usingNERx f then f_lastNERx f else snd e | None \<Rightarrow> snd e)"

definition in_ner :: "'r federation \<Rightarrow> federate_handle \<Rightarrow> bool" where
  "in_ner s h \<longleftrightarrow> (\<exists>f. map_of (fd_federates s) h = Some f \<and> f_usingNERx f)"

lemma om_put_append: "\<forall>x \<in> fst ` set m. x < k \<Longrightarrow> om_put k v m = m @ [(k, v)]"
  by (induction m) auto

lemma ner_clocks_run:
  assumes "\<forall>e \<in> set cs. map_of (fd_federates s) (fst e) \<noteq> None"
    and "sorted_wrt (<) (map fst (lbts_clocks l @ cs))"
  shows "\<exists>l'. ner_clocks s cs n l = Inr (n + length (filter (\<lambda>e. in_ner s (fst e)) cs), l')
    \<and> lbts_clocks l' = lbts_clocks l @ map (\<lambda>e. (fst e, ner_date s e)) cs \<and> lbts_me l' = lbts_me l"
  using assms
proof (induction cs arbitrary: n l)
  case Nil
  then show ?case by simp
next
  case (Cons e cs)
  obtain h t where e: "e = (h, t)" by force
  obtain f where f: "map_of (fd_federates s) h = Some f" using Cons.prems(1) e by auto
  let ?d = "ner_date s e"
  have lt: "\<forall>x \<in> fst ` set (lbts_clocks l). x < h"
    using Cons.prems(2) e by (auto simp: sorted_wrt_append)
  then have new: "\<not> lbts_exists h l" by (force simp: lbts_exists_def map_of_None_keys)
  have "\<exists>l1. lbts_clocks l1 = lbts_clocks l @ [(h, ?d)] \<and> lbts_me l1 = lbts_me l \<and> lbts_insert h ?d l = (Inr (), l1)"
    using new om_put_append [OF lt] by (simp add: lbts_insert_run Let_def)
  then obtain l1 where l: "lbts_clocks l1 = lbts_clocks l @ [(h, ?d)]" "lbts_me l1 = lbts_me l"
    "lbts_insert h ?d l = (Inr (), l1)" by blast
  have date: "?d = (if f_usingNERx f then f_lastNERx f else t)" "in_ner s h = f_usingNERx f"
    using f e by (simp_all add: ner_date_def in_ner_def)
  have "sorted_wrt (<) (map fst (lbts_clocks l1 @ cs))" using Cons.prems(2) l(1) e by simp
  from Cons.IH [OF _ this, of "if f_usingNERx f then n + 1 else n"] Cons.prems(1) obtain l' where
    "ner_clocks s cs (if f_usingNERx f then n + 1 else n) l1
       = Inr ((if f_usingNERx f then n + 1 else n) + length (filter (\<lambda>e. in_ner s (fst e)) cs), l')"
    "lbts_clocks l' = lbts_clocks l1 @ map (\<lambda>e. (fst e, ner_date s e)) cs" "lbts_me l' = lbts_me l1"
    by auto
  then show ?case using e f l date by (cases "f_usingNERx f") (simp_all add: getFederate_def)
qed

text \<open>
  C32. \<open>computeMinNERx\<close> does not fail in a federation whose clocks and flags agree. It is zero
  unless two regulating federates are in a next event request; then it is the running minimum of
  the dates of all the regulating federates, and no such date is below it.
\<close>

theorem computeMinNERx_least:
  assumes "fed_ok s" "reg_inv s"
    and "\<forall>e \<in> set (lbts_clocks (fd_regulators s)). Fin 0 \<le> ner_date s e"
  shows "\<exists>d. computeMinNERx s = Inr d
    \<and> (if length (filter (\<lambda>e. in_ner s (fst e)) (lbts_clocks (fd_regulators s))) < 2 then d = Fin 0
       else (d = PInf \<or> d \<in> ner_date s ` set (lbts_clocks (fd_regulators s)))
         \<and> (\<forall>e \<in> set (lbts_clocks (fd_regulators s)). \<not> ft_lt (ner_date s e) d))"
proof -
  let ?cs = "lbts_clocks (fd_regulators s)"
  have fed: "\<forall>e \<in> set ?cs. map_of (fd_federates s) (fst e) \<noteq> None"
  proof
    fix e
    assume e: "e \<in> set ?cs"
    then have "map_of ?cs (fst e) \<noteq> None" by (auto simp: map_of_None_keys)
    then show "map_of (fd_federates s) (fst e) \<noteq> None" using assms(2)
      by (auto simp: reg_inv_def has_clock_def regulates_def)
  qed
  have o: "sorted_wrt (<) (map fst (lbts_clocks lbts_new @ ?cs))"
    using assms(2) by (simp add: lbts_new_def reg_inv_def lbts_ok_def om_ok_def)
  obtain l where l: "ner_clocks s ?cs 0 lbts_new = Inr (length (filter (\<lambda>e. in_ner s (fst e)) ?cs), l)"
    "lbts_clocks l = map (\<lambda>e. (fst e, ner_date s e)) ?cs" "lbts_me l = 0"
    using ner_clocks_run [OF fed o, of 0] by (auto simp: lbts_new_def)
  have "fst e \<noteq> 0" if "e \<in> set ?cs" for e
  proof -
    obtain f where "map_of (fd_federates s) (fst e) = Some f" using fed \<open>e \<in> set ?cs\<close> by auto
    then have "(fst e, f) \<in> set (fd_federates s)" by (rule map_of_SomeD)
    then show ?thesis using assms(1) by (force simp: fed_ok_def)
  qed
  then have "others l = map (ner_date s) ?cs"
    using l(2,3) by (simp add: others_def comp_def filter_map filter_id_conv)
  then have v: "lbts_value (snd (lbts_compute l)) = running_min ft_lt (map (ner_date s) ?cs) PInf"
    by (simp add: lbts_compute_run)
  have nn: "\<forall>t \<in> set (map (ner_date s) ?cs). Fin 0 \<le> t" using assms(3) by simp
  have "running_min ft_lt (map (ner_date s) ?cs) PInf = PInf \<or> running_min ft_lt (map (ner_date s) ?cs) PInf \<in> ner_date s ` set ?cs"
    using ft.running_min_mem [of "map (ner_date s) ?cs" PInf] by simp
  moreover have "\<not> ft_lt (ner_date s e) (running_min ft_lt (map (ner_date s) ?cs) PInf)" if "e \<in> set ?cs" for e
    using ft.running_min_lower [OF _ nn, of PInf "ner_date s e"] that by simp
  ultimately show ?thesis
    using l(1) v by (auto simp: computeMinNERx_def lbts_get_def)
qed

lemma demo_dates: "\<forall>e \<in> set (lbts_clocks (fd_regulators demo_regulated)). Fin 0 \<le> ner_date demo_regulated e"
  using demo_regulated_facts(4) demo_regulated_clocks by (simp add: ner_date_def demo_federate_def)

theorem computeMinNERx_least_witness: "\<exists>d. computeMinNERx demo_regulated = Inr d \<and> d = Fin 0"
  using computeMinNERx_least [OF demo_regulated_facts(1,2) demo_dates] demo_regulated_clocks by auto

lemma stop_NERx_run: "stop_NERx f = (Inr (), if f_usingNERx f then f\<lparr>f_lastNERx := Fin 0, f_usingNERx := False\<rparr> else f)"
  by (simp add: stop_NERx_def act_simps setLastNERxValue_def setIsUsingNERx_def)

text \<open>
  \<open>updateLastNERxForFederate\<close>: the stored minimum never goes back. When it advances, the answer is
  true and no federate is in a next event request any more; when it does not, the answer is false
  and only the federate that asked has changed.
\<close>

theorem updateLastNERx_forward:
  assumes "om_ok (fd_federates s)" "updateLastNERxForFederate h t s = (Inr b, s')"
  shows "(b \<and> ft_lt (fd_min_NERx s) (fd_min_NERx s') \<and> (\<forall>k. \<not> in_ner s' k) \<and> handles_of s' = handles_of s)
    \<or> (\<not> b \<and> fd_min_NERx s' = fd_min_NERx s \<and> in_ner s' h \<and> (\<forall>k. k \<noteq> h \<longrightarrow> in_ner s' k = in_ner s k))"
proof -
  obtain f where f: "map_of (fd_federates s) h = Some f"
    using assms(2) by (cases "map_of (fd_federates s) h") (auto simp: updateLastNERxForFederate_def act_simps)
  let ?s = "s\<lparr>fd_federates := om_put h (f\<lparr>f_lastNERx := t, f_usingNERx := True\<rparr>) (fd_federates s)\<rparr>"
  have on: "on_federate h (setLastNERxValue t) s = (Inr (), ?s)"
    using f by (simp add: on_federate_run setLastNERxValue_def modify_run)
  obtain d where d: "computeMinNERx ?s = Inr d"
    using assms(2) f by (cases "computeMinNERx ?s")
      (auto simp: updateLastNERxForFederate_def seq_run bind_run gets_run lift_sum_run on)
  have hs: "handles_of ?s = handles_of s" using om_put_keys [of "fd_federates s" h] f assms(1)
    by (simp add: handles_of_def)
  show ?thesis
  proof (cases "ft_gt d (fd_min_NERx s)")
    case False
    then have "\<not> b \<and> s' = ?s"
      using assms(2) d by (simp add: updateLastNERxForFederate_def seq_run bind_run gets_run ret_run lift_sum_run on)
    then show ?thesis by (simp add: in_ner_def om_simps)
  next
    case True
    let ?m = "?s\<lparr>fd_min_NERx := d\<rparr>"
    have "for_federates stop_NERx ?m
        = (Inr (), ?m\<lparr>fd_federates := om_map (\<lambda>h f. snd (stop_NERx f)) (fd_federates ?m)\<rparr>)"
      by (rule for_federates_run) (use assms(1) in \<open>simp_all add: om_simps stop_NERx_run\<close>)
    then have s': "b \<and> s' = ?m\<lparr>fd_federates := om_map (\<lambda>h f. snd (stop_NERx f)) (fd_federates ?m)\<rparr>"
      using assms(2) d True
      by (simp add: updateLastNERxForFederate_def seq_run bind_run gets_run ret_run lift_sum_run modify_run on)
    then have "\<not> in_ner s' k" for k by (auto simp: in_ner_def om_simps stop_NERx_run split: if_splits)
    then show ?thesis using s' hs True by (simp add: ft_gt_iff handles_of_def om_simps)
  qed
qed

theorem updateLastNERx_forward_witness:
  "\<exists>s'. updateLastNERxForFederate 1 (Fin 6) demo_federation = (Inr False, s') \<and> in_ner s' 1"
proof -
  obtain s' where s': "updateLastNERxForFederate 1 (Fin 6) demo_federation = (Inr False, s')"
    by (simp add: updateLastNERxForFederate_def act_simps computeMinNERx_def demo_federation_def lbts_get_def
        lbts_new_def setLastNERxValue_def ft_gt_iff ft_lt_irrefl)
  then show ?thesis
    using updateLastNERx_forward [OF _ s'] demo_federation_ok(1) by (simp add: fed_ok_def)
qed

end
