(* ===== verification/SaveRestore.thy ===== *)
theory SaveRestore
  imports Countdown
begin

text \<open>
  The save and restore protocols of \<open>Federation\<close>: a save is over when the last federate has
  reported, with the verdict of all of them, and no other save starts in between; likewise for a
  restore. The request of a save at a time hands the RTIG events without a message.
\<close>

text \<open>A member function of all federates, or of one, that always succeeds.\<close>

lemma on_federate_present:
  assumes "fed_ok s" "h \<in> set (handles_of s)" "\<And>f. m f = (Inr (), g f)"
  shows "on_federate h m s = (Inr (), s\<lparr>fd_federates := om_map (\<lambda>k f. if k = h then g f else f) (fd_federates s)\<rparr>)"
proof -
  have ok: "om_ok (fd_federates s)" using assms(1) by (simp add: fed_ok_def)
  have h: "h \<in> fst ` set (fd_federates s)" using assms(2) by (simp add: handles_of_def)
  then obtain f where f: "map_of (fd_federates s) h = Some f" by (metis map_of_eq_None_iff not_None_eq)
  have only: "(h, f') \<in> set (fd_federates s) \<Longrightarrow> f' = f" for f'
    using om_ok_map_of [OF ok, of h f'] f by simp
  have "om_put h (g f) (fd_federates s) = om_map (\<lambda>k f'. if k = h then g f else f') (fd_federates s)"
    by (rule om_put_present [OF ok h])
  also have "\<dots> = om_map (\<lambda>k f. if k = h then g f else f) (fd_federates s)"
    by (rule om_map_cong) (auto dest: only)
  finally show ?thesis using f assms(3) by (simp add: on_federate_run)
qed

definition flagged :: "(federate \<Rightarrow> bool) \<Rightarrow> 'r federation \<Rightarrow> federate_handle set" where
  "flagged p s = {h. \<exists>f. (h, f) \<in> set (fd_federates s) \<and> p f}"

lemma flagged_map: "flagged p (s\<lparr>fd_federates := om_map g (fd_federates s)\<rparr>)
    = {h. \<exists>f. (h, f) \<in> set (fd_federates s) \<and> p (g h f)}"
  by (force simp: flagged_def om_map_def)

lemma flagged_more: "flagged p (s\<lparr>fd_save_status := b\<rparr>) = flagged p s" "flagged p (s\<lparr>fd_restore_status := b\<rparr>) = flagged p s"
  "flagged p (s\<lparr>fd_saving := b\<rparr>) = flagged p s" "flagged p (s\<lparr>fd_restoring := b\<rparr>) = flagged p s"
  "flagged p (s\<lparr>fd_save_label := l\<rparr>) = flagged p s"
  by (simp_all add: flagged_def)

lemma flagged_ex: "(\<exists>e \<in> set (fd_federates s). p (snd e)) \<longleftrightarrow> flagged p s \<noteq> {}"
  by (force simp: flagged_def)

lemma fed_ok_more:
  "fed_ok (s\<lparr>fd_save_status := b\<rparr>) = fed_ok s" "fed_ok (s\<lparr>fd_restore_status := b\<rparr>) = fed_ok s"
  "connected (s\<lparr>fd_save_status := b\<rparr>) = connected s" "connected (s\<lparr>fd_restore_status := b\<rparr>) = connected s"
  by (simp_all add: fed_ok_def connected_def link_of_def)

section \<open>Save\<close>

definition save_mark :: "federate_handle \<times> bool \<Rightarrow> 'r federation \<Rightarrow> 'r federation" where
  "save_mark r s = s\<lparr>fd_federates := om_map (\<lambda>k f. if k = fst r then f\<lparr>f_saving := False\<rparr> else f) (fd_federates s),
     fd_save_status := fd_save_status s \<and> snd r\<rparr>"

definition save_verdict :: "bool \<Rightarrow> bool \<Rightarrow> nm_type" where
  "save_verdict xml b = (if b \<and> xml then FEDERATION_SAVED else FEDERATION_NOT_SAVED)"

definition save_finish :: "federate_handle \<times> bool \<Rightarrow> 'r federation \<Rightarrow> 'r federation" where
  "save_finish r s = (save_mark r s)\<lparr>fd_save_status := True, fd_saving := False\<rparr>"

lemma save_mark_facts:
  "fed_ok s \<Longrightarrow> fed_ok (save_mark r s)" "same_links s (save_mark r s)"
  "flagged f_saving (save_mark r s) = flagged f_saving s - {fst r}"
proof -
  have eq: "save_mark r s = (s\<lparr>fd_federates := om_map (\<lambda>k f. if k = fst r then f\<lparr>f_saving := False\<rparr> else f) (fd_federates s)\<rparr>)
      \<lparr>fd_save_status := fd_save_status s \<and> snd r\<rparr>"
    by (simp add: save_mark_def)
  show "fed_ok s \<Longrightarrow> fed_ok (save_mark r s)"
    unfolding eq fed_ok_more by (rule fed_ok_om_map) simp_all
  show "same_links s (save_mark r s)" by (simp add: same_links_def save_mark_def handles_of_def om_simps)
  show "flagged f_saving (save_mark r s) = flagged f_saving s - {fst r}"
    unfolding eq flagged_more flagged_map by (auto simp: flagged_def)
qed

lemma federateSaveStatus_run:
  assumes "fed_ok s" "connected s" "h \<in> set (handles_of s)"
  shows "federateSaveStatus xml h b s =
    (if flagged f_saving (save_mark (h, b) s) \<noteq> {} then (Inr [], save_mark (h, b) s)
     else (Inr [to_all s (fed_message s h (save_verdict xml (fd_save_status s \<and> b)) NoBody)], save_finish (h, b) s))"
proof -
  let ?f = "om_map (\<lambda>k f. if k = h then f\<lparr>f_saving := False\<rparr> else f) (fd_federates s)"
  have on: "on_federate h (setSaving False) s = (Inr (), s\<lparr>fd_federates := ?f\<rparr>)"
    by (rule on_federate_present [OF assms(1,3)]) (simp add: setSaving_def modify_run)
  have m: "(if \<not> b then s\<lparr>fd_federates := ?f\<rparr>\<lparr>fd_save_status := False\<rparr> else s\<lparr>fd_federates := ?f\<rparr>) = save_mark (h, b) s"
    by (simp add: save_mark_def)
  let ?s = "save_mark (h, b) s"
  let ?t = "if fd_save_status ?s then ?s\<lparr>fd_save_status := xml\<rparr> else ?s"
  have "same_links s ?t" using save_mark_facts(2) [of s "(h, b)"] by (simp add: same_links_def handles_of_def)
  then have t: "connected ?t" "to_all ?t = to_all s" "fed_message ?t = fed_message s"
    using same_links_connected [OF _ assms(2)] same_links_events by auto
  have ok: "fed_ok ?t" using save_mark_facts(1) [OF assms(1)] by (simp add: fed_ok_more)
  have st: "fd_save_status ?t = (fd_save_status s \<and> b \<and> xml)" by (auto simp: save_mark_def)
  have fin: "?t\<lparr>fd_save_status := True, fd_saving := False\<rparr> = save_finish (h, b) s"
    by (simp add: save_finish_def)
  show ?thesis
    using on m flagged_ex [where p = f_saving and s = ?s] respondToAll_all [OF ok t(1)] t(2,3) st fin
    by (simp add: federateSaveStatus_def seq_run bind_run gets_run ret_run modify_run save_verdict_def)
qed

interpretation save: countdown "flagged f_saving" "\<lambda>r. federateSaveStatus xml (fst r) (snd r)" fst
    "\<lambda>s :: 'r federation. fed_ok s \<and> connected s" save_mark
    "\<lambda>r s. [to_all s (fed_message s (fst r) (save_verdict xml (fd_save_status s \<and> snd r)) NoBody)]" save_finish for xml
proof unfold_locales
  fix s :: "'r federation" and r :: "federate_handle \<times> bool"
  assume ok: "fed_ok s \<and> connected s"
  have mem: "h \<in> flagged f_saving s \<Longrightarrow> h \<in> set (handles_of s)" for h
    by (auto simp: flagged_def handles_of_def intro: rev_image_eqI)
  note run = federateSaveStatus_run [of s "fst r" xml "snd r"] save_mark_facts(3) [of r s]
  show "flagged f_saving s = {fst r} \<Longrightarrow> federateSaveStatus xml (fst r) (snd r) s
      = (Inr [to_all s (fed_message s (fst r) (save_verdict xml (fd_save_status s \<and> snd r)) NoBody)], save_finish r s)"
    using run ok mem by simp
  assume h: "fst r \<in> flagged f_saving s"
  show "flagged f_saving s \<noteq> {fst r} \<Longrightarrow> federateSaveStatus xml (fst r) (snd r) s = (Inr [], save_mark r s)"
    using run ok mem h by auto
  show "fed_ok (save_mark r s) \<and> connected (save_mark r s)"
    using ok save_mark_facts(1,2) same_links_connected by blast
  show "flagged f_saving (save_mark r s) = flagged f_saving s - {fst r}" by (rule save_mark_facts)
qed

definition saving_state :: "string \<Rightarrow> 'r federation \<Rightarrow> 'r federation" where
  "saving_state l s = s\<lparr>fd_federates := om_map (\<lambda>k f. f\<lparr>f_saving := True\<rparr>) (fd_federates s),
     fd_save_status := True, fd_saving := True, fd_save_label := l\<rparr>"

lemma saving_state_facts:
  "fed_ok s \<Longrightarrow> fed_ok (saving_state l s)" "same_links s (saving_state l s)"
  "flagged f_saving (saving_state l s) = set (handles_of s)"
proof -
  have eq: "saving_state l s = (s\<lparr>fd_federates := om_map (\<lambda>k f. f\<lparr>f_saving := True\<rparr>) (fd_federates s)\<rparr>)
      \<lparr>fd_save_status := True, fd_saving := True, fd_save_label := l\<rparr>"
    by (simp add: saving_state_def)
  have more: "fed_ok (s\<lparr>fd_save_status := True, fd_saving := True, fd_save_label := l\<rparr>) = fed_ok s" for s :: "'r federation"
    by (simp add: fed_ok_def)
  show "fed_ok s \<Longrightarrow> fed_ok (saving_state l s)"
    unfolding eq more by (rule fed_ok_om_map) simp_all
  show "same_links s (saving_state l s)" by (simp add: same_links_def saving_state_def handles_of_def om_simps)
  show "flagged f_saving (saving_state l s) = set (handles_of s)"
    unfolding eq flagged_more flagged_map by (force simp: handles_of_def)
qed

lemma begin_save_run:
  assumes "fed_ok s" "connected s" "map_of (fd_federates s) h \<noteq> None"
  shows "begin_save h l dated s =
    (if fd_saving s then (Inl SaveInProgress, s)
     else (Inr [to_all s (dated (setLabel l (fed_message s h INITIATE_FEDERATE_SAVE NoBody)))], saving_state l s))"
proof -
  have ok: "om_ok (fd_federates s)" using assms(1) by (simp add: fed_ok_def)
  have "for_federates (setSaving True) s
      = (Inr (), s\<lparr>fd_federates := om_map (\<lambda>h f. snd (setSaving True f)) (fd_federates s)\<rparr>)"
    by (rule for_federates_run [OF ok]) (simp add: setSaving_def modify_run)
  then have on: "for_federates (setSaving True) s
      = (Inr (), s\<lparr>fd_federates := om_map (\<lambda>h f. f\<lparr>f_saving := True\<rparr>) (fd_federates s)\<rparr>)"
    by (simp add: setSaving_def modify_run)
  note st = saving_state_facts(1) [OF assms(1), of l] saving_state_facts(2) [of s l]
  show ?thesis
    using assms(3) on respondToAll_all [OF st(1) same_links_connected [OF st(2) assms(2)]] same_links_events [OF st(2)]
    by (simp add: begin_save_def seq_run bind_run gets_run modify_run check_run throw_if_run saving_state_def [symmetric])
qed

lemma marked_verdict: "fd_save_status (fold save_mark xs s) = (fd_save_status s \<and> (\<forall>r \<in> set xs. snd r))"
  by (induction xs arbitrary: s) (auto simp: save_mark_def)

section \<open>Properties of the save protocol\<close>



text \<open>
  The request of a save at a time: the RTIG is handed two copies of the broadcast, and the second
  is without its message, which sending it would dereference; the other request is in order.
\<close>

theorem timed_save_without_message:
  assumes "fed_ok s" "connected s" "map_of (fd_federates s) h \<noteq> None" "\<not> fd_saving s"
  shows "(\<exists>rs s1. requestFederationSaveAt h l t s = (Inr rs, s1) \<and> length rs = 2 \<and> \<not> sendable rs)
    \<and> (\<exists>rs s1. requestFederationSave h l s = (Inr rs, s1) \<and> sendable rs)"
  using begin_save_run [OF assms(1-3)] assms(4)
  by (simp add: requestFederationSaveAt_def requestFederationSave_def bind_run ret_run moved_from_def to_all_def event_def)

theorem timed_save_without_message_witness:
  "\<exists>rs s1. requestFederationSaveAt 2 ''backup'' (Fin 7) demo_federation = (Inr rs, s1) \<and> \<not> sendable rs"
proof -
  have "map_of (fd_federates demo_federation) 2 \<noteq> None" "\<not> fd_saving demo_federation"
    by (auto simp: demo_federation_def)
  then show ?thesis
    using timed_save_without_message [OF demo_federation_ok, of 2 "''backup''" "Fin 7"] by blast
qed

section \<open>Restore\<close>

definition restore_mark :: "federate_handle \<times> bool \<Rightarrow> 'r federation \<Rightarrow> 'r federation" where
  "restore_mark r s = s\<lparr>fd_federates := om_map (\<lambda>k f. if k = fst r then f\<lparr>f_restoring := False\<rparr> else f) (fd_federates s),
     fd_restore_status := fd_restore_status s \<and> snd r\<rparr>"

definition restore_verdict :: "bool \<Rightarrow> nm_type" where
  "restore_verdict b = (if b then FEDERATION_RESTORED else FEDERATION_NOT_RESTORED)"

definition restore_finish :: "federate_handle \<times> bool \<Rightarrow> 'r federation \<Rightarrow> 'r federation" where
  "restore_finish r s = (restore_mark r s)\<lparr>fd_restore_status := True, fd_restoring := False\<rparr>"

lemma restore_mark_facts:
  "fed_ok s \<Longrightarrow> fed_ok (restore_mark r s)" "same_links s (restore_mark r s)"
  "flagged f_restoring (restore_mark r s) = flagged f_restoring s - {fst r}"
proof -
  have eq: "restore_mark r s = (s\<lparr>fd_federates := om_map (\<lambda>k f. if k = fst r then f\<lparr>f_restoring := False\<rparr> else f) (fd_federates s)\<rparr>)
      \<lparr>fd_restore_status := fd_restore_status s \<and> snd r\<rparr>"
    by (simp add: restore_mark_def)
  show "fed_ok s \<Longrightarrow> fed_ok (restore_mark r s)"
    unfolding eq fed_ok_more by (rule fed_ok_om_map) simp_all
  show "same_links s (restore_mark r s)" by (simp add: same_links_def restore_mark_def handles_of_def om_simps)
  show "flagged f_restoring (restore_mark r s) = flagged f_restoring s - {fst r}"
    unfolding eq flagged_more flagged_map by (auto simp: flagged_def)
qed

lemma federateRestoreStatus_run:
  assumes "fed_ok s" "connected s" "h \<in> set (handles_of s)"
  shows "federateRestoreStatus h b s =
    (if flagged f_restoring (restore_mark (h, b) s) \<noteq> {} then (Inr [], restore_mark (h, b) s)
     else (Inr [to_all s (fed_message s h (restore_verdict (fd_restore_status s \<and> b)) NoBody)], restore_finish (h, b) s))"
proof -
  let ?f = "om_map (\<lambda>k f. if k = h then f\<lparr>f_restoring := False\<rparr> else f) (fd_federates s)"
  have on: "on_federate h (setRestoring False) s = (Inr (), s\<lparr>fd_federates := ?f\<rparr>)"
    by (rule on_federate_present [OF assms(1,3)]) (simp add: setRestoring_def modify_run)
  let ?s = "restore_mark (h, b) s"
  have m: "(if \<not> b then s\<lparr>fd_federates := ?f\<rparr>\<lparr>fd_restore_status := False\<rparr> else s\<lparr>fd_federates := ?f\<rparr>) = ?s"
    by (simp add: restore_mark_def)
  have "same_links s ?s" by (rule restore_mark_facts)
  then have t: "connected ?s" "to_all ?s = to_all s" "fed_message ?s = fed_message s"
    using same_links_connected [OF _ assms(2)] same_links_events by auto
  have st: "fd_restore_status ?s = (fd_restore_status s \<and> b)" by (simp add: restore_mark_def)
  show ?thesis
    using on m flagged_ex [where p = f_restoring and s = ?s] respondToAll_all [OF restore_mark_facts(1) [OF assms(1)] t(1)] t(2,3) st
    by (simp add: federateRestoreStatus_def seq_run bind_run gets_run ret_run modify_run restore_verdict_def restore_finish_def)
qed

interpretation restore: countdown "flagged f_restoring" "\<lambda>r. federateRestoreStatus (fst r) (snd r)" fst
    "\<lambda>s :: 'r federation. fed_ok s \<and> connected s" restore_mark
    "\<lambda>r s. [to_all s (fed_message s (fst r) (restore_verdict (fd_restore_status s \<and> snd r)) NoBody)]" restore_finish
proof unfold_locales
  fix s :: "'r federation" and r :: "federate_handle \<times> bool"
  assume ok: "fed_ok s \<and> connected s"
  have mem: "h \<in> flagged f_restoring s \<Longrightarrow> h \<in> set (handles_of s)" for h
    by (auto simp: flagged_def handles_of_def intro: rev_image_eqI)
  note run = federateRestoreStatus_run [of s "fst r" "snd r"] restore_mark_facts(3) [of r s]
  show "flagged f_restoring s = {fst r} \<Longrightarrow> federateRestoreStatus (fst r) (snd r) s
      = (Inr [to_all s (fed_message s (fst r) (restore_verdict (fd_restore_status s \<and> snd r)) NoBody)], restore_finish r s)"
    using run ok mem by simp
  assume h: "fst r \<in> flagged f_restoring s"
  show "flagged f_restoring s \<noteq> {fst r} \<Longrightarrow> federateRestoreStatus (fst r) (snd r) s = (Inr [], restore_mark r s)"
    using run ok mem h by auto
  show "fed_ok (restore_mark r s) \<and> connected (restore_mark r s)"
    using ok restore_mark_facts(1,2) same_links_connected by blast
  show "flagged f_restoring (restore_mark r s) = flagged f_restoring s - {fst r}" by (rule restore_mark_facts)
qed

definition restoring_state :: "'r federation \<Rightarrow> 'r federation" where
  "restoring_state s = s\<lparr>fd_federates := om_map (\<lambda>k f. f\<lparr>f_restoring := True\<rparr>) (fd_federates s),
     fd_restore_status := True, fd_restoring := True\<rparr>"

lemma restoring_state_facts:
  "fed_ok s \<Longrightarrow> fed_ok (restoring_state s)" "same_links s (restoring_state s)"
  "flagged f_restoring (restoring_state s) = set (handles_of s)"
proof -
  have eq: "restoring_state s = (s\<lparr>fd_federates := om_map (\<lambda>k f. f\<lparr>f_restoring := True\<rparr>) (fd_federates s)\<rparr>)
      \<lparr>fd_restore_status := True, fd_restoring := True\<rparr>"
    by (simp add: restoring_state_def)
  have more: "fed_ok (s\<lparr>fd_restore_status := True, fd_restoring := True\<rparr>) = fed_ok s" for s :: "'r federation"
    by (simp add: fed_ok_def)
  show "fed_ok s \<Longrightarrow> fed_ok (restoring_state s)"
    unfolding eq more by (rule fed_ok_om_map) simp_all
  show "same_links s (restoring_state s)" by (simp add: same_links_def restoring_state_def handles_of_def om_simps)
  show "flagged f_restoring (restoring_state s) = set (handles_of s)"
    unfolding eq flagged_more flagged_map by (force simp: handles_of_def)
qed

text \<open>The handle that a federate knows is its key in the map.\<close>

definition keys_agree :: "'r federation \<Rightarrow> bool" where
  "keys_agree s \<longleftrightarrow> (\<forall>(h, f) \<in> set (fd_federates s). f_handle f = h)"

definition initiate_event :: "'r federation \<Rightarrow> string \<Rightarrow> federate_handle \<Rightarrow> message_event" where
  "initiate_event s l k = event [the_link s k] (setFederate k (setLabel l (setFederation (fd_handle s)
     (new_message INITIATE_FEDERATE_RESTORE NoBody))))"

lemma link_present: "connected s \<Longrightarrow> h \<in> set (handles_of s) \<Longrightarrow> link_of s h = Inr (the_link s h)"
  by (auto simp: connected_def handles_of_def the_link_def)

lemma collect_restore_events:
  assumes "fed_ok s" "connected s" "keys_agree s" "set hs \<subseteq> set (handles_of s)"
  shows "collect (restore_event l) hs s = (Inr (map (initiate_event s l) hs), s)"
  using assms(4)
proof (induction hs)
  case Nil
  then show ?case by (simp add: ret_run)
next
  case (Cons h hs)
  then obtain f where f: "map_of (fd_federates s) h = Some f"
    by (metis handles_of_def list.set_intros(1) list.set_map map_of_eq_None_iff not_None_eq subset_iff)
  then have "f_handle f = h" using assms(3) map_of_SomeD [OF f] by (auto simp: keys_agree_def)
  then have "restore_event l h s = (Inr (initiate_event s l h), s)"
    using f link_present [OF assms(2), of h] Cons.prems
    by (simp add: restore_event_def bind_run gets_run respondTo_run initiate_event_def)
  then show ?case using Cons by (simp add: bind_run ret_run)
qed

lemma requestFederationRestore_run:
  assumes "fed_ok s" "connected s" "keys_agree s" "map_of (fd_federates s) h \<noteq> None" "\<not> fd_restoring s"
  shows "requestFederationRestore None h l s
    = (Inr ([event [the_link s h] (setLabel l (fed_message s h REQUEST_FEDERATION_RESTORE_SUCCEEDED NoBody)),
             to_all s (fed_message s h FEDERATION_RESTORE_BEGUN NoBody)] @ map (initiate_event s l) (handles_of s)),
       restoring_state s)"
proof -
  let ?s = "restoring_state s"
  note f = restoring_state_facts [where s = s]
  have ok: "om_ok (fd_federates s)" using assms(1) by (simp add: fed_ok_def)
  have "for_federates (setRestoring True) s
      = (Inr (), s\<lparr>fd_federates := om_map (\<lambda>h f. snd (setRestoring True f)) (fd_federates s)\<rparr>)"
    by (rule for_federates_run [OF ok]) (simp add: setRestoring_def modify_run)
  then have on: "for_federates (setRestoring True) s
      = (Inr (), s\<lparr>fd_federates := om_map (\<lambda>h f. f\<lparr>f_restoring := True\<rparr>) (fd_federates s)\<rparr>)"
    by (simp add: setRestoring_def modify_run)
  have c: "connected ?s" by (rule same_links_connected [OF f(2) assms(2)])
  have k: "keys_agree ?s" using assms(3) by (auto simp: keys_agree_def restoring_state_def om_map_def)
  note l = same_linksD [OF f(2)]
  have ie: "initiate_event ?s l = initiate_event s l" by (rule ext) (simp add: initiate_event_def l)
  have "h \<in> set (handles_of s)" using assms(4) by (simp add: handles_of_def map_of_None_keys)
  then show ?thesis
    using assms(4,5) on respondToAll_all [OF f(1) [OF assms(1)] c] same_links_events [OF f(2)] l ie
      collect_restore_events [OF f(1) [OF assms(1)] c k, of "handles_of s" l] link_present [OF assms(2)]
    by (simp add: requestFederationRestore_def restoreXmlData_def seq_run bind_run gets_run ret_run modify_run check_run
        throw_if_run respondTo_run restoring_state_def [symmetric])
qed

lemma restored_verdict: "fd_restore_status (fold restore_mark xs s) = (fd_restore_status s \<and> (\<forall>r \<in> set xs. snd r))"
  by (induction xs arbitrary: s) (auto simp: restore_mark_def)

text \<open>
  C33. The restore protocol, when there is no saved file with the requested label: the request is
  nevertheless answered with success, every federate is told to restore, and when all of them have
  reported, in any order, the federation is announced as restored exactly if all reports are good.
\<close>

theorem restore_protocol:
  assumes "fed_ok s" "connected s" "keys_agree s" "map_of (fd_federates s) h \<noteq> None" "\<not> fd_restoring s"
    and "distinct (map fst reports)" "fst ` set reports = set (handles_of s)"
  shows "\<exists>s1 s2. requestFederationRestore None h l s
      = (Inr ([event [the_link s h] (setLabel l (fed_message s h REQUEST_FEDERATION_RESTORE_SUCCEEDED NoBody)),
               to_all s (fed_message s h FEDERATION_RESTORE_BEGUN NoBody)] @ map (initiate_event s l) (handles_of s)), s1)
    \<and> collect (\<lambda>r. federateRestoreStatus (fst r) (snd r)) reports s1
      = (Inr (replicate (length reports - 1) []
          @ [[to_all s (fed_message s (fst (last reports)) (restore_verdict (\<forall>r \<in> set reports. snd r)) NoBody)]]), s2)
    \<and> \<not> fd_restoring s2"
proof -
  let ?s1 = "restoring_state s"
  let ?b = "fold restore_mark (butlast reports) ?s1" and ?r = "last reports"
  note f = restoring_state_facts [where s = s]
  have ok: "fed_ok ?s1 \<and> connected ?s1" using f(1) [OF assms(1)] same_links_connected [OF f(2) assms(2)] by simp
  have ne: "reports \<noteq> []" using assms(4,7) by (auto simp: handles_of_def map_of_None_keys)
  note pend = trans [OF assms(7) f(3) [symmetric]]
  have "to_all ?b = to_all ?s1"
    by (rule restore.before_last_keep [OF ok assms(6) pend ne]) (rule same_links_events(1) [OF restore_mark_facts(2)])
  moreover have "fed_message ?b = fed_message ?s1"
    by (rule restore.before_last_keep [OF ok assms(6) pend ne]) (rule same_links_events(2) [OF restore_mark_facts(2)])
  ultimately have ev: "to_all ?b = to_all s" "fed_message ?b = fed_message s"
    using same_links_events [OF f(2)] by simp_all
  have "set reports = set (butlast reports @ [?r])" using ne by simp
  then have split: "set reports = insert ?r (set (butlast reports))" by (simp del: append_butlast_last_id)
  then have verdict: "(fd_restore_status ?b \<and> snd ?r) = (\<forall>r \<in> set reports. snd r)"
    unfolding restored_verdict split by (auto simp: restoring_state_def)
  have "\<not> fd_restoring (restore_finish ?r ?b)" by (simp add: restore_finish_def)
  then show ?thesis
    using requestFederationRestore_run [OF assms(1-5)] restore.all_report [OF ok assms(6) pend ne] ev verdict by simp
qed

theorem restore_protocol_witness:
  "\<exists>s1 s2. collect (\<lambda>r. federateRestoreStatus (fst r) (snd r)) [(1, True), (2, True)] (s1 :: unit federation)
      = (Inr [[], [to_all demo_federation (fed_message demo_federation 2 FEDERATION_RESTORED NoBody)]], s2)"
proof -
  have "map_of (fd_federates demo_federation) 1 \<noteq> None" "\<not> fd_restoring demo_federation" "keys_agree demo_federation"
    "fst ` set [(1, True), (2, True)] = set (handles_of demo_federation)"
    by (auto simp: demo_federation_def handles_of_def keys_agree_def demo_federate_def)
  then show ?thesis
    using restore_protocol [OF demo_federation_ok, of 1 "[(1, True), (2, True)]" "''backup''"]
    by (simp add: restore_verdict_def) blast
qed

end
