(* ===== verification/Climbing.thy ===== *)
theory Climbing
  imports Broadcast
begin

text \<open>
  The contract of a broadcast that is handed from a class to its superclasses, which the sets of
  object classes and of interaction classes share: if one round delivers the message to a connection
  exactly when the class wants it there and it has not been delivered before, then the whole loop
  delivers it exactly once, as soon as one class of the chain wants it there.
\<close>

fun class_chain :: "nat \<Rightarrow> (handle \<Rightarrow> 'c option) \<Rightarrow> ('c \<Rightarrow> handle) \<Rightarrow> handle \<Rightarrow> 'c list" where
  "class_chain 0 find_class super c = []"
| "class_chain (Suc n) find_class super c =
     (if c = 0 then [] else case find_class c of None \<Rightarrow> [] | Some x \<Rightarrow> x # class_chain n find_class super (super x))"

lemma class_chain_cong:
  assumes "\<And>c. rel_option (\<lambda>x y. super x = super y \<and> (P x \<longleftrightarrow> P y)) (f c) (g c)"
  shows "(\<exists>x \<in> set (class_chain n f super c). P x) \<longleftrightarrow> (\<exists>x \<in> set (class_chain n g super c). P x)"
proof (induction n arbitrary: c)
  case (Suc n)
  show ?case using assms [of c] Suc.IH by (cases "f c"; cases "g c") auto
qed simp

locale announcement =
  fixes up :: "nat \<Rightarrow> handle \<Rightarrow> 'b \<Rightarrow> 's \<Rightarrow> exn + responses"
    and pass :: "handle \<Rightarrow> 'b \<Rightarrow> 's \<Rightarrow> exn + ('b \<times> responses)"
    and find_class :: "'s \<Rightarrow> handle \<Rightarrow> 'c option"
    and super :: "'c \<Rightarrow> handle"
    and good :: "'b \<Rightarrow> bool" \<comment> \<open>the list is well formed and nobody waits\<close>
    and delivered :: "'b \<Rightarrow> bool" \<comment> \<open>the connection has got the message\<close>
    and wanted :: "'s \<Rightarrow> 'c \<Rightarrow> bool"
    and connection :: socket
  assumes up_top: "up n 0 b s = Inr rs \<Longrightarrow> rs = []"
    and up_step: "c \<noteq> 0 \<Longrightarrow> up n c b s = Inr rs \<Longrightarrow>
      \<exists>n' x b' rs1 rs2. n = Suc n' \<and> find_class s c = Some x \<and> pass c b s = Inr (b', rs1) \<and>
        up n' (super x) b' s = Inr rs2 \<and> rs = rs1 @ rs2"
    and pass_once: "good b \<Longrightarrow> find_class s c = Some x \<Longrightarrow> pass c b s = Inr (b', rs) \<Longrightarrow>
      good b' \<and> deliveries connection rs = (if wanted s x \<and> \<not> delivered b then 1 else 0) \<and> (delivered b' \<longleftrightarrow> delivered b \<or> wanted s x)"
begin

lemma delivered_once:
  assumes "good b" "up n c b s = Inr rs"
  shows "deliveries connection rs = (if \<not> delivered b \<and> (\<exists>x \<in> set (class_chain n (find_class s) super c). wanted s x) then 1 else 0)"
  using assms
proof (induction n arbitrary: c b rs)
  case 0
  then show ?case using up_top up_step by (cases "c = 0") fastforce+
next
  case (Suc n)
  show ?case
  proof (cases "c = 0")
    case True
    then show ?thesis using up_top [OF Suc.prems(2) [unfolded True]] by simp
  next
    case False
    obtain x b' rs1 rs2 where x: "find_class s c = Some x" and r1: "pass c b s = Inr (b', rs1)"
      and r2: "up n (super x) b' s = Inr rs2" and rs: "rs = rs1 @ rs2"
      using up_step [OF False Suc.prems(2)] by auto
    note one = pass_once [OF Suc.prems(1) x r1]
    have "deliveries connection rs2 =
        (if \<not> delivered b' \<and> (\<exists>x \<in> set (class_chain n (find_class s) super (super x)). wanted s x) then 1 else 0)"
      by (rule Suc.IH) (use one r2 in auto)
    then show ?thesis using one False x by (auto simp: rs)
  qed
qed

text \<open>The round in the class of the request comes first; then the loop starts at its superclass.\<close>

lemma announced_once:
  assumes "good b" "\<not> delivered b \<or> (\<forall>x. \<not> wanted s x)" "c \<noteq> 0" "find_class s c = Some x"
    and "pass c b s = Inr (b', rs1)" "up n (super x) b' s = Inr rs2"
  shows "deliveries connection (rs1 @ rs2) = (if \<exists>x \<in> set (class_chain (Suc n) (find_class s) super c). wanted s x then 1 else 0)"
  using pass_once [OF assms(1,4,5)] delivered_once [OF _ assms(6)] assms(2,3,4) by auto

end

end
