(* ===== verification/Discovery.thy ===== *)
theory Discovery
  imports ObjectClassSets Climbing
begin

text \<open>
  What the broadcasts about an object reach: the registration of an object is announced, and its
  deletion too, exactly once to every federate that subscribes to the class or to one of its
  superclasses, and never to the sender.
\<close>

named_theorems class_simps "evaluation of calls through pointers to classes and objects"

lemma on_class_run [class_simps]:
  "on_class c m s = (case map_of (ro_classes s) c of
     None \<Rightarrow> (Inl UndefinedBehaviour, s)
   | Some oc \<Rightarrow> (fst (m oc), s\<lparr>ro_classes := om_put c (snd (m oc)) (ro_classes s)\<rparr>))"
  by (simp add: on_class_def split: option.split prod.split)

lemma on_object_run [class_simps]:
  "on_object h m s = (case map_of (ro_objects s) h of
     None \<Rightarrow> (Inl UndefinedBehaviour, s)
   | Some ob \<Rightarrow> (fst (m ob), s\<lparr>ro_objects := om_put h (snd (m ob)) (ro_objects s)\<rparr>))"
  by (simp add: on_object_def split: option.split prod.split)

section \<open>One class\<close>

lemma addFederate_waits:
  assumes "bc_addFederate fed 0 b = Inr b'" "bc_ok b"
  shows "waits g (bc_lines b') \<longleftrightarrow> waits g (bc_lines b) \<or> (g = fed \<and> \<not> got 0 fed b)"
proof (cases "\<exists>l \<in> set (bc_lines b). bl_federate l = fed")
  case True
  then have b': "b' = b\<lparr>bc_lines := update_first (\<lambda>l. bl_federate l = fed) (mark_waiting 0) (bc_lines b)\<rparr>"
    using assms(1) by (simp add: bc_addFederate_def split: if_splits)
  have s: "set (bc_lines b') = (\<lambda>l. if bl_federate l = fed then mark_waiting 0 l else l) ` set (bc_lines b)"
    using assms(2) by (simp add: b' bc_ok_def update_first_unique)
  have "waits g (bc_lines b') \<longleftrightarrow> (\<exists>l \<in> set (bc_lines b). bl_federate l = g \<and>
      (stateFor 0 l = Waiting \<or> g = fed \<and> stateFor 0 l \<noteq> Sent))"
    unfolding waits_def s bex_simps by (rule bex_cong) auto
  moreover have "stateFor 0 l = stateFor 0 k" if "l \<in> set (bc_lines b)" "k \<in> set (bc_lines b)" "bl_federate l = bl_federate k" for l k
    using assms(2) that by (metis bc_ok_def distinct_map inj_onD)
  ultimately show ?thesis using True unfolding waits_def got_def by (metis line_state.distinct(1))
next
  case False
  then have b': "b' = b\<lparr>bc_lines := bc_lines b @ [setState 0 Waiting (line_new fed NotSub)]\<rparr>"
    using assms(1) by (simp add: bc_addFederate_def split: if_splits)
  show ?thesis using False by (auto simp: b' waits_def got_def)
qed

definition interested :: "federate_handle \<Rightarrow> federate_handle \<Rightarrow> object_class \<Rightarrow> bool" where
  "interested sender g oc \<longleftrightarrow> g \<in> set (handles_upto (oc_maxSubscriber oc)) \<and> oc_isSubscribed g oc \<and> g \<noteq> sender"

lemma add_class_subscribers_run:
  assumes "add_class_subscribers oc b = Inr b'" "bc_ok b"
  shows "bc_ok b' \<and> bc_message b' = bc_message b \<and> (\<forall>g. got 0 g b' = got 0 g b) \<and>
    (\<forall>g. waits g (bc_lines b') \<longleftrightarrow> waits g (bc_lines b) \<or> (interested (nm_federate (bc_message b)) g oc \<and> \<not> got 0 g b))"
proof -
  define f where "f = (\<lambda>fed b. if oc_isSubscribed fed oc \<and> fed \<noteq> nm_federate (bc_message b) then bc_addFederate fed 0 b else Inr b)"
  have "bc_ok b' \<and> bc_message b' = bc_message b \<and> (\<forall>g. got 0 g b' = got 0 g b) \<and>
    (\<forall>g. waits g (bc_lines b') \<longleftrightarrow> waits g (bc_lines b) \<or>
       (g \<in> set hs \<and> oc_isSubscribed g oc \<and> g \<noteq> nm_federate (bc_message b) \<and> \<not> got 0 g b))"
    if "efold f hs b = Inr b'" "bc_ok b" for hs
    using that
  proof (induction hs arbitrary: b)
    case Nil
    then show ?case by simp
  next
    case (Cons h hs)
    obtain b1 where b1: "f h b = Inr b1" "efold f hs b1 = Inr b'" using Cons.prems(1) by (auto simp: ebind_Inr)
    have step: "bc_ok b1 \<and> bc_message b1 = bc_message b \<and> (\<forall>g. got 0 g b1 = got 0 g b) \<and>
      (\<forall>g. waits g (bc_lines b1) \<longleftrightarrow> waits g (bc_lines b) \<or>
         (g = h \<and> oc_isSubscribed g oc \<and> g \<noteq> nm_federate (bc_message b) \<and> \<not> got 0 g b))"
    proof (cases "oc_isSubscribed h oc \<and> h \<noteq> nm_federate (bc_message b)")
      case True
      then have a: "bc_addFederate h 0 b = Inr b1" using b1(1) by (simp add: f_def)
      show ?thesis using addFederate_ok [OF a Cons.prems(2)] addFederate_waits [OF a Cons.prems(2)] True by auto
    next
      case False
      then show ?thesis using b1(1) Cons.prems(2) by (auto simp: f_def)
    qed
    then show ?case using Cons.IH [OF b1(2)] by auto
  qed
  then show ?thesis using assms unfolding add_class_subscribers_def f_def interested_def by blast
qed

lemma upcastTo_run:
  assumes "upcastTo c b = Inr b'"
  shows "bc_lines b' = bc_lines b \<and> nm_kind (bc_message b') = nm_kind (bc_message b) \<and>
    nm_federate (bc_message b') = nm_federate (bc_message b)"
  using assms by (auto simp: upcastTo_def setObjectClass_def split: if_splits msg_body.splits)

definition about_instance :: "broadcast_list \<Rightarrow> bool" where
  "about_instance b \<longleftrightarrow> nm_kind (bc_message b) = DISCOVER_OBJECT \<or> nm_kind (bc_message b) = REMOVE_OBJECT"

lemma broadcastClassMessage_run:
  assumes "links_apart env" "env_link env g = Inr (Some l)" "bc_ok b" "settled b" "about_instance b"
    and "broadcastClassMessage env c source b s = Inr (b', rs)" "map_of (ro_classes s) c = Some oc"
  shows "bc_ok b' \<and> settled b' \<and> about_instance b' \<and> nm_federate (bc_message b') = nm_federate (bc_message b) \<and>
    deliveries l rs = (if interested (nm_federate (bc_message b)) g oc \<and> \<not> got 0 g b then 1 else 0) \<and>
    (got 0 g b' \<longleftrightarrow> got 0 g b \<or> interested (nm_federate (bc_message b)) g oc)"
proof -
  obtain b1 b3 where b1: "upcastTo (oc_handle oc) b = Inr b1" and b3: "add_class_subscribers oc b1 = Inr b3"
    and p: "preparePendingMessage env b3 = Inr (b', rs)"
    using assms(5-7) by (auto simp: broadcastClassMessage_def oc_deref_def ebind_Inr Let_def about_instance_def
        dest: upcastTo_run split: if_splits)
  note u = upcastTo_run [OF b1]
  have ok1: "bc_ok b1" "settled b1" "about_instance b1" "got 0 g b1 = got 0 g b"
    using u assms(3,4,5) by (simp_all add: bc_ok_def settled_def about_instance_def got_def)
  note a = add_class_subscribers_run [OF b3 ok1(1)]
  have "\<not> waits g (bc_lines b1)" using ok1(2) by (auto simp: settled_def waits_def)
  then have w: "waits g (bc_lines b3) \<longleftrightarrow> interested (nm_federate (bc_message b)) g oc \<and> \<not> got 0 g b"
    using a ok1 u by auto
  have d: "preparePendingDOMessage env b3 = Inr (b', rs)"
    using p a ok1(3) by (auto simp: preparePendingMessage_def about_instance_def Let_def)
  note r = preparePendingDO_run [OF assms(1,2) _ d] preparePendingDO_once [OF assms(1,2) _ d]
  have "got 0 g b' \<longleftrightarrow> got 0 g b3 \<or> waits g (bc_lines b3)"
    using r a by (auto simp: got_def waits_def)
  then show ?thesis using r a w ok1 u by (auto simp: about_instance_def)
qed

section \<open>The chain of superclasses\<close>

text \<open>The broadcast lists of object classes keep the contract, for a message from \<open>sender\<close>.\<close>

definition ready :: "object_env \<Rightarrow> federate_handle \<Rightarrow> socket \<Rightarrow> federate_handle \<Rightarrow> broadcast_list \<Rightarrow> bool" where
  "ready env g l sender b \<longleftrightarrow> links_apart env \<and> env_link env g = Inr (Some l) \<and> bc_ok b \<and> settled b \<and>
     about_instance b \<and> nm_federate (bc_message b) = sender"

interpretation discovery: announcement
  "\<lambda>n c b s. broadcast_up n env source c b s" "\<lambda>c b s. broadcastClassMessage env c source b s"
  "\<lambda>s c. map_of (ro_classes s) c" oc_super "ready env g l sender" "got 0 g" "\<lambda>s oc. interested sender g oc" l
  for env source g l sender
proof unfold_locales
  fix n b s rs
  assume "broadcast_up n env source 0 b s = Inr rs"
  then show "rs = []" by (simp add: broadcast_up.simps)
next
  fix c n b s rs
  assume "c \<noteq> 0" "broadcast_up n env source c b s = Inr rs"
  then show "\<exists>n' x b' rs1 rs2. n = Suc n' \<and> map_of (ro_classes s) c = Some x \<and>
      broadcastClassMessage env c source b s = Inr (b', rs1) \<and> broadcast_up n' env source (oc_super x) b' s = Inr rs2 \<and> rs = rs1 @ rs2"
    by (cases n) (auto simp: broadcast_up.simps [of "Suc _"] broadcast_up.simps [of 0] ebind_Inr ocs_getObjectFromHandle_def some_or_Inr)
next
  fix b s c x b' rs
  assume "ready env g l sender b" "map_of (ro_classes s) c = Some x" "broadcastClassMessage env c source b s = Inr (b', rs)"
  then show "ready env g l sender b' \<and> deliveries l rs = (if interested sender g x \<and> \<not> got 0 g b then 1 else 0) \<and>
      (got 0 g b' \<longleftrightarrow> got 0 g b \<or> interested sender g x)"
    using broadcastClassMessage_run [of env g l b c source s b' rs x] by (auto simp: ready_def)
qed

definition hierarchy :: "object_class_handle \<Rightarrow> root \<Rightarrow> object_class list" where
  "hierarchy c s = class_chain (Suc (length (ro_classes s))) (map_of (ro_classes s)) oc_super c"

text \<open>The federates that the class with handle \<open>c\<close> and its superclasses have to tell.\<close>

definition subscribes_above :: "federate_handle \<Rightarrow> federate_handle \<Rightarrow> object_class_handle \<Rightarrow> root \<Rightarrow> bool" where
  "subscribes_above sender g c s \<longleftrightarrow> (\<exists>oc \<in> set (hierarchy c s). interested sender g oc)"

lemma om_put_length: "map_of m k \<noteq> None \<Longrightarrow> om_ok m \<Longrightarrow> length (om_put k v m) = length m"
  using om_put_keys [of m k v] by (metis length_map)

lemma interested_instances: "interested sender g (oc\<lparr>oc_instances := xs\<rparr>) = interested sender g oc"
  by (simp add: interested_def oc_isSubscribed_def)

lemma subscribes_above_instances:
  assumes "om_ok (ro_classes s)" "map_of (ro_classes s) c = Some oc"
    and "ro_classes s' = om_put c (oc\<lparr>oc_instances := xs\<rparr>) (ro_classes s)"
  shows "subscribes_above sender g d s' = subscribes_above sender g d s"
proof -
  have "length (ro_classes s') = length (ro_classes s)" using assms by (simp add: om_put_length)
  moreover have "rel_option (\<lambda>x y. oc_super x = oc_super y \<and> (interested sender g x \<longleftrightarrow> interested sender g y))
      (map_of (ro_classes s') e) (map_of (ro_classes s) e)" for e
    using assms(2,3) by (cases "map_of (ro_classes s) e") (auto simp: om_simps interested_instances)
  ultimately show ?thesis unfolding subscribes_above_def hierarchy_def by (simp only: class_chain_cong)
qed

lemma announces:
  assumes "links_apart env" "env_link env g = Inr (Some l)" "nm_federate m \<noteq> 0" "c \<noteq> 0"
    and "nm_kind m = DISCOVER_OBJECT \<or> nm_kind m = REMOVE_OBJECT"
    and "announce env c 0 m s = (Inr r, s1)" "continue_up env c r s1 = (Inr rs, s2)"
  shows "s2 = s \<and> deliveries l rs = (if subscribes_above (nm_federate m) g c s then 1 else 0)"
proof -
  obtain b b' rs1 where b: "broadcast_new m 0 = Inr b" and s1: "s1 = s"
    and b1: "broadcastClassMessage env c None b s = Inr (b', rs1)" and r: "r = (Some b', rs1)"
    using assms(6) by (auto simp: announce_def oc_broadcast_def act_simps split: sum.splits prod.splits)
  obtain oc where oc: "map_of (ro_classes s) c = Some oc"
    using b1 by (auto simp: broadcastClassMessage_def oc_deref_def ebind_Inr some_or_Inr)
  obtain rs2 where s2: "s2 = s" and r2: "broadcast_up (length (ro_classes s)) env None (oc_super oc) b' s = Inr rs2"
    and rs: "rs = rs1 @ rs2"
    using assms(7) oc unfolding s1 r
    by (auto simp: continue_up_def ocs_broadcast_up_def oc_deref_def act_simps split: sum.splits prod.splits)
  note n = broadcast_new_ok [OF b]
  have ready: "ready env g l (nm_federate m) b"
    using n assms(1,2,5) by (simp add: ready_def about_instance_def)
  have sender: "\<not> got 0 g b \<or> (\<forall>x. \<not> interested (nm_federate m) g x)"
    using n by (auto simp: interested_def got_def)
  show ?thesis
    using discovery.announced_once [OF ready sender assms(4) oc b1 r2] s2
    by (simp add: rs subscribes_above_def hierarchy_def)
qed

section \<open>Registration and deletion\<close>

definition tells :: "object_env \<Rightarrow> federate_handle \<Rightarrow> federate_handle \<Rightarrow> socket \<Rightarrow> object_class_handle \<Rightarrow> root \<Rightarrow> bool" where
  "tells env fed g l c s \<longleftrightarrow> links_apart env \<and> env_link env g = Inr (Some l) \<and> fed \<noteq> 0 \<and> c \<noteq> 0 \<and> om_ok (ro_classes s) \<and>
     (case map_of (ro_classes s) c of None \<Rightarrow> False | Some oc \<Rightarrow> oc_server oc)"

lemma registration_announced_aux:
  assumes "tells env fed g l c s" "ocs_registerObjectInstance env fed h c s = (Inr rs, s')"
  shows "deliveries l rs = (if subscribes_above fed g c s then 1 else 0)"
proof -
  obtain oc where oc: "map_of (ro_classes s) c = Some oc" "oc_server oc" and apart: "links_apart env"
    "env_link env g = Inr (Some l)" and nz: "fed \<noteq> 0" "c \<noteq> 0" and ok: "om_ok (ro_classes s)"
    using assms(1) by (auto simp: tells_def split: option.splits)
  obtain r s3 where r: "oc_registerObjectInstance env c fed h s = (Inr r, s3)" and up: "continue_up env c r s3 = (Inr rs, s')"
    using assms(2) oc by (auto simp: ocs_registerObjectInstance_def ocs_getObjectFromHandle_def act_simps
        split: prod.splits sum.splits)
  obtain ob s1 s2 where ob: "map_of (ro_objects s) h = Some ob"
    and s1: "on_object h (for_each (\<lambda>e. add_instance_attribute fed c (snd e)) (oc_attributes oc)) s = (Inr (), s1)"
    and s2: "on_class c (modify (\<lambda>oc. oc\<lparr>oc_instances := oset_insert (ob_handle ob) (oc_instances oc)\<rparr>)) s1 = (Inr (), s2)"
    and bc: "announce env c 0 (setLabel (ob_name ob)
      (about_object env fed DISCOVER_OBJECT (ObjectAndClass (ob_handle ob) (oc_handle oc)))) s2 = (Inr r, s3)"
    using r oc
    by (auto simp: oc_registerObjectInstance_def oc_deref_def os_deref_def some_or_Inr bind_run seq_run gets_run lift_sum_run
        throw_if_run some_or_def split: prod.splits sum.splits option.splits if_splits)
  have c1: "ro_classes s1 = ro_classes s" using s1 by (auto simp: class_simps split: option.splits)
  have c2: "ro_classes s2 = om_put c (oc\<lparr>oc_instances := oset_insert (ob_handle ob) (oc_instances oc)\<rparr>) (ro_classes s)"
    using s2 oc c1 by (auto simp: class_simps act_simps)
  have "deliveries l rs = (if subscribes_above fed g c s2 then 1 else 0)"
    using announces [OF apart _ nz(2) _ bc up] nz by (simp add: about_object_def message_defs)
  then show ?thesis using subscribes_above_instances [OF ok oc(1) c2] by simp
qed

lemma deletion_announced_aux:
  assumes "tells env fed g l c s" "ocs_getInstanceClass h s = Inr c" "ocs_deleteObject env fed h tag s = (Inr rs, s')"
  shows "deliveries l rs = (if subscribes_above fed g c s then 1 else 0)"
proof -
  obtain oc where oc: "map_of (ro_classes s) c = Some oc" "oc_server oc" and apart: "links_apart env"
    "env_link env g = Inr (Some l)" and nz: "fed \<noteq> 0" "c \<noteq> 0" and ok: "om_ok (ro_classes s)"
    using assms(1) by (auto simp: tells_def split: option.splits)
  obtain r s3 where r: "delete_instance id env c fed h tag s = (Inr r, s3)" and up: "continue_up env c r s3 = (Inr rs, s')"
    using assms(2,3) by (auto simp: ocs_deleteObject_def oc_deleteInstance_def act_simps split: prod.splits sum.splits)
  obtain ob where ob: "map_of (ro_objects s) h = Some ob"
    using r oc by (cases "map_of (ro_objects s) h") (auto simp: delete_instance_def oc_deref_def os_deref_def act_simps)
  obtain s2 where s2: "on_class c (modify (\<lambda>oc. oc\<lparr>oc_instances := oset_erase (ob_handle ob) (oc_instances oc)\<rparr>)) s = (Inr (), s2)"
    and bc: "announce env c 0 (setLabel tag
      (about_object env fed REMOVE_OBJECT (ObjectAndClass (ob_handle ob) (oc_handle oc)))) s2 = (Inr r, s3)"
    using r oc ob
    by (auto simp: delete_instance_def oc_deref_def os_deref_def some_or_Inr bind_run seq_run gets_run lift_sum_run
        throw_if_run some_or_def split: prod.splits sum.splits option.splits if_splits)
  have c2: "ro_classes s2 = om_put c (oc\<lparr>oc_instances := oset_erase (ob_handle ob) (oc_instances oc)\<rparr>) (ro_classes s)"
    using s2 oc by (auto simp: class_simps act_simps)
  have "deliveries l rs = (if subscribes_above fed g c s2 then 1 else 0)"
    using announces [OF apart _ nz(2) _ bc up] nz by (simp add: about_object_def message_defs)
  then show ?thesis using subscribes_above_instances [OF ok oc(1) c2] by simp
qed

section \<open>An example\<close>

text \<open>
  A class \<open>A\<close> with a subclass \<open>B\<close>; federate 7 publishes in \<open>B\<close>, federate 8 subscribes to an attribute
  of \<open>A\<close>, the connection of federate 9 is closed.
\<close>

definition demo_env :: object_env where
  "demo_env = \<lparr>env_federation = 1,
     env_link = (\<lambda>f. if f = 7 then Inr (Some 70) else if f = 8 then Inr (Some 80) else if f = 9 then Inr None
                     else Inl FederateNotExecutionMember),
     env_access = (\<lambda>_ _. Inr True)\<rparr>"

definition demo_attribute :: "string \<Rightarrow> attribute_handle \<Rightarrow> federate_handle list \<Rightarrow> federate_handle list \<Rightarrow> class_attribute" where
  "demo_attribute n h ps ss = (class_attribute_new n h)\<lparr>ca_server := True, ca_publishers := ps,
     ca_subscribers := map (\<lambda>f. \<lparr>sub_handle = f, sub_region = None\<rparr>) ss\<rparr>"

definition demo_class :: "string \<Rightarrow> object_class_handle \<Rightarrow> object_class_handle \<Rightarrow> federate_handle \<Rightarrow> class_attribute list \<Rightarrow> object_class" where
  "demo_class n h super mx as = (object_class_new n h)\<lparr>oc_server := True, oc_super := super, oc_maxSubscriber := mx,
     oc_attributes := map (\<lambda>a. (ca_handle a, a)) as\<rparr>"

definition demo_root :: root where
  "demo_root = (root_new True)\<lparr>
     ro_classes :=
       [(1, demo_class ''A'' 1 0 8 [demo_attribute privilegeToDelete 1 [] [], demo_attribute ''x'' 2 [] [8]]),
        (2, demo_class ''A.B'' 2 1 0 [demo_attribute privilegeToDelete 1 [7, 8] [], demo_attribute ''x'' 2 [7, 8] [],
                                    demo_attribute ''y'' 3 [7] []])],
     ro_class_names := [(''A'', 1), (''A.B'', 2)],
     ro_objects := [(5, \<lparr>ob_handle = 5, ob_name = ''o'', ob_class = 2, ob_owner = 7, ob_attributes = []\<rparr>)],
     ro_object_names := [(''o'', 5)]\<rparr>"

lemma demo_links: "links_apart demo_env"
  by (simp add: links_apart_def demo_env_def)

lemma demo_tells: "tells demo_env 7 8 80 2 demo_root"
  unfolding tells_def by (intro conjI) (rule demo_links, code_simp, simp, simp, code_simp, code_simp)

section \<open>Properties\<close>


lemma returned: "(case fst r of Inr _ \<Rightarrow> True | Inl _ \<Rightarrow> False) \<Longrightarrow> \<exists>x. r = (Inr x, snd r)"
  by (cases r) (auto split: sum.splits)



definition demo_registered :: root where
  "demo_registered = snd (ocs_registerObjectInstance demo_env 7 5 2 demo_root)"

lemma demo_registered_tells: "tells demo_env 7 8 80 2 demo_registered"
  unfolding tells_def by (intro conjI) (rule demo_links, code_simp, simp, simp, code_simp, code_simp)


end
