(* ===== verification/OwnershipLemmas.thy ===== *)
theory OwnershipLemmas
  imports Ownership Discovery
begin

text \<open>
  What the ownership services do to the attributes of an object. The locale \<open>attribute_loop\<close> is the
  contract between a loop over attribute handles and its body; each service interprets it with the
  body of its loop.
\<close>

section \<open>A loop over attributes\<close>

definition new_owner :: "federate_handle option \<Rightarrow> object \<Rightarrow> object" where
  "new_owner f ob = (case f of None \<Rightarrow> ob | Some g \<Rightarrow> ob\<lparr>ob_owner := g\<rparr>)"

definition update_all :: "(object_attribute \<Rightarrow> object_attribute) \<Rightarrow> attribute_handle list \<Rightarrow> object \<Rightarrow> object" where
  "update_all f hs ob = ob\<lparr>ob_attributes := om_map (\<lambda>k oa. if k \<in> set hs then f oa else oa) (ob_attributes ob)\<rparr>"

definition attribute_of :: "object \<Rightarrow> attribute_handle \<Rightarrow> object_attribute" where
  "attribute_of ob a = the (map_of (ob_attributes ob) a)"

lemma new_owner_simps [simp]: "ob_attributes (new_owner f ob) = ob_attributes ob"
  "ob_handle (new_owner f ob) = ob_handle ob" "new_owner None ob = ob"
  "ob_owner (new_owner f ob) = (case f of None \<Rightarrow> ob_owner ob | Some g \<Rightarrow> g)"
  by (simp_all add: new_owner_def split: option.split)

lemma ob_update_attributes:
  "map_of (ob_attributes ob) a = Some oa \<Longrightarrow> ob_update a f ob = ob\<lparr>ob_attributes := om_put a (f oa) (ob_attributes ob)\<rparr>"
  by (simp add: ob_update_def)

lemma map_of_ob_update [om_simps]:
  "map_of (ob_attributes (ob_update a f ob)) k = (if k = a then map_option f (map_of (ob_attributes ob) a) else map_of (ob_attributes ob) k)"
  by (simp add: ob_update_def om_simps split: option.split)

lemma om_ok_ob_update [om_simps]: "om_ok (ob_attributes ob) \<Longrightarrow> om_ok (ob_attributes (ob_update a f ob))"
  by (simp add: ob_update_def om_simps split: option.split)

lemma ob_update_simps [simp]: "ob_handle (ob_update a f ob) = ob_handle ob" "ob_owner (ob_update a f ob) = ob_owner ob"
  by (simp_all add: ob_update_def split: option.split)

lemma map_of_update_all [om_simps]:
  "map_of (ob_attributes (update_all f hs ob)) k = map_option (\<lambda>oa. if k \<in> set hs then f oa else oa) (map_of (ob_attributes ob) k)"
  by (simp add: update_all_def om_simps)

lemma update_all_simps [simp]: "ob_handle (update_all f hs ob) = ob_handle ob" "ob_owner (update_all f hs ob) = ob_owner ob"
  by (simp_all add: update_all_def)

lemma update_all_Nil [simp]: "update_all f [] ob = ob"
  by (simp add: update_all_def om_map_id)

lemma om_ok_update_all [om_simps]: "om_ok (ob_attributes (update_all f hs ob)) = om_ok (ob_attributes ob)"
  by (simp add: update_all_def om_simps)

lemma update_all_Cons:
  assumes "om_ok (ob_attributes ob)" "a \<notin> set hs" "map_of (ob_attributes ob) a = Some oa"
  shows "update_all f hs (new_owner g (ob_update a f ob)) = new_owner g (update_all f (a # hs) ob)"
proof -
  have a: "ob_update a f ob = ob\<lparr>ob_attributes := om_map (\<lambda>k v. if k = a then f oa else v) (ob_attributes ob)\<rparr>"
    using assms om_put_present [of "ob_attributes ob" a "f oa"] map_of_SomeD [OF assms(3)]
    by (simp add: ob_update_attributes rev_image_eqI)
  have uniq: "(a, v) \<in> set (ob_attributes ob) \<Longrightarrow> v = oa" for v
    using assms(3) om_ok_map_of [OF assms(1), of a v] by simp
  have "om_map (\<lambda>k oa. if k \<in> set hs then f oa else oa) (ob_attributes (ob_update a f ob))
      = om_map (\<lambda>k oa. if k \<in> set (a # hs) then f oa else oa) (ob_attributes ob)"
    unfolding a by (simp add: om_map_comp) (rule om_map_cong, use assms(2) uniq in auto)
  then show ?thesis by (cases g) (simp_all add: update_all_def new_owner_def ob_update_attributes [OF assms(3)])
qed

locale attribute_loop =
  fixes body :: "attribute_handle \<Rightarrow> (object, 'a) action"
    and upd :: "object_attribute \<Rightarrow> object_attribute"
    and res :: "object_attribute \<Rightarrow> 'a"
    and own :: "attribute_handle \<Rightarrow> object_attribute \<Rightarrow> federate_handle option"
    and pre :: "object_attribute \<Rightarrow> bool"
  assumes body: "map_of (ob_attributes ob) a = Some oa \<Longrightarrow> pre oa \<Longrightarrow>
      body a ob = (Inr (res oa), new_owner (own a oa) (ob_update a upd ob))"
begin

text \<open>The last attribute that says who owns the object wins.\<close>

definition loop_owner :: "object \<Rightarrow> attribute_handle list \<Rightarrow> federate_handle option" where
  "loop_owner ob hs = fold (\<lambda>a f. case own a (attribute_of ob a) of None \<Rightarrow> f | Some g \<Rightarrow> Some g) hs None"

lemma fold_owner_init:
  "fold (\<lambda>a f. case own a (attribute_of ob a) of None \<Rightarrow> f | Some g \<Rightarrow> Some g) hs (Some g)
     = (case loop_owner ob hs of None \<Rightarrow> Some g | Some k \<Rightarrow> Some k)"
proof (induction hs rule: rev_induct)
  case Nil
  then show ?case by (simp add: loop_owner_def)
next
  case (snoc a hs)
  then show ?case by (simp add: loop_owner_def split: option.split)
qed

lemma collect_run:
  assumes "om_ok (ob_attributes ob)" "distinct hs" "\<forall>a \<in> set hs. \<exists>oa. map_of (ob_attributes ob) a = Some oa \<and> pre oa"
  shows "collect body hs ob = (Inr (map (\<lambda>a. res (attribute_of ob a)) hs), new_owner (loop_owner ob hs) (update_all upd hs ob))"
  using assms
proof (induction hs arbitrary: ob)
  case Nil
  then show ?case by (simp add: act_simps loop_owner_def)
next
  case (Cons a hs)
  obtain oa where oa: "map_of (ob_attributes ob) a = Some oa" "pre oa" using Cons.prems(3) by auto
  let ?ob = "new_owner (own a oa) (ob_update a upd ob)"
  have same: "attribute_of ?ob b = attribute_of ob b" if "b \<in> set hs" for b
    using that Cons.prems(2) by (auto simp: attribute_of_def om_simps)
  have IH: "collect body hs ?ob = (Inr (map (\<lambda>a. res (attribute_of ?ob a)) hs), new_owner (loop_owner ?ob hs) (update_all upd hs ?ob))"
    by (rule Cons.IH) (use Cons.prems oa in \<open>auto simp: om_simps\<close>)
  have m: "map (\<lambda>a. res (attribute_of ?ob a)) hs = map (\<lambda>a. res (attribute_of ob a)) hs"
    using same by simp
  have lo: "loop_owner ?ob hs = loop_owner ob hs"
    unfolding loop_owner_def by (rule fold_cong) (use same in auto)
  have ua: "update_all upd hs ?ob = new_owner (own a oa) (update_all upd (a # hs) ob)"
    by (rule update_all_Cons) (use Cons.prems oa in auto)
  have lo2: "loop_owner ob (a # hs) = (case loop_owner ob hs of None \<Rightarrow> own a oa | Some g \<Rightarrow> Some g)"
    using oa fold_owner_init [of ob hs]
    by (cases "own a oa") (simp_all add: loop_owner_def attribute_of_def split: option.split)
  have no: "new_owner (loop_owner ob hs) (new_owner (own a oa) x) = new_owner (loop_owner ob (a # hs)) x" for x
    by (simp add: lo2 new_owner_def split: option.split)
  show ?case
    using IH m lo ua no oa by (simp add: body [OF oa] act_simps attribute_of_def)
qed

end

section \<open>The bodies of the loops\<close>

definition acquired_attribute :: "(object_attribute \<Rightarrow> object_attribute) \<Rightarrow> (object_attribute \<Rightarrow> object_attribute)
    \<Rightarrow> federate_handle \<Rightarrow> object_attribute \<Rightarrow> object_attribute" where
  "acquired_attribute cleanup queue fed oa =
     (if is_Acquired (outcome oa) then oa_setDivesting False (oa_setOwner fed (cleanup oa)) else queue oa)"

lemma getAttribute_run: "map_of (ob_attributes ob) a = Some oa \<Longrightarrow> ob_getAttribute a ob = Inr oa"
  by (simp add: ob_getAttribute_def)

lemma ob_update_cong: "map_of (ob_attributes ob) a = Some oa \<Longrightarrow> f oa = g oa \<Longrightarrow> ob_update a f ob = ob_update a g ob"
  by (simp add: ob_update_attributes)

interpretation acquisition: attribute_loop "acquire_attribute cleanup queue fed oc" "acquired_attribute cleanup queue fed"
    "\<lambda>oa. (outcome oa, oa_handle oa)" "\<lambda>a oa. if is_Acquired (outcome oa) \<and> is_privilege oc a then Some fed else None" "\<lambda>_. True"
  for cleanup queue fed oc
proof
  fix ob :: object and a oa
  assume oa: "map_of (ob_attributes ob) a = Some oa"
  show "acquire_attribute cleanup queue fed oc a ob = (Inr (outcome oa, oa_handle oa),
     new_owner (if is_Acquired (outcome oa) \<and> is_privilege oc a then Some fed else None) (ob_update a (acquired_attribute cleanup queue fed) ob))"
    using oa by (cases "outcome oa")
      (auto simp: acquire_attribute_def act_simps getAttribute_run set_owner_if_def new_owner_def acquired_attribute_def
        ob_update_attributes)
qed

definition first_candidate :: "object_attribute \<Rightarrow> federate_handle" where
  "first_candidate oa = hd (oa_candidates oa)"

definition given_attribute :: "object_attribute \<Rightarrow> object_attribute" where
  "given_attribute oa = to_candidate (first_candidate oa) oa"

lemma give_to_candidate_run:
  assumes "map_of (ob_attributes ob) a = Some oa" "oa_hasCandidates oa"
  shows "give_to_candidate oc a ob = (Inr (first_candidate oa, oa_handle oa),
     new_owner (if is_privilege oc a then Some (first_candidate oa) else None) (ob_update a given_attribute ob))"
proof -
  obtain c cs where c: "oa_candidates oa = c # cs" using assms(2) by (cases "oa_candidates oa") (auto simp: oa_hasCandidates_def)
  then show ?thesis using assms(1)
    by (simp add: give_to_candidate_def act_simps getAttribute_run oa_getFirstCandidate_def set_owner_if_def new_owner_def
        first_candidate_def given_attribute_def ob_update_attributes)
qed

interpretation release: attribute_loop "give_to_candidate oc" given_attribute "\<lambda>oa. (first_candidate oa, oa_handle oa)"
    "\<lambda>a oa. if is_privilege oc a then Some (first_candidate oa) else None" oa_hasCandidates
  for oc
  by standard (rule give_to_candidate_run)

definition divested_attribute :: "object_attribute \<Rightarrow> object_attribute" where
  "divested_attribute oa = (if oa_hasCandidates oa then given_attribute oa else oa_setDivesting False (oa_setOwner 0 oa))"

interpretation divestiture: attribute_loop "divest_attribute oc" divested_attribute
    "\<lambda>oa. if oa_hasCandidates oa then Some (first_candidate oa, oa_handle oa) else None"
    "\<lambda>a oa. if oa_hasCandidates oa \<and> is_privilege oc a then Some (first_candidate oa) else None" "\<lambda>_. True"
  for oc
proof
  fix ob :: object and a oa
  assume oa: "map_of (ob_attributes ob) a = Some oa"
  show "divest_attribute oc a ob = (Inr (if oa_hasCandidates oa then Some (first_candidate oa, oa_handle oa) else None),
     new_owner (if oa_hasCandidates oa \<and> is_privilege oc a then Some (first_candidate oa) else None) (ob_update a divested_attribute ob))"
    using oa give_to_candidate_run [OF oa, of oc]
    by (auto simp: divest_attribute_def act_simps getAttribute_run divested_attribute_def ob_update_attributes new_owner_def)
qed

section \<open>Checks\<close>

lemma efold_checks: "efold (\<lambda>a _. f a) hs () = Inr () \<longleftrightarrow> (\<forall>a \<in> set hs. f a = Inr ())"
  by (induction hs) (auto simp: ebind_Inr)

lemma release_checks_ok: "release_checks fed ob hs = Inr () \<longleftrightarrow>
    (\<forall>a \<in> set hs. \<exists>oa. map_of (ob_attributes ob) a = Some oa \<and> oa_owner oa = fed \<and> oa_hasCandidates oa)"
  unfolding release_checks_def efold_checks by (auto simp: ebind_Inr ob_getAttribute_def some_or_Inr)

lemma owner_checks_ok: "owner_checks d fed ob hs = Inr () \<longleftrightarrow>
    (\<forall>a \<in> set hs. \<exists>oa. map_of (ob_attributes ob) a = Some oa \<and> oa_owner oa = fed \<and> (d \<longrightarrow> \<not> oa_divesting oa))"
  unfolding owner_checks_def efold_checks by (auto simp: ebind_Inr ob_getAttribute_def some_or_Inr)

lemma acquisition_checks_ok: "acquisition_checks fed oc ob hs = Inr () \<Longrightarrow>
    (\<forall>a \<in> set hs. \<exists>oa. map_of (ob_attributes ob) a = Some oa \<and> oa_owner oa \<noteq> fed)"
  unfolding acquisition_checks_def efold_checks by (auto simp: ebind_Inr ob_getAttribute_def some_or_Inr split: if_splits)

lemma if_available_checks_ok: "if_available_checks fed oc ob hs = Inr () \<Longrightarrow>
    (\<forall>a \<in> set hs. \<exists>oa. map_of (ob_attributes ob) a = Some oa \<and> oa_owner oa \<noteq> fed \<and> \<not> oa_isCandidate fed oa)"
  unfolding if_available_checks_def efold_checks by (auto simp: ebind_Inr ob_getAttribute_def some_or_Inr split: if_splits)

end
