(* ===== verification/OwnershipProperties.thy ===== *)
theory OwnershipProperties
  imports OwnershipLemmas
begin

text \<open>
  The properties of ownership management: the invariant of the ownership data over any sequence of
  services, what an acquisition and a release do, and the three ways in which divestiture fails.
\<close>

section \<open>Messages do not change the objects\<close>

lemma keeps_sendToFederate: "(\<And>s x. I s \<Longrightarrow> I (s\<lparr>ro_sent := x\<rparr>)) \<Longrightarrow> keeps I (sendToFederate env m fed)"
  unfolding sendToFederate_def by (auto intro!: keeps_intros keeps_modify split: sum.split option.split)

lemma keeps_sendToOwners: "(\<And>s x. I s \<Longrightarrow> I (s\<lparr>ro_sent := x\<rparr>)) \<Longrightarrow> keeps I (sendToOwners env k fed h tag ds)"
  by (induction ds rule: sendToOwners.induct) (auto intro!: keeps_intros keeps_sendToFederate)

lemma keeps_unless_empty: "keeps I m \<Longrightarrow> keeps I (unless_empty xs m)"
  by (auto simp: unless_empty_def intro: keeps_intros)

lemma keeps_announce: "keeps I (announce env c mx m)"
  unfolding announce_def oc_broadcast_def by (auto intro!: keeps_intros)

lemmas keeps_sending = keeps_sendToFederate keeps_sendToOwners keeps_unless_empty

lemma keeps_lift_gets: "keeps I (bind (gets f) lift_sum)"
  by (auto intro!: keeps_intros)

section \<open>The invariant\<close>

text \<open>The owner of an attribute does not wait for it, and nobody waits under the handle 0.\<close>

definition own_ok :: "object_attribute \<Rightarrow> bool" where
  "own_ok oa \<longleftrightarrow> oset_ok (oa_candidates oa) \<and> oa_owner oa \<notin> set (oa_candidates oa) \<and> 0 \<notin> set (oa_candidates oa)"

definition object_ok :: "object \<Rightarrow> bool" where
  "object_ok ob \<longleftrightarrow> om_ok (ob_attributes ob) \<and> (\<forall>k oa. map_of (ob_attributes ob) k = Some oa \<longrightarrow> oa_handle oa = k \<and> own_ok oa)"

definition ownership_ok :: "root \<Rightarrow> bool" where
  "ownership_ok s \<longleftrightarrow> (\<forall>h ob. map_of (ro_objects s) h = Some ob \<longrightarrow> object_ok ob)"

lemma ownership_ok_sent [simp]: "ownership_ok (s\<lparr>ro_sent := x\<rparr>) = ownership_ok s"
  by (simp add: ownership_ok_def)

lemma ownership_ok_put: "ownership_ok s \<Longrightarrow> object_ok ob \<Longrightarrow> ownership_ok (s\<lparr>ro_objects := om_put h ob (ro_objects s)\<rparr>)"
  by (simp add: ownership_ok_def om_simps)

lemma object_ok_update_all:
  assumes "object_ok ob"
    and "\<And>k oa. k \<in> set hs \<Longrightarrow> map_of (ob_attributes ob) k = Some oa \<Longrightarrow> own_ok oa \<Longrightarrow> oa_handle (f oa) = oa_handle oa \<and> own_ok (f oa)"
  shows "object_ok (new_owner g (update_all f hs ob))"
  using assms by (auto simp: object_ok_def om_simps)

lemma handle_of_changes [simp]:
  "oa_handle (oa_setOwner g oa) = oa_handle oa" "oa_handle (oa_setDivesting d oa) = oa_handle oa"
  "oa_handle (oa_addCandidate g oa) = oa_handle oa" "oa_handle (oa_removeCandidate g oa) = oa_handle oa"
  by (simp_all add: oa_setOwner_def oa_setDivesting_def oa_addCandidate_def oa_removeCandidate_def)

lemmas change_defs = oa_setOwner_def oa_setDivesting_def oa_addCandidate_def oa_removeCandidate_def oa_isCandidate_def

lemma acquired_own_ok:
  assumes "own_ok oa" "fed \<noteq> 0" "oa_owner oa \<noteq> fed"
  shows "own_ok (acquired_attribute (\<lambda>x. if oa_isCandidate fed x then oa_removeCandidate fed x else x)
                   (\<lambda>x. oa_addCandidate fed (oa_removeCandidate fed x)) fed oa)"
    and "\<not> oa_isCandidate fed oa \<Longrightarrow> own_ok (acquired_attribute id (oa_addCandidate fed) fed oa)"
  using assms by (auto simp: own_ok_def acquired_attribute_def outcome_def change_defs oset_ok_erase oset_ok_insert)

lemma given_own_ok: "own_ok oa \<Longrightarrow> own_ok (given_attribute oa)"
  by (auto simp: own_ok_def given_attribute_def to_candidate_def first_candidate_def change_defs oset_ok_erase)

lemma divested_own_ok: "own_ok oa \<Longrightarrow> own_ok (divested_attribute oa)"
  by (auto simp: divested_attribute_def given_own_ok) (auto simp: own_ok_def change_defs oa_hasCandidates_def)

section \<open>Services keep the invariant\<close>

lemma keeps_with_instance:
  assumes "\<And>oc ob s. I s \<Longrightarrow> map_of (ro_objects s) h = Some ob \<Longrightarrow> I (snd (k oc ob s))"
  shows "keeps I (with_instance c h k)"
  using assms by (auto simp: keeps_def with_instance_def act_simps oc_deref_def os_deref_def some_or_def
      split: option.splits sum.splits)

lemma checked:
  "seq (lift_sum r) m s = (case r of Inl e \<Rightarrow> (Inl e, s) | Inr _ \<Rightarrow> m s)"
  "seq (throw_if b e) m s = (if b then (Inl e, s) else m s)"
  by (simp_all add: act_simps split: sum.split)

lemma with_instance_run: "with_instance c h k s = (case map_of (ro_classes s) c of None \<Rightarrow> (Inl UndefinedBehaviour, s)
    | Some oc \<Rightarrow> (case map_of (ro_objects s) h of None \<Rightarrow> (Inl UndefinedBehaviour, s) | Some ob \<Rightarrow> k oc ob s))"
  by (simp add: with_instance_def act_simps oc_deref_def os_deref_def split: option.split)

lemma bind_on_object_ok:
  assumes "ownership_ok s" "map_of (ro_objects s) h = Some ob" "object_ok (snd (m ob))" "\<And>x. keeps ownership_ok (k x)"
  shows "ownership_ok (snd (bind (on_object h m) k s))"
proof -
  have "ownership_ok (s\<lparr>ro_objects := om_put h (snd (m ob)) (ro_objects s)\<rparr>)"
    using assms by (simp add: ownership_ok_put)
  then show ?thesis using assms(2,4)
    by (cases "m ob") (auto simp: act_simps on_object_def keeps_def split: sum.split)
qed

lemma seq_on_object_ok:
  "ownership_ok s \<Longrightarrow> map_of (ro_objects s) h = Some ob \<Longrightarrow> object_ok (snd (m ob)) \<Longrightarrow> keeps ownership_ok k
     \<Longrightarrow> ownership_ok (snd (seq (on_object h m) k s))"
  unfolding seq_def by (rule bind_on_object_ok)

lemma object_of: "ownership_ok s \<Longrightarrow> map_of (ro_objects s) h = Some ob \<Longrightarrow> object_ok ob"
  by (simp add: ownership_ok_def)

lemma object_om_ok: "object_ok ob \<Longrightarrow> om_ok (ob_attributes ob)"
  by (simp add: object_ok_def)

lemma object_own_ok: "object_ok ob \<Longrightarrow> map_of (ob_attributes ob) k = Some oa \<Longrightarrow> oa_handle oa = k \<and> own_ok oa"
  by (simp add: object_ok_def)

lemma handle_acquired: "oa_handle (cleanup oa) = oa_handle oa \<Longrightarrow> oa_handle (queue oa) = oa_handle oa \<Longrightarrow>
    oa_handle (acquired_attribute cleanup queue fed oa) = oa_handle oa"
  by (simp add: acquired_attribute_def)

lemma handle_given [simp]: "oa_handle (given_attribute oa) = oa_handle oa" "oa_handle (divested_attribute oa) = oa_handle oa"
  by (simp_all add: divested_attribute_def given_attribute_def to_candidate_def)

lemma acquired_object_ok:
  assumes "object_ok ob" "distinct hs" "\<forall>a \<in> set hs. \<exists>oa. map_of (ob_attributes ob) a = Some oa \<and> P oa"
    and "\<And>oa. oa_handle (cleanup oa) = oa_handle oa" "\<And>oa. oa_handle (queue oa) = oa_handle oa"
    and "\<And>oa. own_ok oa \<Longrightarrow> P oa \<Longrightarrow> own_ok (acquired_attribute cleanup queue fed oa)"
  shows "object_ok (snd (collect (acquire_attribute cleanup queue fed oc) hs ob))"
proof -
  have ex: "\<forall>a \<in> set hs. \<exists>oa. map_of (ob_attributes ob) a = Some oa \<and> True" using assms(3) by blast
  have run: "snd (collect (acquire_attribute cleanup queue fed oc) hs ob)
      = new_owner (acquisition.loop_owner oc fed ob hs) (update_all (acquired_attribute cleanup queue fed) hs ob)"
    by (simp only: acquisition.collect_run [OF object_om_ok [OF assms(1)] assms(2) ex] snd_conv)
  show ?thesis unfolding run
  proof (rule object_ok_update_all [OF assms(1)])
    fix k oa
    assume "k \<in> set hs" "map_of (ob_attributes ob) k = Some oa" "own_ok oa"
    moreover have "P oa" using assms(3) calculation(1,2) by fastforce
    ultimately show "oa_handle (acquired_attribute cleanup queue fed oa) = oa_handle oa \<and> own_ok (acquired_attribute cleanup queue fed oa)"
      using assms(4-6) by (simp add: handle_acquired)
  qed
qed

lemma acquisition_keeps:
  assumes "fed \<noteq> 0" "distinct hs"
  shows "keeps ownership_ok (oc_attributeOwnershipAcquisition env c fed h hs tag)"
  unfolding oc_attributeOwnershipAcquisition_def
proof (rule keeps_with_instance, goal_cases)
  case (1 oc ob s)
  show ?case
  proof (cases "acquisition_checks fed oc ob hs")
    case (Inr u)
    have "object_ok (snd (collect (acquire_attribute
              (\<lambda>x. if oa_isCandidate fed x then oa_removeCandidate fed x else x)
              (\<lambda>x. oa_addCandidate fed (oa_removeCandidate fed x)) fed oc) hs ob))"
      by (rule acquired_object_ok [OF object_of [OF 1] assms(2) acquisition_checks_ok])
         (use Inr acquired_own_ok(1) [OF _ assms(1)] in simp_all)
    then show ?thesis using 1 Inr
      by (simp add: checked bind_on_object_ok keeps_seq keeps_sending)
  qed (use 1 in \<open>simp add: checked\<close>)
qed

lemma acquisition_if_available_keeps:
  assumes "fed \<noteq> 0" "distinct hs"
  shows "keeps ownership_ok (oc_attributeOwnershipAcquisitionIfAvailable env c fed h hs)"
  unfolding oc_attributeOwnershipAcquisitionIfAvailable_def
proof (rule keeps_with_instance, goal_cases)
  case (1 oc ob s)
  show ?case
  proof (cases "if_available_checks fed oc ob hs")
    case (Inr u)
    have "object_ok (snd (collect (acquire_attribute id (oa_addCandidate fed) fed oc) hs ob))"
      by (rule acquired_object_ok [OF object_of [OF 1] assms(2) if_available_checks_ok])
         (use Inr acquired_own_ok(2) [OF _ assms(1)] in auto)
    then show ?thesis using 1 Inr
      by (simp add: checked bind_on_object_ok keeps_seq keeps_sending split: sum.split)
  qed (use 1 in \<open>simp add: checked split: sum.split\<close>)
qed

lemma release_object_ok:
  assumes "object_ok ob" "distinct hs" "release_checks fed ob hs = Inr u"
  shows "object_ok (snd (collect (give_to_candidate oc) hs ob))"
proof -
  have ex: "\<forall>a \<in> set hs. \<exists>oa. map_of (ob_attributes ob) a = Some oa \<and> oa_hasCandidates oa"
    using assms(3) release_checks_ok [of fed ob hs] by fastforce
  show ?thesis
    unfolding release.collect_run [OF object_om_ok [OF assms(1)] assms(2) ex] snd_conv
    by (rule object_ok_update_all [OF assms(1)]) (simp add: given_own_ok)
qed

lemma release_keeps:
  assumes "distinct hs"
  shows "keeps ownership_ok (oc_attributeOwnershipReleaseResponse env c fed h hs)"
  unfolding oc_attributeOwnershipReleaseResponse_def
proof (rule keeps_with_instance, goal_cases)
  case (1 oc ob s)
  show ?case
  proof (cases "release_checks fed ob hs")
    case (Inr u)
    show ?thesis using 1 Inr release_object_ok [OF object_of [OF 1] assms Inr, of oc]
      by (simp add: checked bind_on_object_ok keeps_seq keeps_ret keeps_sending split: sum.split)
  qed (use 1 in \<open>simp add: checked split: sum.split\<close>)
qed

lemma divested_object_ok:
  assumes "object_ok ob" "distinct hs" "owner_checks d fed ob hs = Inr u"
  shows "object_ok (snd (collect (divest_attribute oc) hs ob))"
proof -
  have ex: "\<forall>a \<in> set hs. \<exists>oa. map_of (ob_attributes ob) a = Some oa \<and> True"
    using assms(3) owner_checks_ok [of d fed ob hs] by fastforce
  show ?thesis
    unfolding divestiture.collect_run [OF object_om_ok [OF assms(1)] assms(2) ex] snd_conv
    by (rule object_ok_update_all [OF assms(1)]) (simp add: divested_own_ok)
qed

lemma unconditional_keeps:
  assumes "distinct hs"
  shows "keeps ownership_ok (oc_unconditionalAttributeOwnershipDivestiture env c fed h hs)"
  unfolding oc_unconditionalAttributeOwnershipDivestiture_def
proof (rule keeps_with_instance, goal_cases)
  case (1 oc ob s)
  show ?case
  proof (cases "owner_checks False fed ob hs")
    case (Inr u)
    have "keeps ownership_ok (let free = map fst (filter (\<lambda>x. snd x = None) (zip hs ds));
          given = List.map_filter id ds
      in bind (if free = [] then ret (None, [])
               else announce env c (of_nat (length (oc_attributes oc))) (setLabel [] (about_attributes env fed
                       UNCONDITIONAL_ATTRIBUTE_OWNERSHIP_DIVESTITURE (ob_handle ob) free))) (\<lambda>r.
         seq (sendToOwners env ATTRIBUTE_OWNERSHIP_ACQUISITION_NOTIFICATION fed (ob_handle ob) [] given) (ret r)))" for ds
      by (auto simp: Let_def intro!: keeps_intros keeps_sending keeps_announce)
    then show ?thesis using 1 Inr divested_object_ok [OF object_of [OF 1] assms Inr, of oc]
      by (simp add: checked bind_on_object_ok split: sum.split)
  qed (use 1 in \<open>simp add: checked split: sum.split\<close>)
qed

lemma object_ok_update:
  assumes "object_ok ob" "\<And>oa. own_ok oa \<Longrightarrow> own_ok (f oa) \<and> oa_handle (f oa) = oa_handle oa"
  shows "object_ok (ob_update a f ob)"
  using assms by (simp add: object_ok_def om_simps) blast

lemma object_ok_fold_update:
  assumes "object_ok ob" "\<And>oa. own_ok oa \<Longrightarrow> own_ok (f oa) \<and> oa_handle (f oa) = oa_handle oa"
  shows "object_ok (fold (\<lambda>a. ob_update a f) hs ob)"
  using assms(1) by (induction hs arbitrary: ob) (simp_all add: object_ok_update assms(2))

lemma cancel_keeps: "keeps ownership_ok (oc_cancelAttributeOwnershipAcquisition env c fed h hs)"
  unfolding oc_cancelAttributeOwnershipAcquisition_def
proof (rule keeps_with_instance, goal_cases)
  case (1 oc ob s)
  have "object_ok (fold (\<lambda>a. ob_update a (oa_removeCandidate fed)) hs ob)"
    by (rule object_ok_fold_update [OF object_of [OF 1]]) (auto simp: own_ok_def change_defs oset_ok_erase)
  then show ?case using 1 by (simp add: checked seq_on_object_ok modify_run keeps_sending split: sum.split)
qed

text \<open>Offering attributes gives them to candidates or marks them.\<close>

lemma offered_object_ok:
  assumes "object_ok ob"
  shows "object_ok (snd (for_each (offer_attribute oc) hs ob))"
  using assms
proof (induction hs arbitrary: ob)
  case Nil
  then show ?case by (simp add: act_simps)
next
  case (Cons a hs)
  show ?case
  proof (cases "map_of (ob_attributes ob) a")
    case None
    then show ?thesis using Cons.prems by (simp add: act_simps offer_attribute_def ob_getAttribute_def)
  next
    case (Some oa)
    note ok = object_own_ok [OF Cons.prems Some]
    show ?thesis
    proof (cases "oa_hasCandidates oa")
      case True
      then show ?thesis using Cons.prems ok Some give_to_candidate_run [OF Some True, of oc] given_own_ok [of oa]
        by (auto simp: act_simps offer_attribute_def getAttribute_run object_ok_def om_simps)
    next
      case False
      have "object_ok (ob_update a (oa_setDivesting True) ob)"
        using Cons.prems ok by (auto simp: object_ok_def om_simps own_ok_def change_defs)
      then show ?thesis using Cons.IH Some False by (simp add: act_simps offer_attribute_def getAttribute_run)
    qed
  qed
qed

lemma negotiated_keeps: "keeps ownership_ok (oc_negotiatedAttributeOwnershipDivestiture env c fed h hs tag)"
  unfolding oc_negotiatedAttributeOwnershipDivestiture_def
proof (rule keeps_with_instance, goal_cases)
  case (1 oc ob s)
  have "keeps ownership_ok (if hs = [] then ret (None, []) else announce env c mx m)" for mx m
    by (auto intro!: keeps_intros keeps_announce)
  then have fin: "ownership_ok (snd (seq (on_object h (for_each (offer_attribute oc) hs))
      (if hs = [] then ret (None, []) else announce env c mx m) s))" for mx m
    using 1 offered_object_ok [OF object_of [OF 1], of oc hs] by (intro seq_on_object_ok) auto
  show ?case
    by (cases "attributes_exist hs oc"; cases "owner_checks True fed ob hs"; cases "oc_server oc")
       (simp_all add: checked fin 1 del: if_split)
qed

section \<open>Runs of the ownership services\<close>

text \<open>Any services, by any federates, on any instances; the attributes of a request differ.\<close>

inductive ownership_step :: "root \<Rightarrow> root \<Rightarrow> bool" where
  step_acquire: "fed \<noteq> 0 \<Longrightarrow> distinct hs \<Longrightarrow> ownership_step s (snd (ocs_attributeOwnershipAcquisition env fed h hs tag s))"
| step_if_available: "fed \<noteq> 0 \<Longrightarrow> distinct hs \<Longrightarrow> ownership_step s (snd (ocs_attributeOwnershipAcquisitionIfAvailable env fed h hs s))"
| step_release: "distinct hs \<Longrightarrow> ownership_step s (snd (ocs_attributeOwnershipReleaseResponse env fed h hs s))"
| step_cancel: "ownership_step s (snd (ocs_cancelAttributeOwnershipAcquisition env fed h hs s))"
| step_unconditional: "distinct hs \<Longrightarrow> ownership_step s (snd (ocs_unconditionalAttributeOwnershipDivestiture env fed h hs s))"
| step_negotiated: "ownership_step s (snd (ocs_negotiatedAttributeOwnershipDivestiture env fed h hs tag s))"
| step_cancel_negotiated: "ownership_step s (snd (os_cancelNegotiatedAttributeOwnershipDivestiture fed h hs s))"
| step_query: "ownership_step s (snd (os_queryAttributeOwnership env fed h a s))"

lemma keeps_of_instance: "(\<And>c. keeps I (k c)) \<Longrightarrow> keeps I (of_instance h k)"
  unfolding of_instance_def by (auto intro!: keeps_intros)

lemma keeps_continue_up: "keeps I (continue_up env c r)"
  unfolding continue_up_def ocs_broadcast_up_def by (auto intro!: keeps_intros split: prod.split option.split)

lemma cancel_negotiated_keeps: "keeps ownership_ok (os_cancelNegotiatedAttributeOwnershipDivestiture fed h hs)"
proof (rule keepsI)
  fix s
  assume s: "ownership_ok s"
  have "object_ok (fold (\<lambda>a. ob_update a (oa_setDivesting False)) hs ob)" if "object_ok ob" for ob
    by (rule object_ok_fold_update [OF that]) (auto simp: own_ok_def change_defs)
  then show "ownership_ok (snd (os_cancelNegotiatedAttributeOwnershipDivestiture fed h hs s))"
    using s object_of [OF s, of h]
    by (auto simp: os_cancelNegotiatedAttributeOwnershipDivestiture_def act_simps os_getObject_def some_or_def
        ownership_ok_put split: option.split sum.split)
qed

lemma ocs_keeps:
  "fed \<noteq> 0 \<Longrightarrow> distinct hs \<Longrightarrow> keeps ownership_ok (ocs_attributeOwnershipAcquisition env fed h hs tag)"
  "fed \<noteq> 0 \<Longrightarrow> distinct hs \<Longrightarrow> keeps ownership_ok (ocs_attributeOwnershipAcquisitionIfAvailable env fed h hs)"
  "distinct hs \<Longrightarrow> keeps ownership_ok (ocs_attributeOwnershipReleaseResponse env fed h hs)"
  "keeps ownership_ok (ocs_cancelAttributeOwnershipAcquisition env fed h hs)"
  "distinct hs \<Longrightarrow> keeps ownership_ok (ocs_unconditionalAttributeOwnershipDivestiture env fed h hs)"
  "keeps ownership_ok (ocs_negotiatedAttributeOwnershipDivestiture env fed h hs tag)"
  unfolding ocs_attributeOwnershipAcquisition_def ocs_attributeOwnershipAcquisitionIfAvailable_def
    ocs_attributeOwnershipReleaseResponse_def ocs_cancelAttributeOwnershipAcquisition_def
    ocs_unconditionalAttributeOwnershipDivestiture_def ocs_negotiatedAttributeOwnershipDivestiture_def
  by (rule keeps_of_instance, rule acquisition_keeps, assumption+)
     (rule keeps_of_instance, rule acquisition_if_available_keeps, assumption+,
      rule keeps_of_instance, rule release_keeps, assumption,
      rule keeps_of_instance, rule cancel_keeps,
      rule keeps_of_instance, rule keeps_bind, rule unconditional_keeps, assumption, rule keeps_continue_up,
      intro keeps_of_instance keeps_bind negotiated_keeps keeps_gets keeps_seq keeps_lift_sum keeps_continue_up)

lemma query_keeps: "keeps ownership_ok (os_queryAttributeOwnership env fed h a)"
  unfolding os_queryAttributeOwnership_def by (auto intro!: keeps_intros keeps_sending)

lemma ownership_step_ok:
  assumes "ownership_step s s'" "ownership_ok s"
  shows "ownership_ok s'"
  using assms by (cases rule: ownership_step.cases)
    (simp_all add: keeps_snd ocs_keeps cancel_negotiated_keeps query_keeps)

lemma ownership_steps_ok: "ownership_step\<^sup>*\<^sup>* s s' \<Longrightarrow> ownership_ok s \<Longrightarrow> ownership_ok s'"
  by (induction rule: rtranclp_induct) (auto intro: ownership_step_ok)

section \<open>What the services do\<close>

lemma sending_objects:
  "sendToFederate env m fed s = (r, s') \<Longrightarrow> ro_objects s' = ro_objects s"
  "sendToOwners env k fed h tag ds s = (r, s') \<Longrightarrow> ro_objects s' = ro_objects s"
proof -
  have "keeps (\<lambda>t. ro_objects t = ro_objects s) (sendToFederate env m fed)"
    "keeps (\<lambda>t. ro_objects t = ro_objects s) (sendToOwners env k fed h tag ds)"
    by (auto intro!: keeps_sending)
  then show "sendToFederate env m fed s = (r, s') \<Longrightarrow> ro_objects s' = ro_objects s"
    "sendToOwners env k fed h tag ds s = (r, s') \<Longrightarrow> ro_objects s' = ro_objects s"
    by (auto dest: keepsD)
qed

text \<open>After the loop of a service only messages are sent.\<close>

lemma sending_after:
  assumes "seq (on_object h m) k s = (Inr r, s')" "map_of (ro_objects s) h = Some ob" "\<And>X. keeps (\<lambda>t. ro_objects t = X) k"
  shows "ro_objects s' = om_put h (snd (m ob)) (ro_objects s)"
proof -
  obtain a s1 where 1: "on_object h m s = (Inr a, s1)" "k s1 = (Inr r, s')" using seq_InrD [OF assms(1)] by blast
  then have "ro_objects s' = ro_objects s1" using keepsD [OF assms(3) refl 1(2)] by simp
  then show ?thesis using 1(1) assms(2) by (auto simp: on_object_def split: prod.splits)
qed

lemma sending_after_bind:
  assumes "bind (on_object h m) k s = (Inr r, s')" "map_of (ro_objects s) h = Some ob" "\<And>X x. keeps (\<lambda>t. ro_objects t = X) (k x)"
  shows "ro_objects s' = om_put h (snd (m ob)) (ro_objects s)"
proof -
  obtain a s1 where 1: "on_object h m s = (Inr a, s1)" "k a s1 = (Inr r, s')" using bind_InrD [OF assms(1)] by blast
  then have "ro_objects s' = ro_objects s1" using keepsD [OF assms(3) refl 1(2)] by simp
  then show ?thesis using 1(1) assms(2) by (auto simp: on_object_def split: prod.splits)
qed

definition taken :: "federate_handle \<Rightarrow> object_attribute \<Rightarrow> object_attribute" where
  "taken fed oa = oa\<lparr>oa_owner := fed, oa_divesting := False, oa_candidates := oset_erase fed (oa_candidates oa)\<rparr>"

definition wanted :: "federate_handle \<Rightarrow> object_attribute \<Rightarrow> object_attribute" where
  "wanted fed oa = oa\<lparr>oa_candidates := oset_insert fed (oset_erase fed (oa_candidates oa))\<rparr>"

lemma acquired_is_taken:
  "acquired_attribute (\<lambda>x. if oa_isCandidate fed x then oa_removeCandidate fed x else x)
     (\<lambda>x. oa_addCandidate fed (oa_removeCandidate fed x)) fed oa
   = (if oa_owner oa = 0 \<or> oa_divesting oa then taken fed oa else wanted fed oa)"
proof -
  have "fed \<notin> set (oa_candidates oa) \<Longrightarrow> oset_erase fed (oa_candidates oa) = oa_candidates oa"
    by (auto simp: oset_erase_def filter_id_conv)
  then show ?thesis by (auto simp: acquired_attribute_def outcome_def taken_def wanted_def change_defs)
qed

lemma acquisition_outcome_aux:
  assumes "oc_attributeOwnershipAcquisition env c fed h hs tag s = (Inr (), s')"
    and "map_of (ro_objects s) h = Some ob" "om_ok (ob_attributes ob)" "distinct hs"
  shows "\<exists>ob'. ro_objects s' = om_put h ob' (ro_objects s) \<and> (\<forall>a. map_of (ob_attributes ob') a = map_option (\<lambda>oa.
     if a \<notin> set hs then oa else if oa_owner oa = 0 \<or> oa_divesting oa then taken fed oa else wanted fed oa)
     (map_of (ob_attributes ob) a))"
proof -
  let ?cl = "\<lambda>x. if oa_isCandidate fed x then oa_removeCandidate fed x else x"
  let ?qu = "\<lambda>x. oa_addCandidate fed (oa_removeCandidate fed x)"
  obtain oc where oc: "map_of (ro_classes s) c = Some oc" and ch: "acquisition_checks fed oc ob hs = Inr ()"
    using assms(1,2) unfolding oc_attributeOwnershipAcquisition_def
    by (auto simp: with_instance_run checked split: option.splits sum.splits)
  have ex: "\<forall>a \<in> set hs. \<exists>oa. map_of (ob_attributes ob) a = Some oa \<and> True"
    using acquisition_checks_ok [OF ch] by blast
  have "ro_objects s' = om_put h (snd (collect (acquire_attribute ?cl ?qu fed oc) hs ob)) (ro_objects s)"
    using assms(1,2) oc ch unfolding oc_attributeOwnershipAcquisition_def
    by (auto simp: with_instance_run checked split: if_splits intro!: keeps_seq keeps_sending elim!: sending_after_bind)
  then have "ro_objects s' = om_put h (new_owner (acquisition.loop_owner oc fed ob hs)
      (update_all (acquired_attribute ?cl ?qu fed) hs ob)) (ro_objects s)"
    by (simp only: acquisition.collect_run [OF assms(3,4) ex] snd_conv)
  moreover have "map_of (ob_attributes (new_owner g (update_all (acquired_attribute ?cl ?qu fed) hs ob))) a = map_option (\<lambda>oa.
     if a \<notin> set hs then oa else if oa_owner oa = 0 \<or> oa_divesting oa then taken fed oa else wanted fed oa)
     (map_of (ob_attributes ob) a)" for a g
    by (cases "map_of (ob_attributes ob) a") (simp_all add: om_simps acquired_is_taken)
  ultimately show ?thesis by blast
qed

lemma release_outcome_aux:
  assumes "oc_attributeOwnershipReleaseResponse env c fed h hs s = (Inr r, s')"
    and "map_of (ro_objects s) h = Some ob" "object_ok ob" "distinct hs"
  shows "r = hs \<and> (\<exists>ob'. ro_objects s' = om_put h ob' (ro_objects s) \<and> (\<forall>a. map_of (ob_attributes ob') a = map_option (\<lambda>oa.
     if a \<in> set hs then taken (Min (set (oa_candidates oa))) oa else oa) (map_of (ob_attributes ob) a)))"
proof -
  obtain oc where oc: "map_of (ro_classes s) c = Some oc" and ch: "release_checks fed ob hs = Inr ()"
    using assms(1,2) unfolding oc_attributeOwnershipReleaseResponse_def
    by (auto simp: with_instance_run checked split: option.splits sum.splits)
  have ex: "\<forall>a \<in> set hs. \<exists>oa. map_of (ob_attributes ob) a = Some oa \<and> oa_hasCandidates oa"
    using ch release_checks_ok [of fed ob hs] by fastforce
  have run: "collect (give_to_candidate oc) hs ob = (Inr (map (\<lambda>a. (first_candidate (attribute_of ob a), oa_handle (attribute_of ob a))) hs),
      new_owner (release.loop_owner oc ob hs) (update_all given_attribute hs ob))"
    by (rule release.collect_run [OF object_om_ok [OF assms(3)] assms(4) ex])
  have b: "bind (on_object h (collect (give_to_candidate oc) hs)) (\<lambda>ds.
      seq (sendToOwners env ATTRIBUTE_OWNERSHIP_ACQUISITION_NOTIFICATION fed (ob_handle ob) [] ds)
          (ret (map snd ds))) s = (Inr r, s')"
    using assms(1,2) oc ch unfolding oc_attributeOwnershipReleaseResponse_def
    by (auto simp: with_instance_run checked split: if_splits sum.splits)
  have objects: "ro_objects s' = om_put h (new_owner (release.loop_owner oc ob hs) (update_all given_attribute hs ob)) (ro_objects s)"
    using sending_after_bind [OF b assms(2)] run by (simp add: keeps_seq keeps_ret keeps_sending)
  have "r = map (\<lambda>a. oa_handle (attribute_of ob a)) hs"
    using b run assms(2) by (auto simp: bind_run seq_run ret_run on_object_def split: prod.splits sum.splits)
  moreover have "map (\<lambda>a. oa_handle (attribute_of ob a)) hs = hs"
    by (rule map_idI) (use ex object_own_ok [OF assms(3)] in \<open>auto simp: attribute_of_def\<close>)
  moreover have "given_attribute oa = taken (Min (set (oa_candidates oa))) oa"
    if "a \<in> set hs" "map_of (ob_attributes ob) a = Some oa" for a oa
  proof -
    have "oset_ok (oa_candidates oa)" "oa_candidates oa \<noteq> []"
      using that ex object_own_ok [OF assms(3) that(2)] by (auto simp: own_ok_def oa_hasCandidates_def)
    then have "first_candidate oa = Min (set (oa_candidates oa))"
      by (cases "oa_candidates oa") (auto simp: first_candidate_def oset_ok_def intro!: Min_eqI [symmetric] dest: less_imp_le)
    then show ?thesis by (simp add: given_attribute_def to_candidate_def taken_def change_defs)
  qed
  ultimately show ?thesis unfolding objects
    by (auto simp: om_simps intro!: exI [of _ "new_owner (release.loop_owner oc ob hs) (update_all given_attribute hs ob)"] option.map_cong)
qed

section \<open>How divestiture fails\<close>

lemma checks_pass:
  assumes "attributes_exist hs oc = Inr ()" "owner_checks d fed ob hs = Inr ()" "a \<in> set hs"
  shows "\<exists>oa. map_of (ob_attributes ob) a = Some oa \<and> oa_owner oa = fed"
  using assms owner_checks_ok [of d fed ob hs] by blast

lemma offers_fail_or_mark:
  assumes "\<forall>a \<in> set hs. \<exists>oa. map_of (ob_attributes ob) a = Some oa"
  shows "fst (for_each (offer_attribute oc) hs ob) = Inr () \<or> fst (for_each (offer_attribute oc) hs ob) = Inl UndefinedBehaviour"
  using assms
proof (induction hs arbitrary: ob)
  case Nil
  then show ?case by (simp add: act_simps)
next
  case (Cons a hs)
  obtain oa where oa: "map_of (ob_attributes ob) a = Some oa" using Cons.prems by auto
  show ?case
  proof (cases "oa_hasCandidates oa")
    case True
    then show ?thesis using oa give_to_candidate_run [OF oa True, of oc] by (simp add: act_simps offer_attribute_def getAttribute_run)
  next
    case False
    have "\<forall>b \<in> set hs. \<exists>x. map_of (ob_attributes (ob_update a (oa_setDivesting True) ob)) b = Some x"
      using Cons.prems oa by (auto simp: om_simps)
    then show ?thesis using Cons.IH oa False by (simp add: act_simps offer_attribute_def getAttribute_run)
  qed
qed

lemma assumption_broadcast_undefined:
  "map_of (ro_classes s) c \<noteq> None \<Longrightarrow> fst (announce env c mx (setLabel tag (about_attributes env fed
     REQUEST_ATTRIBUTE_OWNERSHIP_ASSUMPTION h as)) s) = Inl UndefinedBehaviour"
  by (auto simp: announce_def oc_broadcast_def broadcastClassMessage_def broadcast_new_def upcastTo_def act_simps oc_deref_def
      about_attributes_def about_object_def message_defs broadcast_types_def)

lemma negotiated_undefined_aux:
  assumes "map_of (ro_classes s) c = Some oc" "oc_server oc" "map_of (ro_objects s) h = Some ob" "hs \<noteq> []"
    and "attributes_exist hs oc = Inr ()" "owner_checks True fed ob hs = Inr ()"
  shows "fst (oc_negotiatedAttributeOwnershipDivestiture env c fed h hs tag s) = Inl UndefinedBehaviour"
proof -
  have ex: "\<forall>a \<in> set hs. \<exists>oa. map_of (ob_attributes ob) a = Some oa"
    using checks_pass [OF assms(5,6)] by blast
  obtain r ob' where l: "for_each (offer_attribute oc) hs ob = (r, ob')" by force
  have "oc_negotiatedAttributeOwnershipDivestiture env c fed h hs tag s
      = seq (on_object h (for_each (offer_attribute oc) hs)) (announce env c (of_nat (length (oc_attributes oc)))
          (setLabel tag (about_attributes env fed REQUEST_ATTRIBUTE_OWNERSHIP_ASSUMPTION (ob_handle ob) hs))) s"
    using assms by (simp add: oc_negotiatedAttributeOwnershipDivestiture_def with_instance_run checked)
  moreover have "map_of (ro_classes (s\<lparr>ro_objects := om_put h ob' (ro_objects s)\<rparr>)) c \<noteq> None" using assms(1) by simp
  ultimately show ?thesis
    using offers_fail_or_mark [OF ex, of oc] l assms(3) assumption_broadcast_undefined
    by (auto simp: seq_run on_object_run)
qed

text \<open>The attributes without a candidate, which become free.\<close>

definition unwanted :: "object \<Rightarrow> attribute_handle \<Rightarrow> bool" where
  "unwanted ob a \<longleftrightarrow> \<not> oa_hasCandidates (attribute_of ob a)"

lemma zip_with_map: "a \<in> set hs \<Longrightarrow> (a, f a) \<in> set (zip hs (map f hs))"
  by (induction hs) auto

lemma unconditional_throws_aux:
  assumes "map_of (ro_classes s) c = Some oc" "oc_server oc" "map_of (ro_objects s) h = Some ob" "om_ok (ob_attributes ob)"
    and "distinct hs" "attributes_exist hs oc = Inr ()" "owner_checks False fed ob hs = Inr ()" "a \<in> set hs" "unwanted ob a"
  shows "\<exists>s' ob'. oc_unconditionalAttributeOwnershipDivestiture env c fed h hs s = (Inl RTIinternalError, s') \<and>
    map_of (ro_objects s') h = Some ob' \<and> oa_owner (attribute_of ob' a) = 0"
proof -
  have ex: "\<forall>a \<in> set hs. \<exists>oa. map_of (ob_attributes ob) a = Some oa \<and> True"
    using checks_pass [OF assms(6,7)] by blast
  let ?ob = "new_owner (divestiture.loop_owner oc ob hs) (update_all divested_attribute hs ob)"
  let ?ds = "map (\<lambda>a. if oa_hasCandidates (attribute_of ob a) then Some (first_candidate (attribute_of ob a), oa_handle (attribute_of ob a)) else None) hs"
  let ?s = "s\<lparr>ro_objects := om_put h ?ob (ro_objects s)\<rparr>"
  have run: "collect (divest_attribute oc) hs ob = (Inr ?ds, ?ob)"
    by (rule divestiture.collect_run [OF assms(4,5) ex])
  have free: "map fst (filter (\<lambda>x. snd x = None) (zip hs ?ds)) \<noteq> []"
  proof -
    have "(a, None) \<in> set (zip hs ?ds)"
      using zip_with_map [OF assms(8), of "\<lambda>a. if oa_hasCandidates (attribute_of ob a)
          then Some (first_candidate (attribute_of ob a), oa_handle (attribute_of ob a)) else None"] assms(9)
      by (simp add: unwanted_def)
    then show ?thesis by (force simp: filter_empty_conv)
  qed
  have "oc_unconditionalAttributeOwnershipDivestiture env c fed h hs s = (Inl RTIinternalError, ?s)"
    using assms(1-3,6,7) run free
    by (simp add: oc_unconditionalAttributeOwnershipDivestiture_def with_instance_run checked bind_run on_object_run Let_def
        announce_def lift_sum_run broadcast_new_def about_attributes_def about_object_def message_defs broadcast_types_def)
  moreover have "oa_owner (attribute_of ?ob a) = 0"
    using ex assms(8,9) by (auto simp: attribute_of_def om_simps divested_attribute_def unwanted_def change_defs)
  ultimately show ?thesis by (auto simp: om_simps intro!: exI [of _ ?ob])
qed

section \<open>Properties\<close>

text \<open>
  C5. Over any sequence of ownership services, the owner of an attribute is never among the
  federates that wait for it, provided that no request names an attribute twice.
\<close>

theorem ownership_invariant:
  assumes "ownership_step\<^sup>*\<^sup>* s s'" "ownership_ok s" "map_of (ro_objects s') h = Some ob" "map_of (ob_attributes ob) a = Some oa"
  shows "oa_owner oa \<notin> set (oa_candidates oa) \<and> oset_ok (oa_candidates oa)"
  using ownership_steps_ok [OF assms(1,2)] assms(3,4) by (auto simp: ownership_ok_def object_ok_def own_ok_def)

definition demo_object :: object where
  "demo_object = the (map_of (ro_objects demo_registered) 5)"

definition demo_asked :: root where
  "demo_asked = snd (ocs_attributeOwnershipAcquisition demo_env 8 5 [2] [] demo_registered)"

lemma demo_registered_object: "map_of (ro_objects demo_registered) 5 = Some demo_object"
  by code_simp

lemma demo_object_ok: "object_ok demo_object"
proof -
  have a: "ob_attributes demo_object = [(1, object_attribute_new 1 7 (2, 1)), (2, object_attribute_new 2 7 (2, 2)),
      (3, object_attribute_new 3 7 (2, 3))]" by code_simp
  show ?thesis
    by (simp add: object_ok_def a om_ok_def object_attribute_new_def own_ok_def oset_ok_def)
qed

lemma demo_registered_ok: "ownership_ok demo_registered"
proof -
  have "ro_objects demo_registered = [(5, demo_object)]" by code_simp
  then show ?thesis using demo_object_ok by (simp add: ownership_ok_def)
qed

theorem ownership_invariant_witness:
  "7 \<notin> set (oa_candidates (attribute_of (the (map_of (ro_objects demo_asked) 5)) 2)) \<and>
   oa_candidates (attribute_of (the (map_of (ro_objects demo_asked) 5)) 2) = [8]"
proof -
  let ?ob = "the (map_of (ro_objects demo_asked) 5)"
  have s: "ownership_step\<^sup>*\<^sup>* demo_registered demo_asked"
    unfolding demo_asked_def by (rule r_into_rtranclp) (rule step_acquire, simp_all)
  have 1: "map_of (ro_objects demo_asked) 5 = Some ?ob" "map_of (ob_attributes ?ob) 2 = Some (attribute_of ?ob 2)"
    "oa_owner (attribute_of ?ob 2) = 7" "oa_candidates (attribute_of ?ob 2) = [8]" by code_simp+
  show ?thesis using ownership_invariant [OF s demo_registered_ok 1(1,2)] 1(3,4) by simp
qed



text \<open>
  A release response hands each attribute to the candidate with the smallest handle, which stops
  being a candidate, and reports exactly the attributes it was asked to release.
\<close>

theorem release_to_smallest:
  assumes "oc_attributeOwnershipReleaseResponse env c fed h hs s = (Inr r, s')"
    and "map_of (ro_objects s) h = Some ob" "object_ok ob" "distinct hs"
  shows "r = hs \<and> (\<exists>ob'. ro_objects s' = om_put h ob' (ro_objects s) \<and> (\<forall>a. map_of (ob_attributes ob') a = map_option (\<lambda>oa.
     if a \<in> set hs then taken (Min (set (oa_candidates oa))) oa else oa) (map_of (ob_attributes ob) a)))"
  using release_outcome_aux [OF assms] .

theorem release_to_smallest_witness:
  "fst (oc_attributeOwnershipReleaseResponse demo_env 2 7 5 [2] demo_asked) = Inr [2]"
proof -
  let ?ob = "the (map_of (ro_objects demo_asked) 5)"
  have "case fst (oc_attributeOwnershipReleaseResponse demo_env 2 7 5 [2] demo_asked) of Inr _ \<Rightarrow> True | Inl _ \<Rightarrow> False" by code_simp
  from returned [OF this] obtain r s' where s': "oc_attributeOwnershipReleaseResponse demo_env 2 7 5 [2] demo_asked = (Inr r, s')" by blast
  have ob: "map_of (ro_objects demo_asked) 5 = Some ?ob" by code_simp
  have "ownership_ok demo_asked"
    unfolding demo_asked_def by (rule ownership_step_ok [OF step_acquire demo_registered_ok]) simp_all
  from release_to_smallest [OF s' ob object_of [OF this ob]] show ?thesis using s' by simp
qed

text \<open>
  A negotiated divestiture that passes the checks of the service always ends in undefined
  behaviour, as soon as it names an attribute: with a candidate the notification is written past its
  end, without one the broadcast reads a null message.
\<close>

theorem negotiated_divestiture_undefined:
  assumes "map_of (ro_classes s) c = Some oc" "oc_server oc" "map_of (ro_objects s) h = Some ob" "hs \<noteq> []"
    and "attributes_exist hs oc = Inr ()" "owner_checks True fed ob hs = Inr ()"
  shows "fst (oc_negotiatedAttributeOwnershipDivestiture env c fed h hs tag s) = Inl UndefinedBehaviour"
  using negotiated_undefined_aux [OF assms] .

definition demo_b :: object_class where
  "demo_b = the (map_of (ro_classes demo_registered) 2)"

lemma demo_b: "map_of (ro_classes demo_registered) 2 = Some demo_b" "oc_server demo_b"
  by code_simp+

theorem negotiated_divestiture_undefined_witness:
  "fst (oc_negotiatedAttributeOwnershipDivestiture demo_env 2 7 5 [3] [] demo_registered) = Inl UndefinedBehaviour"
proof -
  have c: "attributes_exist [3] demo_b = Inr ()" "owner_checks True 7 demo_object [3] = Inr ()" by code_simp+
  show ?thesis by (rule negotiated_divestiture_undefined [OF demo_b demo_registered_object _ c]) simp
qed

text \<open>
  An unconditional divestiture of an attribute that no other federate wants fails with an internal
  error, after the federate has lost the attribute.
\<close>

theorem unconditional_divestiture_throws:
  assumes "map_of (ro_classes s) c = Some oc" "oc_server oc" "map_of (ro_objects s) h = Some ob" "om_ok (ob_attributes ob)"
    and "distinct hs" "attributes_exist hs oc = Inr ()" "owner_checks False fed ob hs = Inr ()" "a \<in> set hs" "unwanted ob a"
  shows "\<exists>s' ob'. oc_unconditionalAttributeOwnershipDivestiture env c fed h hs s = (Inl RTIinternalError, s') \<and>
    map_of (ro_objects s') h = Some ob' \<and> oa_owner (attribute_of ob' a) = 0"
  using unconditional_throws_aux [OF assms] .

theorem unconditional_divestiture_throws_witness:
  "\<exists>s' ob'. oc_unconditionalAttributeOwnershipDivestiture demo_env 2 7 5 [3] demo_registered = (Inl RTIinternalError, s') \<and>
    map_of (ro_objects s') 5 = Some ob' \<and> oa_owner (attribute_of ob' 3) = 0"
proof -
  have c: "attributes_exist [3] demo_b = Inr ()" "owner_checks False 7 demo_object [3] = Inr ()" "unwanted demo_object 3"
    by code_simp+
  show ?thesis
    by (rule unconditional_divestiture_throws [OF demo_b demo_registered_object object_om_ok [OF demo_object_ok] _ c(1,2) _ c(3)])
       simp_all
qed

end
