(* ===== verification/Reflection.thy ===== *)
theory Reflection
  imports Discovery
begin

text \<open>
  The values that an update of attributes brings to the subscribers: in the class of the object
  every attribute comes with its own value, in a superclass the values are shifted when the update
  also names attributes that the superclass does not have.
\<close>

section \<open>The messages of one class\<close>

lemma pending_rav_messages:
  assumes "pending_rav env m mx ls = Inr (rs, ls')" "e \<in> set rs"
  shows "\<exists>l \<in> set ls. ev_message e = Some (current_message m l)"
  using assms
proof (induction ls arbitrary: rs ls')
  case (Cons l ls)
  then show ?case
    by (auto simp: ebind_Inr event_def split: if_splits option.splits)
qed simp

text \<open>The pairs of attribute and value that a receiver reads off a message.\<close>

definition pairs :: "network_message \<Rightarrow> (attribute_handle \<times> attribute_value) list" where
  "pairs m = (case nm_body m of ValuesOf _ as vs \<Rightarrow> zip as vs | _ \<Rightarrow> [])"

lemma zip_filter_fst:
  "zip (map fst (filter (P \<circ> fst) xs)) (map snd (filter (P \<circ> fst) xs)) = filter (P \<circ> fst) xs"
  by (induction xs) auto

lemma pairs_current:
  assumes "nm_body m = ValuesOf ob as vs" "length as \<le> length vs"
  shows "pairs (current_message m l) = filter (\<lambda>e. stateFor (fst e) l = Waiting) (zip as vs)"
proof (cases "isWaitingAll as l")
  case True
  then have "filter (\<lambda>e. stateFor (fst e) l = Waiting) (zip as vs) = zip as vs"
    by (auto simp: filter_id_conv isWaitingAll_def dest: set_zip_leftD)
  then show ?thesis using True assms(1) by (simp add: current_message_def msg_attributes_def pairs_def)
next
  case False
  show ?thesis
    using False assms(1) zip_filter_fst [of "\<lambda>a. stateFor a l = Waiting" "zip as vs"]
    by (auto simp: current_message_def msg_attributes_def pairs_def reduced_message_def Let_def comp_def)
qed

lemma pairs_remove_foreign:
  assumes "nm_body m = ValuesOf ob as vs"
  shows "nm_body (remove_foreign oc m) = ValuesOf ob (filter (\<lambda>a. oc_hasAttribute a oc) as) vs"
  using assms by (simp add: remove_foreign_def)

lemma addFederate_message: "bc_addFederate f a b = Inr b' \<Longrightarrow> bc_message b' = bc_message b"
  by (auto simp: bc_addFederate_def split: if_splits)

lemma efold_message:
  "efold f xs b = Inr b' \<Longrightarrow> (\<And>x b b'. f x b = Inr b' \<Longrightarrow> bc_message b' = bc_message b) \<Longrightarrow> bc_message b' = bc_message b"
proof (induction xs arbitrary: b)
  case (Cons x xs)
  then show ?case by (auto simp: ebind_Inr)
qed simp

lemma overlap_message: "addFederatesIfOverlap rs subs r h b = Inr b' \<Longrightarrow> bc_message b' = bc_message b"
  unfolding addFederatesIfOverlap_def
  by (rule efold_message, assumption) (auto simp: ebind_Inr split: if_splits dest: addFederate_message)

lemma add_subscribers_message:
  "efold (add_attribute_subscribers rs oc source) hs b = Inr b' \<Longrightarrow> bc_message b' = bc_message b"
proof (rule efold_message, assumption)
  fix x b b'
  assume "add_attribute_subscribers rs oc source x b = Inr b'"
  then show "bc_message b' = bc_message b"
    by (auto simp: add_attribute_subscribers_def ebind_Inr split: option.splits dest: overlap_message)
qed

text \<open>What a broadcast of values sends in a class: the foreign attributes are gone, the values are not.\<close>

lemma broadcast_values:
  assumes "broadcastClassMessage env c src b s = Inr (b', rs)" "map_of (ro_classes s) c = Some oc"
    and "nm_kind (bc_message b) = REFLECT_ATTRIBUTE_VALUES" "nm_body (bc_message b) = ValuesOf ob as vs" "length as \<le> length vs"
    and "e \<in> set rs"
  shows "\<exists>m l. ev_message e = Some m \<and> pairs m =
    filter (\<lambda>e. stateFor (fst e) l = Waiting) (zip (filter (\<lambda>a. oc_hasAttribute a oc) as) vs)"
proof -
  obtain b3 where b3: "efold (add_attribute_subscribers (ro_regions s) oc src)
      (msg_attributes (remove_foreign oc (bc_message b))) (b\<lparr>bc_message := remove_foreign oc (bc_message b)\<rparr>) = Inr b3"
    and p: "preparePendingMessage env b3 = Inr (b', rs)"
    using assms(1-3) by (auto simp: broadcastClassMessage_def oc_deref_def upcastTo_def ebind_Inr Let_def broadcast_types_def split: if_splits)
  have m: "bc_message b3 = remove_foreign oc (bc_message b)" using add_subscribers_message [OF b3] by simp
  have k: "nm_kind (remove_foreign oc (bc_message b)) = REFLECT_ATTRIBUTE_VALUES"
    using assms(3) by (simp add: remove_foreign_def split: msg_body.split)
  obtain ls where "pending_rav env (bc_message b3) (bc_max b3) (bc_lines b3) = Inr (rs, ls)"
    using p k m by (auto simp: preparePendingMessage_def preparePendingRAVMessage_def ebind_Inr Let_def)
  from pending_rav_messages [OF this assms(6)] obtain l where l: "ev_message e = Some (current_message (bc_message b3) l)" by blast
  have "length (filter (\<lambda>a. oc_hasAttribute a oc) as) \<le> length vs"
    using assms(5) by (rule order_trans [OF length_filter_le])
  then have "pairs (current_message (bc_message b3) l) =
      filter (\<lambda>e. stateFor (fst e) l = Waiting) (zip (filter (\<lambda>a. oc_hasAttribute a oc) as) vs)"
    unfolding m by (rule pairs_current [OF pairs_remove_foreign [OF assms(4)]])
  then show ?thesis using l by blast
qed

section \<open>Properties\<close>

lemma update_returns:
  assumes "oc_updateAttributeValues env c fed h hs vs tag s = (Inr (b', rs), s')"
  shows "\<exists>oc ob b. map_of (ro_classes s) c = Some oc \<and> s' = s \<and> length hs \<le> length vs \<and>
    broadcastClassMessage env c (Some ob) b s = Inr (b', rs) \<and> nm_kind (bc_message b) = REFLECT_ATTRIBUTE_VALUES \<and>
    nm_body (bc_message b) = ValuesOf (ob_handle ob) hs (take (length hs) vs)"
proof -
  obtain oc ob where oc: "map_of (ro_classes s) c = Some oc" and ob: "map_of (ro_objects s) h = Some ob"
    and ch: "update_checks fed ob hs vs = Inr ()"
    using assms by (auto simp: oc_updateAttributeValues_def update_values_def oc_deref_def os_deref_def act_simps some_or_def
        split: option.splits sum.splits)
  have "\<forall>i \<in> set [0..<length hs]. i < length vs"
  proof -
    have "efold (\<lambda>i _. f i) xs () = Inr () \<longleftrightarrow> (\<forall>i \<in> set xs. f i = Inr ())" for f :: "nat \<Rightarrow> exn + unit" and xs
      by (induction xs) (auto simp: ebind_Inr)
    then show ?thesis using ch unfolding update_checks_def by (auto simp: ebind_Inr split: if_splits)
  qed
  then have len: "length hs \<le> length vs" by (cases hs rule: rev_cases) (auto simp: Suc_le_eq)
  let ?m = "setLabel tag (about_object env fed REFLECT_ATTRIBUTE_VALUES (ValuesOf (ob_handle ob) hs (take (length hs) vs)))"
  obtain b where b: "broadcast_new ?m (of_nat (length (oc_attributes oc))) = Inr b"
    and r: "oc_broadcast env c (Some ob) b s = (Inr (b', rs), s')"
    using assms oc ob ch
    by (auto simp: oc_updateAttributeValues_def update_values_def oc_deref_def os_deref_def act_simps
        split: sum.splits if_splits)
  have "bc_message b = ?m" using broadcast_new_ok [OF b] by simp
  moreover have "broadcastClassMessage env c (Some ob) b s = Inr (b', rs)" "s' = s"
    using r by (auto simp: oc_broadcast_def act_simps split: sum.splits)
  ultimately show ?thesis using oc len by (auto simp: about_object_def message_defs intro!: exI [of _ ob] exI [of _ b])
qed

lemma zip_take_length: "zip xs (take (length xs) ys) = zip xs ys"
proof (induction xs arbitrary: ys)
  case (Cons x xs)
  then show ?case by (cases ys) simp_all
qed simp


definition demo_subscribed :: root where
  "demo_subscribed = snd (ocs_subscribe demo_env 8 2 [3] None demo_registered)"


text \<open>
  C40. When the first attribute of an update is unknown in a superclass and the second one is known, the
  subscribers of the superclass receive the value of the first attribute for the second one.
\<close>

theorem superclass_values_shifted:
  assumes "broadcastClassMessage env c src b s = Inr (b', rs)" "map_of (ro_classes s) c = Some oc"
    and "nm_kind (bc_message b) = REFLECT_ATTRIBUTE_VALUES"
    and "nm_body (bc_message b) = ValuesOf ob (y # x # as) (vy # vx # vs)" "length as \<le> length vs" "x \<notin> set as"
    and "\<not> oc_hasAttribute y oc" "oc_hasAttribute x oc"
    and "e \<in> set rs" "ev_message e = Some m" "(x, v) \<in> set (pairs m)"
  shows "v = vy"
proof -
  obtain l where "pairs m = filter (\<lambda>e. stateFor (fst e) l = Waiting) (zip (filter (\<lambda>a. oc_hasAttribute a oc) (y # x # as)) (vy # vx # vs))"
    using broadcast_values [OF assms(1-4) _ assms(9)] assms(5,10) by auto
  then show ?thesis using assms(6-8,11) by (auto dest: set_zip_leftD split: if_splits)
qed

definition demo_list :: broadcast_list where
  "demo_list = \<lparr>bc_message = about_object demo_env 7 REFLECT_ATTRIBUTE_VALUES (ValuesOf 5 [3, 2] [[1], [2]]),
     bc_max = 3, bc_lines = [line_new 7 Sent]\<rparr>"

definition demo_shifted :: network_message where
  "demo_shifted = about_object demo_env 7 REFLECT_ATTRIBUTE_VALUES (ValuesOf 5 [2] [[1], [2]])"

theorem superclass_values_shifted_witness:
  "\<exists>b v. broadcastClassMessage demo_env 1 (map_of (ro_objects demo_registered) 5) demo_list demo_registered
       = Inr (b, [event [Some 80] demo_shifted]) \<and> (2, v) \<in> set (pairs demo_shifted) \<and> v = [1]"
proof -
  let ?r = "broadcastClassMessage demo_env 1 (map_of (ro_objects demo_registered) 5) demo_list demo_registered"
  have "case ?r of Inr (b, rs) \<Rightarrow> rs = [event [Some 80] demo_shifted] | Inl _ \<Rightarrow> False" by code_simp
  then obtain b where r: "?r = Inr (b, [event [Some 80] demo_shifted])" by (auto split: sum.splits prod.splits)
  have "case map_of (ro_classes demo_registered) 1 of Some oc \<Rightarrow> \<not> oc_hasAttribute 3 oc \<and> oc_hasAttribute 2 oc | None \<Rightarrow> False" by code_simp
  then obtain oc where oc: "map_of (ro_classes demo_registered) 1 = Some oc" "\<not> oc_hasAttribute 3 oc" "oc_hasAttribute 2 oc"
    by (auto split: option.splits)
  have m: "nm_kind (bc_message demo_list) = REFLECT_ATTRIBUTE_VALUES" "nm_body (bc_message demo_list) = ValuesOf 5 (3 # 2 # []) ([1] # [2] # [])"
    by code_simp+
  obtain v where v: "(2, v) \<in> set (pairs demo_shifted)"
    by (auto simp: pairs_def demo_shifted_def about_object_def message_defs)
  have "v = [1]"
    by (rule superclass_values_shifted [OF r oc(1) m _ _ oc(2,3) _ _ v, of "event [Some 80] demo_shifted"]) (simp_all add: event_def)
  then show ?thesis using r v by blast
qed

end
