(* ===== verification/Hierarchy.thy ===== *)
theory Hierarchy
  imports Discovery
begin

text \<open>
  The hierarchy of object classes that \<open>addClass\<close> builds has no cycles, so the loops over the
  superclasses end, and a class has all the attributes of its superclass.
\<close>

section \<open>Ranked hierarchies\<close>

definition ranked_by :: "(object_class_handle \<Rightarrow> nat) \<Rightarrow> root \<Rightarrow> bool" where
  "ranked_by rank s \<longleftrightarrow> om_ok (ro_classes s) \<and> (\<forall>c oc. map_of (ro_classes s) c = Some oc \<longrightarrow>
     c \<noteq> 0 \<and> oc_handle oc = c \<and> rank c < length (ro_classes s) \<and>
     (oc_super oc \<noteq> 0 \<longrightarrow> map_of (ro_classes s) (oc_super oc) \<noteq> None \<and> rank (oc_super oc) < rank c))"

definition ranked :: "root \<Rightarrow> bool" where
  "ranked s \<longleftrightarrow> (\<exists>rank. ranked_by rank s)"

lemma ranked_new: "ranked (root_new b)"
  by (simp add: ranked_def ranked_by_def root_new_def)

lemma ranked_cong: "ro_classes s' = ro_classes s \<Longrightarrow> ranked s' = ranked s"
  by (simp add: ranked_def ranked_by_def)

text \<open>Changing a class without its handle and its superclass.\<close>

lemma ranked_by_update:
  assumes "ranked_by rank s" "map_of (ro_classes s) c = Some oc" "oc_handle oc' = oc_handle oc" "oc_super oc' = oc_super oc"
    and "ro_classes s' = om_put c oc' (ro_classes s)"
  shows "ranked_by rank s'"
proof -
  have "length (ro_classes s') = length (ro_classes s)"
    using assms by (simp add: ranked_by_def om_put_length)
  then show ?thesis using assms unfolding ranked_by_def by (auto simp: om_simps)
qed

lemma om_put_length_fresh: "map_of m k = None \<Longrightarrow> length (om_put k v m) = Suc (length m)"
  by (induction m) auto

lemma ranked_by_add:
  assumes "ranked_by rank s" "map_of (ro_classes s) c = None" "c \<noteq> 0" "oc_handle oc = c"
    and "oc_super oc \<noteq> 0 \<longrightarrow> map_of (ro_classes s) (oc_super oc) \<noteq> None"
    and "ro_classes s' = om_put c oc (ro_classes s)"
  shows "ranked s'"
proof -
  have l: "length (ro_classes s') = Suc (length (ro_classes s))" using assms by (simp add: om_put_length_fresh)
  have look: "map_of (ro_classes s') d = (if d = c then Some oc else map_of (ro_classes s) d)" for d
    by (simp add: assms(6) om_simps)
  have "ranked_by (rank(c := length (ro_classes s))) s'"
    unfolding ranked_by_def l
  proof (intro conjI allI impI)
    show "om_ok (ro_classes s')" using assms(1,6) by (simp add: ranked_by_def om_simps)
    fix d x
    assume dx: "map_of (ro_classes s') d = Some x"
    have old: "d \<noteq> c \<Longrightarrow> d \<noteq> 0 \<and> oc_handle x = d \<and> rank d < length (ro_classes s) \<and>
        (oc_super x \<noteq> 0 \<longrightarrow> map_of (ro_classes s) (oc_super x) \<noteq> None \<and> rank (oc_super x) < rank d)"
      using assms(1) dx by (simp add: look ranked_by_def)
    have super: "map_of (ro_classes s) (oc_super x) \<noteq> None \<Longrightarrow> rank (oc_super x) < length (ro_classes s)"
      using assms(1) by (auto simp: ranked_by_def)
    show "d \<noteq> 0" "oc_handle x = d" using old dx assms(3,4) by (auto simp: look split: if_splits)
    show "(rank(c := length (ro_classes s))) d < Suc (length (ro_classes s))" using old by (auto simp: less_Suc_eq)
    assume n: "oc_super x \<noteq> 0"
    then have s: "map_of (ro_classes s) (oc_super x) \<noteq> None" using old dx assms(5) by (auto simp: look split: if_splits)
    then show "map_of (ro_classes s') (oc_super x) \<noteq> None" by (simp add: look)
    show "(rank(c := length (ro_classes s))) (oc_super x) < (rank(c := length (ro_classes s))) d"
      using s super assms(2) old n by auto
  qed
  then show ?thesis by (auto simp: ranked_def)
qed

section \<open>Building keeps the rank\<close>

lemma keeps_addAttribute:
  "keeps (\<lambda>oc. oc_handle oc = x \<and> oc_super oc = y \<and> oc_name oc = n) (oc_addAttribute a b)"
  unfolding oc_addAttribute_def Let_def by (auto intro!: keeps_intros keeps_modify)

lemma keeps_inherited:
  "keeps (\<lambda>oc. oc_handle oc = x \<and> oc_super oc = y \<and> oc_name oc = n) (addInheritedClassAttributes parent)"
  unfolding addInheritedClassAttributes_def by (auto intro!: keeps_intros keeps_addAttribute)

lemma addSubClass_run:
  assumes "addSubClass p child s = (Inr c, s')"
  shows "\<exists>parent. map_of (ro_classes s) p = Some parent \<and> oc_super c = oc_handle parent \<and> oc_handle c = oc_handle child \<and>
    s' = s\<lparr>ro_classes := om_put p (parent\<lparr>oc_subs := om_put (oc_name child) (oc_handle child) (oc_subs parent)\<rparr>) (ro_classes s)\<rparr>"
proof -
  obtain parent where parent: "map_of (ro_classes s) p = Some parent"
    using assms by (auto simp: addSubClass_def oc_deref_def act_simps some_or_def split: option.splits sum.splits)
  let ?c0 = "child\<lparr>oc_server := False, oc_super := oc_handle parent\<rparr>"
  obtain r1 c1 where c1: "addInheritedClassAttributes parent ?c0 = (r1, c1)" by force
  have r1: "r1 = Inr ()"
    using assms parent c1 by (cases r1) (auto simp: addSubClass_def oc_deref_def act_simps on_class_run split: if_splits)
  have c: "oc_super c = oc_super c1" "oc_handle c = oc_handle c1"
    and s': "s' = s\<lparr>ro_classes := om_put p (parent\<lparr>oc_subs := om_put (oc_name child) (oc_handle child) (oc_subs parent)\<rparr>) (ro_classes s)\<rparr>"
    using assms parent c1 [unfolded r1]
    by (auto simp: addSubClass_def oc_deref_def act_simps on_class_run setSecurityLevelId_def split: if_splits)
  have "oc_handle c1 = oc_handle child \<and> oc_super c1 = oc_handle parent \<and> oc_name c1 = oc_name child"
    using keepsD [OF keeps_inherited _ c1 [unfolded r1], of "oc_handle child" "oc_handle parent" "oc_name child"] by simp
  then show ?thesis using parent c s' by auto
qed

lemma addClass_ranked:
  assumes "ranked s" "ocs_addClass c p s = (Inr (), s')" "map_of (ro_classes s) (oc_handle c) = None" "oc_handle c \<noteq> 0" "oc_super c = 0"
  shows "ranked s'"
proof -
  obtain rank where r: "ranked_by rank s" using assms(1) by (auto simp: ranked_def)
  show ?thesis
  proof (cases p)
    case None
    then have "ro_classes s' = om_put (oc_handle c) (c\<lparr>oc_server := ro_server s\<rparr>) (ro_classes s)"
      using assms(2) by (auto simp: ocs_addClass_def act_simps split: if_splits)
    then show ?thesis by (intro ranked_by_add [OF r assms(3,4)]) (use assms(5) in auto)
  next
    case (Some q)
    obtain x c1 s1 where q: "map_of (ro_classes s) q = Some x"
      and a: "addSubClass q (c\<lparr>oc_server := ro_server s, oc_name := qualified_name (oc_name x) (oc_name c)\<rparr>) s = (Inr c1, s1)"
      and s': "ro_classes s' = om_put (oc_handle c1) c1 (ro_classes s1)"
      using assms(2) Some
      by (auto simp: ocs_addClass_def act_simps oc_deref_def some_or_def split: if_splits option.splits prod.splits sum.splits)
    note run = addSubClass_run [OF a]
    have h: "oc_handle x = q" "q \<noteq> 0" using r q by (auto simp: ranked_by_def)
    let ?x = "x\<lparr>oc_subs := om_put (qualified_name (oc_name x) (oc_name c)) (oc_handle c) (oc_subs x)\<rparr>"
    have s1: "ro_classes s1 = om_put q ?x (ro_classes s)" and c1: "oc_super c1 = q" "oc_handle c1 = oc_handle c"
      using run q h by auto
    have r1: "ranked_by rank s1" by (rule ranked_by_update [OF r q _ _ s1]) auto
    have "map_of (ro_classes s1) (oc_handle c) = None" using assms(3) q by (auto simp: s1 om_simps)
    then show ?thesis
      by (intro ranked_by_add [OF r1 _ assms(4) c1(2) _ s' [unfolded c1(2)]]) (auto simp: c1 s1 om_simps)
  qed
qed

section \<open>The loops over the superclasses end\<close>

definition ends :: "exn + 'a \<Rightarrow> bool" where
  "ends r \<longleftrightarrow> r \<noteq> Inl OutOfFuel"

lemma ends_simps [simp]: "ends (Inr a)" "ends (Inl e) \<longleftrightarrow> e \<noteq> OutOfFuel" "ends (some_or e x) \<longleftrightarrow> x \<noteq> None \<or> e \<noteq> OutOfFuel"
  by (auto simp: ends_def some_or_def split: option.split)

lemma ends_ebind [intro!]: "ends r \<Longrightarrow> (\<And>a. r = Inr a \<Longrightarrow> ends (k a)) \<Longrightarrow> ends (ebind r k)"
  by (cases r) (auto simp: ends_def)

lemma ends_efold [intro!]: "(\<And>x a. ends (f x a)) \<Longrightarrow> ends (efold f xs a)"
  by (induction xs arbitrary: a) auto

lemma ends_range: "ends (getRangeLowerBound e d)" "ends (getRangeUpperBound e d)"
  by (auto simp: getRangeLowerBound_def getRangeUpperBound_def dimension_index_def)

lemma ends_overlaps_from: "ends (overlaps_from e f hs)"
proof (induction e f hs rule: overlaps_from.induct)
  case (2 this e i "is")
  then show ?case using ends_range [of e i] ends_range [of this i]
    by (auto simp: ends_def split: sum.split)
qed simp

lemma ends_any_overlap: "ends (any_overlap ps)"
proof (induction ps rule: any_overlap.induct)
  case (2 a b ps)
  then show ?case using ends_overlaps_from [of a b] by (auto simp: ends_def extent_overlaps_def split: sum.split bool.split)
qed simp

lemma ends_sub_match: "ends (sub_match rs x r)"
  unfolding sub_match_def by (auto simp: region_overlaps_def ends_any_overlap split: option.split)

lemma ends_addFederate: "ends (bc_addFederate f a b)"
  by (simp add: bc_addFederate_def)

definition certi_links :: "object_env \<Rightarrow> bool" where
  "certi_links env \<longleftrightarrow> (\<forall>f e. env_link env f = Inl e \<longrightarrow> is_certi_exception e)"

lemma ends_link: "certi_links env \<Longrightarrow> ends (link_or_skip env f)"
  by (auto simp: link_or_skip_def certi_links_def split: sum.split)

lemma ends_pending_do: "certi_links env \<Longrightarrow> ends (pending_do env ls)"
  by (induction ls) (auto simp: ends_link split: prod.split)

lemma ends_pending_rav: "certi_links env \<Longrightarrow> ends (pending_rav env m mx ls)"
  by (induction ls) (auto simp: ends_link split: prod.split)

lemma ends_broadcast: "certi_links env \<Longrightarrow> ends (broadcastClassMessage env c src b s)"
  unfolding broadcastClassMessage_def oc_deref_def upcastTo_def add_class_subscribers_def add_attribute_subscribers_def
    addFederatesIfOverlap_def preparePendingMessage_def preparePendingRAVMessage_def preparePendingDOMessage_def ob_getAttribute_def Let_def
  by (auto simp: ends_addFederate ends_sub_match ends_pending_do ends_pending_rav split: option.split prod.split)

lemma broadcast_up_ends:
  assumes "ranked_by rank s" "certi_links env"
  shows "(c \<noteq> 0 \<longrightarrow> map_of (ro_classes s) c \<noteq> None \<and> rank c < n) \<Longrightarrow> ends (broadcast_up n env src c b s)"
proof (induction n arbitrary: c b)
  case 0
  then show ?case by (simp add: broadcast_up.simps [of 0])
next
  case (Suc n)
  show ?case
  proof (cases "c = 0")
    case True
    then show ?thesis by (simp add: broadcast_up.simps [of "Suc n"])
  next
    case False
    then obtain oc where oc: "map_of (ro_classes s) c = Some oc" using Suc.prems by auto
    have "oc_super oc \<noteq> 0 \<longrightarrow> map_of (ro_classes s) (oc_super oc) \<noteq> None \<and> rank (oc_super oc) < n"
      using assms(1) oc Suc.prems False unfolding ranked_by_def by fastforce
    then show ?thesis using False oc Suc.IH
      by (auto simp: broadcast_up.simps [of "Suc n"] ocs_getObjectFromHandle_def ends_broadcast [OF assms(2)] split: prod.split)
  qed
qed

text \<open>Any class handle that the code starts from: none, or that of a class.\<close>

lemma superclass_loop_ends:
  assumes "ranked s" "certi_links env" "c = 0 \<or> map_of (ro_classes s) c \<noteq> None"
  shows "ends (broadcast_up (length (ro_classes s)) env src c b s)"
proof -
  obtain rank where r: "ranked_by rank s" using assms(1) by (auto simp: ranked_def)
  show ?thesis
    by (rule broadcast_up_ends [OF r assms(2)]) (use r assms(3) in \<open>auto simp: ranked_by_def\<close>)
qed

section \<open>The services keep the rank\<close>

definition same_place :: "object_class_handle \<Rightarrow> object_class_handle \<Rightarrow> object_class \<Rightarrow> bool" where
  "same_place x y oc \<longleftrightarrow> oc_handle oc = x \<and> oc_super oc = y"

lemma keeps_ranked_on_class:
  assumes "\<And>x y. keeps (same_place x y) m"
  shows "keeps ranked (on_class c m)"
proof (rule keepsI)
  fix s
  assume "ranked s"
  then obtain rank where r: "ranked_by rank s" by (auto simp: ranked_def)
  show "ranked (snd (on_class c m s))"
  proof (cases "map_of (ro_classes s) c")
    case None
    then show ?thesis using \<open>ranked s\<close> by (simp add: on_class_run)
  next
    case (Some oc)
    have "same_place (oc_handle oc) (oc_super oc) (snd (m oc))"
      by (rule keeps_snd [OF assms]) (simp add: same_place_def)
    then have "ranked_by rank (snd (on_class c m s))"
      by (intro ranked_by_update [OF r Some]) (use Some in \<open>auto simp: same_place_def on_class_run\<close>)
    then show ?thesis by (auto simp: ranked_def)
  qed
qed

lemma keeps_ranked_modify: "(\<And>s. ro_classes (f s) = ro_classes s) \<Longrightarrow> keeps ranked (modify f)"
  by (rule keeps_modify) (metis ranked_cong)

lemma keeps_same_place_modify: "(\<And>oc. oc_handle (f oc) = oc_handle oc) \<Longrightarrow> (\<And>oc. oc_super (f oc) = oc_super oc)
    \<Longrightarrow> keeps (same_place x y) (modify f)"
  by (auto intro!: keeps_modify simp: same_place_def)

lemma keeps_same_place_attribute: "keeps (same_place x y) (on_class_attribute h m)"
  by (auto simp: keeps_def same_place_def on_class_attribute_def split: option.split prod.split)

lemma keeps_ranked_on_object: "keeps ranked (on_object h m)"
proof -
  have "ranked (s\<lparr>ro_objects := x\<rparr>) = ranked s" for s x by (rule ranked_cong) simp
  then show ?thesis by (auto simp: keeps_def on_object_def split: option.split prod.split)
qed

lemma keeps_same_place_services:
  "keeps (same_place x y) (oc_publish env fed hs b)"
  "keeps (same_place x y) (oc_subscribe env fed hs r)"
  "keeps (same_place x y) (oc_addAttribute a i)"
  unfolding oc_publish_def oc_subscribe_def oc_addAttribute_def Let_def
  by (auto intro!: keeps_intros keeps_same_place_modify keeps_same_place_attribute simp: oc_unsubscribe_def)

lemma keeps_sendToFederate_ranked: "keeps ranked (sendToFederate env m fed)"
  unfolding sendToFederate_def by (auto intro!: keeps_intros keeps_ranked_modify split: sum.split option.split)

lemma keeps_ranked_discovering: "keeps ranked (recursiveDiscovering n env c fed sub)"
proof (induction n arbitrary: c)
  case (Suc n)
  have "keeps ranked (sendDiscoverMessages env c fed sub)" for c
    unfolding sendDiscoverMessages_def send_discovery_def
    by (auto intro!: keeps_intros keeps_sendToFederate_ranked)
  then show ?case using Suc by (auto intro!: keeps_intros)
qed (simp add: keeps_throw)

lemma keeps_announcing: "keeps I (announce env c mx m)" "keeps I (continue_up env c r)"
  unfolding announce_def oc_broadcast_def continue_up_def ocs_broadcast_up_def
  by (auto intro!: keeps_intros split: prod.split option.split)

lemma keeps_ranked_services:
  "keeps ranked (ocs_publish env fed c hs b)"
  "keeps ranked (ocs_subscribe env fed c hs r)"
  "keeps ranked (ocs_registerObjectInstance env fed h c)"
  "keeps ranked (ocs_deleteObject env fed h tag)"
  "keeps ranked (on_class c (oc_addAttribute a i))"
  unfolding ocs_publish_def ocs_subscribe_def ocs_registerObjectInstance_def oc_registerObjectInstance_def
    ocs_deleteObject_def oc_deleteInstance_def delete_instance_def
  by (auto intro!: keeps_intros keeps_ranked_on_class keeps_same_place_services keeps_ranked_discovering
      keeps_ranked_on_object keeps_announcing keeps_same_place_modify)

text \<open>The states of a root object that is built by \<open>addClass\<close> and \<open>addAttribute\<close> and then used.\<close>

inductive built :: "root \<Rightarrow> bool" where
  built_new: "built (root_new b)"
| built_class: "built s \<Longrightarrow> map_of (ro_classes s) (oc_handle c) = None \<Longrightarrow> oc_handle c \<noteq> 0 \<Longrightarrow> oc_super c = 0
    \<Longrightarrow> ocs_addClass c p s = (Inr (), s') \<Longrightarrow> built s'"
| built_attribute: "built s \<Longrightarrow> built (snd (on_class c (oc_addAttribute a i) s))"
| built_publish: "built s \<Longrightarrow> built (snd (ocs_publish env fed c hs b s))"
| built_subscribe: "built s \<Longrightarrow> built (snd (ocs_subscribe env fed c hs r s))"
| built_register: "built s \<Longrightarrow> built (snd (ocs_registerObjectInstance env fed h c s))"
| built_delete: "built s \<Longrightarrow> built (snd (ocs_deleteObject env fed h tag s))"
| built_object: "built s \<Longrightarrow> built (snd (os_registerObjectInstance fed c h n s))"

lemma built_ranked: "built s \<Longrightarrow> ranked s"
proof (induction rule: built.induct)
  case (built_class s c p s')
  then show ?case by (intro addClass_ranked [of s c p s'])
next
  case (built_object s fed c h n)
  have "keeps ranked (os_registerObjectInstance fed c h n)"
    unfolding os_registerObjectInstance_def by (auto intro!: keeps_intros keeps_ranked_modify)
  then show ?case using built_object by (simp add: keeps_snd)
qed (auto simp: ranked_new intro: keeps_snd [OF keeps_ranked_services(1)] keeps_snd [OF keeps_ranked_services(2)]
     keeps_snd [OF keeps_ranked_services(3)] keeps_snd [OF keeps_ranked_services(4)] keeps_snd [OF keeps_ranked_services(5)])

section \<open>Properties\<close>

text \<open>
  C19. In every root object that is built by adding classes and attributes and then used, the loop
  that hands a broadcast to the superclasses ends, whatever class it starts from.
\<close>

theorem superclass_loop_terminates:
  assumes "built s" "certi_links env" "c = 0 \<or> map_of (ro_classes s) c \<noteq> None"
  shows "broadcast_up (length (ro_classes s)) env src c b s \<noteq> Inl OutOfFuel"
  using superclass_loop_ends [OF built_ranked [OF assms(1)] assms(2,3)] by (simp add: ends_def)

definition demo_hierarchy :: root where
  "demo_hierarchy = snd (ocs_addClass (object_class_new ''B'' 2) (Some 1)
     (snd (ocs_addClass (object_class_new ''A'' 1) None (root_new True))))"

lemma demo_hierarchy_built: "built demo_hierarchy"
proof -
  let ?a = "object_class_new ''A'' 1" and ?b = "object_class_new ''B'' 2"
  have 1: "ocs_addClass ?a None (root_new True) = (Inr (), snd (ocs_addClass ?a None (root_new True)))" by code_simp
  have b1: "built (snd (ocs_addClass ?a None (root_new True)))"
    by (rule built_class [OF built_new _ _ _ 1]) (simp_all add: root_new_def object_class_new_def)
  have 2: "ocs_addClass ?b (Some 1) (snd (ocs_addClass ?a None (root_new True))) = (Inr (), demo_hierarchy)" by code_simp
  have f: "map_of (ro_classes (snd (ocs_addClass ?a None (root_new True)))) (oc_handle ?b) = None" by code_simp
  show ?thesis by (rule built_class [OF b1 f _ _ 2]) (simp_all add: object_class_new_def)
qed

theorem superclass_loop_terminates_witness:
  "broadcast_up 2 demo_env None 2
     \<lparr>bc_message = new_message REMOVE_OBJECT (ObjectAndClass 5 2), bc_max = 0, bc_lines = []\<rparr> demo_hierarchy \<noteq> Inl OutOfFuel"
proof -
  have l: "length (ro_classes demo_hierarchy) = 2" "map_of (ro_classes demo_hierarchy) 2 \<noteq> None" by code_simp+
  have c: "certi_links demo_env" by (auto simp: certi_links_def demo_env_def is_certi_exception_def split: if_splits)
  show ?thesis using superclass_loop_terminates [OF demo_hierarchy_built c, of 2 None] l by simp
qed

end
