(* ===== verification/InteractionProperties.thy ===== *)
theory InteractionProperties
  imports Interactions Discovery
begin

text \<open>
  What the sending of an interaction reaches: every connected federate that subscribes to the class or
  to one of its superclasses, in a region that overlaps the region of the sender, gets it exactly
  once, and the sender does not get it.
\<close>

section \<open>The broadcast list\<close>

text \<open>The subscribers that \<open>addFederatesIfOverlap\<close> adds.\<close>

definition reached :: "region list \<Rightarrow> region_handle option \<Rightarrow> federate_handle \<Rightarrow> subscribers \<Rightarrow> bool" where
  "reached rs r g subs \<longleftrightarrow> (\<exists>x \<in> set subs. sub_handle x = g \<and> sub_match rs x r = Inr True)"

lemma ib_addFederate_simps [simp]:
  "ib_message (ib_addFederate fed b) = ib_message b"
  "om_ok (ib_lines b) \<Longrightarrow> om_ok (ib_lines (ib_addFederate fed b))"
  "map_of (ib_lines (ib_addFederate fed b)) g =
     (if g = fed \<and> map_of (ib_lines b) g = None then Some Waiting else map_of (ib_lines b) g)"
  by (auto simp: ib_addFederate_def om_simps)

lemma addFederatesIfOverlap_i_run:
  assumes "addFederatesIfOverlap_i rs subs r b = Inr b'" "om_ok (ib_lines b)"
  shows "ib_message b' = ib_message b \<and> om_ok (ib_lines b') \<and> (\<forall>g. map_of (ib_lines b') g =
    (if map_of (ib_lines b) g = None \<and> reached rs r g subs then Some Waiting else map_of (ib_lines b) g))"
  using assms
proof (induction subs arbitrary: b)
  case Nil
  then show ?case by (simp add: addFederatesIfOverlap_i_def reached_def)
next
  case (Cons x subs)
  obtain m where m: "sub_match rs x r = Inr m"
    and rest: "addFederatesIfOverlap_i rs subs r (if m then ib_addFederate (sub_handle x) b else b) = Inr b'"
    using Cons.prems(1) by (auto simp: addFederatesIfOverlap_i_def ebind_Inr)
  have "reached rs r g (x # subs) \<longleftrightarrow> sub_handle x = g \<and> m \<or> reached rs r g subs" for g
    using m by (auto simp: reached_def)
  then show ?case using Cons.IH [OF rest] Cons.prems(2) by (auto split: if_splits)
qed

definition ib_sent :: "federate_handle \<times> line_state \<Rightarrow> federate_handle \<times> line_state" where
  "ib_sent x = (fst x, if snd x = Waiting then Sent else snd x)"

lemma map_of_ib_sent: "map_of (map ib_sent ls) g = map_option (\<lambda>st. if st = Waiting then Sent else st) (map_of ls g)"
  by (induction ls) (auto simp: ib_sent_def)

lemma ib_pending_run:
  assumes "links_apart env" "env_link env g = Inr (Some l)"
    and "ib_pending env ls = Inr (ss, ls')" "distinct (map fst ls)"
  shows "ls' = map ib_sent ls \<and> count_list ss (Some l) = (if map_of ls g = Some Waiting then 1 else 0)"
  using assms(3,4)
proof (induction ls arbitrary: ss ls')
  case Nil
  then show ?case by simp
next
  case (Cons x ls)
  obtain fed st where x: "x = (fed, st)" by (cases x)
  have no: "map_of ls fed = None" using Cons.prems(2) by (simp add: x map_of_eq_None_iff)
  show ?case
  proof (cases "st = Waiting")
    case True
    then obtain k ss0 ls0 where k: "link_or_skip env fed = Inr k"
      and r: "ib_pending env ls = Inr (ss0, ls0)" "ss = (case k of None \<Rightarrow> ss0 | Some s \<Rightarrow> s # ss0)" "ls' = (fed, Sent) # ls0"
      using Cons.prems(1) by (auto simp: x ebind_Inr)
    have ih: "ls0 = map ib_sent ls \<and> count_list ss0 (Some l) = (if map_of ls g = Some Waiting then 1 else 0)"
      using Cons.IH [OF r(1)] Cons.prems(2) by simp
    have "k = Some (Some l) \<longleftrightarrow> fed = g" by (rule link_or_skip_count [OF assms(1,2) k])
    then show ?thesis using ih r True no by (cases k) (auto simp: x ib_sent_def)
  next
    case False
    then show ?thesis using Cons no by (auto simp: x ebind_Inr ib_sent_def)
  qed
qed

section \<open>One class and its superclasses\<close>

definition receives :: "region list \<Rightarrow> federate_handle \<Rightarrow> federate_handle \<Rightarrow> region_handle option \<Rightarrow> interaction \<Rightarrow> bool" where
  "receives rs sender g r ic \<longleftrightarrow> g \<noteq> sender \<and> reached rs r g (ic_subscribers ic)"

definition ib_ready :: "object_env \<Rightarrow> federate_handle \<Rightarrow> socket \<Rightarrow> federate_handle \<Rightarrow> interaction_list \<Rightarrow> bool" where
  "ib_ready env g l sender b \<longleftrightarrow> links_apart env \<and> env_link env g = Inr (Some l) \<and> om_ok (ib_lines b) \<and>
     map_of (ib_lines b) g \<noteq> Some Waiting \<and> (\<forall>f. map_of (ib_lines b) f \<noteq> Some NotSub) \<and>
     map_of (ib_lines b) sender = Some Sent"

abbreviation ib_got :: "federate_handle \<Rightarrow> interaction_list \<Rightarrow> bool" where
  "ib_got g b \<equiv> map_of (ib_lines b) g = Some Sent"

lemma broadcastInteractionMessage_run:
  assumes "ib_ready env g l sender b" "map_of (ro_interactions s) i = Some ic"
    and "broadcastInteractionMessage env r i b s = Inr (b', rs)"
  shows "ib_ready env g l sender b' \<and>
    deliveries l rs = (if receives (ro_regions s) sender g r ic \<and> \<not> ib_got g b then 1 else 0) \<and>
    (ib_got g b' \<longleftrightarrow> ib_got g b \<or> receives (ro_regions s) sender g r ic)"
proof -
  obtain b1 ss ls where b1: "addFederatesIfOverlap_i (ro_regions s) (ic_subscribers ic) r
      (b\<lparr>ib_message := at_interaction_class ic (ib_message b)\<rparr>) = Inr b1"
    and p: "ib_pending env (ib_lines b1) = Inr (ss, ls)" and b': "b' = b1\<lparr>ib_lines := ls\<rparr>"
    and rs: "rs = [event ss (ib_message b1)]"
    using assms(2,3)
    by (auto simp: broadcastInteractionMessage_def ib_preparePendingMessage_def ic_deref_def ebind_Inr split: if_splits)
  note r1 = assms(1) [unfolded ib_ready_def]
  have a: "om_ok (ib_lines b1)" "\<And>f. map_of (ib_lines b1) f =
      (if map_of (ib_lines b) f = None \<and> reached (ro_regions s) r f (ic_subscribers ic) then Some Waiting else map_of (ib_lines b) f)"
    using addFederatesIfOverlap_i_run [OF b1] r1 by auto
  have "distinct (map fst (ib_lines b1))" using a(1) by (simp add: om_ok_def strict_sorted_iff)
  from ib_pending_run [OF _ _ p this] r1
  have ls: "ls = map ib_sent (ib_lines b1)" and n: "count_list ss (Some l) = (if map_of (ib_lines b1) g = Some Waiting then 1 else 0)"
    by auto
  have keys: "map fst ls = map fst (ib_lines b1)" by (simp add: ls ib_sent_def comp_def)
  have "om_ok ls" using a(1) keys by (simp add: om_ok_def)
  moreover have "map_of (ib_lines b) g \<in> {None, Some Sent}"
    using r1 by (cases "map_of (ib_lines b) g") (auto, metis line_state.exhaust)
  ultimately show ?thesis
    using r1 n by (auto simp: ib_ready_def b' rs ls map_of_ib_sent a(2) receives_def split: if_splits)
qed

interpretation interactions: announcement
  "\<lambda>n i b s. interaction_up n env r i b s" "\<lambda>i b s. broadcastInteractionMessage env r i b s"
  "\<lambda>s i. map_of (ro_interactions s) i" ic_super "ib_ready env g l sender" "ib_got g"
  "\<lambda>s ic. receives (ro_regions s) sender g r ic" l
  for env r g l sender
proof unfold_locales
  fix n b s rs
  assume "interaction_up n env r 0 b s = Inr rs"
  then show "rs = []" by (simp add: interaction_up.simps)
next
  fix i n b s rs
  assume "i \<noteq> 0" "interaction_up n env r i b s = Inr rs"
  then show "\<exists>n' x b' rs1 rs2. n = Suc n' \<and> map_of (ro_interactions s) i = Some x \<and>
      broadcastInteractionMessage env r i b s = Inr (b', rs1) \<and> interaction_up n' env r (ic_super x) b' s = Inr rs2 \<and> rs = rs1 @ rs2"
    by (cases n) (auto simp: interaction_up.simps [of "Suc _"] interaction_up.simps [of 0] ebind_Inr ics_getObjectFromHandle_def some_or_Inr)
qed (rule broadcastInteractionMessage_run)

definition interaction_hierarchy :: "interaction_class_handle \<Rightarrow> root \<Rightarrow> interaction list" where
  "interaction_hierarchy i s = class_chain (Suc (length (ro_interactions s))) (map_of (ro_interactions s)) ic_super i"

lemma broadcast_sent_once:
  assumes "links_apart env" "env_link env g = Inr (Some l)" "fed \<noteq> 0" "i \<noteq> 0"
    and "\<And>m. nm_federate (dated m) = nm_federate m"
    and "broadcast_sent env i r (send_interaction dated env i fed ps vs n r tag s) s = Inr rs"
  shows "deliveries l rs = (if \<exists>ic \<in> set (interaction_hierarchy i s). receives (ro_regions s) fed g r ic then 1 else 0)"
proof -
  obtain ic b rs1 rs2 where ic: "map_of (ro_interactions s) i = Some ic"
    and sent: "send_interaction dated env i fed ps vs n r tag s = Inr (b, rs1)"
    and up: "interaction_up (length (ro_interactions s)) env r (ic_super ic) b s = Inr rs2" and rs: "rs = rs1 @ rs2"
    using assms(6) by (auto simp: broadcast_sent_def ics_getObjectFromHandle_def ebind_Inr some_or_Inr)
  define m where "m = setLabel tag (dated (about_object env fed RECEIVE_INTERACTION
      (ParametersOf (ic_handle ic) (take n ps) (take n vs) 0)))"
  have m: "nm_federate m = fed" using assms(5) by (simp add: m_def setLabel_def about_object_def setFederate_def)
  have b: "broadcastInteractionMessage env r i (ib_new m) s = Inr (b, rs1)"
    using sent ic by (auto simp: m_def send_interaction_def ic_deref_def ebind_Inr split: if_splits)
  have ready: "ib_ready env g l fed (ib_new m)"
    using assms(1-3) m by (auto simp: ib_ready_def ib_new_def om_ok_def)
  have "\<not> ib_got g (ib_new m) \<or> (\<forall>x. \<not> receives (ro_regions s) fed g r x)"
    using m by (auto simp: ib_new_def receives_def)
  from interactions.announced_once [OF ready this assms(4) ic b up]
  show ?thesis by (simp add: rs interaction_hierarchy_def)
qed

section \<open>The property\<close>

text \<open>
  A class \<open>I\<close> with a subclass \<open>J\<close>: federate 7 publishes \<open>J\<close>, federates 7 and 8 subscribe to \<open>I\<close>, federate 8
  also to \<open>J\<close>.
\<close>

definition demo_interaction :: "string \<Rightarrow> handle \<Rightarrow> handle \<Rightarrow> handle list \<Rightarrow> federate_handle list \<Rightarrow> federate_handle list \<Rightarrow> interaction" where
  "demo_interaction n h super ps pubs subs = (interaction_new n h 1 1)\<lparr>ic_server := True, ic_super := super,
     ic_parameters := map (\<lambda>p. (p, \<lparr>pa_handle = p, pa_name = ''p'', pa_level = PublicLevelID\<rparr>)) ps,
     ic_publishers := pubs, ic_subscribers := map (\<lambda>f. \<lparr>sub_handle = f, sub_region = None\<rparr>) subs\<rparr>"

definition demo_interactions :: root where
  "demo_interactions = (root_new True)\<lparr>ro_interactions :=
     [(1, demo_interaction ''I'' 1 0 [1] [] [7, 8]), (2, demo_interaction ''I.J'' 2 1 [1, 2] [7] [8])]\<rparr>"



end
