(* ===== verification/RtigAnswers.thy ===== *)
theory RtigAnswers
  imports RtigProperties
begin

text \<open>
  The answers of the RTIG: a request of most types is answered on its connection by a message of its type,
  which is either the reply of the handler or reports the exception that it has raised.
\<close>

section \<open>Results of actions\<close>

definition gives :: "('a \<Rightarrow> bool) \<Rightarrow> ('s, 'a) action \<Rightarrow> 's \<Rightarrow> bool" where
  "gives P m s \<longleftrightarrow> (\<forall>a t. m s = (Inr a, t) \<longrightarrow> P a)"

lemma gives_ret: "P a \<Longrightarrow> gives P (ret a) s"
  by (simp add: gives_def act_simps)

lemma gives_throw: "gives P (throw e) s"
  by (simp add: gives_def act_simps)

lemma gives_gets: "gives P (k (f s)) s \<Longrightarrow> gives P (bind (gets f) k) s"
  by (simp add: gives_def act_simps)

lemma gives_bind: "keeps I m \<Longrightarrow> I s \<Longrightarrow> (\<And>a t. I t \<Longrightarrow> gives P (k a) t) \<Longrightarrow> gives P (bind m k) s"
  unfolding gives_def by (metis bind_InrD keepsD)

lemma gives_seq: "keeps I m \<Longrightarrow> I s \<Longrightarrow> (\<And>t. I t \<Longrightarrow> gives P n t) \<Longrightarrow> gives P (seq m n) s"
  unfolding seq_def by (rule gives_bind)

lemma gives_if: "(b \<Longrightarrow> gives P m s) \<Longrightarrow> (\<not> b \<Longrightarrow> gives P n s) \<Longrightarrow> gives P (if b then m else n) s"
  by simp

text \<open>Some response carries a message of the type \<open>k\<close> to the connection \<open>l\<close>.\<close>

definition answered :: "socket \<Rightarrow> nm_type \<Rightarrow> responses \<Rightarrow> bool" where
  "answered l k rs \<longleftrightarrow> (\<exists>e \<in> set rs. Some l \<in> set (ev_sockets e) \<and> (\<exists>m. ev_message e = Some m \<and> nm_kind m = k))"

lemma answered_event: "nm_kind m = k \<Longrightarrow> answered l k (rs @ [event [Some l] m])"
  by (auto simp: answered_def event_def)

lemma answered_single: "nm_kind m = k \<Longrightarrow> answered l k [event [Some l] m]"
  using answered_event [of m k l "[]"] by simp

lemma kind_setters [simp]:
  "nm_kind (new_message k b) = k" "nm_kind (setFederate h m) = nm_kind m" "nm_kind (setFederation g m) = nm_kind m"
  "nm_kind (setDate t m) = nm_kind m" "nm_kind (setLabel x m) = nm_kind m" "nm_kind (setTag x m) = nm_kind m"
  "nm_kind (setException e m) = nm_kind m" "nm_kind (fed_message s h k b) = k"
  by (simp_all add: message_defs fed_message_def)

lemma kind_keep_marks [simp]: "nm_kind (keep_marks m r) = nm_kind r"
  by (simp add: keep_marks_def Let_def)

section \<open>Services that answer the federate that asks\<close>

lemma gives_respondTo:
  assumes "link_of s h = Inr (Some l)" "nm_kind m = k"
  shows "gives (answered l k) (bind (respondTo h m) (\<lambda>e. ret (rs @ [e]))) s"
    "gives (answered l k) (bind (respondTo h m) (\<lambda>e. ret [e])) s"
  using assms by (auto simp: gives_def respondTo_def act_simps answered_event answered_single)

lemma gives_answer:
  assumes "link_of s h = Inr (Some l)"
  shows "gives (answered l (Service k)) (bind (answer h k b) (\<lambda>e. ret (rs @ [e]))) s"
    "gives (answered l (Service k)) (bind (answer h k b) (\<lambda>e. ret [e])) s"
  unfolding answer_def by (intro gives_respondTo assms; simp)+

text \<open>The steps before the answer keep the link.\<close>

lemma gives_anchored:
  "keeps (anchored f) m \<Longrightarrow> anchored f s \<Longrightarrow> (\<And>a t. anchored f t \<Longrightarrow> gives P (k a) t) \<Longrightarrow> gives P (bind m k) s"
  "keeps (anchored f) n \<Longrightarrow> anchored f s \<Longrightarrow> (\<And>t. anchored f t \<Longrightarrow> gives P n' t) \<Longrightarrow> gives P (seq n n') s"
  by (rule gives_bind gives_seq; assumption)+

lemma answers_publication:
  assumes l: "link_of f h = Inr (Some l)"
  shows "gives (answered l (Service (if b then PUBLISH_OBJECT_CLASS else UNPUBLISH_OBJECT_CLASS))) (publishObject h c as b) f"
    "gives (answered l (Service (if b then SUBSCRIBE_OBJECT_CLASS else UNSUBSCRIBE_OBJECT_CLASS))) (subscribeObject h c as b) f"
    "gives (answered l (Service (if b then PUBLISH_INTERACTION_CLASS else UNPUBLISH_INTERACTION_CLASS))) (publishInteraction h i b) f"
    "gives (answered l (Service (if b then SUBSCRIBE_INTERACTION_CLASS else UNSUBSCRIBE_INTERACTION_CLASS))) (subscribeInteraction h i b) f"
proof -
  have start: "keeps (anchored f) (start_registration h c as)"
    unfolding start_registration_def by (intro keeps_intros frame_intros)
  have link: "anchored f g \<Longrightarrow> link_of g h = Inr (Some l)" for g using l anchored_link by metis
  show "gives (answered l (Service (if b then PUBLISH_OBJECT_CLASS else UNPUBLISH_OBJECT_CLASS))) (publishObject h c as b) f"
    unfolding publishObject_def
    by (rule gives_anchored(2) [of f] gives_anchored(1) [of f, OF start] gives_gets frame_intros anchored_refl
        gives_respondTo link | assumption | simp)+
  show "gives (answered l (Service (if b then SUBSCRIBE_OBJECT_CLASS else UNSUBSCRIBE_OBJECT_CLASS))) (subscribeObject h c as b) f"
    unfolding subscribeObject_def
    by (rule gives_anchored(2) [of f] gives_answer link | rule gives_anchored(1) [of f, OF start] frame_intros anchored_refl | assumption)+
  show "gives (answered l (Service (if b then PUBLISH_INTERACTION_CLASS else UNPUBLISH_INTERACTION_CLASS))) (publishInteraction h i b) f"
    unfolding publishInteraction_def
    by (rule gives_anchored(2) [of f] gives_answer link | rule frame_intros anchored_refl | assumption)+
  show "gives (answered l (Service (if b then SUBSCRIBE_INTERACTION_CLASS else UNSUBSCRIBE_INTERACTION_CLASS))) (subscribeInteraction h i b) f"
    unfolding subscribeInteraction_def
    by (rule gives_anchored(2) [of f] gives_answer link | rule frame_intros anchored_refl | assumption)+
qed

lemma answers_objects:
  assumes l: "link_of f h = Inr (Some l)"
  shows "gives (\<lambda>x. answered l (Service REGISTER_OBJECT) (snd x)) (registerObject h c n) f"
    "gives (answered l (Service DELETE_OBJECT)) (deleteObjectAt h ob t tag) f"
    "gives (answered l (Service DELETE_OBJECT)) (deleteObject h ob tag) f"
    "gives (answered l UNCONDITIONAL_ATTRIBUTE_OWNERSHIP_DIVESTITURE) (divest h ob as) f"
    "gives (answered l RESIGN_FEDERATION_EXECUTION) (remove h) f"
proof -
  have link: "anchored f g \<Longrightarrow> link_of g h = Inr (Some l)" for g using l anchored_link by metis
  have body: "keeps (anchored f) (catch (on_root a) is_exception (\<lambda>e. seq (with_objects (free ob)) (throw e)))" for a ob
    by (intro keeps_intros frame_intros)
  have "gives (\<lambda>x. answered l k (snd x)) (bind (respondTo h m) (\<lambda>e. ret (ob, rs @ [e]))) g"
    if "anchored f g" "nm_kind m = k" for m k rs g and ob :: object_handle
    using link [OF that(1)] that(2) by (auto simp: gives_def respondTo_def act_simps answered_event)
  then show "gives (\<lambda>x. answered l (Service REGISTER_OBJECT) (snd x)) (registerObject h c n) f"
    unfolding registerObject_def
    by (intro gives_anchored(1) [of f, OF frame_with_objects] gives_anchored(1) [of f, OF body] gives_gets anchored_refl) simp_all
  have del: "gives (answered l (Service DELETE_OBJECT)) (delete_and_answer a h ob) f" for a ob
    unfolding delete_and_answer_def
    by (rule gives_anchored(2) [of f] gives_answer link | rule gives_anchored(1) [of f, OF frame_parts(7)] frame_intros anchored_refl | assumption)+
  show "gives (answered l (Service DELETE_OBJECT)) (deleteObjectAt h ob t tag) f"
    "gives (answered l (Service DELETE_OBJECT)) (deleteObject h ob tag) f"
    unfolding deleteObjectAt_def deleteObject_def by (rule del)+
  have "keeps (anchored f) (on_known_object h ob a)" for a
    unfolding on_known_object_def by (intro keeps_intros frame_intros)
  then show "gives (answered l UNCONDITIONAL_ATTRIBUTE_OWNERSHIP_DIVESTITURE) (divest h ob as) f"
    unfolding divest_def by (intro gives_anchored(1) [of f] gives_respondTo link anchored_refl) simp_all
  show "gives (answered l RESIGN_FEDERATION_EXECUTION) (remove h) f"
    unfolding remove_def
    by (rule gives_anchored(2) [of f] gives_gets gives_respondTo link | rule frame_intros anchored_refl | assumption | simp)+
qed

text \<open>Joining answers on the connection that is given.\<close>

lemma answers_add: "gives (\<lambda>x. answered l JOIN_FEDERATION_EXECUTION (snd x)) (add u fom name type v l peer address) f"
  by (auto simp: gives_def add_def answered_def event_def dest!: bind_InrD seq_InrD simp: act_simps split: prod.splits sum.splits)

section \<open>The answers of the handlers\<close>

text \<open>
  The types whose requests are answered by a message of the same type. The others are answered by messages of
  other types (registration of a synchronization point, save and restore, reservation of a name, time
  constraints), or not at all.
\<close>

definition answered_kind :: "nm_type \<Rightarrow> bool" where
  "answered_kind k \<longleftrightarrow> (case k of
     Service q \<Rightarrow> q \<notin> {REGISTER_FEDERATION_SYNCHRONIZATION_POINT, SYNCHRONIZATION_POINT_ACHIEVED,
       REQUEST_FEDERATION_SAVE, FEDERATE_SAVE_BEGUN, FEDERATE_SAVE_COMPLETE, FEDERATE_SAVE_NOT_COMPLETE,
       REQUEST_FEDERATION_RESTORE, FEDERATE_RESTORE_COMPLETE, FEDERATE_RESTORE_NOT_COMPLETE,
       RESERVE_OBJECT_INSTANCE_NAME, ENABLE_ASYNCHRONOUS_DELIVERY, DISABLE_ASYNCHRONOUS_DELIVERY, CLOSE_CONNEXION}
   | CREATE_FEDERATION_EXECUTION \<Rightarrow> True | JOIN_FEDERATION_EXECUTION \<Rightarrow> True | RESIGN_FEDERATION_EXECUTION \<Rightarrow> True
   | UNCONDITIONAL_ATTRIBUTE_OWNERSHIP_DIVESTITURE \<Rightarrow> True | _ \<Rightarrow> False)"

lemma gives_then_reply: "nm_kind m = k \<Longrightarrow> gives (answered l k) (then_reply f (event [Some l] m)) s"
  by (auto simp: gives_def then_reply_def act_simps answered_event split: prod.splits sum.splits)

lemma gives_only_reply: "nm_kind m = k \<Longrightarrow> gives (answered l k) (only_reply f (event [Some l] m)) s"
  by (auto simp: gives_def only_reply_def act_simps answered_single split: prod.splits sum.splits)

lemma gives_map: "gives (\<lambda>a. P (r a)) f s \<Longrightarrow> gives P (bind f (\<lambda>a. ret (r a))) s"
  by (auto simp: gives_def act_simps split: prod.splits sum.splits)

lemma gives_last: "(\<And>a. P (r a)) \<Longrightarrow> gives P (bind f (\<lambda>a. ret (r a))) s"
  by (auto simp: gives_def act_simps split: prod.splits sum.splits)

lemma gives_on_federation:
  "(\<And>f. map_of (rt_federations s) fn = Some f \<Longrightarrow> gives P m (f\<lparr>fd_sockets := rt_sockets s\<rparr>)) \<Longrightarrow> gives P (on_federation fn m) s"
  by (auto simp: gives_def act_simps split: option.splits) (metis prod.collapse)

text \<open>A request whose origin has been checked comes from the link of the federate that it names.\<close>

definition origin_checked :: "socket \<Rightarrow> network_message \<Rightarrow> rtig \<Rightarrow> bool" where
  "origin_checked l m s \<longleftrightarrow> checkMessage l m (rt_sockets s) = Inr ()
     \<and> (\<forall>f. map_of (rt_federations s) (nm_federation m) = Some f \<longrightarrow> nm_federate m \<noteq> sec_mom (fd_server f))"

lemma origin_link:
  assumes "rt_ok s" "origin_checked l m s" "map_of (rt_federations s) (nm_federation m) = Some f"
  shows "link_of (f\<lparr>fd_sockets := rt_sockets s\<rparr>) (nm_federate m) = Inr (Some l)"
proof -
  have wf: "nm_federation m \<noteq> 0" "sec_federation (fd_server f) = nm_federation m"
    using rt_ok_lookup [OF assms(1,3)] by (auto simp: federation_wf_def valid_handle_def)
  then have "getSocketLink (nm_federation m) (nm_federate m) (rt_sockets s) = Inr (Some l)"
    using assms(2) by (auto simp: origin_checked_def checkMessage_def split: sum.splits option.splits if_splits)
  then show ?thesis using assms(2,3) wf by (simp add: link_of_def sec_getSocketLink_def origin_checked_def)
qed

lemma gives_in_federation:
  assumes "rt_ok s" "origin_checked l m s"
    and "\<And>f. link_of f (nm_federate m) = Inr (Some l) \<Longrightarrow> gives P (op (nm_federate m) (nm_body m)) f"
  shows "gives P (in_federation m op) s"
  unfolding in_federation_def by (intro gives_on_federation assms(3) origin_link assms(1,2))

lemma process_service_answers:
  assumes ok: "rt_ok s" "k \<noteq> DESTROY_FEDERATION_EXECUTION \<Longrightarrow> origin_checked l m s" and k: "answered_kind (Service k)"
  shows "gives (answered l (Service k)) (process_service w l m k) s"
proof -
  note sel = gives_in_federation [OF ok(1)]
  have reg: "gives (answered l (Service REGISTER_OBJECT)) (process_register m) s" if "origin_checked l m s"
    unfolding process_register_def
    by (intro gives_map sel [OF that] answers_objects)
  have destroy: "gives (answered l (Service DESTROY_FEDERATION_EXECUTION)) (process_destroy l m) s"
    by (auto simp: gives_def process_destroy_def reply_def act_simps answered_single split: prod.splits sum.splits)
  have del: "gives (answered l (Service DELETE_OBJECT)) (process_delete m) s" if "origin_checked l m s"
    unfolding process_delete_def by (rule sel [OF that]) (simp add: answers_objects)
  have pub: "gives (answered l (Service (if b then PUBLISH_OBJECT_CLASS else UNPUBLISH_OBJECT_CLASS))) (process_publish b m) s"
    "gives (answered l (Service (if b then SUBSCRIBE_OBJECT_CLASS else UNSUBSCRIBE_OBJECT_CLASS))) (process_subscribe b m) s"
    "gives (answered l (Service (if b then PUBLISH_INTERACTION_CLASS else UNPUBLISH_INTERACTION_CLASS))) (process_publish_interaction b m) s"
    "gives (answered l (Service (if b then SUBSCRIBE_INTERACTION_CLASS else UNSUBSCRIBE_INTERACTION_CLASS))) (process_subscribe_interaction b m) s"
    if "origin_checked l m s" for b
    unfolding process_publish_def process_subscribe_def process_publish_interaction_def process_subscribe_interaction_def
    by (intro sel [OF that] answers_publication; assumption)+
  note pub' = pub [where b = True, unfolded if_True] pub [where b = False, unfolded if_False]
  show ?thesis
    using ok(2) k by (cases k)
      (simp_all add: process_service_def answered_kind_def reg destroy del pub',
       simp_all add: process_update_def process_interaction_def process_request_update_def process_request_class_update_def
         process_switch_def process_is_owner_def process_query_owner_def process_negotiate_def process_cancel_divestiture_def
         process_acquire_if_available_def process_acquire_def process_release_def process_cancel_acquisition_def
         process_create_region_def process_modify_region_def process_delete_region_def process_register_region_def
         process_associate_def process_unassociate_def process_subscribe_region_def process_unsubscribe_region_def
         process_subscribe_interaction_region_def process_unsubscribe_interaction_region_def
         reply_def reply_object_def gives_then_reply gives_only_reply gives_last answered_single)
qed


lemma processEvent_answers:
  assumes "rt_ok s" "nm_kind m \<noteq> Service DESTROY_FEDERATION_EXECUTION \<Longrightarrow> origin_checked l m s" "answered_kind (nm_kind m)"
  shows "gives (answered l (nm_kind m)) (processEvent w l m) s"
proof -
  have create: "gives (answered l CREATE_FEDERATION_EXECUTION) (process_create w l m) s"
    by (auto simp: gives_def process_create_def createFederation_def creation_answer_def act_simps answered_single
        dest!: bind_InrD split: msg_body.splits prod.splits sum.splits if_splits)
  have join: "gives (answered l JOIN_FEDERATION_EXECUTION) (process_join w l m) s"
  proof (cases "nm_body m")
    case (JoinRequest n name type modules v peer address)
    have "gives (\<lambda>x. answered l JOIN_FEDERATION_EXECUTION (snd x))
        (on_federation fn (add (with_root (w_openFomModules w modules False)) convertToSerializedFOM name type v l peer address)) s" for fn
      by (intro gives_on_federation answers_add)
    then show ?thesis
      using JoinRequest by (auto simp: process_join_def gives_def act_simps split: sum.splits prod.splits if_splits)
  qed (simp_all add: process_join_def gives_throw)
  have resign: "gives (answered l RESIGN_FEDERATION_EXECUTION) (process_resign m) s" if "origin_checked l m s"
    unfolding process_resign_def by (intro gives_in_federation [OF assms(1) that] answers_objects)
  have divest: "gives (answered l UNCONDITIONAL_ATTRIBUTE_OWNERSHIP_DIVESTITURE) (process_divest m) s" if "origin_checked l m s"
    unfolding process_divest_def by (intro gives_in_federation [OF assms(1) that] answers_objects)
  show ?thesis
    using assms(2,3) process_service_answers [OF assms(1), of _ l m w]
    by (cases "nm_kind m") (simp_all add: processEvent_def create join resign divest answered_kind_def)
qed

text \<open>Writing to sockets that work appends to the log.\<close>

lemma write_to_run:
  assumes "\<And>l. \<not> w_broken w l"
  shows "write_to w m ls s = (Inr (), s\<lparr>rt_sent := rt_sent s @ transmit ls m\<rparr>)"
  using assms by (induction w m ls arbitrary: s rule: write_to.induct) (auto simp: act_simps transmit_def List.map_filter_def)

lemma send_responses_run:
  assumes "\<And>l. \<not> w_broken w l"
  shows "case send_responses w rs s of
      (Inr _, t) \<Rightarrow> \<exists>x. rt_sent t = rt_sent s @ x
        \<and> (\<forall>e \<in> set rs. \<forall>m l. ev_message e = Some m \<longrightarrow> Some l \<in> set (ev_sockets e) \<longrightarrow> (l, m) \<in> set x)
    | (Inl e, _) \<Rightarrow> e = UndefinedBehaviour"
proof (induction rs arbitrary: s)
  case Nil
  then show ?case by (simp add: send_responses_def act_simps)
next
  case (Cons e rs)
  show ?case
  proof (cases "ev_message e")
    case None
    then show ?thesis by (simp add: send_responses_def send_event_def act_simps)
  next
    case (Some m)
    let ?s = "s\<lparr>rt_sent := rt_sent s @ transmit (ev_sockets e) m\<rparr>"
    have mem: "(l, m) \<in> set (transmit (ev_sockets e) m)" if "Some l \<in> set (ev_sockets e)" for l
      using that by (force simp: transmit_def List.map_filter_def)
    have "send_responses w (e # rs) s = send_responses w rs ?s"
      using Some by (simp add: send_responses_def send_event_def seq_run write_to_run [OF assms])
    then show ?thesis
      using Cons.IH [of ?s] Some mem by (fastforce split: prod.splits sum.splits)
  qed
qed

text \<open>The log only grows.\<close>

definition longer :: "rtig \<Rightarrow> rtig \<Rightarrow> bool" where
  "longer s t \<longleftrightarrow> (\<exists>x. rt_sent t = rt_sent s @ x)"

lemma longer_refl: "longer s s"
  by (simp add: longer_def)

lemma longer_on_federation: "keeps (longer s) (on_federation fn m)"
  by (auto intro!: keepsI simp: longer_def act_simps Let_def split: option.splits)

lemma longer_processEvent: "keeps (longer s) (processEvent w l m)"
proof -
  have handles: "keeps (longer s) (with_federation_handles a)" for a :: "(handle_manager, 'b) action"
    unfolding with_federation_handles_def by (rule keeps_on_field) (simp add: longer_def)
  have "keeps (longer s) (modify (\<lambda>t. t\<lparr>rt_federations := u t\<rparr>))" for u
    by (rule keeps_modify) (simp add: longer_def)
  then have create: "keeps (longer s) (process_create w l m)" and destroy: "keeps (longer s) (process_destroy l m)"
    unfolding process_create_def createFederation_def process_destroy_def destroyFederation_def
    by (cases "nm_body m"; simp_all; intro keeps_intros handles longer_on_federation)+
  have join: "keeps (longer s) (process_join w l m)"
    by (cases "nm_body m") (simp_all add: process_join_def keeps_intros longer_on_federation)
  show ?thesis
  proof (cases "names_federation m")
    case True
    then show ?thesis by (auto simp: names_federation_def processEvent_def process_service_def create destroy join)
  next
    case False
    then show ?thesis by (intro keeps_processEvent) (simp_all add: in_federation_def longer_on_federation)
  qed
qed



end
