(* ===== verification/RootProperties.thy ===== *)
theory RootProperties
  imports RootObject Discovery
begin

text \<open>
  What the root object guarantees for the registration of objects and for the crash of a federate.
\<close>

section \<open>Registration\<close>

text \<open>While an object is being registered, only this object and its class change.\<close>

definition registered :: "object_handle \<Rightarrow> string \<Rightarrow> object_class_handle \<Rightarrow> federate_handle \<Rightarrow> root \<Rightarrow> root \<Rightarrow> bool" where
  "registered h n c fed s t \<longleftrightarrow>
     (\<exists>ob. ro_objects t = om_put h ob (ro_objects s) \<and> ob_handle ob = h \<and> ob_name ob = n \<and> ob_class ob = c \<and> ob_owner ob = fed)
     \<and> ro_object_names t = om_put n h (ro_object_names s) \<and> ro_reserved t = ro_reserved s"

definition same_object :: "object \<Rightarrow> object \<Rightarrow> bool" where
  "same_object ob ob' \<longleftrightarrow> ob_handle ob' = ob_handle ob \<and> ob_name ob' = ob_name ob \<and> ob_class ob' = ob_class ob \<and> ob_owner ob' = ob_owner ob"

lemma same_object_attributes: "keeps (same_object ob) (for_each (\<lambda>e. add_instance_attribute fed c (snd e)) as)"
  by (intro keeps_for_each keepsI)
    (auto simp: add_instance_attribute_def ob_addAttribute_def same_object_def Let_def split: if_splits sum.splits)

lemma registered_on_object:
  assumes "\<And>ob. keeps (same_object ob) m"
  shows "keeps (registered h n c fed s) (on_object h m)"
proof (rule keepsI)
  fix t
  assume t: "registered h n c fed s t"
  then obtain ob where ob: "ro_objects t = om_put h ob (ro_objects s)" "ob_handle ob = h" "ob_name ob = n" "ob_class ob = c" "ob_owner ob = fed"
    by (auto simp: registered_def)
  moreover have "same_object ob (snd (m ob))" by (rule keeps_snd [OF assms]) (simp add: same_object_def)
  ultimately show "registered h n c fed s (snd (on_object h m t))"
    using t by (auto simp: on_object_def registered_def om_simps om_put_put same_object_def split: prod.splits)
qed

lemma registered_on_class: "keeps (registered h n c fed s) (on_class k m)"
  by (auto intro!: keepsI simp: on_class_def registered_def split: option.splits prod.splits)

lemma registered_register: "keeps (registered h n c fed s) (ocs_registerObjectInstance env fed h c)"
  unfolding ocs_registerObjectInstance_def oc_registerObjectInstance_def continue_up_def announce_def oc_broadcast_def ocs_broadcast_up_def
  by (intro keeps_intros registered_on_object registered_on_class same_object_attributes)



section \<open>The objects of a federate that has crashed\<close>

text \<open>What is to be left: the objects of the others, with the attributes of the dead federate set free.\<close>

definition survivors :: "federate_handle \<Rightarrow> (object_handle \<times> object) list \<Rightarrow> (object_handle \<times> object) list" where
  "survivors fed obs = om_map (\<lambda>_. ob_killFederate fed) (filter (\<lambda>e. ob_owner (snd e) \<noteq> fed) obs)"

definition objects_ok :: "(object_handle \<times> object) list \<Rightarrow> bool" where
  "objects_ok obs \<longleftrightarrow> om_ok obs \<and> (\<forall>e \<in> set obs. ob_handle (snd e) = fst e)"

lemma ob_killFederate_simps [simp]:
  "ob_owner (ob_killFederate fed ob) = ob_owner ob" "ob_handle (ob_killFederate fed ob) = ob_handle ob"
  "ob_killFederate fed (ob_killFederate fed ob) = ob_killFederate fed ob"
proof -
  have "om_map (\<lambda>_ a. if oa_owner a = fed then oa_setOwner 0 a else a)
      (om_map (\<lambda>_ a. if oa_owner a = fed then oa_setOwner 0 a else a) m)
    = om_map (\<lambda>_ a. if oa_owner a = fed then oa_setOwner 0 a else a) m" for m :: "(attribute_handle \<times> object_attribute) list"
    by (auto simp: om_map_comp oa_setOwner_def intro: om_map_cong)
  then show "ob_killFederate fed (ob_killFederate fed ob) = ob_killFederate fed ob" by (simp add: ob_killFederate_def)
qed (simp_all add: ob_killFederate_def)

lemma survivors_map:
  assumes "\<And>k v. ob_owner (u k v) = ob_owner v" "\<And>k v. ob_killFederate fed (u k v) = ob_killFederate fed v"
  shows "survivors fed (om_map u obs) = survivors fed obs"
  using assms by (induction obs) (auto simp: survivors_def om_map_def)

lemma survivors_erase:
  assumes "objects_ok obs" "map_of obs h = Some ob" "ob_owner ob = fed"
  shows "survivors fed (om_erase h obs) = survivors fed obs"
proof -
  have "ob_owner v = fed" if "(h, v) \<in> set obs" for v
    using om_ok_map_of [of obs h v] assms that by (simp add: objects_ok_def)
  then show ?thesis unfolding survivors_def om_erase_def filter_filter by (intro arg_cong [where f = "om_map _"] filter_cong) auto
qed

lemma os_kill_pass_run:
  assumes "objects_ok (ro_objects s)" "set hs \<subseteq> fst ` set (ro_objects s)" "distinct hs"
  shows "\<exists>again t. os_kill_pass fed hs s = (Inr again, t) \<and> objects_ok (ro_objects t)
    \<and> survivors fed (ro_objects t) = survivors fed (ro_objects s)
    \<and> (again \<longrightarrow> length (ro_objects t) < length (ro_objects s))
    \<and> (\<not> again \<longrightarrow> (\<forall>e \<in> set (ro_objects t). fst e \<in> set hs \<longrightarrow> ob_owner (snd e) \<noteq> fed \<and> ob_killFederate fed (snd e) = snd e)
        \<and> map fst (ro_objects t) = map fst (ro_objects s)
        \<and> (\<forall>k. k \<notin> set hs \<longrightarrow> map_of (ro_objects t) k = map_of (ro_objects s) k))"
  using assms
proof (induction hs arbitrary: s)
  case Nil
  then show ?case by (intro exI [of _ False] exI [of _ s]) (simp add: act_simps)
next
  case (Cons h hs)
  then obtain ob where ob: "map_of (ro_objects s) h = Some ob"
    by (metis insert_subset list.simps(15) map_of_eq_None_iff not_None_eq)
  have ok: "om_ok (ro_objects s)" and handle: "ob_handle ob = h"
    using Cons.prems(1) map_of_SomeD [OF ob] by (auto simp: objects_ok_def)
  show ?case
  proof (cases "ob_owner ob = fed")
    case True
    have "length (om_erase h (ro_objects s)) < length (ro_objects s)"
      unfolding om_erase_def by (rule length_filter_less [OF map_of_SomeD [OF ob]]) simp
    moreover have "objects_ok (om_erase h (ro_objects s))"
      using Cons.prems(1) ok by (auto simp: objects_ok_def om_erase_ok) (auto simp: om_erase_def)
    ultimately show ?thesis
      using True ob handle survivors_erase [OF Cons.prems(1) ob True]
      by (intro exI [of _ True]) (simp add: act_simps os_deref_def os_deleteObjectInstance_def os_getObject_def)
  next
    case False
    let ?u = "\<lambda>k v. if k = h then ob_killFederate fed ob else v"
    let ?s = "s\<lparr>ro_objects := om_put h (ob_killFederate fed ob) (ro_objects s)\<rparr>"
    have put: "om_put h (ob_killFederate fed ob) (ro_objects s) = om_map ?u (ro_objects s)"
      using ok ob by (intro om_put_present) (auto dest: map_of_SomeD intro: image_eqI [rotated])
    have same: "om_map ?u (ro_objects s) = om_map (\<lambda>k v. if k = h then ob_killFederate fed v else v) (ro_objects s)"
    proof (rule om_map_cong)
      fix k v
      assume "(k, v) \<in> set (ro_objects s)"
      then show "?u k v = (if k = h then ob_killFederate fed v else v)"
        using om_ok_map_of [OF ok, of k v] ob by auto
    qed
    have ok': "objects_ok (ro_objects ?s)"
      using Cons.prems(1) by (auto simp: put same objects_ok_def om_simps) (auto simp: om_map_def)
    have keys: "map fst (ro_objects ?s) = map fst (ro_objects s)" by (simp add: put om_simps)
    then have "fst ` set (ro_objects ?s) = fst ` set (ro_objects s)" by (metis list.set_map)
    then obtain again t where t: "os_kill_pass fed hs ?s = (Inr again, t)" "objects_ok (ro_objects t)"
      "survivors fed (ro_objects t) = survivors fed (ro_objects ?s)" "again \<longrightarrow> length (ro_objects t) < length (ro_objects ?s)"
      "\<not> again \<longrightarrow> (\<forall>e \<in> set (ro_objects t). fst e \<in> set hs \<longrightarrow> ob_owner (snd e) \<noteq> fed \<and> ob_killFederate fed (snd e) = snd e)
        \<and> map fst (ro_objects t) = map fst (ro_objects ?s)
        \<and> (\<forall>k. k \<notin> set hs \<longrightarrow> map_of (ro_objects t) k = map_of (ro_objects ?s) k)"
      using Cons.IH [OF ok'] Cons.prems(2,3) by auto
    have "survivors fed (ro_objects ?s) = survivors fed (ro_objects s)"
      unfolding put same by (simp add: survivors_map)
    moreover have "length (ro_objects ?s) = length (ro_objects s)" using keys by (metis length_map)
    moreover have "ob_owner (snd e) \<noteq> fed \<and> ob_killFederate fed (snd e) = snd e"
      if e: "\<not> again" "e \<in> set (ro_objects t)" "fst e \<in> set (h # hs)" for e
    proof (cases "fst e = h")
      case True
      then have "map_of (ro_objects t) h = Some (snd e)"
        using e(2) t(2) om_ok_map_of [of "ro_objects t" h "snd e"] by (auto simp: objects_ok_def)
      moreover have "map_of (ro_objects t) h = Some (ob_killFederate fed ob)"
        using t(5) e(1) Cons.prems(3) by (simp add: om_simps)
      ultimately have "snd e = ob_killFederate fed ob" by simp
      then show ?thesis using False by simp
    next
      case False
      then show ?thesis using t(5) e by simp
    qed
    moreover have "map_of (ro_objects t) k = map_of (ro_objects s) k" if "\<not> again" "k \<notin> set (h # hs)" for k
      using t(5) that by (simp add: om_simps)
    moreover have "os_kill_pass fed (h # hs) s = (Inr again, t)"
      using t(1) False ob by (simp add: act_simps os_deref_def)
    ultimately show ?thesis using t(2-5) keys by (intro exI [of _ again] exI [of _ t]) simp
  qed
qed

text \<open>
  C21. The crash of a federate leaves no object of it, and the loop over the objects, which starts again after every
  deletion, ends: afterwards the objects are those of the other federates, with the attributes that the
  dead federate owned set free.
\<close>

theorem killed_objects_gone:
  assumes "objects_ok (ro_objects s)"
  shows "\<exists>t. os_killFederate fed s = (Inr True, t) \<and> ro_objects t = survivors fed (ro_objects s)"
proof -
  have loop: "\<exists>t. os_kill_loop n fed s = (Inr True, t) \<and> ro_objects t = survivors fed (ro_objects s)"
    if "objects_ok (ro_objects s)" "length (ro_objects s) < n" for n s
    using that
  proof (induction n arbitrary: s)
    case (Suc n)
    have d: "distinct (map fst (ro_objects s))"
      using Suc.prems(1) om_ok_distinct unfolding objects_ok_def by blast
    obtain again t where t: "os_kill_pass fed (map fst (ro_objects s)) s = (Inr again, t)" "objects_ok (ro_objects t)"
      "survivors fed (ro_objects t) = survivors fed (ro_objects s)" "again \<longrightarrow> length (ro_objects t) < length (ro_objects s)"
      "\<not> again \<longrightarrow> (\<forall>e \<in> set (ro_objects t). fst e \<in> set (map fst (ro_objects s)) \<longrightarrow> ob_owner (snd e) \<noteq> fed \<and> ob_killFederate fed (snd e) = snd e)
        \<and> map fst (ro_objects t) = map fst (ro_objects s)"
      using os_kill_pass_run [OF Suc.prems(1) _ d, of fed] by auto
    show ?case
    proof (cases again)
      case True
      then show ?thesis using Suc.IH [of t] Suc.prems(2) t by (simp add: act_simps)
    next
      case False
      have left: "ob_owner (snd e) \<noteq> fed \<and> ob_killFederate fed (snd e) = snd e" if "e \<in> set (ro_objects t)" for e
        using t(5) False that by (metis image_eqI list.set_map)
      then have "filter (\<lambda>e. ob_owner (snd e) \<noteq> fed) (ro_objects t) = ro_objects t" by (simp add: filter_id_conv)
      moreover have "om_map (\<lambda>_. ob_killFederate fed) (ro_objects t) = ro_objects t"
        using left by (intro om_map_id) fastforce
      ultimately have "survivors fed (ro_objects t) = ro_objects t" by (simp add: survivors_def)
      then show ?thesis using False t by (simp add: act_simps)
    qed
  qed simp
  show ?thesis using loop [OF assms, of "Suc (length (ro_objects s))"] by (simp add: os_killFederate_def act_simps)
qed

text \<open>Federates 7 and 8 have an object each, and 7 owns an attribute of the other.\<close>

definition demo_objects :: root where
  "demo_objects = (root_new True)\<lparr>ro_objects :=
     [(1, \<lparr>ob_handle = 1, ob_name = ''x'', ob_class = 1, ob_owner = 7, ob_attributes = []\<rparr>),
      (2, \<lparr>ob_handle = 2, ob_name = ''y'', ob_class = 1, ob_owner = 8, ob_attributes = [(3, object_attribute_new 3 7 (1, 3))]\<rparr>)]\<rparr>"

theorem killed_objects_gone_witness:
  "\<exists>t. os_killFederate 7 demo_objects = (Inr True, t) \<and> map fst (ro_objects t) = [2]"
proof -
  have "objects_ok (ro_objects demo_objects)" by (simp add: demo_objects_def objects_ok_def om_ok_def)
  moreover have "map fst (survivors 7 (ro_objects demo_objects)) = [2]" by code_simp
  ultimately show ?thesis using killed_objects_gone [of demo_objects 7] by auto
qed

end
