(* ===== verification/FederationProperties.thy ===== *)
theory FederationProperties
  imports FederationObjects FederationLemmas Discovery
begin

text \<open>
  What goes wrong in a federation when a federate fails to join, and when one resigns that publishes.
\<close>

section \<open>A federate that fails to join\<close>

lemma links_of_missing: "link_of s h = Inl x \<Longrightarrow> h \<in> set hs \<Longrightarrow> \<exists>y. links_of s hs = Inl y"
  by (induction hs) (auto split: sum.splits)

text \<open>
  C38. A join whose additional FOM modules cannot be read leaves the federate in the federation, without a
  connection. It cannot try again under its name, and from then on every broadcast to the
  federation that does not leave it out throws.
\<close>

theorem failed_join_blocks_federation:
  assumes "fed_ok s" "\<And>r. fst (read r) = Inl e"
    and name: "getFederateByName name s = Inl x" and room: "highest (fd_handles s) \<noteq> - 1"
    and link: "link_of s (highest (fd_handles s)) = Inl y"
  shows "\<exists>t. add (with_root read) fom name type v l peer address s = (Inl e, t)
    \<and> fst (add (with_root read) fom name type' v' l' peer' address' t) = Inl FederateAlreadyExecutionMember
    \<and> (\<forall>m except. except \<noteq> highest (fd_handles s) \<longrightarrow> (\<exists>z. respondToAll m except t = (Inl z, t)))"
proof -
  let ?h = "highest (fd_handles s)"
  have hm: "hm_ok 1 (fd_handles s)" and fresh: "map_of (fd_federates s) ?h = None"
    using assms(1) by (auto simp: fed_ok_def map_of_None_keys)
  then have provided: "provide (fd_handles s) = (Inr ?h, (fd_handles s)\<lparr>highest := ?h + 1\<rparr>)"
    using room by (simp add: hm_ok_def provide_run)
  have "?h \<noteq> 0" using hm by (auto simp: hm_ok_def)
  then obtain f where f: "federate_new name type v ?h = Inr f" "f_name f = name" by (simp add: federate_new_def)
  define s1 where "s1 = s\<lparr>fd_handles := (fd_handles s)\<lparr>highest := ?h + 1\<rparr>, fd_federates := om_put ?h f (fd_federates s)\<rparr>"
  define t where "t = s1\<lparr>fd_root := snd (read (fd_root s))\<rparr>"
  have read: "with_root read s1 = (Inl e, t)"
    using assms(2) [of "fd_root s"] by (cases "read (fd_root s)") (simp add: with_root_def act_simps t_def s1_def)
  have "add (with_root read) fom name type v l peer address s = (Inl e, t)"
    using name provided f(1) fresh read
    by (simp add: add_def act_simps with_handles_def s1_def)
  moreover have mem: "(?h, f) \<in> set (fd_federates t)"
    by (rule map_of_SomeD) (simp add: t_def s1_def om_simps)
  then obtain g where "getFederateByName name t = Inr g"
    using f(2) by (fastforce simp: getFederateByName_def find_None_iff split: option.splits)
  then have "fst (add (with_root read) fom name type' v' l' peer' address' t) = Inl FederateAlreadyExecutionMember"
    by (simp add: add_def act_simps)
  moreover have "\<exists>z. respondToAll m except t = (Inl z, t)" if "except \<noteq> ?h" for m except
  proof -
    have "link_of t ?h = Inl y" using link by (simp add: link_of_def t_def s1_def)
    moreover have "?h \<in> set (filter (\<lambda>h. h \<noteq> except) (handles_of t))"
      using mem that by (force simp: handles_of_def)
    ultimately obtain z where "links_of t (filter (\<lambda>h. h \<noteq> except) (handles_of t)) = Inl z"
      using links_of_missing by blast
    then show ?thesis by (simp add: respondToAll_run)
  qed
  ultimately show ?thesis by blast
qed

theorem failed_join_blocks_federation_witness:
  "\<exists>t z. add (with_root (throw NetworkError)) (\<lambda>_. Inr demo_fom) ''c'' ''t'' HLA_1_3 9 0 0 demo_federation = (Inl NetworkError, t)
     \<and> respondToAll (new_message MESSAGE_NULL NoBody) 0 t = (Inl z, t)"
proof -
  have "getFederateByName ''c'' demo_federation = Inl FederateNotExecutionMember"
    "link_of demo_federation (highest (fd_handles demo_federation)) = Inl FederateNotExecutionMember"
    "highest (fd_handles demo_federation) \<noteq> - 1" "highest (fd_handles demo_federation) = 3" by code_simp+
  with failed_join_blocks_federation [OF demo_federation_ok(1), of "throw NetworkError" NetworkError "''c''"]
  show ?thesis by (fastforce simp: throw_def)
qed

section \<open>A federate that resigns and publishes\<close>

lemma advised_missing:
  assumes "p \<in> set hs" "map_of (fd_federates s) p = None"
  shows "advised hs s = Inl FederateNotExecutionMember"
proof -
  let ?f = "\<lambda>h acc. ebind (getFederate h s) (\<lambda>f. Inr (if f_cras f then oset_insert h acc else acc))"
  have "efold ?f hs acc = Inl FederateNotExecutionMember" for acc
    using assms by (induction hs arbitrary: acc) (auto simp: getFederate_def ebind_def split: option.splits)
  then show ?thesis by (simp add: advised_def)
qed

text \<open>
  C39. Resigning does not withdraw publications: when a federate has resigned that publishes an attribute of a class,
  every subscription to attributes of this class is stored and then fails with \<open>FederateNotExecutionMember\<close>,
  although the federate that subscribes is a member.
\<close>

theorem resigned_publisher_blocks_subscribers:
  assumes "map_of (fd_federates s) fed \<noteq> None" "as \<noteq> []"
    and stored: "on_root (\<lambda>env. ocs_subscribe env fed c as None) s = (Inr (), t)"
    and "ocs_getObjectFromHandle c (fd_root t) = Inr oc"
    and "p \<in> set (publishers_of oc)" "map_of (fd_federates t) p = None"
  shows "subscribeObject fed c as sub s = (Inl FederateNotExecutionMember, t)"
  using assms by (auto simp: subscribeObject_def start_registration_def from_root_def act_simps advised_missing)

text \<open>Federate 7 publishes and resigns; federate 8 subscribes.\<close>

definition demo_members :: "root federation" where
  "demo_members = \<lparr>fd_handle = 1, fd_name = ''demo'',
     fd_server = \<lparr>sec_federation = 1, sec_levels = [], sec_last = 0, sec_federates = [], sec_mom = 99\<rparr>,
     fd_sockets = \<lparr>ss_tuples = [demo_tuple 7 70, demo_tuple 8 80], ss_udp = 3\<rparr>, fd_root = demo_root, fd_min_NERx = Fin 0,
     fd_federates = [(7, demo_federate 7 ''a''), (8, demo_federate 8 ''b'')],
     fd_regulators = lbts_new, fd_labels = [], fd_handles = (handle_manager_new 1)\<lparr>highest := 9\<rparr>,
     fd_objects = handle_manager_new 1, fd_saving = False, fd_restoring = False, fd_save_status = True,
     fd_restore_status = True, fd_save_label = [], fd_auto_provide = False\<rparr>"

theorem resigned_publisher_blocks_subscribers_witness:
  "case remove 7 demo_members of
      (Inr _, s) \<Rightarrow> fst (subscribeObject 8 2 [2] True s) = Inl FederateNotExecutionMember | (Inl _, _) \<Rightarrow> False"
proof -
  let ?s = "snd (remove 7 demo_members)" and ?m = "on_root (\<lambda>env. ocs_subscribe env 8 2 [2] None)"
  have "case fst (?m ?s) of Inr _ \<Rightarrow> True | Inl _ \<Rightarrow> False"
    "case ocs_getObjectFromHandle 2 (fd_root (snd (?m ?s))) of Inr oc \<Rightarrow> 7 \<in> set (publishers_of oc) | Inl _ \<Rightarrow> False"
    "map_of (fd_federates ?s) 8 \<noteq> None" "map_of (fd_federates (snd (?m ?s))) 7 = None"
    "case fst (remove 7 demo_members) of Inr _ \<Rightarrow> True | Inl _ \<Rightarrow> False"
    by code_simp+
  then show ?thesis
    using resigned_publisher_blocks_subscribers [of ?s 8 "[2]" 2 "snd (?m ?s)" _ 7 True]
    by (cases "?m ?s"; cases "remove 7 demo_members") (auto split: sum.splits)
qed

end
